(* ===== verification/Prelude.thy ===== *)
theory Prelude
  imports Main "HOL-Library.AList" "HOL-Library.Sublist" "HOL-Library.State_Monad" "HOL-Library.Word"
begin

text \<open>
  Shared foundations of the development: the collections of rules the component
  theories extend, Go values (maps, errors, fixed-width integers), and the effect
  monad with its trace logic.

  \<^item> A Go map is an association list \<open>('k \<times> 'v) list\<close>. The position of the entries is the
    order in which a \<^verbatim>\<open>for range\<close> visits them, which Go leaves open: a statement about a
    map that must not depend on that order is a statement about all lists with the same
    \<^term>\<open>map_of\<close>. A \<^verbatim>\<open>nil\<close> map is the empty list (every write of the program to a map
    that may be \<^verbatim>\<open>nil\<close> is guarded by an allocation).
  \<^item> An effectful function runs in \<open>('w, 'e) sys\<close>: the outside world, on which nothing is
    assumed, and the list of events (calls with their answers) performed so far.
  \<^item> \<open>spec m Q\<close> says that \<open>m\<close> only extends the trace, and that its result \<open>r\<close> and the
    events \<open>t\<close> it adds satisfy \<open>Q r t\<close>, whatever the world answers.
\<close>

section \<open>Collections of rules\<close>

named_theorems spec_rules \<open>triples of the operations, in rule form\<close>
named_theorems go_defs \<open>definitions of small pure Go functions\<close>

section \<open>Go values\<close>

type_synonym bytes = string
type_synonym smap = "(string \<times> string) list"
type_synonym int32 = "32 word"
type_synonym int64 = "64 word"

text \<open>
  Errors. Only the class of an API error is inspected by the program
  (\<^verbatim>\<open>IsNotFound\<close>, \<^verbatim>\<open>IsConflict\<close>, \<^verbatim>\<open>IsInvalid\<close>) and its text is reported.
\<close>

datatype reason = NotFound | Conflict | Invalid | OtherReason

datatype error = Error (err_reason: reason) (err_text: string)

definition IsNotFound :: "error \<Rightarrow> bool" where
  [go_defs]: "IsNotFound e \<longleftrightarrow> err_reason e = NotFound"

definition IsConflict :: "error \<Rightarrow> bool" where
  [go_defs]: "IsConflict e \<longleftrightarrow> err_reason e = Conflict"

definition IsInvalid :: "error \<Rightarrow> bool" where
  [go_defs]: "IsInvalid e \<longleftrightarrow> err_reason e = Invalid"

text \<open>\<^verbatim>\<open>fmt.Errorf\<close> without a wrapped error, and \<^verbatim>\<open>client.IgnoreNotFound\<close>.\<close>

definition Errorf :: "string \<Rightarrow> error" where
  "Errorf s = Error OtherReason s"

definition IgnoreNotFound :: "error \<Rightarrow> error option" where
  [go_defs]: "IgnoreNotFound e = (if IsNotFound e then None else Some e)"

text \<open>Map access: \<open>m[k]\<close> is the zero value (the empty string) for a missing key.\<close>

definition mget :: "('k \<times> 'v list) list \<Rightarrow> 'k \<Rightarrow> 'v list" where
  "mget m k = (case map_of m k of None \<Rightarrow> [] | Some v \<Rightarrow> v)"

definition mhas :: "('k \<times> 'v) list \<Rightarrow> 'k \<Rightarrow> bool" where
  "mhas m k \<longleftrightarrow> map_of m k \<noteq> None"

abbreviation mset_key :: "'k \<Rightarrow> 'v \<Rightarrow> ('k \<times> 'v) list \<Rightarrow> ('k \<times> 'v) list" where
  "mset_key k v m \<equiv> AList.update k v m"

abbreviation mdel :: "'k \<Rightarrow> ('k \<times> 'v) list \<Rightarrow> ('k \<times> 'v) list" where
  "mdel k m \<equiv> AList.delete k m"

text \<open>\<^verbatim>\<open>maps.Copy(dst, src)\<close>: every entry of the source, in iteration order.\<close>

definition maps_Copy :: "('k \<times> 'v) list \<Rightarrow> ('k \<times> 'v) list \<Rightarrow> ('k \<times> 'v) list" where
  "maps_Copy dst src = fold (\<lambda>(k, v) m. mset_key k v m) src dst"

definition wf_map :: "('k \<times> 'v) list \<Rightarrow> bool" where
  "wf_map m \<longleftrightarrow> distinct (map fst m)"

section \<open>Effects: world, trace, loops\<close>

record ('w, 'e) sys =
  world :: 'w
  trace :: "'e list"

abbreviation return :: "'a \<Rightarrow> ('s, 'a) state" where
  "return \<equiv> State_Monad.return"

definition result :: "(('w, 'e) sys, 'a) state \<Rightarrow> ('w, 'e) sys \<Rightarrow> 'a" where
  "result m s = fst (run_state m s)"

definition final :: "(('w, 'e) sys, 'a) state \<Rightarrow> ('w, 'e) sys \<Rightarrow> ('w, 'e) sys" where
  "final m s = snd (run_state m s)"

definition events :: "(('w, 'e) sys, 'a) state \<Rightarrow> ('w, 'e) sys \<Rightarrow> 'e list" where
  "events m s = drop (length (trace s)) (trace (final m s))"

text \<open>A \<^verbatim>\<open>for\<close> loop over a slice whose body returns on the first error.\<close>

primrec each :: "('a \<Rightarrow> ('s, error option) state) \<Rightarrow> 'a list \<Rightarrow> ('s, error option) state" where
  "each f [] = return None"
| "each f (x # xs) = do {
     r \<leftarrow> f x;
     case r of
       Some e \<Rightarrow> return (Some e)
     | None \<Rightarrow> each f xs
   }"

definition spec :: "(('w, 'e) sys, 'a) state \<Rightarrow> ('a \<Rightarrow> 'e list \<Rightarrow> bool) \<Rightarrow> bool" where
  "spec m Q \<longleftrightarrow> (\<forall>s. \<exists>t. trace (final m s) = trace s @ t \<and> Q (result m s) t)"

text \<open>
  What a loop leaves behind: \<open>R x r t\<close> describes one iteration (result and events).
\<close>

inductive each_post :: "('a \<Rightarrow> error option \<Rightarrow> 'e list \<Rightarrow> bool) \<Rightarrow> 'a list \<Rightarrow> error option \<Rightarrow> 'e list \<Rightarrow> bool"
  for R where
  each_done: "each_post R [] None []"
| each_stop: "R x (Some e) t \<Longrightarrow> each_post R (x # xs) (Some e) t"
| each_step: "R x None t \<Longrightarrow> each_post R xs r u \<Longrightarrow> each_post R (x # xs) r (t @ u)"

inductive_simps each_post_Nil: "each_post R [] r t"
inductive_simps each_post_Cons: "each_post R (x # xs) r t"

section \<open>Lemmas on Go maps\<close>

lemma mget_update [simp]: "mget (mset_key k v m) k' = (if k' = k then v else mget m k')"
  by (simp add: mget_def update_conv')

lemma mhas_update [simp]: "mhas (mset_key k v m) k' \<longleftrightarrow> k' = k \<or> mhas m k'"
  by (simp add: mhas_def update_conv')

lemma mget_delete [simp]: "mget (mdel k m) k' = (if k' = k then [] else mget m k')"
  by (simp add: mget_def delete_conv')

lemma mhas_delete [simp]: "mhas (mdel k m) k' \<longleftrightarrow> k' \<noteq> k \<and> mhas m k'"
  by (simp add: mhas_def delete_conv')

lemma mget_Nil [simp]: "mget [] k = []"
  by (simp add: mget_def)

lemma mhas_Nil [simp]: "\<not> mhas [] k"
  by (simp add: mhas_def)

lemma mget_Cons [simp]: "mget ((k, v) # m) k' = (if k' = k then v else mget m k')"
  by (simp add: mget_def)

lemma mhas_iff_dom: "mhas m k \<longleftrightarrow> k \<in> fst ` set m"
  by (simp add: mhas_def map_of_eq_None_iff)

lemma mget_cong: "map_of m = map_of m' \<Longrightarrow> mget m = mget m'"
  by (simp add: mget_def fun_eq_iff)

lemma mget_not_mhas: "\<not> mhas m k \<Longrightarrow> mget m k = []"
  by (simp add: mhas_def mget_def)

lemma map_of_maps_Copy:
  "map_of (maps_Copy dst src) = map_of dst ++ map_of (rev src)"
  by (induction src arbitrary: dst) (auto simp: maps_Copy_def update_conv' map_add_def fun_eq_iff split: option.splits)

lemma map_of_rev_wf: "wf_map m \<Longrightarrow> map_of (rev m) = map_of m"
  by (rule map_of_eqI) (auto simp: wf_map_def rev_map[symmetric] map_of_is_SomeI
      intro!: map_of_is_SomeI)

lemma wf_maps_Copy: "wf_map dst \<Longrightarrow> wf_map (maps_Copy dst src)"
  by (induction src arbitrary: dst) (auto simp: maps_Copy_def wf_map_def distinct_update)

lemma maps_Copy_wf:
  "wf_map (m' @ m) \<Longrightarrow> maps_Copy m' m = m' @ m"
proof (induction m arbitrary: m')
  case Nil
  then show ?case by (simp add: maps_Copy_def)
next
  case (Cons e m)
  have "mset_key (fst e) (snd e) m' = m' @ [e]"
    using Cons.prems by (induction m') (auto simp: wf_map_def)
  then show ?case using Cons.IH [of "m' @ [e]"] Cons.prems by (simp add: maps_Copy_def split_beta)
qed

section \<open>The trace logic\<close>

lemma specI:
  assumes "\<And>s. \<exists>t. trace (snd (run_state m s)) = trace s @ t \<and> Q (fst (run_state m s)) t"
  shows "spec m Q"
  using assms by (simp add: spec_def final_def result_def)

lemma specD:
  assumes "spec m Q"
  shows "trace (final m s) = trace s @ events m s" and "Q (result m s) (events m s)"
  using assms by (auto simp: spec_def events_def dest!: spec [of _ s])

lemma spec_weaken: "spec m R \<Longrightarrow> (\<And>r t. R r t \<Longrightarrow> Q r t) \<Longrightarrow> spec m Q"
  by (fastforce simp: spec_def)

lemma spec_conj: "spec m Q \<Longrightarrow> spec m R \<Longrightarrow> spec m (\<lambda>r t. Q r t \<and> R r t)"
  unfolding spec_def by (metis same_append_eq)

lemma spec_return: "Q a [] \<Longrightarrow> spec (return a) Q"
  by (simp add: spec_def final_def result_def)

lemma spec_bind:
  assumes "spec m (\<lambda>a t. spec (f a) (\<lambda>b u. Q b (t @ u)))"
  shows "spec (m \<bind> f) Q"
proof (rule specI)
  fix s
  from assms obtain t where t: "trace (snd (run_state m s)) = trace s @ t"
    and f: "spec (f (fst (run_state m s))) (\<lambda>b u. Q b (t @ u))"
    by (auto simp: spec_def [of m] final_def result_def)
  from f obtain u where
    "trace (snd (run_state (f (fst (run_state m s))) (snd (run_state m s)))) = (trace s @ t) @ u"
    "Q (fst (run_state (f (fst (run_state m s))) (snd (run_state m s)))) (t @ u)"
    by (auto simp: spec_def final_def result_def t dest!: spec [of _ "snd (run_state m s)"])
  then show "\<exists>t. trace (snd (run_state (m \<bind> f) s)) = trace s @ t \<and> Q (fst (run_state (m \<bind> f) s)) t"
    by (auto simp: split_beta)
qed

lemma spec_if: "(b \<Longrightarrow> spec m Q) \<Longrightarrow> (\<not> b \<Longrightarrow> spec n Q) \<Longrightarrow> spec (if b then m else n) Q"
  by simp

lemma spec_option:
  "(x = None \<Longrightarrow> spec m Q) \<Longrightarrow> (\<And>a. x = Some a \<Longrightarrow> spec (f a) Q) \<Longrightarrow>
   spec (case x of None \<Rightarrow> m | Some a \<Rightarrow> f a) Q"
  by (cases x) auto

lemma spec_sum:
  "(\<And>a. x = Inl a \<Longrightarrow> spec (f a) Q) \<Longrightarrow> (\<And>b. x = Inr b \<Longrightarrow> spec (g b) Q) \<Longrightarrow>
   spec (case x of Inl a \<Rightarrow> f a | Inr b \<Rightarrow> g b) Q"
  by (cases x) auto

lemma spec_prod: "(\<And>a b. x = (a, b) \<Longrightarrow> spec (f a b) Q) \<Longrightarrow> spec (case x of (a, b) \<Rightarrow> f a b) Q"
  by (cases x) auto

lemma spec_let: "(\<And>x. x = e \<Longrightarrow> spec (f x) Q) \<Longrightarrow> spec (let x = e in f x) Q"
  by simp

lemma spec_each:
  assumes "\<And>x. x \<in> set xs \<Longrightarrow> spec (f x) (R x)"
  shows "spec (each f xs) (each_post R xs)"
  using assms
proof (induction xs)
  case Nil
  show ?case by (auto intro!: spec_return each_post.intros)
next
  case (Cons x xs)
  have "spec (each f xs) (each_post R xs)" by (rule Cons.IH) (simp add: Cons.prems)
  moreover have "spec (f x) (R x)" by (rule Cons.prems) simp
  ultimately show ?case
    by (auto intro!: spec_bind spec_option spec_return
        elim!: spec_weaken intro: each_post.intros)
qed

text \<open>
  Composition when the result of the first step is known: what is wanted of the events must
  not be spoilt by earlier ones.
\<close>

definition late :: "('e list \<Rightarrow> bool) \<Rightarrow> bool" where
  "late S \<longleftrightarrow> (\<forall>t u. S u \<longrightarrow> S (t @ u))"

lemma spec_exact:
  assumes "spec m Q" and "\<And>s. P (result m s)"
  shows "spec m (\<lambda>x t. P x \<and> Q x t)"
  using assms by (fastforce simp: spec_def)

lemma spec_known:
  assumes "late S" and "spec m Q" and "\<And>s. result m s = x" and "spec (f x) (\<lambda>r. S)"
  shows "spec (m \<bind> f) (\<lambda>r. S)"
proof (rule spec_bind, rule spec_weaken [OF spec_exact [OF assms(2), where P = "\<lambda>y. y = x"]])
  show "result m s = x" for s by (rule assms(3))
  fix y t assume y: "y = x \<and> Q y t"
  show "spec (f y) (\<lambda>r u. S (t @ u))"
    unfolding y [THEN conjunct1] by (rule spec_weaken [OF assms(4)]) (use assms(1) in \<open>auto simp: late_def\<close>)
qed

lemmas spec_structure = spec_return spec_bind spec_if spec_option spec_sum spec_prod spec_let

lemma each_post_mono:
  "each_post R xs r t \<Longrightarrow> (\<And>x r t. x \<in> set xs \<Longrightarrow> R x r t \<Longrightarrow> S x r t) \<Longrightarrow> each_post S xs r t"
  by (induction rule: each_post.induct) (auto intro: each_post.intros)

lemma each_post_events:
  "each_post R xs r t \<Longrightarrow> e \<in> set t \<Longrightarrow> \<exists>x\<in>set xs. \<exists>r' u. R x r' u \<and> e \<in> set u \<and> set u \<subseteq> set t"
  by (induction rule: each_post.induct) fastforce+

lemma each_post_None:
  "each_post R xs None t \<Longrightarrow> x \<in> set xs \<Longrightarrow> \<exists>u. R x None u \<and> set u \<subseteq> set t"
  by (induction xs "None :: error option" t rule: each_post.induct) fastforce+

lemma each_post_Some:
  "each_post R xs (Some e) t \<Longrightarrow> \<exists>x\<in>set xs. \<exists>u. R x (Some e) u \<and> set u \<subseteq> set t"
  by (induction xs "Some e" t rule: each_post.induct) fastforce+

end
