(* ===== verification/Go_Strings.thy ===== *)
theory Go_Strings
  imports Prelude
begin

text \<open>
  The part of Go's standard library on strings and bytes that the operator uses:
  \<^verbatim>\<open>strings.HasPrefix\<close>, \<^verbatim>\<open>CutPrefix\<close>, \<^verbatim>\<open>Contains\<close>, \<^verbatim>\<open>ReplaceAll\<close>, \<^verbatim>\<open>NewReplacer\<close>,
  \<^verbatim>\<open>ToLower\<close>, \<^verbatim>\<open>EqualFold\<close>, \<^verbatim>\<open>bytes.TrimSpace\<close>, the \<^verbatim>\<open>fmt\<close> verbs \<^verbatim>\<open>%d\<close>, \<^verbatim>\<open>%q\<close>,
  \<^verbatim>\<open>%x\<close>, \<^verbatim>\<open>hex.EncodeToString\<close> and \<^verbatim>\<open>base64.StdEncoding\<close>. A Go string is a list of
  bytes, here \<^typ>\<open>char list\<close>. Case conversion is the ASCII one: Kubernetes object names
  are ASCII, and the literals the program folds against (\<^verbatim>\<open>true\<close>, \<^verbatim>\<open>Rotate\<close>) have no
  non-ASCII case variants.
\<close>

section \<open>Definitions\<close>

definition hasPrefix :: "string \<Rightarrow> string \<Rightarrow> bool" where
  "hasPrefix s p \<longleftrightarrow> prefix p s"

definition cutPrefix :: "string \<Rightarrow> string \<Rightarrow> string option" where
  "cutPrefix s p = (if prefix p s then Some (drop (length p) s) else None)"

fun contains :: "string \<Rightarrow> string \<Rightarrow> bool" where
  "contains [] sub = (sub = [])"
| "contains (c # s) sub = (prefix sub (c # s) \<or> contains s sub)"

text \<open>
  \<^verbatim>\<open>strings.NewReplacer(old1, new1, ...).Replace(s)\<close>: scanning from the left, at each
  position the first pair (in argument order) whose old string matches is replaced and
  the scan goes on behind the match. The counter holds the bytes of a match still to be
  skipped. (An empty old string, which the operator never passes, does not match here.)
\<close>

definition match_at :: "(string \<times> string) list \<Rightarrow> string \<Rightarrow> (string \<times> string) option" where
  "match_at ps s = find (\<lambda>(old, _). old \<noteq> [] \<and> prefix old s) ps"

primrec replacer :: "(string \<times> string) list \<Rightarrow> nat \<Rightarrow> string \<Rightarrow> string" where
  "replacer ps k [] = []"
| "replacer ps k (c # s) =
     (if 0 < k then replacer ps (k - 1) s
      else case match_at ps (c # s) of
             None \<Rightarrow> c # replacer ps 0 s
           | Some (old, new) \<Rightarrow> new @ replacer ps (length old - 1) s)"

definition newReplacer_Replace :: "(string \<times> string) list \<Rightarrow> string \<Rightarrow> string" where
  "newReplacer_Replace ps s = replacer ps 0 s"

definition replaceAll :: "string \<Rightarrow> string \<Rightarrow> string \<Rightarrow> string" where
  "replaceAll s old new = replacer [(old, new)] 0 s"

definition lower_char :: "char \<Rightarrow> char" where
  "lower_char c = (let n = of_char c :: nat in if 65 \<le> n \<and> n \<le> 90 then char_of (n + 32) else c)"

definition toLower :: "string \<Rightarrow> string" where
  "toLower s = map lower_char s"

definition equalFold :: "string \<Rightarrow> string \<Rightarrow> bool" where
  "equalFold s t \<longleftrightarrow> toLower s = toLower t"

definition is_space :: "char \<Rightarrow> bool" where
  "is_space c \<longleftrightarrow> (let n = of_char c :: nat in n = 32 \<or> (9 \<le> n \<and> n \<le> 13))"

text \<open>
  The white space \<^verbatim>\<open>TrimSpace\<close> removes: ASCII, and the UTF-8 encodings of the other runes with
  \<^verbatim>\<open>unicode.IsSpace\<close>. \<open>spaceAt rv s\<close> is the length of such a rune at the start of \<open>s\<close>, or, with \<open>rv\<close>,
  of one written backwards.
\<close>

definition spaceRunes :: "bytes list" where
  "spaceRunes = [[CHR 0xC2, CHR 0x85], [CHR 0xC2, CHR 0xA0], [CHR 0xE1, CHR 0x9A, CHR 0x80],
     [CHR 0xE2, CHR 0x80, CHR 0x80], [CHR 0xE2, CHR 0x80, CHR 0x81], [CHR 0xE2, CHR 0x80, CHR 0x82],
     [CHR 0xE2, CHR 0x80, CHR 0x83], [CHR 0xE2, CHR 0x80, CHR 0x84], [CHR 0xE2, CHR 0x80, CHR 0x85],
     [CHR 0xE2, CHR 0x80, CHR 0x86], [CHR 0xE2, CHR 0x80, CHR 0x87], [CHR 0xE2, CHR 0x80, CHR 0x88],
     [CHR 0xE2, CHR 0x80, CHR 0x89], [CHR 0xE2, CHR 0x80, CHR 0x8A], [CHR 0xE2, CHR 0x80, CHR 0xA8],
     [CHR 0xE2, CHR 0x80, CHR 0xA9], [CHR 0xE2, CHR 0x80, CHR 0xAF], [CHR 0xE2, CHR 0x81, CHR 0x9F],
     [CHR 0xE3, CHR 0x80, CHR 0x80]]"

definition spaceAt :: "bool \<Rightarrow> bytes \<Rightarrow> nat" where
  "spaceAt rv s = (case s of [] \<Rightarrow> 0 | c # cs \<Rightarrow>
     (if (of_char c :: nat) < 128 then (if is_space c then 1 else 0)
      else case find (\<lambda>r. prefix (if rv then rev r else r) s) spaceRunes of Some r \<Rightarrow> length r | None \<Rightarrow> 0))"

function trimStart :: "bool \<Rightarrow> bytes \<Rightarrow> bytes" where
  "trimStart rv s = (let n = spaceAt rv s in if n = 0 then s else trimStart rv (drop n s))"
  by pat_completeness auto
termination
proof (relation "measure (\<lambda>(rv, s). length s)")
  fix rv s and n :: nat
  assume "n = spaceAt rv s" and "n \<noteq> 0"
  then have "s \<noteq> []" and "0 < n" by (auto simp: spaceAt_def)
  then show "((rv, drop n s), (rv, s)) \<in> measure (\<lambda>(rv, s). length s)" by simp
qed simp

declare trimStart.simps [simp del]

definition trimSpace :: "bytes \<Rightarrow> bytes" where
  "trimSpace s = rev (trimStart True (rev (trimStart False s)))"

text \<open>A text that starts and ends in ASCII characters other than white space is kept.\<close>

definition solid_char :: "char \<Rightarrow> bool" where
  "solid_char c \<longleftrightarrow> \<not> is_space c \<and> (of_char c :: nat) < 128"

lemma trimSpace_solid:
  assumes "s \<noteq> []" and "solid_char (hd s)" and "solid_char (last s)"
  shows "trimSpace s = s"
proof -
  have stop: "trimStart rv t = t" if "t \<noteq> []" "solid_char (hd t)" for rv t
  proof -
    from that have "spaceAt rv t = 0" by (cases t) (simp_all add: solid_char_def spaceAt_def)
    then show ?thesis by (simp add: trimStart.simps [of rv t])
  qed
  then show ?thesis using assms by (simp add: trimSpace_def hd_rev)
qed

subsection \<open>Numbers and quoting\<close>

definition digit_char :: "nat \<Rightarrow> char" where
  "digit_char n = char_of (48 + n)"

fun nat_str :: "nat \<Rightarrow> string" where
  "nat_str n = (if n < 10 then [digit_char n] else nat_str (n div 10) @ [digit_char (n mod 10)])"

declare nat_str.simps [simp del]

definition int_str :: "int \<Rightarrow> string" where
  "int_str i = (if i < 0 then CHR ''-'' # nat_str (nat (- i)) else nat_str (nat i))"

definition hex_char :: "nat \<Rightarrow> char" where
  "hex_char n = (if n < 10 then char_of (48 + n) else char_of (87 + n))"

definition hex_byte :: "nat \<Rightarrow> string" where
  "hex_byte n = [hex_char (n div 16 mod 16), hex_char (n mod 16)]"

text \<open>\<^verbatim>\<open>%x\<close> of a byte slice: two lower-case hexadecimal digits for every byte.\<close>

definition hex_of :: "8 word list \<Rightarrow> string" where
  "hex_of bs = concat (map (\<lambda>b. hex_byte (unat b)) bs)"

text \<open>
  \<^verbatim>\<open>%q\<close>. ASCII characters are escaped as Go does; the bytes of other runes are kept, which is what Go
  does with printable text (unprintable runes and invalid UTF-8, which it escapes, only change the
  text of an error message).
\<close>

definition quote_char :: "char \<Rightarrow> string" where
  "quote_char c = (let n = of_char c :: nat in
     if n = 34 then [char_of (92::nat), c]
     else if n = 92 then [char_of (92::nat), c]
     else if n = 7 then [char_of (92::nat), CHR ''a'']
     else if n = 8 then [char_of (92::nat), CHR ''b'']
     else if n = 12 then [char_of (92::nat), CHR ''f'']
     else if n = 10 then [char_of (92::nat), CHR ''n'']
     else if n = 13 then [char_of (92::nat), CHR ''r'']
     else if n = 9 then [char_of (92::nat), CHR ''t'']
     else if n = 11 then [char_of (92::nat), CHR ''v'']
     else if n < 32 \<or> n = 127 then [char_of (92::nat), CHR ''x''] @ hex_byte n
     else [c])"

definition quote :: "string \<Rightarrow> string" where
  "quote s = [char_of (34::nat)] @ concat (map quote_char s) @ [char_of (34::nat)]"

subsection \<open>Base64\<close>

definition b64_char :: "nat \<Rightarrow> char" where
  "b64_char n =
     (if n < 26 then char_of (65 + n)
      else if n < 52 then char_of (71 + n)
      else if n < 62 then char_of (n - 4)
      else if n = 62 then CHR ''+''
      else CHR ''/'')"

definition b64_val :: "char \<Rightarrow> nat option" where
  "b64_val c = (let n = of_char c :: nat in
     if 65 \<le> n \<and> n \<le> 90 then Some (n - 65)
     else if 97 \<le> n \<and> n \<le> 122 then Some (n - 71)
     else if 48 \<le> n \<and> n \<le> 57 then Some (n + 4)
     else if n = 43 then Some 62
     else if n = 47 then Some 63
     else None)"

text \<open>\<^verbatim>\<open>base64.StdEncoding.EncodeToString\<close>: groups of three bytes, padded with \<^verbatim>\<open>=\<close>.\<close>

fun base64_encode :: "bytes \<Rightarrow> string" where
  "base64_encode [] = []"
| "base64_encode [a] =
     (let x = of_char a :: nat in
      [b64_char (x div 4), b64_char (x mod 4 * 16), CHR ''='', CHR ''=''])"
| "base64_encode [a, b] =
     (let x = of_char a :: nat; y = of_char b :: nat in
      [b64_char (x div 4), b64_char (x mod 4 * 16 + y div 16), b64_char (y mod 16 * 4), CHR ''=''])"
| "base64_encode (a # b # c # s) =
     (let x = of_char a :: nat; y = of_char b :: nat; z = of_char c :: nat in
      [b64_char (x div 4), b64_char (x mod 4 * 16 + y div 16),
       b64_char (y mod 16 * 4 + z div 64), b64_char (z mod 64)]) @ base64_encode s"

text \<open>
  \<^verbatim>\<open>base64.StdEncoding.DecodeString\<close>: carriage returns and newlines are skipped, a final
  quantum may be padded, everything else is an error (\<^const>\<open>None\<close>). The decoder is not the
  strict one, so the unused bits of a padded quantum are ignored.
\<close>

fun b64_quanta :: "string \<Rightarrow> bytes option" where
  "b64_quanta [] = Some []"
| "b64_quanta (p # q # r # s # rest) =
     (case (b64_val p, b64_val q) of
        (Some a, Some b) \<Rightarrow>
          (if r = CHR ''='' then
             (if s = CHR ''='' \<and> rest = [] then Some [char_of (a * 4 + b div 16)] else None)
           else case b64_val r of
                  None \<Rightarrow> None
                | Some c \<Rightarrow>
                    (if s = CHR ''='' then
                       (if rest = [] then Some [char_of (a * 4 + b div 16), char_of (b mod 16 * 16 + c div 4)]
                        else None)
                     else case b64_val s of
                            None \<Rightarrow> None
                          | Some d \<Rightarrow>
                              map_option (\<lambda>t. [char_of (a * 4 + b div 16), char_of (b mod 16 * 16 + c div 4),
                                               char_of (c mod 4 * 64 + d)] @ t)
                                (b64_quanta rest)))
      | _ \<Rightarrow> None)"
| "b64_quanta _ = None"

definition base64_decode :: "string \<Rightarrow> bytes option" where
  "base64_decode s = b64_quanta (filter (\<lambda>c. of_char c \<noteq> (10::nat) \<and> of_char c \<noteq> (13::nat)) s)"

section \<open>Searching and replacing\<close>

lemma contains_sublist: "contains s sub \<longleftrightarrow> sublist sub s"
  by (induction s sub rule: contains.induct) (auto simp: sublist_Cons_right)

lemma contains_append: "contains (a @ sub @ b) sub"
  by (simp add: contains_sublist)

lemma cutPrefix_append [simp]: "cutPrefix (p @ s) p = Some s"
  by (simp add: cutPrefix_def)

lemma cutPrefix_Some: "cutPrefix s p = Some r \<longleftrightarrow> s = p @ r"
  by (auto simp: cutPrefix_def prefix_def)

lemma cutPrefix_None: "cutPrefix s p = None \<longleftrightarrow> (\<forall>r. s \<noteq> p @ r)"
  by (auto simp: cutPrefix_def prefix_def)

text \<open>
  Two old strings can compete for a position only if one is a prefix of the other. Over a
  table without such pairs the argument order of the replacer is irrelevant.
\<close>

definition prefix_free :: "string list \<Rightarrow> bool" where
  "prefix_free ks \<longleftrightarrow> (\<forall>a\<in>set ks. \<forall>b\<in>set ks. prefix a b \<longrightarrow> a = b)"

lemma match_at_Some:
  assumes "match_at ps s = Some (old, new)"
  shows "(old, new) \<in> set ps" "old \<noteq> []" "prefix old s"
  using assms by (auto simp: match_at_def find_Some_iff in_set_conv_nth)

lemma match_at_None: "match_at ps s = None \<longleftrightarrow> (\<forall>(old, new)\<in>set ps. old = [] \<or> \<not> prefix old s)"
  by (auto simp: match_at_def find_None_iff)

lemma match_at_unique:
  assumes "prefix_free (map fst ps)" and "wf_map ps"
    and "(old, new) \<in> set ps" and "old \<noteq> []" and "prefix old s"
  shows "match_at ps s = Some (old, new)"
proof (cases "match_at ps s")
  case None
  with assms show ?thesis by (auto simp: match_at_None)
next
  case (Some on)
  obtain o' n' where on: "on = (o', n')" by (cases on)
  from match_at_Some [OF Some [unfolded on]] have m: "(o', n') \<in> set ps" "prefix o' s"
    by auto
  from m(2) assms(5) have "prefix o' old \<or> prefix old o'"
    by (rule prefix_same_cases)
  with assms(1,3) m(1) have "o' = old"
    by (force simp: prefix_free_def image_iff)
  with m(1) assms(2,3) have "n' = new"
    by (auto simp: wf_map_def eq_key_imp_eq_value)
  with Some on \<open>o' = old\<close> show ?thesis by simp
qed

lemma match_at_order:
  assumes "prefix_free (map fst ps)" and "wf_map ps" and "wf_map qs" and "set qs = set ps"
  shows "match_at qs s = match_at ps s"
proof (cases "match_at ps s")
  case None
  with assms(4) have "match_at qs s = None" by (simp add: match_at_None)
  with None show ?thesis by simp
next
  case (Some on)
  obtain old new where on: "on = (old, new)" by (cases on)
  have "prefix_free (map fst qs)"
    using assms(1,4) by (simp add: prefix_free_def)
  with match_at_Some [OF Some [unfolded on]] assms(3,4) have "match_at qs s = Some (old, new)"
    by (auto intro: match_at_unique)
  with Some on show ?thesis by simp
qed

lemma replacer_cong:
  "(\<And>s. match_at qs s = match_at ps s) \<Longrightarrow> replacer qs k s = replacer ps k s"
  by (induction s arbitrary: k) (auto split: option.splits)

lemma newReplacer_order_irrelevant:
  assumes "prefix_free (map fst ps)" and "wf_map ps" and "wf_map qs" and "set qs = set ps"
  shows "newReplacer_Replace qs s = newReplacer_Replace ps s"
  unfolding newReplacer_Replace_def by (rule replacer_cong) (rule match_at_order [OF assms])

lemma replacer_skip: "replacer ps k s = replacer ps 0 (drop k s)"
proof (induction s arbitrary: k)
  case (Cons c s)
  show ?case
  proof (cases k)
    case (Suc j)
    with Cons.IH [of j] show ?thesis by simp
  qed simp
qed simp

lemma replacer_no_match:
  "(\<And>old new. (old, new) \<in> set ps \<Longrightarrow> old \<noteq> [] \<Longrightarrow> \<not> sublist old s) \<Longrightarrow> replacer ps 0 s = s"
proof (induction s)
  case (Cons c s)
  have "match_at ps (c # s) = None"
    using Cons.prems by (force simp: match_at_None dest: prefix_imp_sublist)
  moreover have "replacer ps 0 s = s"
    by (rule Cons.IH) (use Cons.prems in \<open>auto simp: sublist_Cons_right\<close>)
  ultimately show ?case by simp
qed simp

lemma replaceAll_absent: "\<not> contains s old \<Longrightarrow> replaceAll s old new = s"
  by (auto simp: replaceAll_def contains_sublist intro!: replacer_no_match)

section \<open>Hexadecimal and base64\<close>

lemma length_hex_of [simp]: "length (hex_of bs) = 2 * length bs"
  by (induction bs) (auto simp: hex_of_def hex_byte_def)

lemma hex_of_append: "hex_of (a @ b) = hex_of a @ hex_of b"
  by (simp add: hex_of_def)

definition b64_ok :: "nat \<Rightarrow> bool" where
  "b64_ok n \<longleftrightarrow> b64_val (b64_char n) = Some n \<and> b64_char n \<noteq> CHR ''='' \<and>
     of_char (b64_char n) \<noteq> (10::nat) \<and> of_char (b64_char n) \<noteq> (13::nat)"

lemma b64_table: "list_all b64_ok [0..<64]"
  by code_simp

lemma b64_ok_less: "n < 64 \<Longrightarrow> b64_ok n"
  using b64_table unfolding list_all_iff set_upt by auto

lemma b64_val_char [simp]: "n < 64 \<Longrightarrow> b64_val (b64_char n) = Some n"
  and b64_char_not_pad [simp]: "n < 64 \<Longrightarrow> b64_char n \<noteq> CHR ''=''"
  and b64_char_not_newline [simp]: "n < 64 \<Longrightarrow> of_char (b64_char n) \<noteq> (10::nat) \<and> of_char (b64_char n) \<noteq> (13::nat)"
  using b64_ok_less [of n] by (auto simp: b64_ok_def)

lemma b64_small:
  fixes a b :: char
  shows "(of_char a :: nat) div 4 < 64" "(of_char a :: nat) div 16 < 16" "(of_char a :: nat) div 64 < 4"
  using nat_of_char_less_256 [of a] by (simp_all add: less_mult_imp_div_less)

lemma b64_digits [simp]:
  fixes a b :: char
  shows "(of_char a :: nat) div 4 < 64"
    "(of_char a :: nat) mod 4 * 16 < 64"
    "(of_char a :: nat) mod 4 * 16 + of_char b div 16 < 64"
    "(of_char a :: nat) mod 16 * 4 < 64"
    "(of_char a :: nat) mod 16 * 4 + of_char b div 64 < 64"
    "(of_char a :: nat) mod 64 < 64"
proof -
  have "(of_char a :: nat) mod 4 < 4" "(of_char a :: nat) mod 16 < 16" by simp_all
  with b64_small [of a] b64_small [of b] show
    "(of_char a :: nat) div 4 < 64"
    "(of_char a :: nat) mod 4 * 16 < 64"
    "(of_char a :: nat) mod 4 * 16 + of_char b div 16 < 64"
    "(of_char a :: nat) mod 16 * 4 < 64"
    "(of_char a :: nat) mod 16 * 4 + of_char b div 64 < 64"
    "(of_char a :: nat) mod 64 < 64"
    by linarith+
qed

lemma b64_regroup [simp]:
  fixes a :: char
  shows "(of_char a :: nat) div 16 div 16 = 0" "(of_char a :: nat) div 16 mod 16 = of_char a div 16"
    "(of_char a :: nat) div 64 div 4 = 0" "(of_char a :: nat) div 64 mod 4 = of_char a div 64"
  using b64_small [of a] by simp_all

lemma b64_encode_no_newline:
  "list_all (\<lambda>c. of_char c \<noteq> (10::nat) \<and> of_char c \<noteq> (13::nat)) (base64_encode s)"
  by (induction s rule: base64_encode.induct) (auto simp: Let_def)

lemma b64_quanta_encode: "b64_quanta (base64_encode s) = Some s"
  by (induction s rule: base64_encode.induct) (simp_all add: Let_def)

lemma base64_roundtrip: "base64_decode (base64_encode s) = Some s"
proof -
  have "filter (\<lambda>c. of_char c \<noteq> (10::nat) \<and> of_char c \<noteq> (13::nat)) (base64_encode s) = base64_encode s"
    using b64_encode_no_newline [of s] by (auto simp: list_all_iff)
  then show ?thesis by (simp add: base64_decode_def b64_quanta_encode)
qed

end
