(* ===== verification/Kube_Types.thy ===== *)
theory Kube_Types
  imports Go_Strings
begin

text \<open>
  The data the operator reads and writes: its two custom resources
  (\<^verbatim>\<open>api/v1alpha1/magmaagw_types.go\<close>, \<^verbatim>\<open>magmaorc8r_types.go\<close>), the fields of the built-in
  Kubernetes kinds it touches, and unstructured manifest objects. A struct is a record
  with the source's fields, prefixed by an abbreviation of the struct; a pointer field is
  an \<^typ>\<open>'a option\<close>; \<^verbatim>\<open>int32\<close> and \<^verbatim>\<open>int64\<close> are words of that width, read by \<^const>\<open>sint\<close>.
  \<^verbatim>\<open>kobj\<close> is the sum of all kinds, as the client interface accepts any object.
\<close>

section \<open>Metadata and conditions\<close>

record objectMeta =
  m_Name :: string
  m_Namespace :: string
  m_Labels :: smap
  m_Annotations :: smap
  m_Finalizers :: "string list"
  m_OwnerReferences :: "string list"
  m_Generation :: int64
  m_DeletionTimestamp :: "nat option"

definition newMeta :: "string \<Rightarrow> string \<Rightarrow> objectMeta" where
  "newMeta ns name = \<lparr>m_Name = name, m_Namespace = ns, m_Labels = [], m_Annotations = [],
     m_Finalizers = [], m_OwnerReferences = [], m_Generation = 0, m_DeletionTimestamp = None\<rparr>"

datatype conditionStatus = ConditionTrue | ConditionFalse | ConditionUnknown

record condition =
  c_Type :: string
  c_Status :: conditionStatus
  c_Reason :: string
  c_Message :: string
  c_ObservedGeneration :: int64

section \<open>MagmaAGW\<close>

record magmaAGWIdentitySpec =
  id_SecretName :: string
  id_ImportSecretName :: string
  id_ImportSecretKey :: string
  id_HardwareID :: string
  id_RotationPolicy :: string

record magmaAGWGatewayRegistrationSpec =
  gr_Enabled :: "bool option"
  gr_DeleteOnRemoval :: bool
  gr_Name :: string
  gr_Description :: string
  gr_Tier :: string

record magmaAGWDeletionPolicySpec =
  dp_DeletePVC :: bool
  dp_DeleteIdentitySecret :: bool

record magmaAGWUERANSIMValidationSpec =
  uv_Enabled :: "bool option"
  uv_Trigger :: string
  uv_UEDeploymentName :: string
  uv_PingHost :: string
  uv_IPerfServer :: string
  uv_IPerfPort :: int32
  uv_TimeoutSeconds :: int32

record magmaAGWDatapathSpec =
  dps_Enabled :: "bool option"
  dps_ReadyLabelKey :: string
  dps_ReadyLabelValue :: string
  dps_RequireMagmaOvsKmod :: bool
  dps_OvsKmodUpgradePath :: string

record magmaAGWSpec =
  as_ReleaseName :: string
  as_AccessGatewayID :: string
  as_NetworkID :: string
  as_Orc8rNamespace :: string
  as_Orc8rReleaseName :: string
  as_NMSAPIHost :: string
  as_NMSAdminCertSecretName :: string
  as_Identity :: magmaAGWIdentitySpec
  as_GatewayRegistration :: magmaAGWGatewayRegistrationSpec
  as_DeletionPolicy :: magmaAGWDeletionPolicySpec
  as_AGWNodeSelector :: smap
  as_AGWNodeLabelSelector :: smap
  as_EnableUERANSIM :: bool
  as_UERANSIMStartPolicy :: string
  as_UERANSIMReadyConfigMap :: string
  as_UERANSIMNodeSelector :: smap
  as_UERANSIMValidation :: magmaAGWUERANSIMValidationSpec
  as_S1Interface :: string
  as_SGiInterface :: string
  as_Datapath :: magmaAGWDatapathSpec
  as_Values :: smap

record magmaAGWStatus =
  ast_ObservedGeneration :: int64
  ast_ReleaseName :: string
  ast_ReleaseNamespace :: string
  ast_IdentitySecretName :: string
  ast_HardwareID :: string
  ast_ChallengePublicKeyHash :: string
  ast_GatewayRegistered :: bool
  ast_Orc8rServiceIP :: string
  ast_TrustBundleHash :: string
  ast_Conditions :: "condition list"

record magmaAGW =
  agw_Meta :: objectMeta
  agw_Spec :: magmaAGWSpec
  agw_Status :: magmaAGWStatus

section \<open>MagmaOrc8r\<close>

record magmaOrc8rSpec =
  os_ReleaseName :: string
  os_DomainName :: string
  os_ControllerHostname :: string
  os_NMSNodePort :: "int32 option"
  os_NMSOrganization :: string
  os_NMSAdminEmail :: string
  os_NMSAdminPassword :: string
  os_NMSCustomDomains :: "string list"
  os_NetworkID :: string
  os_NetworkName :: string
  os_SubscriberIMSI :: string
  os_Values :: smap

record magmaOrc8rStatus =
  ost_ObservedGeneration :: int64
  ost_ReleaseName :: string
  ost_ReleaseNamespace :: string
  ost_NMSURL :: string
  ost_Conditions :: "condition list"

record magmaOrc8r =
  orc8r_Meta :: objectMeta
  orc8r_Spec :: magmaOrc8rSpec
  orc8r_Status :: magmaOrc8rStatus

section \<open>Built-in kinds\<close>

record secret =
  sec_Meta :: objectMeta
  sec_Type :: string
  sec_Data :: "(string \<times> bytes) list"

record configMap =
  cm_Meta :: objectMeta
  cm_Data :: smap

record service =
  svc_Meta :: objectMeta
  svc_ClusterIP :: string

record persistentVolumeClaim =
  pvc_Meta :: objectMeta

record envVar =
  env_Name :: string
  env_Value :: string

record volumeMount =
  vm_Name :: string
  vm_MountPath :: string
  vm_SubPath :: string
  vm_ReadOnly :: bool

datatype volumeSource = PVCSource string | SecretSource string int32

record volume =
  vol_Name :: string
  vol_Source :: volumeSource

record container =
  ct_Name :: string
  ct_Image :: string
  ct_ImagePullPolicy :: string
  ct_Command :: "string list"
  ct_Args :: "string list"
  ct_Env :: "envVar list"
  ct_VolumeMounts :: "volumeMount list"

record podSpec =
  ps_ServiceAccountName :: string
  ps_RestartPolicy :: string
  ps_Containers :: "container list"
  ps_Volumes :: "volume list"

record job =
  job_Meta :: objectMeta
  job_BackoffLimit :: "int32 option"
  job_TTLSecondsAfterFinished :: "int32 option"
  job_ActiveDeadlineSeconds :: "int64 option"
  job_PodSpec :: podSpec
  job_Succeeded :: int32
  job_Failed :: int32

record deployment =
  dep_Meta :: objectMeta
  dep_Replicas :: "int32 option"
  dep_TemplateAnnotations :: smap
  dep_Containers :: "container list"
  dep_ObservedGeneration :: int64
  dep_ReadyReplicas :: int32
  dep_AvailableReplicas :: int32

record daemonSet =
  ds_Meta :: objectMeta
  ds_DesiredNumberScheduled :: int32
  ds_NumberReady :: int32

record pod =
  pod_Meta :: objectMeta
  pod_Reason :: string
  pod_Phase :: string

record node =
  node_Meta :: objectMeta

record serviceAccount =
  sa_Meta :: objectMeta

record policyRule =
  pr_APIGroups :: "string list"
  pr_Resources :: "string list"
  pr_Verbs :: "string list"

record role =
  role_Meta :: objectMeta
  role_Rules :: "policyRule list"

record subject =
  subj_Kind :: string
  subj_Name :: string
  subj_Namespace :: string

record roleRef =
  rr_APIGroup :: string
  rr_Kind :: string
  rr_Name :: string

record roleBinding =
  rb_Meta :: objectMeta
  rb_Subjects :: "subject list"
  rb_RoleRef :: roleRef

text \<open>
  \<^verbatim>\<open>unstructured.Unstructured\<close>: the metadata its accessors read and write, and the rest of
  the document as a tree of named fields.
\<close>

datatype yaml = YStr string | YNum int | YBool bool | YNull | YList "yaml list" | YMap "(string \<times> yaml) list"

record unstructured =
  u_APIVersion :: string
  u_Kind :: string
  u_Meta :: objectMeta
  u_Object :: yaml

section \<open>Objects of any kind\<close>

datatype kobj =
    OAGW magmaAGW
  | OOrc8r magmaOrc8r
  | OSecret secret
  | OConfigMap configMap
  | OService service
  | OPVC persistentVolumeClaim
  | OJob job
  | ODeployment deployment
  | ODaemonSet daemonSet
  | OPod pod
  | ONode node
  | OServiceAccount serviceAccount
  | ORole role
  | ORoleBinding roleBinding
  | OUnstructured unstructured

text \<open>The kind a request names: a typed kind, or the kind of an unstructured object.\<close>

datatype kind =
    KAGW | KOrc8r | KSecret | KConfigMap | KService | KPVC | KJob | KDeployment | KDaemonSet
  | KPod | KNode | KServiceAccount | KRole | KRoleBinding | KUnstructured string string

primrec kind_of :: "kobj \<Rightarrow> kind" where
  "kind_of (OAGW _) = KAGW"
| "kind_of (OOrc8r _) = KOrc8r"
| "kind_of (OSecret _) = KSecret"
| "kind_of (OConfigMap _) = KConfigMap"
| "kind_of (OService _) = KService"
| "kind_of (OPVC _) = KPVC"
| "kind_of (OJob _) = KJob"
| "kind_of (ODeployment _) = KDeployment"
| "kind_of (ODaemonSet _) = KDaemonSet"
| "kind_of (OPod _) = KPod"
| "kind_of (ONode _) = KNode"
| "kind_of (OServiceAccount _) = KServiceAccount"
| "kind_of (ORole _) = KRole"
| "kind_of (ORoleBinding _) = KRoleBinding"
| "kind_of (OUnstructured u) = KUnstructured (u_APIVersion u) (u_Kind u)"

primrec meta_of :: "kobj \<Rightarrow> objectMeta" where
  "meta_of (OAGW a) = agw_Meta a"
| "meta_of (OOrc8r a) = orc8r_Meta a"
| "meta_of (OSecret a) = sec_Meta a"
| "meta_of (OConfigMap a) = cm_Meta a"
| "meta_of (OService a) = svc_Meta a"
| "meta_of (OPVC a) = pvc_Meta a"
| "meta_of (OJob a) = job_Meta a"
| "meta_of (ODeployment a) = dep_Meta a"
| "meta_of (ODaemonSet a) = ds_Meta a"
| "meta_of (OPod a) = pod_Meta a"
| "meta_of (ONode a) = node_Meta a"
| "meta_of (OServiceAccount a) = sa_Meta a"
| "meta_of (ORole a) = role_Meta a"
| "meta_of (ORoleBinding a) = rb_Meta a"
| "meta_of (OUnstructured a) = u_Meta a"

definition name_of :: "kobj \<Rightarrow> string" where
  "name_of x = m_Name (meta_of x)"

definition namespace_of :: "kobj \<Rightarrow> string" where
  "namespace_of x = m_Namespace (meta_of x)"

end
