(* ===== verification/Kube.thy ===== *)
theory Kube
  imports Kube_Types
begin

text \<open>
  What the operator takes from outside the repository, as parameters of the model.

  \<^item> \<open>'w client\<close> is \<^verbatim>\<open>client.Client\<close> and \<^verbatim>\<open>controllerutil.CreateOrUpdate\<close> of
    controller-runtime, over a world \<open>'w\<close>: the API server, the network and every other
    writer. Nothing is assumed on it here: an answer may be any object, any error, and
    may differ from one call to the next.
  \<^item> \<open>lib\<close> holds pure functions of \<^verbatim>\<open>k8s.io/apimachinery\<close> and controller-runtime (owner
    references, finalizers, status conditions, nested fields, the YAML decoder), the
    embedded manifest files, and the key and certificate codecs of \<^verbatim>\<open>crypto/x509\<close> and
    \<^verbatim>\<open>encoding/pem\<close>.

  Each call is recorded as an event with its answer. Reads of an object of another kind
  than asked for are a decoding error. The named predicates at the end state documented
  behaviour of the libraries; a theorem that needs one takes it as a hypothesis.
\<close>

section \<open>Parameters\<close>

datatype patch = MergeFrom kobj | ApplyForce string

record 'w client =
  k_Get :: "kind \<Rightarrow> string \<Rightarrow> string \<Rightarrow> 'w \<Rightarrow> (error + kobj) \<times> 'w"
  k_List :: "kind \<Rightarrow> string \<Rightarrow> smap \<Rightarrow> 'w \<Rightarrow> (error + kobj list) \<times> 'w"
  k_Create :: "kobj \<Rightarrow> 'w \<Rightarrow> error option \<times> 'w"
  k_Update :: "kobj \<Rightarrow> 'w \<Rightarrow> error option \<times> 'w"
  k_StatusUpdate :: "kobj \<Rightarrow> 'w \<Rightarrow> error option \<times> 'w"
  k_Patch :: "kobj \<Rightarrow> patch \<Rightarrow> 'w \<Rightarrow> error option \<times> 'w"
  k_Delete :: "bool \<Rightarrow> kobj \<Rightarrow> 'w \<Rightarrow> error option \<times> 'w"
  k_CreateOrUpdate :: "kobj \<Rightarrow> (kobj \<Rightarrow> error + kobj) \<Rightarrow> 'w \<Rightarrow> (error + kobj) \<times> 'w"

text \<open>An ECDSA private key: the secret scalar and its public point.\<close>

record ecdsaKey =
  ek_D :: nat
  ek_X :: nat
  ek_Y :: nat

datatype pkcs8Key = PKCS8_ECDSA ecdsaKey | PKCS8_Other

record lib =
  l_SetControllerReference :: "kobj \<Rightarrow> objectMeta \<Rightarrow> error + objectMeta"
  l_ContainsFinalizer :: "string list \<Rightarrow> string \<Rightarrow> bool"
  l_AddFinalizer :: "string list \<Rightarrow> string \<Rightarrow> string list"
  l_RemoveFinalizer :: "string list \<Rightarrow> string \<Rightarrow> string list"
  l_SetStatusCondition :: "condition list \<Rightarrow> condition \<Rightarrow> condition list"
  l_RemoveStatusCondition :: "condition list \<Rightarrow> string \<Rightarrow> condition list"
  l_RemoveNestedField :: "yaml \<Rightarrow> string list \<Rightarrow> yaml"
  l_SetNestedStringMap :: "yaml \<Rightarrow> smap \<Rightarrow> string list \<Rightarrow> yaml"
  l_ReadManifest :: "string \<Rightarrow> error + string"
  l_YamlDecode :: "string \<Rightarrow> (error + unstructured) list"
  l_PemDecode :: "bytes \<Rightarrow> bytes option"
  l_PemEncode :: "string \<Rightarrow> bytes \<Rightarrow> bytes"
  l_ParseECPrivateKey :: "bytes \<Rightarrow> error + ecdsaKey"
  l_ParsePKCS8PrivateKey :: "bytes \<Rightarrow> error + pkcs8Key"
  l_MarshalECPrivateKey :: "ecdsaKey \<Rightarrow> error + bytes"
  l_MarshalPKIXPublicKey :: "ecdsaKey \<Rightarrow> error + bytes"

section \<open>Calls and events\<close>

datatype event =
    EvGet kind string string "error + kobj"
  | EvList kind string smap "error + kobj list"
  | EvCreate kobj "error option"
  | EvUpdate kobj "error option"
  | EvStatusUpdate kobj "error option"
  | EvPatch kobj patch "error option"
  | EvDelete bool kobj "error option"
  | EvCreateOrUpdate kobj "error + kobj"

type_synonym 'w ksys = "('w, event) sys"
type_synonym ('w, 'a) kio = "(('w, event) sys, 'a) state"

definition call :: "('w \<Rightarrow> 'r \<times> 'w) \<Rightarrow> ('r \<Rightarrow> event) \<Rightarrow> ('w, 'r) kio" where
  "call f ev = State (\<lambda>s. case f (world s) of
     (r, w) \<Rightarrow> (r, \<lparr>world = w, trace = trace s @ [ev r]\<rparr>))"

definition kGet :: "'w client \<Rightarrow> kind \<Rightarrow> string \<Rightarrow> string \<Rightarrow> ('w, error + kobj) kio" where
  "kGet K k ns n = call (k_Get K k ns n) (EvGet k ns n)"

definition kList :: "'w client \<Rightarrow> kind \<Rightarrow> string \<Rightarrow> smap \<Rightarrow> ('w, error + kobj list) kio" where
  "kList K k ns sel = call (k_List K k ns sel) (EvList k ns sel)"

definition kCreate :: "'w client \<Rightarrow> kobj \<Rightarrow> ('w, error option) kio" where
  "kCreate K x = call (k_Create K x) (EvCreate x)"

definition kUpdate :: "'w client \<Rightarrow> kobj \<Rightarrow> ('w, error option) kio" where
  "kUpdate K x = call (k_Update K x) (EvUpdate x)"

definition kStatusUpdate :: "'w client \<Rightarrow> kobj \<Rightarrow> ('w, error option) kio" where
  "kStatusUpdate K x = call (k_StatusUpdate K x) (EvStatusUpdate x)"

definition kPatch :: "'w client \<Rightarrow> kobj \<Rightarrow> patch \<Rightarrow> ('w, error option) kio" where
  "kPatch K x p = call (k_Patch K x p) (EvPatch x p)"

text \<open>The flag of a deletion says whether background propagation was requested.\<close>

definition kDelete :: "'w client \<Rightarrow> bool \<Rightarrow> kobj \<Rightarrow> ('w, error option) kio" where
  "kDelete K bg x = call (k_Delete K bg x) (EvDelete bg x)"

definition kCreateOrUpdate :: "'w client \<Rightarrow> kobj \<Rightarrow> (kobj \<Rightarrow> error + kobj) \<Rightarrow> ('w, error + kobj) kio" where
  "kCreateOrUpdate K x f = call (k_CreateOrUpdate K x f) (EvCreateOrUpdate x)"

subsection \<open>Typed reads\<close>

definition decode_error :: error where
  "decode_error = Errorf ''unexpected object kind''"

definition as_typed :: "(kobj \<Rightarrow> 'a option) \<Rightarrow> error + kobj \<Rightarrow> error + 'a" where
  "as_typed f r = (case r of
     Inl e \<Rightarrow> Inl e
   | Inr x \<Rightarrow> (case f x of None \<Rightarrow> Inl decode_error | Some y \<Rightarrow> Inr y))"

definition as_list :: "(kobj \<Rightarrow> 'a option) \<Rightarrow> error + kobj list \<Rightarrow> error + 'a list" where
  "as_list f r = (case r of
     Inl e \<Rightarrow> Inl e
   | Inr xs \<Rightarrow> (case those (map f xs) of None \<Rightarrow> Inl decode_error | Some ys \<Rightarrow> Inr ys))"

definition to_agw :: "kobj \<Rightarrow> magmaAGW option" where
  "to_agw x = (case x of OAGW a \<Rightarrow> Some a | _ \<Rightarrow> None)"

definition to_orc8r :: "kobj \<Rightarrow> magmaOrc8r option" where
  "to_orc8r x = (case x of OOrc8r a \<Rightarrow> Some a | _ \<Rightarrow> None)"

definition to_secret :: "kobj \<Rightarrow> secret option" where
  "to_secret x = (case x of OSecret a \<Rightarrow> Some a | _ \<Rightarrow> None)"

definition to_configMap :: "kobj \<Rightarrow> configMap option" where
  "to_configMap x = (case x of OConfigMap a \<Rightarrow> Some a | _ \<Rightarrow> None)"

definition to_service :: "kobj \<Rightarrow> service option" where
  "to_service x = (case x of OService a \<Rightarrow> Some a | _ \<Rightarrow> None)"

definition to_pvc :: "kobj \<Rightarrow> persistentVolumeClaim option" where
  "to_pvc x = (case x of OPVC a \<Rightarrow> Some a | _ \<Rightarrow> None)"

definition to_job :: "kobj \<Rightarrow> job option" where
  "to_job x = (case x of OJob a \<Rightarrow> Some a | _ \<Rightarrow> None)"

definition to_deployment :: "kobj \<Rightarrow> deployment option" where
  "to_deployment x = (case x of ODeployment a \<Rightarrow> Some a | _ \<Rightarrow> None)"

definition to_daemonSet :: "kobj \<Rightarrow> daemonSet option" where
  "to_daemonSet x = (case x of ODaemonSet a \<Rightarrow> Some a | _ \<Rightarrow> None)"

definition to_pod :: "kobj \<Rightarrow> pod option" where
  "to_pod x = (case x of OPod a \<Rightarrow> Some a | _ \<Rightarrow> None)"

definition to_node :: "kobj \<Rightarrow> node option" where
  "to_node x = (case x of ONode a \<Rightarrow> Some a | _ \<Rightarrow> None)"

definition to_unstructured :: "kobj \<Rightarrow> unstructured option" where
  "to_unstructured x = (case x of OUnstructured a \<Rightarrow> Some a | _ \<Rightarrow> None)"

definition getAs :: "(kobj \<Rightarrow> 'a option) \<Rightarrow> kind \<Rightarrow> 'w client \<Rightarrow> string \<Rightarrow> string \<Rightarrow> ('w, error + 'a) kio" where
  "getAs f k K ns n = do { r \<leftarrow> kGet K k ns n; return (as_typed f r) }"

definition listAs :: "(kobj \<Rightarrow> 'a option) \<Rightarrow> kind \<Rightarrow> 'w client \<Rightarrow> string \<Rightarrow> smap \<Rightarrow> ('w, error + 'a list) kio" where
  "listAs f k K ns sel = do { r \<leftarrow> kList K k ns sel; return (as_list f r) }"

abbreviation getAGW :: "'w client \<Rightarrow> string \<Rightarrow> string \<Rightarrow> ('w, error + magmaAGW) kio" where
  "getAGW \<equiv> getAs to_agw KAGW"

abbreviation getOrc8r :: "'w client \<Rightarrow> string \<Rightarrow> string \<Rightarrow> ('w, error + magmaOrc8r) kio" where
  "getOrc8r \<equiv> getAs to_orc8r KOrc8r"

abbreviation getSecret :: "'w client \<Rightarrow> string \<Rightarrow> string \<Rightarrow> ('w, error + secret) kio" where
  "getSecret \<equiv> getAs to_secret KSecret"

abbreviation getConfigMap :: "'w client \<Rightarrow> string \<Rightarrow> string \<Rightarrow> ('w, error + configMap) kio" where
  "getConfigMap \<equiv> getAs to_configMap KConfigMap"

abbreviation getService :: "'w client \<Rightarrow> string \<Rightarrow> string \<Rightarrow> ('w, error + service) kio" where
  "getService \<equiv> getAs to_service KService"

abbreviation getPVC :: "'w client \<Rightarrow> string \<Rightarrow> string \<Rightarrow> ('w, error + persistentVolumeClaim) kio" where
  "getPVC \<equiv> getAs to_pvc KPVC"

abbreviation getJob :: "'w client \<Rightarrow> string \<Rightarrow> string \<Rightarrow> ('w, error + job) kio" where
  "getJob \<equiv> getAs to_job KJob"

abbreviation getDeployment :: "'w client \<Rightarrow> string \<Rightarrow> string \<Rightarrow> ('w, error + deployment) kio" where
  "getDeployment \<equiv> getAs to_deployment KDeployment"

abbreviation getDaemonSet :: "'w client \<Rightarrow> string \<Rightarrow> string \<Rightarrow> ('w, error + daemonSet) kio" where
  "getDaemonSet \<equiv> getAs to_daemonSet KDaemonSet"

abbreviation listAGWs :: "'w client \<Rightarrow> string \<Rightarrow> smap \<Rightarrow> ('w, error + magmaAGW list) kio" where
  "listAGWs \<equiv> listAs to_agw KAGW"

abbreviation listPods :: "'w client \<Rightarrow> string \<Rightarrow> smap \<Rightarrow> ('w, error + pod list) kio" where
  "listPods \<equiv> listAs to_pod KPod"

abbreviation listDeployments :: "'w client \<Rightarrow> string \<Rightarrow> smap \<Rightarrow> ('w, error + deployment list) kio" where
  "listDeployments \<equiv> listAs to_deployment KDeployment"

abbreviation listNodes :: "'w client \<Rightarrow> smap \<Rightarrow> ('w, error + node list) kio" where
  "listNodes K \<equiv> listAs to_node KNode K []"

subsection \<open>Outcomes of calls\<close>

primrec is_write :: "event \<Rightarrow> bool" where
  "is_write (EvGet _ _ _ _) = False"
| "is_write (EvList _ _ _ _) = False"
| "is_write (EvCreate _ _) = True"
| "is_write (EvUpdate _ _) = True"
| "is_write (EvStatusUpdate _ _) = True"
| "is_write (EvPatch _ _ _) = True"
| "is_write (EvDelete _ _ _) = True"
| "is_write (EvCreateOrUpdate _ _) = True"

text \<open>A deletion whose answer the program takes as done: no error, or already gone.\<close>

definition gone :: "error option \<Rightarrow> bool" where
  "gone r \<longleftrightarrow> (case r of None \<Rightarrow> True | Some e \<Rightarrow> IsNotFound e)"

text \<open>The idiom \<^verbatim>\<open>if err := Delete(x); err != nil && !IsNotFound(err) { return err }\<close>.\<close>

definition deleteIgnoringNotFound :: "'w client \<Rightarrow> bool \<Rightarrow> kobj \<Rightarrow> ('w, error option) kio" where
  "deleteIgnoringNotFound K bg x = do {
     r \<leftarrow> kDelete K bg x;
     return (case r of None \<Rightarrow> None | Some e \<Rightarrow> IgnoreNotFound e)
   }"

section \<open>Documented behaviour of the libraries\<close>

text \<open>
  Finalizers are a set kept as a list; \<^verbatim>\<open>AddFinalizer\<close> adds one and \<^verbatim>\<open>RemoveFinalizer\<close>
  removes it, and both leave the others.
\<close>

definition finalizers_ok :: "lib \<Rightarrow> bool" where
  "finalizers_ok L \<longleftrightarrow>
     (\<forall>fs f g. l_ContainsFinalizer L (l_AddFinalizer L fs f) g \<longleftrightarrow> g = f \<or> l_ContainsFinalizer L fs g) \<and>
     (\<forall>fs f g. l_ContainsFinalizer L (l_RemoveFinalizer L fs f) g \<longleftrightarrow> g \<noteq> f \<and> l_ContainsFinalizer L fs g)"

text \<open>
  \<^verbatim>\<open>SetStatusCondition\<close> sets the condition of the given type and leaves those of other
  types; \<^verbatim>\<open>RemoveStatusCondition\<close> drops the type.
\<close>

definition cond_of :: "condition list \<Rightarrow> string \<Rightarrow> condition option" where
  "cond_of cs ty = find (\<lambda>c. c_Type c = ty) cs"

definition conditions_ok :: "lib \<Rightarrow> bool" where
  "conditions_ok L \<longleftrightarrow>
     (\<forall>cs c ty. cond_of (l_SetStatusCondition L cs c) ty = (if ty = c_Type c then Some c else cond_of cs ty)) \<and>
     (\<forall>cs t ty. cond_of (l_RemoveStatusCondition L cs t) ty = (if ty = t then None else cond_of cs ty))"

text \<open>
  \<^verbatim>\<open>SetControllerReference\<close> only changes the owner references of the object's metadata.
\<close>

definition owner_ok :: "lib \<Rightarrow> bool" where
  "owner_ok L \<longleftrightarrow> (\<forall>own m m'. l_SetControllerReference L own m = Inr m' \<longrightarrow>
     (\<exists>os. m' = m\<lparr>m_OwnerReferences := os\<rparr>))"

text \<open>
  \<^verbatim>\<open>CreateOrUpdate\<close> succeeds only with what the callback makes of an object with the given
  kind and key (the stored one, or the one passed in).
\<close>

definition same_key :: "kobj \<Rightarrow> kobj \<Rightarrow> bool" where
  "same_key x y \<longleftrightarrow> kind_of x = kind_of y \<and> name_of x = name_of y \<and> namespace_of x = namespace_of y"

definition createOrUpdate_ok :: "'w client \<Rightarrow> bool" where
  "createOrUpdate_ok K \<longleftrightarrow>
     (\<forall>x f w y w'. k_CreateOrUpdate K x f w = (Inr y, w') \<longrightarrow> (\<exists>cur. same_key cur x \<and> f cur = Inr y))"

section \<open>Triples of the calls\<close>

lemma gone_simps [simp]: "gone None" "gone (Some e) \<longleftrightarrow> IsNotFound e"
  by (simp_all add: gone_def)

lemma run_call: "run_state (call f ev) s =
    (fst (f (world s)), \<lparr>world = snd (f (world s)), trace = trace s @ [ev (fst (f (world s)))]\<rparr>)"
  by (simp add: call_def split: prod.splits)

lemma spec_call: "(\<And>r. Q r [ev r]) \<Longrightarrow> spec (call f ev) Q"
  by (rule specI) (simp add: run_call)

lemma spec_kGet [spec_rules]: "(\<And>r. Q r [EvGet k ns n r]) \<Longrightarrow> spec (kGet K k ns n) Q"
  and spec_kList [spec_rules]: "(\<And>r. P r [EvList k ns sel r]) \<Longrightarrow> spec (kList K k ns sel) P"
  and spec_kCreate [spec_rules]: "(\<And>r. R r [EvCreate x r]) \<Longrightarrow> spec (kCreate K x) R"
  and spec_kUpdate [spec_rules]: "(\<And>r. R r [EvUpdate x r]) \<Longrightarrow> spec (kUpdate K x) R"
  and spec_kStatusUpdate [spec_rules]: "(\<And>r. R r [EvStatusUpdate x r]) \<Longrightarrow> spec (kStatusUpdate K x) R"
  and spec_kPatch [spec_rules]: "(\<And>r. R r [EvPatch x p r]) \<Longrightarrow> spec (kPatch K x p) R"
  and spec_kDelete [spec_rules]: "(\<And>r. R r [EvDelete bg x r]) \<Longrightarrow> spec (kDelete K bg x) R"
  and spec_kCreateOrUpdate [spec_rules]:
    "(\<And>r. Q r [EvCreateOrUpdate x r]) \<Longrightarrow> spec (kCreateOrUpdate K x f) Q"
  unfolding kGet_def kList_def kCreate_def kUpdate_def kStatusUpdate_def kPatch_def kDelete_def
    kCreateOrUpdate_def
  by (rule spec_call, assumption)+

lemma spec_kCreateOrUpdate_ok:
  fixes K :: "'w client"
  assumes "createOrUpdate_ok K"
    and "\<And>e. Q (Inl e) [EvCreateOrUpdate x (Inl e)]"
    and "\<And>cur y. same_key cur x \<Longrightarrow> f cur = Inr y \<Longrightarrow> Q (Inr y) [EvCreateOrUpdate x (Inr y)]"
  shows "spec (kCreateOrUpdate K x f) Q"
proof (rule specI)
  fix s :: "'w ksys"
  obtain r w' where r: "k_CreateOrUpdate K x f (world s) = (r, w')" by fastforce
  with assms show "\<exists>t. trace (snd (run_state (kCreateOrUpdate K x f) s)) = trace s @ t \<and>
      Q (fst (run_state (kCreateOrUpdate K x f) s)) t"
    by (cases r) (fastforce simp: kCreateOrUpdate_def run_call createOrUpdate_ok_def)+
qed

lemma spec_getAs [spec_rules]:
  "(\<And>r. Q (as_typed f r) [EvGet k ns n r]) \<Longrightarrow> spec (getAs f k K ns n) Q"
  unfolding getAs_def by (rule spec_bind, rule spec_kGet, rule spec_return) simp

lemma spec_listAs [spec_rules]:
  "(\<And>r. Q (as_list f r) [EvList k ns sel r]) \<Longrightarrow> spec (listAs f k K ns sel) Q"
  unfolding listAs_def by (rule spec_bind, rule spec_kList, rule spec_return) simp

lemma spec_deleteIgnoringNotFound [spec_rules]:
  assumes "\<And>r. gone r \<Longrightarrow> Q None [EvDelete bg x r]"
    and "\<And>e. \<not> IsNotFound e \<Longrightarrow> Q (Some e) [EvDelete bg x (Some e)]"
  shows "spec (deleteIgnoringNotFound K bg x) Q"
  unfolding deleteIgnoringNotFound_def
  by (rule spec_bind, rule spec_kDelete, rule spec_return)
    (use assms in \<open>auto simp: gone_def IgnoreNotFound_def split: option.split\<close>)

lemma as_typed_Inr: "as_typed f r = Inr y \<longleftrightarrow> (\<exists>x. r = Inr x \<and> f x = Some y)"
  by (auto simp: as_typed_def split: sum.splits option.splits)

lemma as_typed_Inl_NotFound: "as_typed f r = Inl e \<Longrightarrow> IsNotFound e \<Longrightarrow> r = Inl e"
  by (auto simp: as_typed_def decode_error_def Errorf_def IsNotFound_def split: sum.splits option.splits)

lemma as_typed_simps [simp]:
  "as_typed f (Inl e) = Inl e"
  "as_typed f (Inr x) = (case f x of None \<Rightarrow> Inl decode_error | Some y \<Rightarrow> Inr y)"
  by (simp_all add: as_typed_def)

lemma as_list_simps [simp]:
  "as_list f (Inl e) = Inl e"
  "as_list f (Inr xs) = (case those (map f xs) of None \<Rightarrow> Inl decode_error | Some ys \<Rightarrow> Inr ys)"
  by (simp_all add: as_list_def)

lemmas to_typed_defs = to_agw_def to_orc8r_def to_secret_def to_configMap_def to_service_def to_pvc_def
  to_job_def to_deployment_def to_daemonSet_def to_pod_def to_node_def to_unstructured_def

lemma to_typed_Some [simp]:
  "to_agw x = Some a \<longleftrightarrow> x = OAGW a" "to_orc8r x = Some b \<longleftrightarrow> x = OOrc8r b"
  "to_secret x = Some c \<longleftrightarrow> x = OSecret c" "to_configMap x = Some d \<longleftrightarrow> x = OConfigMap d"
  "to_service x = Some e \<longleftrightarrow> x = OService e" "to_pvc x = Some f \<longleftrightarrow> x = OPVC f"
  "to_job x = Some g \<longleftrightarrow> x = OJob g" "to_deployment x = Some h \<longleftrightarrow> x = ODeployment h"
  "to_daemonSet x = Some i \<longleftrightarrow> x = ODaemonSet i" "to_pod x = Some j \<longleftrightarrow> x = OPod j"
  "to_node x = Some k \<longleftrightarrow> x = ONode k" "to_unstructured x = Some l \<longleftrightarrow> x = OUnstructured l"
  by (auto simp: to_typed_defs split: kobj.splits)

lemma to_typed_wrap [simp]:
  "to_agw (OAGW a) = Some a" "to_orc8r (OOrc8r b) = Some b" "to_secret (OSecret c) = Some c"
  "to_configMap (OConfigMap d) = Some d" "to_service (OService e) = Some e" "to_pvc (OPVC f) = Some f"
  "to_job (OJob g) = Some g" "to_deployment (ODeployment h) = Some h" "to_daemonSet (ODaemonSet i) = Some i"
  "to_pod (OPod j) = Some j" "to_node (ONode k) = Some k" "to_unstructured (OUnstructured l) = Some l"
  by simp_all

lemma those_map_wrap:
  assumes "\<And>x y. f x = Some y \<longleftrightarrow> x = g y"
  shows "those (map f xs) = Some ys \<longleftrightarrow> xs = map g ys"
proof (induction xs arbitrary: ys)
  case (Cons x xs)
  show ?case
  proof (cases "f x")
    case None
    with assms show ?thesis by (cases ys) (auto, metis option.distinct(1))
  next
    case (Some y)
    then have "x = g y" by (simp add: assms)
    moreover have "g y = g z \<longleftrightarrow> y = z" for z using assms by (metis option.inject)
    ultimately show ?thesis using Some by (cases ys) (auto simp: Cons.IH split: option.splits)
  qed
qed auto

lemma as_list_Inr:
  assumes "\<And>x y. f x = Some y \<longleftrightarrow> x = g y"
  shows "as_list f r = Inr ys \<longleftrightarrow> r = Inr (map g ys)"
  by (cases r) (auto simp: those_map_wrap [OF assms, symmetric] split: option.splits)

text \<open>Confinement: every event of a computation satisfies a predicate.\<close>

definition confined :: "('e \<Rightarrow> bool) \<Rightarrow> 'a \<Rightarrow> 'e list \<Rightarrow> bool" where
  "confined P r t \<longleftrightarrow> list_all P t"

lemma confined_simps [simp]:
  "confined P r []" "confined P r (e # t) \<longleftrightarrow> P e \<and> confined P r t"
  "confined P r (t @ u) \<longleftrightarrow> confined P r t \<and> confined P r u"
  by (simp_all add: confined_def)

lemma confined_each:
  "each_post (\<lambda>x. confined P) xs r t \<Longrightarrow> confined P r t"
  by (induction rule: each_post.induct) (auto simp: confined_def)

lemma spec_each_confined:
  assumes "\<And>x. x \<in> set xs \<Longrightarrow> spec (f x) (confined P)"
  shows "spec (each f xs) (confined P)"
  by (rule spec_weaken [OF spec_each [where R = "\<lambda>x. confined P"]]) (auto intro: assms confined_each)

end
