(* ===== verification/Reference_Env.thy ===== *)
theory Reference_Env
  imports Kube
begin

text \<open>
  A concrete environment: library functions as small list programs, and a client that
  answers reads from a table and accepts every write. It shows that the contracts of
  \<open>Kube\<close> can be met, and concrete runs of the model are evaluated in it.
\<close>

section \<open>Library functions\<close>

definition refAddFinalizer :: "string list \<Rightarrow> string \<Rightarrow> string list" where
  "refAddFinalizer fs f = (if f \<in> set fs then fs else fs @ [f])"

definition refSetStatusCondition :: "condition list \<Rightarrow> condition \<Rightarrow> condition list" where
  "refSetStatusCondition cs c =
     (if \<exists>d\<in>set cs. c_Type d = c_Type c then map (\<lambda>d. if c_Type d = c_Type c then c else d) cs else cs @ [c])"

definition refRemoveStatusCondition :: "condition list \<Rightarrow> string \<Rightarrow> condition list" where
  "refRemoveStatusCondition cs t = filter (\<lambda>c. c_Type c \<noteq> t) cs"

fun refRemoveNestedField :: "string list \<Rightarrow> yaml \<Rightarrow> yaml" where
  "refRemoveNestedField [k] (YMap m) = YMap (AList.delete k m)"
| "refRemoveNestedField (k # ks) (YMap m) =
     YMap (map (\<lambda>(j, y). (j, if j = k then refRemoveNestedField ks y else y)) m)"
| "refRemoveNestedField ks y = y"

fun refSetNestedStringMap :: "smap \<Rightarrow> string list \<Rightarrow> yaml \<Rightarrow> yaml" where
  "refSetNestedStringMap vs [] y = YMap (map (\<lambda>(k, v). (k, YStr v)) vs)"
| "refSetNestedStringMap vs (k # ks) (YMap m) =
     YMap (AList.update k (refSetNestedStringMap vs ks (case map_of m k of Some y \<Rightarrow> y | None \<Rightarrow> YMap [])) m)"
| "refSetNestedStringMap vs ks y = y"

definition refPemEncode :: "string \<Rightarrow> bytes \<Rightarrow> bytes" where
  "refPemEncode ty der = ''B'' @ der @ ''E''"

definition refPemDecode :: "bytes \<Rightarrow> bytes option" where
  "refPemDecode p = (if 2 \<le> length p \<and> hd p = CHR ''B'' \<and> last p = CHR ''E'' then Some (butlast (tl p)) else None)"

definition refMarshalKey :: "ecdsaKey \<Rightarrow> bytes" where
  "refMarshalKey k = replicate (ek_D k) (CHR ''d'') @ replicate (ek_X k) (CHR ''x'') @ replicate (ek_Y k) (CHR ''y'')"

definition refParseKey :: "bytes \<Rightarrow> error + ecdsaKey" where
  "refParseKey b = Inr \<lparr>ek_D = count_list b (CHR ''d''), ek_X = count_list b (CHR ''x''), ek_Y = count_list b (CHR ''y'')\<rparr>"

text \<open>The manifests are parameters: the documents of a manifest by its file name.\<close>

definition refLib :: "(string \<Rightarrow> unstructured list) \<Rightarrow> lib" where
  "refLib manifests = \<lparr>
     l_SetControllerReference = (\<lambda>own m. Inr (m\<lparr>m_OwnerReferences := [name_of own]\<rparr>)),
     l_ContainsFinalizer = (\<lambda>fs f. f \<in> set fs),
     l_AddFinalizer = refAddFinalizer,
     l_RemoveFinalizer = (\<lambda>fs f. filter (\<lambda>g. g \<noteq> f) fs),
     l_SetStatusCondition = refSetStatusCondition,
     l_RemoveStatusCondition = refRemoveStatusCondition,
     l_RemoveNestedField = (\<lambda>y path. refRemoveNestedField path y),
     l_SetNestedStringMap = (\<lambda>y vs path. refSetNestedStringMap vs path y),
     l_ReadManifest = (\<lambda>name. Inr name),
     l_YamlDecode = (\<lambda>text. map Inr (manifests text)),
     l_PemDecode = refPemDecode,
     l_PemEncode = refPemEncode,
     l_ParseECPrivateKey = refParseKey,
     l_ParsePKCS8PrivateKey = (\<lambda>_. Inl (Errorf ''pkcs8'')),
     l_MarshalECPrivateKey = (\<lambda>k. Inr (refMarshalKey k)),
     l_MarshalPKIXPublicKey = (\<lambda>k. Inr (replicate (ek_X k) (CHR ''x'') @ replicate (ek_Y k) (CHR ''y'')))\<rparr>"

section \<open>A client over a table\<close>

definition refError :: "reason \<Rightarrow> error" where
  "refError r = Error r ''answer''"

definition refHasLabels :: "smap \<Rightarrow> kobj \<Rightarrow> bool" where
  "refHasLabels sel x \<longleftrightarrow> list_all (\<lambda>(k, v). map_of (m_Labels (meta_of x)) k = Some v) sel"

definition refClient :: "kobj list \<Rightarrow> unit client" where
  "refClient objs = \<lparr>
     k_Get = (\<lambda>k ns n w. (case find (\<lambda>x. kind_of x = k \<and> namespace_of x = ns \<and> name_of x = n) objs of
        Some x \<Rightarrow> Inr x | None \<Rightarrow> Inl (refError NotFound), w)),
     k_List = (\<lambda>k ns sel w. (Inr (filter (\<lambda>x. kind_of x = k \<and> (ns = [] \<or> namespace_of x = ns) \<and> refHasLabels sel x) objs), w)),
     k_Create = (\<lambda>x w. (None, w)),
     k_Update = (\<lambda>x w. (None, w)),
     k_StatusUpdate = (\<lambda>x w. (None, w)),
     k_Patch = (\<lambda>x p w. (None, w)),
     k_Delete = (\<lambda>bg x w. (None, w)),
     k_CreateOrUpdate = (\<lambda>x f w. (f (case find (\<lambda>y. kind_of y = kind_of x \<and> namespace_of y = namespace_of x \<and>
        name_of y = name_of x) objs of Some y \<Rightarrow> y | None \<Rightarrow> x), w))\<rparr>"

definition refStart :: "unit ksys" where
  "refStart = \<lparr>world = (), trace = []\<rparr>"

section \<open>A sample gateway\<close>

definition demoMeta :: "string \<Rightarrow> objectMeta" where
  "demoMeta name = (newMeta ''magma'' name)\<lparr>m_Finalizers := [''magma.infra.don/magmaagw-finalizer''], m_Generation := 1\<rparr>"

definition demoSpec :: magmaAGWSpec where
  "demoSpec = \<lparr>as_ReleaseName = [], as_AccessGatewayID = ''agw1'', as_NetworkID = ''net1'', as_Orc8rNamespace = [],
     as_Orc8rReleaseName = [], as_NMSAPIHost = [], as_NMSAdminCertSecretName = [],
     as_Identity = \<lparr>id_SecretName = [], id_ImportSecretName = [], id_ImportSecretKey = [], id_HardwareID = [], id_RotationPolicy = []\<rparr>,
     as_GatewayRegistration = \<lparr>gr_Enabled = Some False, gr_DeleteOnRemoval = False, gr_Name = [], gr_Description = [], gr_Tier = []\<rparr>,
     as_DeletionPolicy = \<lparr>dp_DeletePVC = True, dp_DeleteIdentitySecret = False\<rparr>,
     as_AGWNodeSelector = [(''role'', ''agw'')], as_AGWNodeLabelSelector = [],
     as_EnableUERANSIM = True, as_UERANSIMStartPolicy = [], as_UERANSIMReadyConfigMap = [], as_UERANSIMNodeSelector = [],
     as_UERANSIMValidation = \<lparr>uv_Enabled = None, uv_Trigger = [], uv_UEDeploymentName = [], uv_PingHost = [], uv_IPerfServer = [],
       uv_IPerfPort = 0, uv_TimeoutSeconds = 0\<rparr>,
     as_S1Interface = ''eth1'', as_SGiInterface = ''eth0'',
     as_Datapath = \<lparr>dps_Enabled = None, dps_ReadyLabelKey = [], dps_ReadyLabelValue = [], dps_RequireMagmaOvsKmod = False,
       dps_OvsKmodUpgradePath = []\<rparr>,
     as_Values = []\<rparr>"

definition demoAGW :: magmaAGW where
  "demoAGW = \<lparr>agw_Meta = demoMeta ''agw'', agw_Spec = demoSpec,
     agw_Status = \<lparr>ast_ObservedGeneration = 0, ast_ReleaseName = [], ast_ReleaseNamespace = [], ast_IdentitySecretName = [],
       ast_HardwareID = [], ast_ChallengePublicKeyHash = [], ast_GatewayRegistered = False, ast_Orc8rServiceIP = [],
       ast_TrustBundleHash = [], ast_Conditions = []\<rparr>\<rparr>"

definition demoJob :: "string \<Rightarrow> kobj" where
  "demoJob name = OJob \<lparr>job_Meta = newMeta ''magma'' name, job_BackoffLimit = None, job_TTLSecondsAfterFinished = None,
     job_ActiveDeadlineSeconds = None, job_PodSpec = \<lparr>ps_ServiceAccountName = [], ps_RestartPolicy = [], ps_Containers = [],
       ps_Volumes = []\<rparr>, job_Succeeded = 1, job_Failed = 0\<rparr>"

text \<open>Events by kind, for the evaluation of runs.\<close>

definition is_create :: "event \<Rightarrow> bool" where
  "is_create e = (case e of EvCreate x q \<Rightarrow> True | _ \<Rightarrow> False)"

lemma is_create_iff: "is_create e \<longleftrightarrow> (\<exists>x q. e = EvCreate x q)"
  by (cases e) (simp_all add: is_create_def)

definition is_delete :: "event \<Rightarrow> bool" where
  "is_delete e = (case e of EvDelete bg x q \<Rightarrow> True | _ \<Rightarrow> False)"

lemma is_delete_iff: "is_delete e \<longleftrightarrow> (\<exists>bg x q. e = EvDelete bg x q)"
  by (cases e) (simp_all add: is_delete_def)

section \<open>The contracts hold\<close>

lemma refLib_simps [simp]:
  "l_SetControllerReference (refLib M) own m = Inr (m\<lparr>m_OwnerReferences := [name_of own]\<rparr>)"
  "l_ContainsFinalizer (refLib M) fs f \<longleftrightarrow> f \<in> set fs"
  "l_AddFinalizer (refLib M) = refAddFinalizer"
  "l_SetStatusCondition (refLib M) = refSetStatusCondition"
  "l_RemoveStatusCondition (refLib M) = refRemoveStatusCondition"
  by (simp_all add: refLib_def)

lemma refLib_finalizers: "finalizers_ok (refLib M)"
  by (auto simp: finalizers_ok_def refLib_def refAddFinalizer_def)

lemma refLib_owner: "owner_ok (refLib M)"
  by (auto simp: owner_ok_def)

lemma find_replace:
  "find (\<lambda>d. c_Type d = ty) (map (\<lambda>d. if c_Type d = c_Type c then c else d) cs) =
     (if ty = c_Type c then (if \<exists>d\<in>set cs. c_Type d = c_Type c then Some c else None)
      else find (\<lambda>d. c_Type d = ty) cs)"
  by (induction cs) auto

lemma find_append_one:
  "find P (xs @ [x]) = (case find P xs of Some y \<Rightarrow> Some y | None \<Rightarrow> if P x then Some x else None)"
  by (induction xs) auto

lemma find_filter_types:
  "find (\<lambda>d. c_Type d = ty) (filter (\<lambda>c. c_Type c \<noteq> t) cs) = (if ty = t then None else find (\<lambda>d. c_Type d = ty) cs)"
  by (induction cs) auto

lemma refLib_conditions: "conditions_ok (refLib M)"
proof -
  have "cond_of (refSetStatusCondition cs c) ty = (if ty = c_Type c then Some c else cond_of cs ty)" for cs c ty
  proof (cases "\<exists>d\<in>set cs. c_Type d = c_Type c")
    case True
    then show ?thesis by (simp add: cond_of_def refSetStatusCondition_def find_replace)
  next
    case False
    then have "find (\<lambda>d. c_Type d = c_Type c) cs = None" by (auto simp: find_None_iff)
    with False show ?thesis
      by (auto simp: cond_of_def refSetStatusCondition_def find_append_one split: option.split)
  qed
  then show ?thesis
    by (simp add: conditions_ok_def cond_of_def refRemoveStatusCondition_def find_filter_types)
qed

lemma refClient_createOrUpdate: "createOrUpdate_ok (refClient objs)"
  unfolding createOrUpdate_ok_def refClient_def
  by (auto simp: same_key_def find_Some_iff split: option.splits)

end
