(* ===== verification/Native_Values.thy ===== *)
theory Native_Values
  imports Reference_Env
begin

text \<open>
  The pure part of \<^verbatim>\<open>native_runner.go\<close> and the constants of \<^verbatim>\<open>constants.go\<close>: release values
  (flat maps of dotted keys), node selectors encoded into them, metadata normalisation and
  rendering of the embedded manifests. The lemmas show that selectors survive the encoding,
  that normalisation is idempotent and reports exactly whether it changed anything, and
  that rendering does not depend on the iteration order of the replacement map.
\<close>

section \<open>Constants\<close>

abbreviation labelAppComponent :: string where "labelAppComponent \<equiv> ''app.kubernetes.io/component''"
abbreviation labelAppInstance :: string where "labelAppInstance \<equiv> ''app.kubernetes.io/instance''"
abbreviation labelAppManagedBy :: string where "labelAppManagedBy \<equiv> ''app.kubernetes.io/managed-by''"
abbreviation labelAppName :: string where "labelAppName \<equiv> ''app.kubernetes.io/name''"
abbreviation managedByMagmaOperator :: string where "managedByMagmaOperator \<equiv> ''magma-operator''"
abbreviation magmaAGWAppName :: string where "magmaAGWAppName \<equiv> ''magma-agw-upstream''"
abbreviation agwNodePrepName :: string where "agwNodePrepName \<equiv> ''agw-node-prep''"
abbreviation magmalteDeploymentName :: string where "magmalteDeploymentName \<equiv> ''nms-magmalte''"
abbreviation shellExitOnErrorCommand :: string where "shellExitOnErrorCommand \<equiv> ''-ceu''"
abbreviation adminOperatorCertPath :: string where "adminOperatorCertPath \<equiv> ''/run/secrets/admin_operator.pem''"
abbreviation adminOperatorKeyPath :: string where "adminOperatorKeyPath \<equiv> ''/run/secrets/admin_operator.key.pem''"
abbreviation adminOperatorCertKey :: string where "adminOperatorCertKey \<equiv> ''admin_operator.pem''"
abbreviation adminOperatorKeyKey :: string where "adminOperatorKeyKey \<equiv> ''admin_operator.key.pem''"
abbreviation stringTrue :: string where "stringTrue \<equiv> ''true''"
abbreviation stringFalse :: string where "stringFalse \<equiv> ''false''"

abbreviation backslash :: char where "backslash \<equiv> CHR 0x5C"
abbreviation dot :: char where "dot \<equiv> CHR ''.''"

section \<open>Values\<close>

definition valueOrDefault :: "smap \<Rightarrow> string \<Rightarrow> string \<Rightarrow> string" where
  "valueOrDefault values key fallback = (if mget values key \<noteq> [] then mget values key else fallback)"

definition setValue :: "smap \<Rightarrow> string \<Rightarrow> string \<Rightarrow> smap" where
  "setValue values key value = (if value \<noteq> [] then mset_key key value values else values)"

definition mergeValues :: "smap \<Rightarrow> smap \<Rightarrow> smap" where
  "mergeValues values override = maps_Copy values override"

definition escapeValueKey :: "string \<Rightarrow> string" where
  "escapeValueKey key =
     newReplacer_Replace [([backslash], [backslash, backslash]), ([dot], [backslash, dot])] key"

definition setSelectorValues :: "smap \<Rightarrow> string \<Rightarrow> smap \<Rightarrow> smap" where
  "setSelectorValues values pre selector =
     fold (\<lambda>(key, value) vs. mset_key (pre @ ''.'' @ escapeValueKey key) value vs) selector values"

fun setListValues_from :: "nat \<Rightarrow> smap \<Rightarrow> string \<Rightarrow> string list \<Rightarrow> smap" where
  "setListValues_from i values pre [] = values"
| "setListValues_from i values pre (entry # entries) =
     setListValues_from (Suc i)
       (if entry \<noteq> [] then mset_key (pre @ ''['' @ nat_str i @ '']'') entry values else values)
       pre entries"

definition setListValues :: "smap \<Rightarrow> string \<Rightarrow> string list \<Rightarrow> smap" where
  "setListValues values pre entries = setListValues_from 0 values pre entries"

definition unescapeSelectorKey :: "string \<Rightarrow> string" where
  "unescapeSelectorKey k =
     replaceAll (replaceAll k [backslash, backslash, dot] [dot]) [backslash, dot] [dot]"

definition selectorValues :: "smap \<Rightarrow> string \<Rightarrow> smap" where
  "selectorValues values pre =
     fold (\<lambda>(key, value) selector.
             case cutPrefix key pre of
               None \<Rightarrow> selector
             | Some selectorKey \<Rightarrow> mset_key (unescapeSelectorKey selectorKey) value selector)
       values []"

definition selectorForObject :: "string \<Rightarrow> smap \<Rightarrow> smap" where
  "selectorForObject name values =
     (if contains name ''ueransim'' \<or> contains name ''iperf3'' then selectorValues values ''simulator.nodeSelector.''
      else if name = agwNodePrepName then selectorValues values ''nodePrep.nodeSelector.''
      else selectorValues values ''nodeSelector.'')"

definition nativeAGWApplyFilter :: "bool \<Rightarrow> unstructured \<Rightarrow> bool" where
  "nativeAGWApplyFilter enableUERANSIM object =
     (if enableUERANSIM then True
      else let name = m_Name (u_Meta object) in
           \<not> contains name ''ueransim'' \<and> \<not> contains name ''simulator'' \<and> \<not> contains name ''iperf3'')"

definition maxConditionMessage :: nat where
  "maxConditionMessage = 32000"

definition conditionMessage :: "string \<Rightarrow> string" where
  "conditionMessage message =
     (if length message \<le> maxConditionMessage then message
      else take maxConditionMessage message @ ''... truncated'')"

section \<open>Metadata\<close>

definition nativeObjectMetadata :: "smap \<Rightarrow> smap \<Rightarrow> smap \<times> smap \<times> bool" where
  "nativeObjectMetadata existingLabels existingAnnotations =
     (let (labels, changed) =
            (if mhas existingLabels ''helm.sh/chart'' then (mdel ''helm.sh/chart'' existingLabels, True)
             else (existingLabels, False));
          (labels, changed) =
            (if mget labels labelAppManagedBy \<noteq> managedByMagmaOperator
             then (mset_key labelAppManagedBy managedByMagmaOperator labels, True)
             else (labels, changed));
          (annotations, changed) =
            fold (\<lambda>key (anns, ch). if hasPrefix key ''helm.sh/'' then (mdel key anns, True) else (anns, ch))
              (map fst existingAnnotations) (existingAnnotations, changed)
      in (labels, annotations, changed))"

definition normalizeNativeObjectMetadata :: "unstructured \<Rightarrow> unstructured" where
  "normalizeNativeObjectMetadata object =
     (let (labels, annotations, _) =
            nativeObjectMetadata (m_Labels (u_Meta object)) (m_Annotations (u_Meta object))
      in object\<lparr>u_Meta := (u_Meta object)\<lparr>m_Labels := labels, m_Annotations := annotations\<rparr>\<rparr>)"

section \<open>Releases and rendering\<close>

record nativeRelease =
  rel_ReleaseName :: string
  rel_Namespace :: string
  rel_Manifest :: string
  rel_Values :: smap
  rel_ApplyFilter :: "(unstructured \<Rightarrow> bool) option"

definition renderDomainName :: "smap \<Rightarrow> string" where
  "renderDomainName values =
     valueOrDefault values ''global.domainName'' (valueOrDefault values ''config.domainName'' ''magma.local'')"

definition renderReplacements :: "nativeRelease \<Rightarrow> (string \<times> string) list" where
  "renderReplacements release =
     (let values = rel_Values release;
          domainName = renderDomainName values;
          controllerHostname =
            valueOrDefault values ''orc8r.nms.controllerHostname'' (''controller.'' @ domainName)
      in [(''agwrel'', rel_ReleaseName release),
          (''agwns'', rel_Namespace release),
          (''orc8rrel'', rel_ReleaseName release),
          (''orc8rns'', rel_Namespace release),
          (''domain-placeholder.local'', domainName),
          (''controller-placeholder.local'', controllerHostname),
          (''controller.magma.local'', ''controller.'' @ domainName),
          (''bootstrapper-controller.magma.local'', ''bootstrapper-controller.'' @ domainName),
          (''accessd-controller.magma.local'', ''accessd-controller.'' @ domainName),
          (''certifier-controller.magma.local'', ''certifier-controller.'' @ domainName),
          (''configurator-controller.magma.local'', ''configurator-controller.'' @ domainName),
          (''device-controller.magma.local'', ''device-controller.'' @ domainName),
          (''directoryd-controller.magma.local'', ''directoryd-controller.'' @ domainName),
          (''dispatcher-controller.magma.local'', ''dispatcher-controller.'' @ domainName),
          (''eventd-controller.magma.local'', ''eventd-controller.'' @ domainName),
          (''metricsd-controller.magma.local'', ''metricsd-controller.'' @ domainName),
          (''policydb-controller.magma.local'', ''policydb-controller.'' @ domainName),
          (''state-controller.magma.local'', ''state-controller.'' @ domainName),
          (''streamer-controller.magma.local'', ''streamer-controller.'' @ domainName),
          (''subscriberdb-controller.magma.local'', ''subscriberdb-controller.'' @ domainName),
          (''10.0.0.1'', valueOrDefault values ''orc8r.hostAliases.ip'' ''10.152.183.140''),
          (''gwchallengeplaceholder'', mget values ''config.gwChallenge''),
          (''hardwareplaceholder'', mget values ''gatewayIdentity.snowflake''),
          (''s1placeholder'', mget values ''nodePrep.interfaces.s1.parent''),
          (''sgiplaceholder'', mget values ''nodePrep.interfaces.nat.parent''),
          (''orgplaceholder'', valueOrDefault values ''nmsAdmin.organization'' ''magma-test''),
          (''emailplaceholder'', valueOrDefault values ''nmsAdmin.email'' ''admin''),
          (''passwordplaceholder'', valueOrDefault values ''nmsAdmin.password'' ''admin''),
          (''networkidplaceholder'', valueOrDefault values ''provisioning.network.id'' ''mpk_test''),
          (''networknameplaceholder'', valueOrDefault values ''provisioning.network.name'' ''mpk_test''),
          (''imsiplaceholder'', valueOrDefault values ''provisioning.subscriber.imsi'' ''IMSI001010000000001'')])"

definition renderNativeManifest :: "string \<Rightarrow> nativeRelease \<Rightarrow> string" where
  "renderNativeManifest manifest release = newReplacer_Replace (renderReplacements release) manifest"

definition setPodSpecNodeSelector :: "lib \<Rightarrow> unstructured \<Rightarrow> smap \<Rightarrow> string list \<Rightarrow> unstructured" where
  "setPodSpecNodeSelector L object selector path =
     object\<lparr>u_Object := l_SetNestedStringMap L
              (l_RemoveNestedField L (u_Object object) (path @ [''nodeSelector'']))
              selector (path @ [''nodeSelector''])\<rparr>"

definition applyNodeSelectors :: "lib \<Rightarrow> unstructured \<Rightarrow> smap \<Rightarrow> unstructured" where
  "applyNodeSelectors L object values =
     (let selector = selectorForObject (m_Name (u_Meta object)) values in
      if selector = [] then object
      else if u_Kind object = ''Deployment'' \<or> u_Kind object = ''DaemonSet'' \<or> u_Kind object = ''StatefulSet''
        then setPodSpecNodeSelector L object selector [''spec'', ''template'', ''spec'']
      else if u_Kind object = ''Job''
        then setPodSpecNodeSelector L object selector [''spec'', ''template'', ''spec'']
      else if u_Kind object = ''CronJob''
        then setPodSpecNodeSelector L object selector [''spec'', ''jobTemplate'', ''spec'', ''template'', ''spec'']
      else if u_Kind object = ''Pod''
        then setPodSpecNodeSelector L object selector [''spec'']
      else object)"

section \<open>Release values: lookups\<close>

lemma mget_setValue: "mget (setValue values k v) k' = (if k' = k \<and> v \<noteq> [] then v else mget values k')"
  by (simp add: setValue_def)

lemma valueOrDefault_nonempty: "fallback \<noteq> [] \<Longrightarrow> valueOrDefault values k fallback \<noteq> []"
  by (simp add: valueOrDefault_def)

lemma mget_mergeValues:
  "wf_map override \<Longrightarrow> mget (mergeValues values override) k = (if mhas override k then mget override k else mget values k)"
  by (auto simp: mget_def mhas_def mergeValues_def map_of_maps_Copy map_of_rev_wf map_add_def split: option.splits)

lemma conditionMessage_bound: "length (conditionMessage m) \<le> maxConditionMessage + 13"
  by (simp add: conditionMessage_def)

lemma conditionMessage_prefix: "prefix (take maxConditionMessage m) (conditionMessage m)"
  by (auto simp: conditionMessage_def)

section \<open>Selectors in values\<close>

lemma escapeValueKey_simps:
  "escapeValueKey [] = []"
  "escapeValueKey (c # s) =
     (if c = backslash then [backslash, backslash]
      else if c = dot then [backslash, dot] else [c]) @ escapeValueKey s"
  by (auto simp: escapeValueKey_def newReplacer_Replace_def match_at_def)

lemma escape_no_double:
  "backslash \<notin> set k \<Longrightarrow> replaceAll (escapeValueKey k) [backslash, backslash, dot] [dot] = escapeValueKey k"
  by (induction k) (auto simp: escapeValueKey_simps replaceAll_def match_at_def)

lemma unescape_single:
  "backslash \<notin> set k \<Longrightarrow> replaceAll (escapeValueKey k) [backslash, dot] [dot] = k"
  by (induction k) (auto simp: escapeValueKey_simps replaceAll_def match_at_def)

lemma unescape_escape: "backslash \<notin> set k \<Longrightarrow> unescapeSelectorKey (escapeValueKey k) = k"
  by (simp add: unescapeSelectorKey_def escape_no_double unescape_single)

lemma escapeValueKey_inj:
  "escapeValueKey a = escapeValueKey b \<Longrightarrow> a = b"
proof (induction a arbitrary: b)
  case Nil
  then show ?case by (cases b) (auto simp: escapeValueKey_simps split: if_splits)
next
  case (Cons c a)
  then show ?case by (cases b) (auto simp: escapeValueKey_simps split: if_splits)
qed

text \<open>The entries of a selector as \<^verbatim>\<open>setSelectorValues\<close> writes them.\<close>

definition encoded :: "string \<Rightarrow> smap \<Rightarrow> smap" where
  "encoded pre sel = map (\<lambda>(k, v). (pre @ ''.'' @ escapeValueKey k, v)) sel"

lemma setSelectorValues_eq: "setSelectorValues values pre sel = maps_Copy values (encoded pre sel)"
  by (simp add: setSelectorValues_def maps_Copy_def encoded_def fold_map split_def comp_def)

lemma wf_encoded: "wf_map sel \<Longrightarrow> wf_map (encoded pre sel)"
  by (auto simp: wf_map_def encoded_def case_prod_beta distinct_map inj_on_def dest: escapeValueKey_inj)

lemma map_of_encoded:
  "map_of (encoded pre sel) (pre @ ''.'' @ escapeValueKey k) = map_of sel k"
  by (induction sel) (auto simp: encoded_def dest: escapeValueKey_inj)

lemma map_of_encoded_iff:
  "map_of (encoded pre sel) (pre @ ''.'' @ s) = Some v \<longleftrightarrow>
     (\<exists>k. s = escapeValueKey k \<and> map_of sel k = Some v)"
proof
  assume a: "map_of (encoded pre sel) (pre @ ''.'' @ s) = Some v"
  then obtain k where k: "s = escapeValueKey k"
    by (auto simp: encoded_def dest!: map_of_SomeD)
  from a have "map_of sel k = Some v" unfolding k map_of_encoded .
  with k show "\<exists>k. s = escapeValueKey k \<and> map_of sel k = Some v" by blast
next
  assume "\<exists>k. s = escapeValueKey k \<and> map_of sel k = Some v"
  then show "map_of (encoded pre sel) (pre @ ''.'' @ s) = Some v"
    using map_of_encoded by metis
qed

lemma encoded_keys: "k \<in> fst ` set (encoded pre sel) \<Longrightarrow> prefix (pre @ ''.'') k"
  by (auto simp: encoded_def)

text \<open>The entries \<^verbatim>\<open>selectorValues\<close> reads back, and when their keys stay apart.\<close>

definition decoded :: "smap \<Rightarrow> string \<Rightarrow> smap" where
  "decoded values pre =
     List.map_filter (\<lambda>(k, v). map_option (\<lambda>s. (unescapeSelectorKey s, v)) (cutPrefix k pre)) values"

lemma decoded_simps [simp]:
  "decoded [] pre = []"
  "decoded ((k, v) # values) pre =
     (case cutPrefix k pre of None \<Rightarrow> decoded values pre
      | Some s \<Rightarrow> (unescapeSelectorKey s, v) # decoded values pre)"
  by (simp_all add: decoded_def map_filter_simps split: option.splits)

lemma selectorValues_eq: "selectorValues values pre = maps_Copy [] (decoded values pre)"
proof -
  have "fold (\<lambda>(key, value) selector. case cutPrefix key pre of None \<Rightarrow> selector
            | Some k \<Rightarrow> mset_key (unescapeSelectorKey k) value selector) values acc =
        maps_Copy acc (decoded values pre)" for acc
    by (induction "values" arbitrary: acc) (auto simp: maps_Copy_def split: option.splits)
  then show ?thesis by (simp add: selectorValues_def)
qed

lemma decoded_set: "(k, v) \<in> set (decoded values pre) \<longleftrightarrow>
    (\<exists>s. (pre @ s, v) \<in> set values \<and> unescapeSelectorKey s = k)"
  by (induction "values") (auto split: option.splits simp: cutPrefix_Some cutPrefix_None)

definition keys_apart :: "smap \<Rightarrow> string \<Rightarrow> bool" where
  "keys_apart values pre \<longleftrightarrow>
     inj_on unescapeSelectorKey {s. pre @ s \<in> fst ` set values}"

lemma keys_apart_Cons: "keys_apart (kv # values) pre \<Longrightarrow> keys_apart values pre"
  unfolding keys_apart_def by (rule inj_on_subset) auto

lemma wf_decoded: "wf_map values \<Longrightarrow> keys_apart values pre \<Longrightarrow> wf_map (decoded values pre)"
proof (induction "values")
  case (Cons kv vs)
  obtain k v where kv: "kv = (k, v)" by (cases kv)
  from Cons.prems have wf: "wf_map vs" and k: "k \<notin> fst ` set vs"
    by (auto simp: kv wf_map_def)
  from Cons.IH [OF wf keys_apart_Cons [OF Cons.prems(2)]] have IH: "wf_map (decoded vs pre)" .
  show ?case
  proof (cases "cutPrefix k pre")
    case None
    with IH kv show ?thesis by simp
  next
    case (Some s)
    have "unescapeSelectorKey s \<notin> fst ` set (decoded vs pre)"
    proof
      assume "unescapeSelectorKey s \<in> fst ` set (decoded vs pre)"
      then obtain v' where "(unescapeSelectorKey s, v') \<in> set (decoded vs pre)" by force
      then obtain s' where s': "(pre @ s', v') \<in> set vs" "unescapeSelectorKey s' = unescapeSelectorKey s"
        by (auto simp: decoded_set)
      from Some have ks: "k = pre @ s" by (simp add: cutPrefix_Some)
      have "s' = s"
        using Cons.prems(2) unfolding keys_apart_def
        by (rule inj_onD) (use s' in \<open>auto simp: kv ks intro: rev_image_eqI\<close>)
      with s'(1) k ks show False by (auto intro: rev_image_eqI)
    qed
    with IH Some kv show ?thesis by (simp add: wf_map_def)
  qed
qed (simp add: wf_map_def)

lemma map_of_selectorValues:
  assumes "wf_map values" and "keys_apart values pre"
  shows "map_of (selectorValues values pre) k = Some v \<longleftrightarrow>
    (\<exists>s. unescapeSelectorKey s = k \<and> map_of values (pre @ s) = Some v)"
proof -
  have "map_of (selectorValues values pre) = map_of (decoded values pre)"
    by (simp add: selectorValues_eq map_of_maps_Copy map_of_rev_wf wf_decoded assms)
  moreover have "map_of (decoded values pre) k = Some v \<longleftrightarrow> (k, v) \<in> set (decoded values pre)"
    using wf_decoded [OF assms] by (auto simp: wf_map_def)
  ultimately show ?thesis
    using assms(1) by (auto simp: decoded_set wf_map_def)
qed

text \<open>C34: node selectors survive the flat value map. Selector entries written under a prefix by
  \<^verbatim>\<open>setSelectorValues\<close> (keys escaped) and read back by \<^verbatim>\<open>selectorValues\<close> (keys unescaped) give the
  same selector, for keys without backslashes and a prefix no other value uses.\<close>

theorem selector_roundtrip:
  assumes sel: "wf_map sel" and vals: "wf_map values"
    and clean: "\<forall>k\<in>fst ` set sel. backslash \<notin> set k"
    and fresh: "\<forall>k\<in>fst ` set values. \<not> prefix (pre @ ''.'') k"
  shows "map_of (selectorValues (setSelectorValues values pre sel) (pre @ ''.'')) = map_of sel"
proof -
  let ?V = "setSelectorValues values pre sel"
  have mo: "map_of ?V = map_of values ++ map_of (encoded pre sel)"
    by (simp add: setSelectorValues_eq map_of_maps_Copy map_of_rev_wf wf_encoded sel)
  have wf: "wf_map ?V"
    by (simp add: setSelectorValues_eq wf_maps_Copy vals)
  have V: "map_of ?V (pre @ ''.'' @ s) = Some v \<longleftrightarrow>
      (\<exists>k. s = escapeValueKey k \<and> map_of sel k = Some v)" for s v
  proof -
    have "map_of values (pre @ ''.'' @ s) = None"
      using fresh by (force simp: map_of_eq_None_iff prefix_def)
    then have "map_of ?V (pre @ ''.'' @ s) = Some v \<longleftrightarrow> map_of (encoded pre sel) (pre @ ''.'' @ s) = Some v"
      by (auto simp: mo map_add_def split: option.splits)
    also have "\<dots> \<longleftrightarrow> (\<exists>k. s = escapeValueKey k \<and> map_of sel k = Some v)"
      by (rule map_of_encoded_iff)
    finally show ?thesis .
  qed
  have keys: "pre @ ''.'' @ s \<in> fst ` set ?V \<longleftrightarrow> (\<exists>k. s = escapeValueKey k \<and> k \<in> fst ` set sel)" for s
    using V [of s] by (simp add: map_of_eq_None_iff [symmetric] not_None_eq dom_map_of_conv_image_fst [symmetric] dom_def) blast
  have "keys_apart ?V (pre @ ''.'')"
    unfolding keys_apart_def
  proof (rule inj_onI)
    fix x y
    assume xy: "x \<in> {s. (pre @ ''.'') @ s \<in> fst ` set ?V}" "y \<in> {s. (pre @ ''.'') @ s \<in> fst ` set ?V}"
      and eq: "unescapeSelectorKey x = unescapeSelectorKey y"
    from xy obtain a b where "x = escapeValueKey a" "a \<in> fst ` set sel" "y = escapeValueKey b" "b \<in> fst ` set sel"
      unfolding mem_Collect_eq append_assoc keys by blast
    with clean eq show "x = y" by (metis unescape_escape)
  qed
  from map_of_selectorValues [OF wf this] V have
    iff: "map_of (selectorValues ?V (pre @ ''.'')) k = Some v \<longleftrightarrow> map_of sel k = Some v" for k v
    using clean by (auto simp: unescape_escape dest: map_of_SomeD) (metis fst_conv image_eqI map_of_SomeD unescape_escape)+
  show ?thesis
    by (rule ext) (metis iff not_Some_eq)
qed

section \<open>Metadata normalisation\<close>

abbreviation helm_key :: "string \<Rightarrow> bool" where
  "helm_key k \<equiv> hasPrefix k ''helm.sh/''"

lemma helm_fold:
  "fold (\<lambda>key (anns, ch). if helm_key key then (mdel key anns, True) else (anns, ch)) ks (as, c) =
     (filter (\<lambda>(k, v). \<not> (helm_key k \<and> k \<in> set ks)) as, c \<or> (\<exists>k\<in>set ks. helm_key k))"
proof (induction ks arbitrary: as c)
  case (Cons x ks)
  show ?case
    by (auto simp: Cons.IH AList.delete_eq intro!: filter_cong)
qed (simp add: case_prod_beta)

lemma helm_fold_keys:
  "fold (\<lambda>key (anns, ch). if helm_key key then (mdel key anns, True) else (anns, ch)) (map fst as) (as, c) =
     (filter (\<lambda>(k, v). \<not> helm_key k) as, c \<or> (\<exists>k\<in>fst ` set as. helm_key k))"
  by (auto simp: helm_fold intro!: filter_cong intro: rev_image_eqI)

lemma nativeObjectMetadata_eq:
  "nativeObjectMetadata ls as =
     (let ls1 = (if mhas ls ''helm.sh/chart'' then mdel ''helm.sh/chart'' ls else ls);
          ls2 = (if mget ls labelAppManagedBy \<noteq> managedByMagmaOperator
                 then mset_key labelAppManagedBy managedByMagmaOperator ls1 else ls1)
      in (ls2, filter (\<lambda>(k, v). \<not> helm_key k) as,
          mhas ls ''helm.sh/chart'' \<or> mget ls labelAppManagedBy \<noteq> managedByMagmaOperator \<or>
          (\<exists>k\<in>fst ` set as. helm_key k)))"
  by (simp add: nativeObjectMetadata_def helm_fold_keys)

lemma map_of_filter_key: "map_of (filter (\<lambda>(k, v). P k) as) k = (if P k then map_of as k else None)"
  by (induction as) auto

lemma nativeObjectMetadata_labels:
  "map_of (fst (nativeObjectMetadata ls as)) =
     (map_of ls)(''helm.sh/chart'' := None, labelAppManagedBy \<mapsto> managedByMagmaOperator)"
proof -
  have "map_of ls labelAppManagedBy = Some managedByMagmaOperator"
    if "mget ls labelAppManagedBy = managedByMagmaOperator"
    using that by (auto simp: mget_def split: option.splits)
  moreover have "map_of ls ''helm.sh/chart'' = None" if "\<not> mhas ls ''helm.sh/chart''"
    using that by (simp add: mhas_def)
  ultimately show ?thesis
    by (auto simp: nativeObjectMetadata_eq Let_def fun_eq_iff update_conv' delete_conv')
qed

lemma nativeObjectMetadata_annotations:
  "map_of (fst (snd (nativeObjectMetadata ls as))) k = (if helm_key k then None else map_of as k)"
  by (simp add: nativeObjectMetadata_eq Let_def map_of_filter_key)

lemma nativeObjectMetadata_changed:
  "snd (snd (nativeObjectMetadata ls as)) \<longleftrightarrow>
     map_of (fst (nativeObjectMetadata ls as)) \<noteq> map_of ls \<or>
     map_of (fst (snd (nativeObjectMetadata ls as))) \<noteq> map_of as"
proof -
  have lab: "(map_of ls)(''helm.sh/chart'' := None, labelAppManagedBy \<mapsto> managedByMagmaOperator) = map_of ls \<longleftrightarrow>
      \<not> mhas ls ''helm.sh/chart'' \<and> mget ls labelAppManagedBy = managedByMagmaOperator"
  proof
    assume a: "(map_of ls)(''helm.sh/chart'' := None, labelAppManagedBy \<mapsto> managedByMagmaOperator) = map_of ls"
    from fun_cong [OF a, of "''helm.sh/chart''", symmetric] fun_cong [OF a, of labelAppManagedBy, symmetric]
    show "\<not> mhas ls ''helm.sh/chart'' \<and> mget ls labelAppManagedBy = managedByMagmaOperator"
      by (simp add: mhas_def mget_def)
  qed (auto simp: mhas_def mget_def fun_eq_iff split: option.splits)
  have ann: "(\<lambda>k. if helm_key k then None else map_of as k) = map_of as \<longleftrightarrow> \<not> (\<exists>k\<in>fst ` set as. helm_key k)"
  proof (cases "\<exists>k\<in>fst ` set as. helm_key k")
    case True
    then obtain k where k: "helm_key k" "map_of as k \<noteq> None"
      by (auto simp: map_of_eq_None_iff intro: rev_image_eqI)
    have "(\<lambda>k. if helm_key k then None else map_of as k) \<noteq> map_of as"
    proof
      assume "(\<lambda>k. if helm_key k then None else map_of as k) = map_of as"
      from fun_cong [OF this, of k] k show False by auto
    qed
    with True show ?thesis by blast
  next
    case False
    then have "map_of as k = None" if "helm_key k" for k
      using that by (auto simp: map_of_eq_None_iff)
    then show ?thesis using False by (simp add: fun_eq_iff)
  qed
  have "map_of (fst (snd (nativeObjectMetadata ls as))) = (\<lambda>k. if helm_key k then None else map_of as k)"
    by (rule ext) (rule nativeObjectMetadata_annotations)
  then show ?thesis
    by (simp only: nativeObjectMetadata_labels lab ann) (simp add: nativeObjectMetadata_eq Let_def)
qed

lemma nativeObjectMetadata_idem:
  "nativeObjectMetadata ls as = (ls', as', ch) \<Longrightarrow> nativeObjectMetadata ls' as' = (ls', as', False)"
  by (auto simp: nativeObjectMetadata_eq Let_def hasPrefix_def split: if_splits)

section \<open>Rendering\<close>

definition renderKeys :: "string list" where
  "renderKeys = [
     ''agwrel'',
     ''agwns'',
     ''orc8rrel'',
     ''orc8rns'',
     ''domain-placeholder.local'',
     ''controller-placeholder.local'',
     ''controller.magma.local'',
     ''bootstrapper-controller.magma.local'',
     ''accessd-controller.magma.local'',
     ''certifier-controller.magma.local'',
     ''configurator-controller.magma.local'',
     ''device-controller.magma.local'',
     ''directoryd-controller.magma.local'',
     ''dispatcher-controller.magma.local'',
     ''eventd-controller.magma.local'',
     ''metricsd-controller.magma.local'',
     ''policydb-controller.magma.local'',
     ''state-controller.magma.local'',
     ''streamer-controller.magma.local'',
     ''subscriberdb-controller.magma.local'',
     ''10.0.0.1'',
     ''gwchallengeplaceholder'',
     ''hardwareplaceholder'',
     ''s1placeholder'',
     ''sgiplaceholder'',
     ''orgplaceholder'',
     ''emailplaceholder'',
     ''passwordplaceholder'',
     ''networkidplaceholder'',
     ''networknameplaceholder'',
     ''imsiplaceholder'']"

definition prefix_free_exec :: "string list \<Rightarrow> bool" where
  "prefix_free_exec ks \<longleftrightarrow> list_all (\<lambda>a. list_all (\<lambda>b. prefix a b \<longrightarrow> a = b) ks) ks"

lemma prefix_free_exec: "prefix_free_exec ks \<longleftrightarrow> prefix_free ks"
  by (simp add: prefix_free_exec_def prefix_free_def list_all_iff)

lemma renderReplacements_keys: "map fst (renderReplacements release) = renderKeys"
  by (simp add: renderReplacements_def renderKeys_def Let_def)

lemma renderKeys_prefix_free: "prefix_free renderKeys"
proof -
  have "prefix_free_exec renderKeys" by code_simp
  then show ?thesis by (simp add: prefix_free_exec)
qed

lemma renderKeys_distinct: "distinct renderKeys"
  by code_simp

lemma renderReplacements_wf: "wf_map (renderReplacements release)"
  by (simp add: wf_map_def renderReplacements_keys renderKeys_distinct)

text \<open>C33: rendering does not depend on the order of the replacement table: any arrangement of the
  same pairs renders every manifest to the same text, since no placeholder is a prefix of
  another.\<close>

theorem render_order_irrelevant:
  assumes "wf_map table" and "set table = set (renderReplacements release)"
  shows "newReplacer_Replace table manifest = renderNativeManifest manifest release"
  unfolding renderNativeManifest_def
  by (rule newReplacer_order_irrelevant)
    (use assms in \<open>simp_all add: renderReplacements_keys renderKeys_prefix_free renderReplacements_wf\<close>)

text \<open>The only values that reach a rendered manifest.\<close>

definition renderedValueKeys :: "string list" where
  "renderedValueKeys =
     [''global.domainName'', ''config.domainName'', ''orc8r.nms.controllerHostname'', ''orc8r.hostAliases.ip'',
      ''config.gwChallenge'', ''gatewayIdentity.snowflake'', ''nodePrep.interfaces.s1.parent'',
      ''nodePrep.interfaces.nat.parent'', ''nmsAdmin.organization'', ''nmsAdmin.email'', ''nmsAdmin.password'',
      ''provisioning.network.id'', ''provisioning.network.name'', ''provisioning.subscriber.imsi'']"

text \<open>Rendering reads nothing but the release name, the namespace and fourteen values: two
  releases that agree on these render every manifest to the same text.\<close>

lemma render_depends:
  assumes "rel_ReleaseName r = rel_ReleaseName r'" and "rel_Namespace r = rel_Namespace r'"
    and "\<forall>k\<in>set renderedValueKeys. mget (rel_Values r) k = mget (rel_Values r') k"
  shows "renderNativeManifest manifest r = renderNativeManifest manifest r'"
proof -
  have v: "valueOrDefault (rel_Values r) k d = valueOrDefault (rel_Values r') k d" if "k \<in> set renderedValueKeys" for k d
    using assms(3) that by (simp add: valueOrDefault_def)
  from assms(3) have "renderReplacements r = renderReplacements r'"
    by (simp add: renderReplacements_def renderDomainName_def Let_def assms(1,2) v [unfolded renderedValueKeys_def]
        renderedValueKeys_def)
  then show ?thesis by (simp add: renderNativeManifest_def)
qed

section \<open>Further properties and witnesses\<close>

text \<open>C32: normalised metadata is exactly what the operator wants to see: the label of the manager
  set, the Helm chart label and every Helm annotation gone, all other entries kept; the
  change flag says precisely whether labels or annotations differ, and a second
  normalisation changes nothing.\<close>

theorem native_metadata_normalised:
  "case nativeObjectMetadata ls as of (ls', as', changed) \<Rightarrow>
     map_of ls' = (map_of ls)(''helm.sh/chart'' := None, labelAppManagedBy \<mapsto> managedByMagmaOperator) \<and>
     map_of as' = (\<lambda>k. if helm_key k then None else map_of as k) \<and>
     (changed \<longleftrightarrow> map_of ls' \<noteq> map_of ls \<or> map_of as' \<noteq> map_of as) \<and>
     nativeObjectMetadata ls' as' = (ls', as', False)"
  using nativeObjectMetadata_labels [of ls as] nativeObjectMetadata_annotations [of ls as]
    nativeObjectMetadata_changed [of ls as] nativeObjectMetadata_idem [of ls as]
  by (cases "nativeObjectMetadata ls as") (auto simp: fun_eq_iff)

text \<open>A condition message fits the 32768 characters a status condition may have, and starts
  with the first 32000 characters of the original.\<close>

lemma condition_message_fits:
  "length (conditionMessage m) \<le> 32768 \<and> prefix (take 32000 m) (conditionMessage m)"
  using conditionMessage_bound [of m] conditionMessage_prefix [of m] by (simp add: maxConditionMessage_def)

definition demoRelease :: "smap \<Rightarrow> nativeRelease" where
  "demoRelease vs = \<lparr>rel_ReleaseName = ''agw'', rel_Namespace = ''magma'', rel_Manifest = ''agw.yaml'',
     rel_Values = vs, rel_ApplyFilter = None\<rparr>"

lemma native_metadata_normalised_witness:
  "\<exists>ls as. nativeObjectMetadata [(''helm.sh/chart'', ''nms-1'')] [(''helm.sh/hook'', ''pre-install'')] = (ls, as, True) \<and>
     map_of ls = [labelAppManagedBy \<mapsto> managedByMagmaOperator] \<and> map_of as = Map.empty"
proof -
  obtain ls as changed where n: "nativeObjectMetadata [(''helm.sh/chart'', ''nms-1'')] [(''helm.sh/hook'', ''pre-install'')] = (ls, as, changed)"
    by (metis prod.exhaust)
  have helm: "helm_key ''helm.sh/hook''" by code_simp
  from native_metadata_normalised [of "[(''helm.sh/chart'', ''nms-1'')]" "[(''helm.sh/hook'', ''pre-install'')]"]
  have "map_of ls = [labelAppManagedBy \<mapsto> managedByMagmaOperator]" "map_of as = Map.empty"
    and "changed \<longleftrightarrow> map_of ls \<noteq> [''helm.sh/chart'' \<mapsto> ''nms-1''] \<or> map_of as \<noteq> [''helm.sh/hook'' \<mapsto> ''pre-install'']"
    by (simp_all add: n fun_eq_iff helm)
  then have "map_of ls = [labelAppManagedBy \<mapsto> managedByMagmaOperator] \<and> map_of as = Map.empty \<and> changed" by (simp add: fun_eq_iff)
  with n show ?thesis by (intro exI [of _ ls] exI [of _ as]) simp
qed

lemma selector_roundtrip_witness:
  "map_of (selectorValues (setSelectorValues [(''namespace'', ''magma'')] ''nodeSelector'' [(''kubernetes.io/hostname'', ''n1'')])
     (''nodeSelector'' @ ''.'')) = map_of [(''kubernetes.io/hostname'', ''n1'')]"
  by (rule selector_roundtrip) (simp_all add: wf_map_def)

lemma render_order_irrelevant_witness:
  "newReplacer_Replace (rev (renderReplacements (demoRelease []))) ''name: agwrel-agwns'' =
     renderNativeManifest ''name: agwrel-agwns'' (demoRelease [])"
  by (rule render_order_irrelevant)
    (use renderReplacements_wf [of "demoRelease []"] in \<open>simp_all add: wf_map_def rev_map [symmetric]\<close>)

lemma render_depends_witness:
  "renderNativeManifest ''multus: s1placeholder'' (demoRelease [(''simulator.multus.enabled'', ''true'')]) =
     renderNativeManifest ''multus: s1placeholder'' (demoRelease [])"
  by (rule render_depends) (simp_all add: demoRelease_def renderedValueKeys_def)

end
