(* ===== verification/Native_Runner.thy ===== *)
theory Native_Runner
  imports Native_Values
begin

text \<open>
  The effectful part of \<^verbatim>\<open>native_runner.go\<close>: reading a release's objects from its manifest,
  applying them (\<^verbatim>\<open>reconcileNativeRelease\<close>) and deleting them (\<^verbatim>\<open>deleteNativeRelease\<close>). The
  triples hold for every client: which calls are made on which objects, what a success
  means for every object, and that a Secret that exists is never applied over.
\<close>

section \<open>Objects of a release\<close>

definition prepareNativeObject :: "lib \<Rightarrow> nativeRelease \<Rightarrow> unstructured \<Rightarrow> unstructured" where
  "prepareNativeObject L release object =
     (let object =
            (if m_Namespace (u_Meta object) = [] \<and> u_Kind object \<noteq> ''Namespace''
             then object\<lparr>u_Meta := (u_Meta object)\<lparr>m_Namespace := rel_Namespace release\<rparr>\<rparr>
             else object)
      in applyNodeSelectors L (normalizeNativeObjectMetadata object) (rel_Values release))"

fun decodeNativeObjects :: "lib \<Rightarrow> nativeRelease \<Rightarrow> (error + unstructured) list \<Rightarrow> error + unstructured list" where
  "decodeNativeObjects L release [] = Inr []"
| "decodeNativeObjects L release (Inl e # docs) = Inl e"
| "decodeNativeObjects L release (Inr object # docs) =
     (if u_Kind object = [] \<or> m_Name (u_Meta object) = [] then decodeNativeObjects L release docs
      else case decodeNativeObjects L release docs of
             Inl e \<Rightarrow> Inl e
           | Inr objects \<Rightarrow> Inr (prepareNativeObject L release object # objects))"

definition nativeReleaseObjects :: "lib \<Rightarrow> nativeRelease \<Rightarrow> error + unstructured list" where
  "nativeReleaseObjects L release =
     (case l_ReadManifest L (''native_manifests/'' @ rel_Manifest release) of
        Inl e \<Rightarrow> Inl e
      | Inr raw \<Rightarrow> decodeNativeObjects L release (l_YamlDecode L (renderNativeManifest raw release)))"

section \<open>Operations\<close>

definition unstructuredGet :: "'w client \<Rightarrow> unstructured \<Rightarrow> ('w, error + unstructured) kio" where
  "unstructuredGet K object =
     getAs to_unstructured (KUnstructured (u_APIVersion object) (u_Kind object)) K
       (m_Namespace (u_Meta object)) (m_Name (u_Meta object))"

definition deleteNativeObject :: "'w client \<Rightarrow> unstructured \<Rightarrow> ('w, error option) kio" where
  "deleteNativeObject K object = deleteIgnoringNotFound K True (OUnstructured object)"

definition cleanupNativeObjectMetadata :: "'w client \<Rightarrow> unstructured \<Rightarrow> ('w, error option) kio" where
  "cleanupNativeObjectMetadata K object = do {
     r \<leftarrow> unstructuredGet K object;
     case r of
       Inl e \<Rightarrow> return (Some e)
     | Inr current \<Rightarrow>
         (let (labels, annotations, changed) =
                nativeObjectMetadata (m_Labels (u_Meta current)) (m_Annotations (u_Meta current))
          in if \<not> changed then return None
             else kUpdate K (OUnstructured
               (current\<lparr>u_Meta := (u_Meta current)\<lparr>m_Labels := labels, m_Annotations := annotations\<rparr>\<rparr>)))
   }"

definition preserveExistingNativeSecret ::
    "'w client \<Rightarrow> lib \<Rightarrow> kobj \<Rightarrow> unstructured \<Rightarrow> ('w, bool \<times> error option) kio" where
  "preserveExistingNativeSecret K L owner object = do {
     r \<leftarrow> unstructuredGet K object;
     case r of
       Inl e \<Rightarrow> return (if IsNotFound e then (False, None) else (False, Some e))
     | Inr current \<Rightarrow>
         (case l_SetControllerReference L owner (u_Meta current) of
            Inl e \<Rightarrow> return (False, Some e)
          | Inr m \<Rightarrow>
              (let (labels, annotations, _) = nativeObjectMetadata (m_Labels m) (m_Annotations m)
               in do {
                 u \<leftarrow> kUpdate K (OUnstructured
                   (current\<lparr>u_Meta := m\<lparr>m_Labels := labels, m_Annotations := annotations\<rparr>\<rparr>));
                 return (True, u)
               }))
   }"

definition applyNativeObject :: "'w client \<Rightarrow> lib \<Rightarrow> kobj \<Rightarrow> unstructured \<Rightarrow> ('w, error option) kio" where
  "applyNativeObject K L owner object =
     (case l_SetControllerReference L owner (u_Meta object) of
        Inl e \<Rightarrow> return (Some e)
      | Inr m \<Rightarrow>
          (let object = object\<lparr>u_Meta := m\<rparr> in do {
             r \<leftarrow> kPatch K (OUnstructured object) (ApplyForce ''magma-operator'');
             case r of
               Some e \<Rightarrow>
                 (if IsInvalid e \<and> u_Kind object = ''Job'' then deleteNativeObject K object
                  else return (Some e))
             | None \<Rightarrow> cleanupNativeObjectMetadata K object
           }))"

definition reconcileNativeObject ::
    "'w client \<Rightarrow> lib \<Rightarrow> kobj \<Rightarrow> nativeRelease \<Rightarrow> unstructured \<Rightarrow> ('w, error option) kio" where
  "reconcileNativeObject K L owner release object =
     (if (case rel_ApplyFilter release of None \<Rightarrow> False | Some flt \<Rightarrow> \<not> flt object)
      then deleteNativeObject K object
      else if u_Kind object = ''Secret'' then do {
        (exists, err) \<leftarrow> preserveExistingNativeSecret K L owner object;
        case err of
          Some e \<Rightarrow> return (Some e)
        | None \<Rightarrow> (if exists then return None else applyNativeObject K L owner object)
      }
      else applyNativeObject K L owner object)"

definition reconcileNativeRelease ::
    "'w client \<Rightarrow> lib \<Rightarrow> kobj \<Rightarrow> nativeRelease \<Rightarrow> ('w, error option) kio" where
  "reconcileNativeRelease K L owner release =
     (case nativeReleaseObjects L release of
        Inl e \<Rightarrow> return (Some e)
      | Inr objects \<Rightarrow> each (reconcileNativeObject K L owner release) objects)"

definition deleteNativeRelease :: "'w client \<Rightarrow> lib \<Rightarrow> nativeRelease \<Rightarrow> ('w, error option) kio" where
  "deleteNativeRelease K L release =
     (case nativeReleaseObjects L release of
        Inl e \<Rightarrow> return (Some e)
      | Inr objects \<Rightarrow> each (deleteNativeObject K) objects)"

section \<open>Objects: what preparation guarantees\<close>

lemma decodeNativeObjects_Inr:
  "decodeNativeObjects L release docs = Inr objects \<Longrightarrow> o' \<in> set objects \<Longrightarrow>
   \<exists>d. Inr d \<in> set docs \<and> u_Kind d \<noteq> [] \<and> m_Name (u_Meta d) \<noteq> [] \<and> o' = prepareNativeObject L release d"
  by (induction L release docs arbitrary: objects rule: decodeNativeObjects.induct)
    (fastforce split: if_splits sum.splits)+

lemma applyNodeSelectors_meta [simp]:
  "u_Meta (applyNodeSelectors L o1 vs) = u_Meta o1"
  "u_Kind (applyNodeSelectors L o1 vs) = u_Kind o1"
  "u_APIVersion (applyNodeSelectors L o1 vs) = u_APIVersion o1"
  by (simp_all add: applyNodeSelectors_def setPodSpecNodeSelector_def Let_def)

lemma normalizeNativeObjectMetadata_fields [simp]:
  "u_Kind (normalizeNativeObjectMetadata o1) = u_Kind o1"
  "u_APIVersion (normalizeNativeObjectMetadata o1) = u_APIVersion o1"
  "m_Name (u_Meta (normalizeNativeObjectMetadata o1)) = m_Name (u_Meta o1)"
  "m_Namespace (u_Meta (normalizeNativeObjectMetadata o1)) = m_Namespace (u_Meta o1)"
  "m_Labels (u_Meta (normalizeNativeObjectMetadata o1)) =
     fst (nativeObjectMetadata (m_Labels (u_Meta o1)) (m_Annotations (u_Meta o1)))"
  "m_Annotations (u_Meta (normalizeNativeObjectMetadata o1)) =
     fst (snd (nativeObjectMetadata (m_Labels (u_Meta o1)) (m_Annotations (u_Meta o1))))"
  by (simp_all add: normalizeNativeObjectMetadata_def split_beta)

definition managed :: "objectMeta \<Rightarrow> bool" where
  "managed m \<longleftrightarrow> map_of (m_Labels m) labelAppManagedBy = Some managedByMagmaOperator \<and>
     map_of (m_Labels m) ''helm.sh/chart'' = None \<and>
     (\<forall>k. helm_key k \<longrightarrow> map_of (m_Annotations m) k = None)"

lemma prepare_managed: "managed (u_Meta (prepareNativeObject L release d))"
  by (simp add: prepareNativeObject_def managed_def nativeObjectMetadata_labels nativeObjectMetadata_annotations)

lemma prepare_name: "m_Name (u_Meta (prepareNativeObject L release d)) = m_Name (u_Meta d)"
  and prepare_kind: "u_Kind (prepareNativeObject L release d) = u_Kind d"
  by (simp_all add: prepareNativeObject_def Let_def)

lemma nativeReleaseObjects_wf:
  assumes "nativeReleaseObjects L release = Inr objects" and "x \<in> set objects"
  shows "managed (u_Meta x)" and "u_Kind x \<noteq> []" and "m_Name (u_Meta x) \<noteq> []"
proof -
  from assms obtain d where "u_Kind d \<noteq> []" "m_Name (u_Meta d) \<noteq> []" "x = prepareNativeObject L release d"
    by (auto simp: nativeReleaseObjects_def split: sum.splits dest!: decodeNativeObjects_Inr)
  then show "managed (u_Meta x)" and "u_Kind x \<noteq> []" and "m_Name (u_Meta x) \<noteq> []"
    by (simp_all add: prepare_managed prepare_name prepare_kind)
qed

section \<open>Deletion\<close>

lemma spec_deleteNativeObject [spec_rules]:
  assumes "\<And>r. gone r \<Longrightarrow> Q None [EvDelete True (OUnstructured x) r]"
    and "\<And>e. \<not> IsNotFound e \<Longrightarrow> Q (Some e) [EvDelete True (OUnstructured x) (Some e)]"
  shows "spec (deleteNativeObject K x) Q"
  unfolding deleteNativeObject_def by (rule spec_deleteIgnoringNotFound) (auto intro: assms)

text \<open>
  A deletion run makes one background deletion per object, in order, and stops at the first
  error; \<open>None\<close> means that every object of the release is gone.
\<close>

definition delete_trace :: "unstructured list \<Rightarrow> error option \<Rightarrow> event list \<Rightarrow> bool" where
  "delete_trace = each_post (\<lambda>x r t. \<exists>q. t = [EvDelete True (OUnstructured x) q] \<and>
     (if gone q then r = None else r = q))"

lemma spec_deleteNativeRelease:
  "spec (deleteNativeRelease K L release)
     (\<lambda>r t. case nativeReleaseObjects L release of
              Inl e \<Rightarrow> r = Some e \<and> t = []
            | Inr objects \<Rightarrow> delete_trace objects r t)"
proof (cases "nativeReleaseObjects L release")
  case (Inl e)
  then show ?thesis by (simp add: deleteNativeRelease_def spec_return)
next
  case (Inr objects)
  have "spec (each (deleteNativeObject K) objects) (delete_trace objects)"
    unfolding delete_trace_def by (rule spec_each, rule spec_deleteNativeObject) auto
  with Inr show ?thesis by (simp add: deleteNativeRelease_def)
qed

lemma delete_trace_None:
  "delete_trace objects None t \<Longrightarrow> x \<in> set objects \<Longrightarrow>
     \<exists>q. EvDelete True (OUnstructured x) q \<in> set t \<and> gone q"
  unfolding delete_trace_def
  by (drule (1) each_post_None) (auto split: if_splits)

lemma delete_trace_events:
  "delete_trace objects r t \<Longrightarrow> e \<in> set t \<Longrightarrow> \<exists>x\<in>set objects. \<exists>q. e = EvDelete True (OUnstructured x) q"
  unfolding delete_trace_def by (drule (1) each_post_events) auto

section \<open>Application\<close>

definition rejected :: "nativeRelease \<Rightarrow> unstructured \<Rightarrow> bool" where
  "rejected release x \<longleftrightarrow> (case rel_ApplyFilter release of None \<Rightarrow> False | Some flt \<Rightarrow> \<not> flt x)"

definition ukey :: "unstructured \<Rightarrow> error + kobj \<Rightarrow> event" where
  "ukey x r = EvGet (KUnstructured (u_APIVersion x) (u_Kind x)) (m_Namespace (u_Meta x)) (m_Name (u_Meta x)) r"

text \<open>
  The calls one object may cause: a deletion when the filter rejects it; otherwise at most
  one forced apply of exactly the prepared object under its new owner reference, metadata
  updates of live objects, and the deletion of a Job whose apply was refused as invalid.
\<close>

inductive native_event :: "lib \<Rightarrow> kobj \<Rightarrow> nativeRelease \<Rightarrow> unstructured \<Rightarrow> event \<Rightarrow> bool"
  for L owner release x where
  native_reject: "rejected release x \<Longrightarrow> native_event L owner release x (EvDelete True (OUnstructured x) q)"
| native_read: "\<not> rejected release x \<Longrightarrow> u_Kind y = u_Kind x \<Longrightarrow> native_event L owner release x (ukey y r)"
| native_apply: "\<not> rejected release x \<Longrightarrow> l_SetControllerReference L owner (u_Meta x) = Inr m \<Longrightarrow>
     native_event L owner release x (EvPatch (OUnstructured (x\<lparr>u_Meta := m\<rparr>)) (ApplyForce ''magma-operator'') q)"
| native_meta: "\<not> rejected release x \<Longrightarrow> managed (u_Meta y) \<Longrightarrow>
     native_event L owner release x (EvUpdate (OUnstructured y) q)"
| native_job: "\<not> rejected release x \<Longrightarrow> u_Kind x = ''Job'' \<Longrightarrow> l_SetControllerReference L owner (u_Meta x) = Inr m \<Longrightarrow>
     native_event L owner release x (EvDelete True (OUnstructured (x\<lparr>u_Meta := m\<rparr>)) q)"

inductive_simps native_event_Patch: "native_event L owner release x (EvPatch y p q)"
inductive_simps native_event_Delete: "native_event L owner release x (EvDelete bg y q)"
inductive_simps native_event_Update: "native_event L owner release x (EvUpdate y q)"
inductive_simps native_event_Create: "native_event L owner release x (EvCreate y q)"
inductive_simps native_event_StatusUpdate: "native_event L owner release x (EvStatusUpdate y q)"
inductive_simps native_event_CreateOrUpdate: "native_event L owner release x (EvCreateOrUpdate y q')"

lemma ukey_distinct [simp]:
  "EvPatch y p q \<noteq> ukey x r" "EvDelete bg y q \<noteq> ukey x r" "EvUpdate y q \<noteq> ukey x r"
  "EvCreate y q \<noteq> ukey x r" "EvStatusUpdate y q \<noteq> ukey x r" "EvCreateOrUpdate y q' \<noteq> ukey x r"
  by (simp_all add: ukey_def)

text \<open>Reads of objects of a kind and metadata updates: what follows a successful apply.\<close>

definition live_event :: "string \<Rightarrow> event \<Rightarrow> bool" where
  "live_event k e \<longleftrightarrow> (\<exists>y r. u_Kind y = k \<and> e = ukey y r) \<or>
     (\<exists>y q. managed (u_Meta y) \<and> e = EvUpdate (OUnstructured y) q)"

lemma live_ukey: "u_Kind y = k \<Longrightarrow> live_event k (ukey y r)"
  and live_update: "managed (u_Meta y) \<Longrightarrow> live_event k (EvUpdate (OUnstructured y) q)"
  by (auto simp: live_event_def)

lemma live_no_patch: "list_all (live_event k) t \<Longrightarrow> EvPatch y p q \<notin> set t"
  by (auto simp: list_all_iff live_event_def)

lemma managed_metadata:
  "nativeObjectMetadata (m_Labels m) (m_Annotations m) = (ls, as, ch) \<Longrightarrow>
   managed (m\<lparr>m_Labels := ls, m_Annotations := as\<rparr>)"
  using nativeObjectMetadata_labels [of "m_Labels m" "m_Annotations m"]
    nativeObjectMetadata_annotations [of "m_Labels m" "m_Annotations m"]
  by (auto simp: managed_def)

lemma spec_unstructuredGet [spec_rules]:
  "(\<And>r. Q (as_typed to_unstructured r) [ukey x r]) \<Longrightarrow> spec (unstructuredGet K x) Q"
  unfolding unstructuredGet_def ukey_def by (rule spec_getAs)

lemma spec_cleanup [spec_rules]:
  assumes "\<And>e. Q (Some e) [ukey x (Inl e)]"
    and "\<And>r. Q (Some decode_error) [ukey x r]"
    and "\<And>y. Q None [ukey x (Inr (OUnstructured y))]"
    and "\<And>y z q. managed (u_Meta z) \<Longrightarrow> Q q [ukey x (Inr (OUnstructured y)), EvUpdate (OUnstructured z) q]"
  shows "spec (cleanupNativeObjectMetadata K x) Q"
  unfolding cleanupNativeObjectMetadata_def
  apply (intro spec_structure spec_rules)
  subgoal for r a using assms(1,2) by (cases r) (auto split: option.splits)
  subgoal for r by (auto simp: as_typed_Inr intro: assms(3))
  subgoal by (auto simp: as_typed_Inr intro!: assms(4) managed_metadata [OF sym])
  done

lemma spec_preserve [spec_rules]:
  assumes "\<And>e. IsNotFound e \<Longrightarrow> Q (False, None) [ukey x (Inl e)]"
    and "\<And>r e. Q (False, Some e) [ukey x r]"
    and "\<And>cur z q m. l_SetControllerReference L owner (u_Meta cur) = Inr m \<Longrightarrow> managed (u_Meta z) \<Longrightarrow>
           u_Object z = u_Object cur \<Longrightarrow> u_Kind z = u_Kind cur \<Longrightarrow>
           Q (True, q) [ukey x (Inr (OUnstructured cur)), EvUpdate (OUnstructured z) q]"
  shows "spec (preserveExistingNativeSecret K L owner x) Q"
  unfolding preserveExistingNativeSecret_def
  apply (intro spec_structure spec_rules)
  subgoal for r using assms(1,2) by (cases r) (auto split: option.splits if_splits simp: go_defs decode_error_def Errorf_def)
  subgoal by (simp add: assms(2))
  subgoal by (auto simp: as_typed_Inr intro!: assms(3) managed_metadata [OF sym])
  done

lemma spec_applyNativeObject [spec_rules]:
  assumes ref: "\<And>e. l_SetControllerReference L owner (u_Meta x) = Inl e \<Longrightarrow> Q (Some e) []"
    and fail: "\<And>m e. l_SetControllerReference L owner (u_Meta x) = Inr m \<Longrightarrow>
           Q (Some e) [EvPatch (OUnstructured (x\<lparr>u_Meta := m\<rparr>)) (ApplyForce ''magma-operator'') (Some e)]"
    and job: "\<And>m e q r. l_SetControllerReference L owner (u_Meta x) = Inr m \<Longrightarrow> IsInvalid e \<Longrightarrow> u_Kind x = ''Job'' \<Longrightarrow>
           (if gone q then r = None else r = q) \<Longrightarrow>
           Q r [EvPatch (OUnstructured (x\<lparr>u_Meta := m\<rparr>)) (ApplyForce ''magma-operator'') (Some e),
                EvDelete True (OUnstructured (x\<lparr>u_Meta := m\<rparr>)) q]"
    and ok: "\<And>m r t. l_SetControllerReference L owner (u_Meta x) = Inr m \<Longrightarrow>
           list_all (live_event (u_Kind x)) t \<Longrightarrow>
           Q r (EvPatch (OUnstructured (x\<lparr>u_Meta := m\<rparr>)) (ApplyForce ''magma-operator'') None # t)"
  shows "spec (applyNativeObject K L owner x) Q"
  unfolding applyNativeObject_def
  apply (intro spec_structure spec_rules)
  subgoal by (simp add: ref)
  subgoal by (auto intro!: ok live_ukey live_update)
  subgoal by (auto intro!: ok live_ukey live_update)
  subgoal by (auto intro!: ok live_ukey live_update)
  subgoal by (auto intro!: ok live_ukey live_update)
  subgoal by (auto intro!: job)
  subgoal by (auto intro!: job)
  subgoal by (auto intro!: fail)
  done

lemma native_event_mono:
  assumes "\<not> rejected release x"
    and "list_all (live_event (u_Kind x)) t"
  shows "list_all (native_event L owner release x) t"
  using assms by (auto simp: list_all_iff live_event_def intro: native_event.intros)

lemma spec_native_events:
  "spec (reconcileNativeObject K L owner release x) (confined (native_event L owner release x))"
  unfolding reconcileNativeObject_def rejected_def [symmetric]
  by (intro spec_structure spec_rules)
    (auto simp: confined_def intro: native_event.intros native_event_mono)

text \<open>
  A Secret is applied only right after a read answered that this Secret does not exist:
  whatever the trace, the call before such an apply is that read.
\<close>

definition secret_guard :: "event list \<Rightarrow> bool" where
  "secret_guard t \<longleftrightarrow> (\<forall>u y p q v. t = u @ EvPatch (OUnstructured y) p q # v \<longrightarrow> u_Kind y = ''Secret'' \<longrightarrow>
     (\<exists>w e. u = w @ [ukey y (Inl e)] \<and> IsNotFound e))"

lemma secret_guard_append:
  assumes "secret_guard t" and "secret_guard u"
  shows "secret_guard (t @ u)"
  unfolding secret_guard_def
proof (intro allI impI)
  fix xs y p q ys
  assume eq: "t @ u = xs @ EvPatch (OUnstructured y) p q # ys" and y: "u_Kind y = ''Secret''"
  then consider us where "t = xs @ EvPatch (OUnstructured y) p q # us"
    | us where "xs = t @ us" "u = us @ EvPatch (OUnstructured y) p q # ys"
    by (fastforce simp: append_eq_append_conv2 append_eq_Cons_conv)
  then show "\<exists>w e. xs = w @ [ukey y (Inl e)] \<and> IsNotFound e"
  proof cases
    case 1
    then show ?thesis using assms(1) y unfolding secret_guard_def by blast
  next
    case 2
    then obtain w e where "us = w @ [ukey y (Inl e)]" "IsNotFound e"
      using assms(2) y unfolding secret_guard_def by blast
    then show ?thesis using 2 by (intro exI [of _ "t @ w"] exI [of _ e]) simp
  qed
qed

lemma secret_guard_Nil [simp]: "secret_guard []"
  by (simp add: secret_guard_def)

lemma secret_guard_Cons: "(\<forall>y p q. e = EvPatch (OUnstructured y) p q \<longrightarrow> u_Kind y \<noteq> ''Secret'') \<Longrightarrow> secret_guard t \<Longrightarrow> secret_guard (e # t)"
  using secret_guard_append [of "[e]" t] by (auto simp: secret_guard_def [of "[e]"] Cons_eq_append_conv)

lemma secret_guard_read:
  assumes "IsNotFound e" and "ukey y = ukey x" and "secret_guard t"
  shows "secret_guard (ukey x (Inl e) # EvPatch (OUnstructured y) p q # t)"
proof -
  have "secret_guard [ukey y (Inl e), EvPatch (OUnstructured y) p q]"
    using assms(1) by (auto simp: secret_guard_def Cons_eq_append_conv ukey_distinct [symmetric])
  from secret_guard_append [OF this assms(3)] show ?thesis by (simp add: assms(2))
qed

lemma secret_guard_live: "list_all (live_event k) t \<Longrightarrow> secret_guard t"
  by (induction t) (auto simp: live_event_def intro!: secret_guard_Cons)

lemma secret_guard_each: "each_post R xs r t \<Longrightarrow> (\<And>x r t. R x r t \<Longrightarrow> secret_guard t) \<Longrightarrow> secret_guard t"
  by (induction rule: each_post.induct) (auto intro: secret_guard_append)

lemma owner_keeps_key:
  assumes "owner_ok L" and "l_SetControllerReference L owner (u_Meta x) = Inr m"
  shows "ukey (x\<lparr>u_Meta := m\<rparr>) = ukey x"
proof -
  from assms obtain os where "m = (u_Meta x)\<lparr>m_OwnerReferences := os\<rparr>" unfolding owner_ok_def by blast
  then show ?thesis by (simp add: ukey_def fun_eq_iff)
qed

lemma spec_secret_guard:
  assumes "owner_ok L"
  shows "spec (reconcileNativeObject K L owner release x) (\<lambda>r. secret_guard)"
  unfolding reconcileNativeObject_def
  by (intro spec_structure spec_rules)
    (auto simp: owner_keeps_key [OF assms] ukey_distinct [symmetric] intro!: secret_guard_read
      intro: secret_guard_Cons secret_guard_Cons [OF _ secret_guard_Cons]
      dest: secret_guard_live)

text \<open>What success means for one object.\<close>

definition native_done :: "lib \<Rightarrow> kobj \<Rightarrow> nativeRelease \<Rightarrow> unstructured \<Rightarrow> event list \<Rightarrow> bool" where
  "native_done L owner release x t \<longleftrightarrow>
     (if rejected release x then \<exists>q. EvDelete True (OUnstructured x) q \<in> set t \<and> gone q
      else (\<exists>m. l_SetControllerReference L owner (u_Meta x) = Inr m \<and>
              EvPatch (OUnstructured (x\<lparr>u_Meta := m\<rparr>)) (ApplyForce ''magma-operator'') None \<in> set t)
         \<or> (u_Kind x = ''Secret'' \<and>
            (\<exists>cur z. ukey x (Inr (OUnstructured cur)) \<in> set t \<and> EvUpdate (OUnstructured z) None \<in> set t \<and>
                     u_Object z = u_Object cur))
         \<or> (u_Kind x = ''Job'' \<and>
            (\<exists>m e q. l_SetControllerReference L owner (u_Meta x) = Inr m \<and>
                     EvPatch (OUnstructured (x\<lparr>u_Meta := m\<rparr>)) (ApplyForce ''magma-operator'') (Some e) \<in> set t \<and>
                     IsInvalid e \<and> EvDelete True (OUnstructured (x\<lparr>u_Meta := m\<rparr>)) q \<in> set t \<and> gone q)))"

lemma spec_native_done:
  "spec (reconcileNativeObject K L owner release x) (\<lambda>r t. r = None \<longrightarrow> native_done L owner release x t)"
  unfolding reconcileNativeObject_def rejected_def [symmetric]
  by (intro spec_structure spec_rules) (auto simp: native_done_def split: if_splits)

lemma native_done_mono: "native_done L owner release x t \<Longrightarrow> set t \<subseteq> set u \<Longrightarrow> native_done L owner release x u"
  unfolding native_done_def by (fastforce split: if_splits)

text \<open>The whole release.\<close>

definition release_post :: "lib \<Rightarrow> kobj \<Rightarrow> nativeRelease \<Rightarrow> unstructured \<Rightarrow> error option \<Rightarrow> event list \<Rightarrow> bool" where
  "release_post L owner release x r t \<longleftrightarrow>
     list_all (native_event L owner release x) t \<and> (owner_ok L \<longrightarrow> secret_guard t) \<and> (r = None \<longrightarrow> native_done L owner release x t)"

lemma spec_reconcileNativeRelease:
  "spec (reconcileNativeRelease K L owner release)
     (\<lambda>r t. case nativeReleaseObjects L release of
              Inl e \<Rightarrow> r = Some e \<and> t = []
            | Inr objects \<Rightarrow> each_post (release_post L owner release) objects r t)"
proof (cases "nativeReleaseObjects L release")
  case (Inl e)
  then show ?thesis by (simp add: reconcileNativeRelease_def spec_return)
next
  case (Inr objects)
  have "spec (reconcileNativeObject K L owner release x) (release_post L owner release x)" for x
  proof (cases "owner_ok L")
    case True
    from spec_conj [OF spec_native_events spec_conj [OF spec_secret_guard [OF True] spec_native_done]] show ?thesis
      by (rule spec_weaken) (auto simp: confined_def release_post_def)
  next
    case False
    from spec_conj [OF spec_native_events spec_native_done] show ?thesis
      by (rule spec_weaken) (use False in \<open>auto simp: confined_def release_post_def\<close>)
  qed
  with Inr show ?thesis by (simp add: reconcileNativeRelease_def spec_each)
qed

lemma release_post_event:
  "each_post (release_post L owner release) objects r t \<Longrightarrow> e \<in> set t \<Longrightarrow>
   \<exists>x\<in>set objects. native_event L owner release x e"
  by (drule (1) each_post_events) (auto simp: release_post_def list_all_iff)

lemma release_post_done:
  "each_post (release_post L owner release) objects None t \<Longrightarrow> x \<in> set objects \<Longrightarrow>
   native_done L owner release x t"
  by (drule (1) each_post_None) (auto simp: release_post_def intro: native_done_mono)

lemma release_post_secret: "each_post (release_post L owner release) objects r t \<Longrightarrow> owner_ok L \<Longrightarrow> secret_guard t"
  by (erule secret_guard_each) (simp add: release_post_def)

section \<open>Properties\<close>

text \<open>C12: a release that reconciles without error has dealt with every object of its manifest: what
  the filter rejects is deleted or already gone; everything else was applied with forced
  ownership, or is an existing Secret whose content was kept, or a Job that was refused as
  invalid and deleted to be created anew. The answers of the API server are arbitrary.\<close>

theorem native_release_complete:
  assumes "result (reconcileNativeRelease K L owner release) s = None"
  shows "\<exists>objects. nativeReleaseObjects L release = Inr objects \<and>
    (\<forall>x\<in>set objects. native_done L owner release x (events (reconcileNativeRelease K L owner release) s))"
  using specD(2) [OF spec_reconcileNativeRelease [of K L owner release], of s] assms
  by (auto split: sum.splits dest: release_post_done)

text \<open>C13: Secrets are never applied over: if a reconcile of a release sends an apply for an object of
  kind Secret, the call right before it is a read of this very Secret (its kind, namespace and
  name), and the answer was NotFound.\<close>

theorem secret_applied_only_if_missing:
  assumes "owner_ok L"
    and "events (reconcileNativeRelease K L owner release) s = u @ EvPatch (OUnstructured y) p q # v"
    and "u_Kind y = ''Secret''"
  shows "\<exists>w e. u = w @ [EvGet (KUnstructured (u_APIVersion y) ''Secret'') (m_Namespace (u_Meta y)) (m_Name (u_Meta y)) (Inl e)] \<and>
    IsNotFound e"
proof -
  have "secret_guard (events (reconcileNativeRelease K L owner release) s)"
    using specD(2) [OF spec_reconcileNativeRelease [of K L owner release], of s] assms(1)
    by (cases "nativeReleaseObjects L release") (auto dest: release_post_secret)
  with assms(2,3) show ?thesis unfolding secret_guard_def ukey_def by (metis assms(3))
qed

text \<open>C14: deleting a release without error deletes every object of its manifest (or finds it gone),
  and makes no other call than background deletions of these objects.\<close>

theorem native_delete_complete:
  assumes "result (deleteNativeRelease K L release) s = None"
  shows "\<exists>objects. nativeReleaseObjects L release = Inr objects \<and>
    (\<forall>x\<in>set objects. \<exists>q. gone q \<and> EvDelete True (OUnstructured x) q \<in> set (events (deleteNativeRelease K L release) s)) \<and>
    (\<forall>e\<in>set (events (deleteNativeRelease K L release) s). \<exists>x\<in>set objects. \<exists>q. e = EvDelete True (OUnstructured x) q)"
  using specD(2) [OF spec_deleteNativeRelease [of K L release], of s] assms
  by (auto split: sum.splits dest: delete_trace_None delete_trace_events)

subsection \<open>Witnesses\<close>

definition demoObject :: "string \<Rightarrow> string \<Rightarrow> unstructured" where
  "demoObject k name = \<lparr>u_APIVersion = ''v1'', u_Kind = k, u_Meta = newMeta [] name, u_Object = YMap []\<rparr>"

definition demoLib :: lib where
  "demoLib = refLib (\<lambda>_. [demoObject ''Secret'' ''agw-secret'', demoObject ''ConfigMap'' ''agw-config''])"

abbreviation demoOwner :: kobj where
  "demoOwner \<equiv> OPVC \<lparr>pvc_Meta = newMeta ''magma'' ''owner''\<rparr>"

definition demoLive :: "kobj list" where
  "demoLive = [OUnstructured ((demoObject ''ConfigMap'' ''agw-config'')\<lparr>u_Meta := newMeta ''magma'' ''agw-config''\<rparr>),
     OUnstructured ((demoObject ''Secret'' ''agw-secret'')\<lparr>u_Meta := newMeta ''magma'' ''agw-secret''\<rparr>)]"

lemma native_release_complete_witness:
  "\<exists>objects. nativeReleaseObjects demoLib (demoRelease []) = Inr objects \<and>
    (\<forall>x\<in>set objects. native_done demoLib demoOwner (demoRelease []) x
      (events (reconcileNativeRelease (refClient demoLive) demoLib demoOwner (demoRelease [])) refStart))"
  by (rule native_release_complete) code_simp

definition demoAppliedSecret :: unstructured where
  "demoAppliedSecret = (demoObject ''Secret'' ''agw-secret'')\<lparr>u_Meta := (newMeta ''magma'' ''agw-secret'')\<lparr>
     m_Labels := [(labelAppManagedBy, managedByMagmaOperator)], m_OwnerReferences := [''owner'']\<rparr>\<rparr>"

lemma secret_applied_only_if_missing_witness:
  "\<exists>w v e. events (reconcileNativeRelease (refClient []) demoLib demoOwner (demoRelease [])) refStart =
     w @ EvGet (KUnstructured ''v1'' ''Secret'') ''magma'' ''agw-secret'' (Inl e) #
       EvPatch (OUnstructured demoAppliedSecret) (ApplyForce ''magma-operator'') None # v \<and> IsNotFound e"
proof -
  let ?p = "EvPatch (OUnstructured demoAppliedSecret) (ApplyForce ''magma-operator'') None"
  have "?p \<in> set (events (reconcileNativeRelease (refClient []) demoLib demoOwner (demoRelease [])) refStart)"
    by code_simp
  from split_list [OF this] obtain u v where
    t: "events (reconcileNativeRelease (refClient []) demoLib demoOwner (demoRelease [])) refStart = u @ ?p # v" by blast
  have y: "u_Kind demoAppliedSecret = ''Secret''" "u_APIVersion demoAppliedSecret = ''v1''"
    "m_Namespace (u_Meta demoAppliedSecret) = ''magma''" "m_Name (u_Meta demoAppliedSecret) = ''agw-secret''" by code_simp+
  have "owner_ok demoLib" by (simp add: demoLib_def refLib_owner)
  from secret_applied_only_if_missing [OF this t y(1)] obtain w e where
    "u = w @ [EvGet (KUnstructured ''v1'' ''Secret'') ''magma'' ''agw-secret'' (Inl e)]" "IsNotFound e" unfolding y by blast
  with t show ?thesis by (intro exI [of _ w] exI [of _ v] exI [of _ e]) simp
qed

lemma native_delete_complete_witness:
  "\<exists>objects. nativeReleaseObjects demoLib (demoRelease []) = Inr objects \<and>
    (\<forall>x\<in>set objects. \<exists>q. gone q \<and> EvDelete True (OUnstructured x) q \<in>
       set (events (deleteNativeRelease (refClient demoLive) demoLib (demoRelease [])) refStart)) \<and>
    (\<forall>e\<in>set (events (deleteNativeRelease (refClient demoLive) demoLib (demoRelease [])) refStart).
       \<exists>x\<in>set objects. \<exists>q. e = EvDelete True (OUnstructured x) q)"
  by (rule native_delete_complete) code_simp

end
