(* ===== verification/Patch_Loop.thy ===== *)
theory Patch_Loop
  imports Kube
begin

text \<open>
  The interface of the operator's idempotent patch loops. Several operations walk over a
  listed collection, skip the items that already carry what they should, and send a merge
  patch for the others, stopping at the first error. The locale states this contract once
  and proves what callers rely on.
\<close>

locale patch_loop =
  fixes step :: "'w client \<Rightarrow> 'p \<Rightarrow> 'a \<Rightarrow> ('w, error option) kio"
    and stale :: "'p \<Rightarrow> 'a \<Rightarrow> bool"
    and edit :: "'p \<Rightarrow> 'a \<Rightarrow> 'a"
    and wrap :: "'a \<Rightarrow> kobj"
  assumes step_clean: "\<not> stale p x \<Longrightarrow> step K p x = return None"
    and step_stale: "stale p x \<Longrightarrow> step K p x = kPatch K (wrap (edit p x)) (MergeFrom (wrap x))"
    and edit_clean: "\<not> stale p (edit p x)"
begin

definition patch_event :: "'p \<Rightarrow> 'a \<Rightarrow> error option \<Rightarrow> event" where
  "patch_event p x q = EvPatch (wrap (edit p x)) (MergeFrom (wrap x)) q"

definition patch_post :: "'p \<Rightarrow> 'a list \<Rightarrow> error option \<Rightarrow> event list \<Rightarrow> bool" where
  "patch_post p = each_post (\<lambda>x r t. if stale p x then t = [patch_event p x r] else r = None \<and> t = [])"

lemma loop_spec: "spec (each (step K p) xs) (patch_post p xs)"
  unfolding patch_post_def
proof (rule spec_each)
  fix x
  show "spec (step K p x) (\<lambda>r t. if stale p x then t = [patch_event p x r] else r = None \<and> t = [])"
    by (cases "stale p x") (auto simp: step_clean step_stale patch_event_def intro: spec_return spec_kPatch)
qed

lemma post_success:
  "patch_post p xs None t \<Longrightarrow> x \<in> set xs \<Longrightarrow> stale p x \<Longrightarrow> patch_event p x None \<in> set t"
  unfolding patch_post_def by (drule (1) each_post_None) auto

lemma post_events:
  assumes "patch_post p xs r t" and "e \<in> set t"
  shows "\<exists>x\<in>set xs. \<exists>q. stale p x \<and> e = patch_event p x q"
proof -
  obtain x q u where "x \<in> set xs" "e \<in> set u"
    and "if stale p x then u = [patch_event p x q] else q = None \<and> u = []"
    using each_post_events [OF assms [unfolded patch_post_def]] by blast
  then show ?thesis by (auto split: if_splits)
qed

lemma post_length: "patch_post p xs r t \<Longrightarrow> length t \<le> length (filter (stale p) xs)"
  unfolding patch_post_def by (induction rule: each_post.induct) (auto split: if_splits)

lemma quiet: "\<forall>x\<in>set xs. \<not> stale p x \<Longrightarrow> each (step K p) xs = return None"
  by (induction xs) (auto simp: step_clean)

text \<open>A second run over the edited items makes no call.\<close>

lemma converged: "each (step K p) (map (edit p) xs) = return None"
  by (rule quiet) (simp add: edit_clean)

end

end
