(* ===== verification/AGW_Datapath.thy ===== *)
theory AGW_Datapath
  imports Native_Values Patch_Loop
begin

text \<open>
  The datapath gate of \<^verbatim>\<open>magmaagw_controller.go\<close>: node selection, the readiness check
  \<^verbatim>\<open>agwDatapathNodesReady\<close>, and \<^verbatim>\<open>reconcileAGWDatapathLabels\<close>, which puts the ready label on
  the selected nodes once the node-prep DaemonSet is ready and takes it away otherwise.
\<close>

section \<open>Settings\<close>

definition mergedSelectors :: "smap list \<Rightarrow> smap" where
  "mergedSelectors selectors = fold (\<lambda>selector merged. maps_Copy merged selector) selectors []"

definition datapathGateEnabled :: "magmaAGWDatapathSpec \<Rightarrow> bool" where
  "datapathGateEnabled datapath = (case dps_Enabled datapath of None \<Rightarrow> True | Some b \<Rightarrow> b)"

definition datapathReadyLabelKey :: "magmaAGWDatapathSpec \<Rightarrow> string" where
  "datapathReadyLabelKey datapath =
     (if dps_ReadyLabelKey datapath \<noteq> [] then dps_ReadyLabelKey datapath else ''magma.io/agw-datapath-ready'')"

definition datapathReadyLabelValue :: "magmaAGWDatapathSpec \<Rightarrow> string" where
  "datapathReadyLabelValue datapath =
     (if dps_ReadyLabelValue datapath \<noteq> [] then dps_ReadyLabelValue datapath else stringTrue)"

definition boolString :: "bool \<Rightarrow> string" where
  "boolString value = (if value then stringTrue else stringFalse)"

section \<open>Labels on nodes\<close>

definition node_label :: "node \<Rightarrow> string \<Rightarrow> string" where
  "node_label nd key = mget (m_Labels (node_Meta nd)) key"

definition setNodeLabel :: "string \<Rightarrow> string \<Rightarrow> node \<Rightarrow> node" where
  "setNodeLabel key value nd =
     nd\<lparr>node_Meta := (node_Meta nd)\<lparr>m_Labels := mset_key key value (m_Labels (node_Meta nd))\<rparr>\<rparr>"

definition delNodeLabel :: "string \<Rightarrow> node \<Rightarrow> node" where
  "delNodeLabel key nd =
     nd\<lparr>node_Meta := (node_Meta nd)\<lparr>m_Labels := mdel key (m_Labels (node_Meta nd))\<rparr>\<rparr>"

definition labelNodeStep :: "'w client \<Rightarrow> string \<times> string \<Rightarrow> node \<Rightarrow> ('w, error option) kio" where
  "labelNodeStep K kv nd =
     (let (key, value) = kv in
      if node_label nd key = value then return None
      else kPatch K (ONode (setNodeLabel key value nd)) (MergeFrom (ONode nd)))"

definition labelAGWDatapathNodes ::
    "'w client \<Rightarrow> node list \<Rightarrow> magmaAGWDatapathSpec \<Rightarrow> ('w, error option) kio" where
  "labelAGWDatapathNodes K nodes datapath =
     each (labelNodeStep K (datapathReadyLabelKey datapath, datapathReadyLabelValue datapath)) nodes"

definition unlabelNodeStep :: "'w client \<Rightarrow> string \<Rightarrow> node \<Rightarrow> ('w, error option) kio" where
  "unlabelNodeStep K key nd =
     (if \<not> mhas (m_Labels (node_Meta nd)) key then return None
      else kPatch K (ONode (delNodeLabel key nd)) (MergeFrom (ONode nd)))"

definition removeAGWDatapathLabels ::
    "'w client \<Rightarrow> node list \<Rightarrow> magmaAGWDatapathSpec \<Rightarrow> ('w, error option) kio" where
  "removeAGWDatapathLabels K nodes datapath = each (unlabelNodeStep K (datapathReadyLabelKey datapath)) nodes"

section \<open>The gate\<close>

definition selectedAGWNodes :: "'w client \<Rightarrow> smap \<Rightarrow> ('w, error + node list) kio" where
  "selectedAGWNodes K selector = listNodes K selector"

definition removeThenWait ::
    "'w client \<Rightarrow> node list \<Rightarrow> magmaAGWDatapathSpec \<Rightarrow> string \<Rightarrow> ('w, bool \<times> string \<times> error option) kio" where
  "removeThenWait K nodes datapath message = do {
     r \<leftarrow> removeAGWDatapathLabels K nodes datapath;
     return (case r of Some e \<Rightarrow> (False, [], Some e) | None \<Rightarrow> (False, message, None))
   }"

definition reconcileAGWDatapathLabels ::
    "'w client \<Rightarrow> string \<Rightarrow> smap \<Rightarrow> magmaAGWDatapathSpec \<Rightarrow> ('w, bool \<times> string \<times> error option) kio" where
  "reconcileAGWDatapathLabels K namespace selector datapath = do {
     ns \<leftarrow> selectedAGWNodes K selector;
     case ns of
       Inl e \<Rightarrow> return (False, [], Some e)
     | Inr nodes \<Rightarrow>
         (if nodes = [] then return (False, ''no nodes match the AGW datapath selector'', None)
          else do {
            r \<leftarrow> getDaemonSet K namespace agwNodePrepName;
            case r of
              Inl e \<Rightarrow>
                (if IsNotFound e
                 then removeThenWait K nodes datapath ''waiting for agw-node-prep DaemonSet to be created''
                 else return (False, [], Some e))
            | Inr daemonSet \<Rightarrow>
                (if ds_DesiredNumberScheduled daemonSet = 0
                 then removeThenWait K nodes datapath ''agw-node-prep DaemonSet has no scheduled pods''
                 else if sint (ds_NumberReady daemonSet) < sint (ds_DesiredNumberScheduled daemonSet)
                 then removeThenWait K nodes datapath
                   (''waiting for agw-node-prep DaemonSet readiness: '' @ int_str (sint (ds_NumberReady daemonSet))
                    @ ''/'' @ int_str (sint (ds_DesiredNumberScheduled daemonSet)) @ '' ready'')
                 else do {
                   l \<leftarrow> labelAGWDatapathNodes K nodes datapath;
                   return (case l of Some e \<Rightarrow> (False, [], Some e) | None \<Rightarrow> (True, [], None))
                 })
          })
   }"

definition agwDatapathNodesReady ::
    "'w client \<Rightarrow> string \<Rightarrow> smap \<Rightarrow> magmaAGWDatapathSpec \<Rightarrow> ('w, bool \<times> error option) kio" where
  "agwDatapathNodesReady K namespace selector datapath = do {
     ns \<leftarrow> selectedAGWNodes K selector;
     case ns of
       Inl e \<Rightarrow> return (False, Some e)
     | Inr nodes \<Rightarrow>
         (if nodes = [] then return (False, None)
          else if \<not> list_all (\<lambda>nd. node_label nd (datapathReadyLabelKey datapath) = datapathReadyLabelValue datapath) nodes
          then return (False, None)
          else do {
            r \<leftarrow> getDaemonSet K namespace agwNodePrepName;
            return (case r of
              Inl e \<Rightarrow> (if IsNotFound e then (False, None) else (False, Some e))
            | Inr daemonSet \<Rightarrow>
                (if ds_DesiredNumberScheduled daemonSet = 0 then (False, None)
                 else if sint (ds_NumberReady daemonSet) < sint (ds_DesiredNumberScheduled daemonSet) then (False, None)
                 else (True, None)))
          })
   }"

section \<open>The two loops\<close>

interpretation label_loop: patch_loop labelNodeStep
  "\<lambda>(key, value) nd. node_label nd key \<noteq> value" "\<lambda>(key, value). setNodeLabel key value" ONode
  by unfold_locales (auto simp: labelNodeStep_def node_label_def setNodeLabel_def)

interpretation unlabel_loop: patch_loop unlabelNodeStep
  "\<lambda>key nd. mhas (m_Labels (node_Meta nd)) key" delNodeLabel ONode
  by unfold_locales (auto simp: unlabelNodeStep_def delNodeLabel_def)

lemmas spec_labelAGWDatapathNodes =
  label_loop.loop_spec [where p = "(datapathReadyLabelKey d, datapathReadyLabelValue d)" for d,
    folded labelAGWDatapathNodes_def]

lemmas spec_removeAGWDatapathLabels =
  unlabel_loop.loop_spec [where p = "datapathReadyLabelKey d" for d, folded removeAGWDatapathLabels_def]

section \<open>Selectors\<close>

lemma map_of_mergedSelectors2:
  "wf_map a \<Longrightarrow> wf_map b \<Longrightarrow> map_of (mergedSelectors [a, b]) = map_of a ++ map_of b"
  by (simp add: mergedSelectors_def map_of_maps_Copy map_of_rev_wf)

lemma update_not_Nil: "AList.update k v m \<noteq> []"
  by (cases m) auto

lemma maps_Copy_Cons: "maps_Copy m ((k, v) # s) = maps_Copy (mset_key k v m) s"
  by (simp add: maps_Copy_def)

lemma maps_Copy_Nil: "maps_Copy m s = [] \<longleftrightarrow> m = [] \<and> s = []"
proof (induction s arbitrary: m)
  case Nil
  show ?case by (simp add: maps_Copy_def)
next
  case (Cons p s)
  then show ?case by (cases p) (simp add: maps_Copy_Cons update_not_Nil)
qed

lemma mergedSelectors_Nil: "mergedSelectors [a, b] = [] \<longleftrightarrow> a = [] \<and> b = []"
  by (auto simp: mergedSelectors_def maps_Copy_Nil)

section \<open>Behaviour of the gate\<close>

definition ds_ready :: "daemonSet \<Rightarrow> bool" where
  "ds_ready d \<longleftrightarrow> ds_DesiredNumberScheduled d \<noteq> 0 \<and>
     sint (ds_DesiredNumberScheduled d) \<le> sint (ds_NumberReady d)"

abbreviation ev_nodes :: "smap \<Rightarrow> node list \<Rightarrow> event" where
  "ev_nodes selector nodes \<equiv> EvList KNode [] selector (Inr (map ONode nodes))"

abbreviation ev_ds :: "string \<Rightarrow> daemonSet \<Rightarrow> event" where
  "ev_ds namespace d \<equiv> EvGet KDaemonSet namespace agwNodePrepName (Inr (ODaemonSet d))"

definition adds_label :: "magmaAGWDatapathSpec \<Rightarrow> node \<Rightarrow> error option \<Rightarrow> event" where
  "adds_label dp nd q =
     EvPatch (ONode (setNodeLabel (datapathReadyLabelKey dp) (datapathReadyLabelValue dp) nd)) (MergeFrom (ONode nd)) q"

definition drops_label :: "magmaAGWDatapathSpec \<Rightarrow> node \<Rightarrow> error option \<Rightarrow> event" where
  "drops_label dp nd q = EvPatch (ONode (delNodeLabel (datapathReadyLabelKey dp) nd)) (MergeFrom (ONode nd)) q"

lemma as_list_nodes: "as_list to_node r = Inr nodes \<longleftrightarrow> r = Inr (map ONode nodes)"
  by (rule as_list_Inr) simp

lemma ds_ready_iff:
  "ds_ready d \<longleftrightarrow> ds_DesiredNumberScheduled d \<noteq> 0 \<and> \<not> sint (ds_NumberReady d) < sint (ds_DesiredNumberScheduled d)"
  by (auto simp: ds_ready_def)

abbreviation label_post :: "magmaAGWDatapathSpec \<Rightarrow> node list \<Rightarrow> error option \<Rightarrow> event list \<Rightarrow> bool" where
  "label_post dp \<equiv> label_loop.patch_post (datapathReadyLabelKey dp, datapathReadyLabelValue dp)"

abbreviation unlabel_post :: "magmaAGWDatapathSpec \<Rightarrow> node list \<Rightarrow> error option \<Rightarrow> event list \<Rightarrow> bool" where
  "unlabel_post dp \<equiv> unlabel_loop.patch_post (datapathReadyLabelKey dp)"

text \<open>The three ways through the gate: label, unlabel, or no write at all.\<close>

inductive gate_post :: "string \<Rightarrow> smap \<Rightarrow> magmaAGWDatapathSpec \<Rightarrow> bool \<times> string \<times> error option \<Rightarrow> event list \<Rightarrow> bool"
  for ns sel dp where
  gate_label: "nodes \<noteq> [] \<Longrightarrow> ds_ready d \<Longrightarrow> label_post dp nodes l u \<Longrightarrow> b = (l = None) \<Longrightarrow>
    gate_post ns sel dp (b, msg, l) (ev_nodes sel nodes # ev_ds ns d # u)"
| gate_unlabel: "nodes \<noteq> [] \<Longrightarrow> \<forall>d. as_typed to_daemonSet g = Inr d \<longrightarrow> \<not> ds_ready d \<Longrightarrow> unlabel_post dp nodes l u \<Longrightarrow> \<not> b \<Longrightarrow>
    gate_post ns sel dp (b, msg, l) (ev_nodes sel nodes # EvGet KDaemonSet ns agwNodePrepName g # u)"
| gate_empty: "\<not> b \<Longrightarrow> gate_post ns sel dp (b, msg, None) [ev_nodes sel []]"
| gate_error: "list_all (\<lambda>e. \<not> is_write e) t \<Longrightarrow> \<not> b \<Longrightarrow> gate_post ns sel dp (b, msg, Some e) t"

lemma spec_removeThenWait:
  "spec (removeThenWait K nodes dp m) (\<lambda>(b, msg, err) t. \<not> b \<and> unlabel_post dp nodes err t)"
  unfolding removeThenWait_def
  by (rule spec_bind, rule spec_weaken [OF spec_removeAGWDatapathLabels])
    (auto intro!: spec_return split: option.split)

lemma gate_unlabel_spec:
  assumes "nodes \<noteq> []" and "\<forall>d. as_typed to_daemonSet g = Inr d \<longrightarrow> \<not> ds_ready d"
  shows "spec (removeThenWait K nodes dp m)
    (\<lambda>r u. gate_post ns sel dp r (ev_nodes sel nodes # EvGet KDaemonSet ns agwNodePrepName g # u))"
  by (rule spec_weaken [OF spec_removeThenWait]) (use assms in \<open>auto intro: gate_unlabel\<close>)

lemma gate_label_spec:
  assumes "nodes \<noteq> []" and "ds_ready d"
  shows "spec (labelAGWDatapathNodes K nodes dp)
    (\<lambda>l u. spec (return (case l of Some e \<Rightarrow> (False, [], Some e) | None \<Rightarrow> (True, [], None)))
       (\<lambda>r v. gate_post ns sel dp r (ev_nodes sel nodes # ev_ds ns d # u @ v)))"
proof (rule spec_weaken [OF spec_labelAGWDatapathNodes], rule spec_return)
  fix l u assume "label_post dp nodes l u"
  with assms have "gate_post ns sel dp (l = None, [], l) (ev_nodes sel nodes # ev_ds ns d # u)"
    by (rule gate_label) simp
  then show "gate_post ns sel dp (case l of Some e \<Rightarrow> (False, [], Some e) | None \<Rightarrow> (True, [], None))
      (ev_nodes sel nodes # ev_ds ns d # u @ [])"
    by (cases l) simp_all
qed

lemma spec_reconcileAGWDatapathLabels:
  "spec (reconcileAGWDatapathLabels K ns sel dp) (gate_post ns sel dp)"
  unfolding reconcileAGWDatapathLabels_def selectedAGWNodes_def
  apply (rule spec_bind, rule spec_listAs, rule spec_sum)
  subgoal by (rule spec_return, rule gate_error) simp_all
  apply (rule spec_if)
  subgoal by (rule spec_return) (auto simp: as_list_nodes intro: gate_empty [simplified])
  apply (rule spec_bind, rule spec_getAs, rule spec_sum)
  subgoal by (rule spec_if)
      (auto simp: as_list_nodes intro!: spec_return gate_error gate_unlabel_spec)
  apply (rule spec_if)
  subgoal by (auto simp: as_list_nodes as_typed_Inr ds_ready_iff intro!: gate_unlabel_spec)
  apply (rule spec_if)
  subgoal by (auto simp: as_list_nodes as_typed_Inr ds_ready_iff intro!: gate_unlabel_spec)
  by (rule spec_bind) (auto simp: as_list_nodes as_typed_Inr ds_ready_iff intro!: gate_label_spec)

lemma gate_post_open:
  assumes "gate_post ns sel dp (True, msg, err) t"
  shows "err = None \<and> (\<exists>nodes d. nodes \<noteq> [] \<and> ev_nodes sel nodes \<in> set t \<and> ds_ready d \<and> ev_ds ns d \<in> set t \<and>
    (\<forall>nd\<in>set nodes. node_label nd (datapathReadyLabelKey dp) = datapathReadyLabelValue dp \<or>
       adds_label dp nd None \<in> set t))"
  using assms
proof cases
  case (gate_label nodes d u)
  then have l: "label_post dp nodes None u" by simp
  have "node_label nd (datapathReadyLabelKey dp) = datapathReadyLabelValue dp \<or> adds_label dp nd None \<in> set u"
    if "nd \<in> set nodes" for nd
    using label_loop.post_success [OF l that] by (auto simp: label_loop.patch_event_def adds_label_def)
  with gate_label show ?thesis by auto
qed auto

lemma gate_post_closed:
  assumes "gate_post ns sel dp (False, msg, None) t"
  shows "\<exists>nodes. ev_nodes sel nodes \<in> set t \<and>
    (\<forall>nd\<in>set nodes. mhas (m_Labels (node_Meta nd)) (datapathReadyLabelKey dp) \<longrightarrow> drops_label dp nd None \<in> set t)"
  using assms
proof cases
  case (gate_unlabel nodes g u)
  then have l: "unlabel_post dp nodes None u" by simp
  have "drops_label dp nd None \<in> set u"
    if "nd \<in> set nodes" "mhas (m_Labels (node_Meta nd)) (datapathReadyLabelKey dp)" for nd
    using unlabel_loop.post_success [OF l that] by (auto simp: unlabel_loop.patch_event_def drops_label_def)
  with gate_unlabel show ?thesis by auto
next
  case gate_empty
  then show ?thesis by (auto intro: exI [of _ "[]"])
qed auto

lemma gate_post_writes:
  assumes "gate_post ns sel dp r t" and "e \<in> set t" and "is_write e"
  shows "(\<exists>nodes d nd q. ev_nodes sel nodes \<in> set t \<and> nd \<in> set nodes \<and> ev_ds ns d \<in> set t \<and> ds_ready d \<and>
            e = adds_label dp nd q) \<or>
         (\<exists>nodes nd q. ev_nodes sel nodes \<in> set t \<and> nd \<in> set nodes \<and>
            mhas (m_Labels (node_Meta nd)) (datapathReadyLabelKey dp) \<and> e = drops_label dp nd q)"
  using assms(1)
proof cases
  case (gate_label nodes d l u)
  then have "e \<in> set u" using assms by auto
  then show ?thesis
    using label_loop.post_events [OF gate_label(5)] gate_label
    by (fastforce simp: label_loop.patch_event_def adds_label_def)
next
  case (gate_unlabel nodes g l u)
  then have "e \<in> set u" using assms by auto
  then show ?thesis
    using unlabel_loop.post_events [OF gate_unlabel(5)] gate_unlabel
    by (fastforce simp: unlabel_loop.patch_event_def drops_label_def)
qed (use assms in \<open>auto simp: list_all_iff\<close>)

lemma spec_agwDatapathNodesReady:
  "spec (agwDatapathNodesReady K ns sel dp) (\<lambda>(ready, err) t.
     list_all (\<lambda>e. \<not> is_write e) t \<and>
     (ready \<longrightarrow> err = None \<and> (\<exists>nodes d. nodes \<noteq> [] \<and> t = [ev_nodes sel nodes, ev_ds ns d] \<and> ds_ready d \<and>
        (\<forall>nd\<in>set nodes. node_label nd (datapathReadyLabelKey dp) = datapathReadyLabelValue dp))))"
  unfolding agwDatapathNodesReady_def selectedAGWNodes_def
  apply (rule spec_bind, rule spec_listAs, rule spec_sum)
  subgoal by (rule spec_return) simp
  apply (rule spec_if)
  subgoal by (rule spec_return) simp
  apply (rule spec_if)
  subgoal by (rule spec_return) simp
  apply (rule spec_bind, rule spec_getAs, rule spec_return)
  by (auto simp: as_list_nodes as_typed_Inr ds_ready_iff list_all_iff split: sum.split)

section \<open>Properties\<close>

text \<open>C25: the gate reports ready only after it has listed at least one node and read a node-prep
  DaemonSet with all its pods ready, and every listed node carries the label, already or by
  a patch that succeeded.\<close>

theorem datapath_gate_opens:
  assumes "result (reconcileAGWDatapathLabels K namespace sel dp) s = (True, msg, err)"
  shows "err = None \<and> (\<exists>nodes d. nodes \<noteq> [] \<and>
    ev_nodes sel nodes \<in> set (events (reconcileAGWDatapathLabels K namespace sel dp) s) \<and> ds_ready d \<and>
    ev_ds namespace d \<in> set (events (reconcileAGWDatapathLabels K namespace sel dp) s) \<and>
    (\<forall>nd\<in>set nodes. node_label nd (datapathReadyLabelKey dp) = datapathReadyLabelValue dp \<or>
       adds_label dp nd None \<in> set (events (reconcileAGWDatapathLabels K namespace sel dp) s)))"
  using specD(2) [OF spec_reconcileAGWDatapathLabels [of K namespace sel dp], of s] assms
  by (intro gate_post_open) simp

text \<open>C26: the gate writes nothing but ready labels of listed nodes. It adds one only in a run that
  has read a ready DaemonSet; and when it reports not ready without an error, the label was
  taken from every listed node that had it.\<close>

theorem datapath_gate_writes:
  assumes "result (reconcileAGWDatapathLabels K namespace sel dp) s = (ready, msg, err)"
    and "t = events (reconcileAGWDatapathLabels K namespace sel dp) s"
  shows "(\<forall>e\<in>set t. is_write e \<longrightarrow> (\<exists>nodes nd q. ev_nodes sel nodes \<in> set t \<and> nd \<in> set nodes \<and>
      (e = adds_label dp nd q \<and> (\<exists>d. ev_ds namespace d \<in> set t \<and> ds_ready d) \<or> e = drops_label dp nd q))) \<and>
    (\<not> ready \<longrightarrow> err = None \<longrightarrow> (\<exists>nodes. ev_nodes sel nodes \<in> set t \<and>
      (\<forall>nd\<in>set nodes. mhas (m_Labels (node_Meta nd)) (datapathReadyLabelKey dp) \<longrightarrow> drops_label dp nd None \<in> set t)))"
proof -
  have post: "gate_post namespace sel dp (ready, msg, err) t"
    using specD(2) [OF spec_reconcileAGWDatapathLabels [of K namespace sel dp], of s] assms by simp
  show ?thesis
  proof (intro conjI ballI impI)
    fix e assume "e \<in> set t" "is_write e"
    then show "\<exists>nodes nd q. ev_nodes sel nodes \<in> set t \<and> nd \<in> set nodes \<and>
        (e = adds_label dp nd q \<and> (\<exists>d. ev_ds namespace d \<in> set t \<and> ds_ready d) \<or> e = drops_label dp nd q)"
      using gate_post_writes [OF post] by blast
  next
    assume "\<not> ready" "err = None"
    then show "\<exists>nodes. ev_nodes sel nodes \<in> set t \<and>
        (\<forall>nd\<in>set nodes. mhas (m_Labels (node_Meta nd)) (datapathReadyLabelKey dp) \<longrightarrow> drops_label dp nd None \<in> set t)"
      using gate_post_closed post by simp
  qed
qed

text \<open>The readiness check before a reconcile is read-only, and answers ready only when nodes were
  listed, all of them carry the label and the DaemonSet is ready.\<close>

lemma datapath_check_sound:
  assumes "result (agwDatapathNodesReady K namespace sel dp) s = (ready, err)"
    and "t = events (agwDatapathNodesReady K namespace sel dp) s"
  shows "(\<forall>e\<in>set t. \<not> is_write e) \<and> (ready \<longrightarrow> err = None \<and> (\<exists>nodes d. nodes \<noteq> [] \<and>
    t = [ev_nodes sel nodes, ev_ds namespace d] \<and> ds_ready d \<and>
    (\<forall>nd\<in>set nodes. node_label nd (datapathReadyLabelKey dp) = datapathReadyLabelValue dp)))"
  using specD(2) [OF spec_agwDatapathNodesReady [of K namespace sel dp], of s] assms by (simp add: list_all_iff)

subsection \<open>Witnesses\<close>

definition demoNode :: "smap \<Rightarrow> kobj" where
  "demoNode labels = ONode \<lparr>node_Meta = (newMeta [] ''n1'')\<lparr>m_Labels := (''role'', ''agw'') # labels\<rparr>\<rparr>"

definition demoDaemonSet :: "int32 \<Rightarrow> kobj" where
  "demoDaemonSet ready = ODaemonSet \<lparr>ds_Meta = newMeta ''magma'' agwNodePrepName, ds_DesiredNumberScheduled = 1, ds_NumberReady = ready\<rparr>"

abbreviation demoSelector :: smap where "demoSelector \<equiv> [(''role'', ''agw'')]"
abbreviation demoDatapath :: magmaAGWDatapathSpec where "demoDatapath \<equiv> as_Datapath demoSpec"

lemma datapath_gate_opens_witness:
  "\<exists>nodes d. nodes \<noteq> [] \<and> ds_ready d \<and>
    ev_nodes demoSelector nodes \<in> set (events (reconcileAGWDatapathLabels (refClient [demoNode [], demoDaemonSet 1])
      ''magma'' demoSelector demoDatapath) refStart) \<and>
    (\<forall>nd\<in>set nodes. node_label nd (datapathReadyLabelKey demoDatapath) = datapathReadyLabelValue demoDatapath \<or>
      adds_label demoDatapath nd None \<in> set (events (reconcileAGWDatapathLabels
        (refClient [demoNode [], demoDaemonSet 1]) ''magma'' demoSelector demoDatapath) refStart))"
proof -
  have "result (reconcileAGWDatapathLabels (refClient [demoNode [], demoDaemonSet 1]) ''magma'' demoSelector demoDatapath) refStart
      = (True, [], None)" by code_simp
  from datapath_gate_opens [OF this] show ?thesis by blast
qed

lemma datapath_gate_writes_witness:
  "\<exists>nodes. ev_nodes demoSelector nodes \<in> set (events (reconcileAGWDatapathLabels
      (refClient [demoNode [(''magma.io/agw-datapath-ready'', ''true'')], demoDaemonSet 0]) ''magma'' demoSelector demoDatapath) refStart) \<and>
    (\<forall>nd\<in>set nodes. mhas (m_Labels (node_Meta nd)) (datapathReadyLabelKey demoDatapath) \<longrightarrow>
      drops_label demoDatapath nd None \<in> set (events (reconcileAGWDatapathLabels
        (refClient [demoNode [(''magma.io/agw-datapath-ready'', ''true'')], demoDaemonSet 0]) ''magma'' demoSelector demoDatapath) refStart))"
proof -
  have "result (reconcileAGWDatapathLabels (refClient [demoNode [(''magma.io/agw-datapath-ready'', ''true'')], demoDaemonSet 0])
      ''magma'' demoSelector demoDatapath) refStart
      = (False, ''waiting for agw-node-prep DaemonSet readiness: 0/1 ready'', None)" by code_simp
  from datapath_gate_writes [OF this refl] show ?thesis by blast
qed

end
