(* ===== verification/Status_Writer.thy ===== *)
theory Status_Writer
  imports Native_Values
begin

text \<open>
  Status conditions and the writes of status subresources: the helpers of
  \<^verbatim>\<open>magmaagw_controller.go\<close> (\<^verbatim>\<open>setAGWCondition\<close>, \<^verbatim>\<open>removeAGWCondition\<close>, the three
  \<^verbatim>\<open>updateAGW...Status...\<close> functions) and \<^verbatim>\<open>updateOrc8rStatus\<close> of
  \<^verbatim>\<open>magmaorc8r_controller.go\<close>. The locale \<open>status_writer\<close> is the contract both reconcilers
  rely on; it is interpreted on the AGW and the Orc8r writer.
\<close>

section \<open>Results of a reconciliation\<close>

text \<open>\<^verbatim>\<open>ctrl.Result\<close>, with the delay in seconds.\<close>

record ctrlResult =
  res_Requeue :: bool
  res_RequeueAfter :: nat

definition noResult :: ctrlResult where
  "noResult = \<lparr>res_Requeue = False, res_RequeueAfter = 0\<rparr>"

definition requeueAfter :: "nat \<Rightarrow> ctrlResult" where
  "requeueAfter n = \<lparr>res_Requeue = False, res_RequeueAfter = n\<rparr>"

section \<open>AGW conditions and status\<close>

definition setAGWCondition ::
    "lib \<Rightarrow> magmaAGW \<Rightarrow> string \<Rightarrow> conditionStatus \<Rightarrow> string \<Rightarrow> string \<Rightarrow> magmaAGW" where
  "setAGWCondition L agw conditionType status reason message =
     agw\<lparr>agw_Status := (agw_Status agw)\<lparr>ast_Conditions :=
       l_SetStatusCondition L (ast_Conditions (agw_Status agw))
         \<lparr>c_Type = conditionType, c_Status = status, c_Reason = reason,
          c_Message = conditionMessage message, c_ObservedGeneration = m_Generation (agw_Meta agw)\<rparr>\<rparr>\<rparr>"

definition removeAGWCondition :: "lib \<Rightarrow> magmaAGW \<Rightarrow> string \<Rightarrow> magmaAGW" where
  "removeAGWCondition L agw conditionType =
     agw\<lparr>agw_Status := (agw_Status agw)\<lparr>ast_Conditions :=
       l_RemoveStatusCondition L (ast_Conditions (agw_Status agw)) conditionType\<rparr>\<rparr>"

text \<open>The object a status update sends: generation, release and the Ready condition set.\<close>

definition stampAGW :: "lib \<Rightarrow> magmaAGW \<Rightarrow> string \<Rightarrow> conditionStatus \<Rightarrow> string \<Rightarrow> string \<Rightarrow> magmaAGW" where
  "stampAGW L agw releaseName status reason message =
     setAGWCondition L
       (agw\<lparr>agw_Status := (agw_Status agw)\<lparr>
          ast_ObservedGeneration := m_Generation (agw_Meta agw),
          ast_ReleaseName := releaseName,
          ast_ReleaseNamespace := m_Namespace (agw_Meta agw)\<rparr>\<rparr>)
       ''Ready'' status reason message"

definition updateAGWStatusWithRequeue ::
    "'w client \<Rightarrow> lib \<Rightarrow> magmaAGW \<Rightarrow> string \<Rightarrow> conditionStatus \<Rightarrow> string \<Rightarrow> string \<Rightarrow> nat
      \<Rightarrow> ('w, ctrlResult \<times> error option) kio" where
  "updateAGWStatusWithRequeue K L agw releaseName status reason message after = do {
     r \<leftarrow> kStatusUpdate K (OAGW (stampAGW L agw releaseName status reason message));
     return (case r of
       Some e \<Rightarrow> (if IsConflict e then (requeueAfter 5, None) else (noResult, Some e))
     | None \<Rightarrow> (if status = ConditionTrue then (noResult, None) else (requeueAfter after, None)))
   }"

definition updateAGWStatus ::
    "'w client \<Rightarrow> lib \<Rightarrow> magmaAGW \<Rightarrow> string \<Rightarrow> conditionStatus \<Rightarrow> string \<Rightarrow> string
      \<Rightarrow> ('w, ctrlResult \<times> error option) kio" where
  "updateAGWStatus K L agw releaseName status reason message =
     updateAGWStatusWithRequeue K L agw releaseName status reason message 120"

definition updateAGWReadyStatusWithRequeue ::
    "'w client \<Rightarrow> lib \<Rightarrow> magmaAGW \<Rightarrow> string \<Rightarrow> string \<Rightarrow> string \<Rightarrow> nat
      \<Rightarrow> ('w, ctrlResult \<times> error option) kio" where
  "updateAGWReadyStatusWithRequeue K L agw releaseName reason message after = do {
     r \<leftarrow> kStatusUpdate K (OAGW (stampAGW L agw releaseName ConditionTrue reason message));
     return (case r of
       Some e \<Rightarrow> (if IsConflict e then (requeueAfter 5, None) else (noResult, Some e))
     | None \<Rightarrow> (requeueAfter after, None))
   }"

section \<open>Orc8r status\<close>

definition stampOrc8r ::
    "lib \<Rightarrow> magmaOrc8r \<Rightarrow> string \<Rightarrow> conditionStatus \<Rightarrow> string \<Rightarrow> string \<Rightarrow> magmaOrc8r" where
  "stampOrc8r L orc8r releaseName status reason message =
     orc8r\<lparr>orc8r_Status := (orc8r_Status orc8r)\<lparr>
       ost_ObservedGeneration := m_Generation (orc8r_Meta orc8r),
       ost_ReleaseName := releaseName,
       ost_ReleaseNamespace := m_Namespace (orc8r_Meta orc8r),
       ost_NMSURL := (case os_NMSNodePort (orc8r_Spec orc8r) of
           None \<Rightarrow> ''http://<node-ip>:<magmalte-nodeport>/user/login''
         | Some port \<Rightarrow> ''http://<node-ip>:'' @ int_str (sint port) @ ''/user/login''),
       ost_Conditions := l_SetStatusCondition L (ost_Conditions (orc8r_Status orc8r))
         \<lparr>c_Type = ''Ready'', c_Status = status, c_Reason = reason,
          c_Message = conditionMessage message, c_ObservedGeneration = m_Generation (orc8r_Meta orc8r)\<rparr>\<rparr>\<rparr>"

definition updateOrc8rStatus ::
    "'w client \<Rightarrow> lib \<Rightarrow> magmaOrc8r \<Rightarrow> string \<Rightarrow> conditionStatus \<Rightarrow> string \<Rightarrow> string
      \<Rightarrow> ('w, ctrlResult \<times> error option) kio" where
  "updateOrc8rStatus K L orc8r releaseName status reason message = do {
     r \<leftarrow> kStatusUpdate K (OOrc8r (stampOrc8r L orc8r releaseName status reason message));
     return (case r of
       Some e \<Rightarrow> (if IsConflict e then (requeueAfter 5, None) else (noResult, Some e))
     | None \<Rightarrow> (if status = ConditionTrue then (noResult, None) else (requeueAfter 120, None)))
   }"

section \<open>The contract of a status writer\<close>

text \<open>
  One status update of the stamped object and nothing else; what the answer means for the
  result; what the stamped object says about its Ready condition.
\<close>

locale status_writer =
  fixes put_status :: "'w client \<Rightarrow> lib \<Rightarrow> 'a \<Rightarrow> string \<Rightarrow> conditionStatus \<Rightarrow> string \<Rightarrow> string
      \<Rightarrow> ('w, ctrlResult \<times> error option) kio"
    and stamp :: "lib \<Rightarrow> 'a \<Rightarrow> string \<Rightarrow> conditionStatus \<Rightarrow> string \<Rightarrow> string \<Rightarrow> 'a"
    and wrap :: "'a \<Rightarrow> kobj"
    and conds :: "'a \<Rightarrow> condition list"
    and generation :: "'a \<Rightarrow> int64"
  assumes put_triple:
    "spec (put_status K L x rn st reason msg)
       (\<lambda>r t. \<exists>q. t = [EvStatusUpdate (wrap (stamp L x rn st reason msg)) q] \<and>
         (case q of
            Some e \<Rightarrow> (if IsConflict e then r = (requeueAfter 5, None) else r = (noResult, Some e))
          | None \<Rightarrow> (if st = ConditionTrue then r = (noResult, None) else r = (requeueAfter 120, None))))"
    and stamp_conds:
    "conds (stamp L x rn st reason msg) = l_SetStatusCondition L (conds x)
       \<lparr>c_Type = ''Ready'', c_Status = st, c_Reason = reason, c_Message = conditionMessage msg,
        c_ObservedGeneration = generation x\<rparr>"
begin

lemma stamp_ready:
  assumes "conditions_ok L"
  shows "cond_of (conds (stamp L x rn st reason msg)) ''Ready'' =
    Some \<lparr>c_Type = ''Ready'', c_Status = st, c_Reason = reason, c_Message = conditionMessage msg,
          c_ObservedGeneration = generation x\<rparr>"
  using assms by (simp add: stamp_conds conditions_ok_def)

lemma stamp_frame:
  assumes "conditions_ok L" and "ty \<noteq> ''Ready''"
  shows "cond_of (conds (stamp L x rn st reason msg)) ty = cond_of (conds x) ty"
  using assms by (simp add: stamp_conds conditions_ok_def)

text \<open>A reconcile that reports not-ready always comes back: by an error or by a timer.\<close>

lemma not_ready_comes_back:
  assumes "st \<noteq> ConditionTrue"
  shows "spec (put_status K L x rn st reason msg) (\<lambda>(res, err) t. err \<noteq> None \<or> 0 < res_RequeueAfter res)"
  by (rule spec_weaken [OF put_triple])
    (use assms in \<open>auto simp: requeueAfter_def split: option.splits if_splits\<close>)

lemma only_status_write:
  "spec (put_status K L x rn st reason msg)
     (confined (\<lambda>e. \<exists>q. e = EvStatusUpdate (wrap (stamp L x rn st reason msg)) q))"
  by (rule spec_weaken [OF put_triple]) (auto simp: confined_def)

end

interpretation agw_status: status_writer updateAGWStatus stampAGW OAGW
  "\<lambda>a. ast_Conditions (agw_Status a)" "\<lambda>a. m_Generation (agw_Meta a)"
proof
  fix K :: "'w client" and L x rn st reason msg
  show "spec (updateAGWStatus K L x rn st reason msg)
       (\<lambda>r t. \<exists>q. t = [EvStatusUpdate (OAGW (stampAGW L x rn st reason msg)) q] \<and>
         (case q of
            Some e \<Rightarrow> (if IsConflict e then r = (requeueAfter 5, None) else r = (noResult, Some e))
          | None \<Rightarrow> (if st = ConditionTrue then r = (noResult, None) else r = (requeueAfter 120, None))))"
    unfolding updateAGWStatus_def updateAGWStatusWithRequeue_def
    by (intro spec_structure spec_rules) (auto split: option.splits)
qed (simp add: stampAGW_def setAGWCondition_def)

interpretation orc8r_status: status_writer updateOrc8rStatus stampOrc8r OOrc8r
  "\<lambda>a. ost_Conditions (orc8r_Status a)" "\<lambda>a. m_Generation (orc8r_Meta a)"
proof
  fix K :: "'w client" and L x rn st reason msg
  show "spec (updateOrc8rStatus K L x rn st reason msg)
       (\<lambda>r t. \<exists>q. t = [EvStatusUpdate (OOrc8r (stampOrc8r L x rn st reason msg)) q] \<and>
         (case q of
            Some e \<Rightarrow> (if IsConflict e then r = (requeueAfter 5, None) else r = (noResult, Some e))
          | None \<Rightarrow> (if st = ConditionTrue then r = (noResult, None) else r = (requeueAfter 120, None))))"
    unfolding updateOrc8rStatus_def
    by (intro spec_structure spec_rules) (auto split: option.splits)
qed (simp add: stampOrc8r_def)

section \<open>Triples and frames\<close>

lemma spec_updateAGWStatusWithRequeue [spec_rules]:
  assumes "\<And>q r. Q r [EvStatusUpdate (OAGW (stampAGW L agw rn st reason msg)) q]"
  shows "spec (updateAGWStatusWithRequeue K L agw rn st reason msg after) Q"
  unfolding updateAGWStatusWithRequeue_def by (intro spec_structure spec_rules) (simp add: assms)

lemma spec_updateAGWStatus [spec_rules]:
  assumes "\<And>q r. Q r [EvStatusUpdate (OAGW (stampAGW L agw rn st reason msg)) q]"
  shows "spec (updateAGWStatus K L agw rn st reason msg) Q"
  unfolding updateAGWStatus_def by (rule spec_updateAGWStatusWithRequeue) (rule assms)

lemma spec_updateAGWReadyStatusWithRequeue [spec_rules]:
  assumes "\<And>q r. Q r [EvStatusUpdate (OAGW (stampAGW L agw rn ConditionTrue reason msg)) q]"
  shows "spec (updateAGWReadyStatusWithRequeue K L agw rn reason msg after) Q"
  unfolding updateAGWReadyStatusWithRequeue_def by (intro spec_structure spec_rules) (simp add: assms)

lemma spec_updateOrc8rStatus [spec_rules]:
  assumes "\<And>q r. Q r [EvStatusUpdate (OOrc8r (stampOrc8r L orc8r rn st reason msg)) q]"
  shows "spec (updateOrc8rStatus K L orc8r rn st reason msg) Q"
  unfolding updateOrc8rStatus_def by (intro spec_structure spec_rules) (simp add: assms)

lemma setAGWCondition_frame [simp]:
  "agw_Meta (setAGWCondition L agw ty st reason msg) = agw_Meta agw"
  "agw_Spec (setAGWCondition L agw ty st reason msg) = agw_Spec agw"
  by (simp_all add: setAGWCondition_def)

lemma removeAGWCondition_frame [simp]:
  "agw_Meta (removeAGWCondition L agw ty) = agw_Meta agw"
  "agw_Spec (removeAGWCondition L agw ty) = agw_Spec agw"
  by (simp_all add: removeAGWCondition_def)

lemma stampAGW_frame [simp]:
  "agw_Meta (stampAGW L agw rn st reason msg) = agw_Meta agw"
  "agw_Spec (stampAGW L agw rn st reason msg) = agw_Spec agw"
  by (simp_all add: stampAGW_def)

lemma cond_of_setAGWCondition:
  assumes "conditions_ok L"
  shows "cond_of (ast_Conditions (agw_Status (setAGWCondition L agw ty st reason msg))) ty' =
    (if ty' = ty then Some \<lparr>c_Type = ty, c_Status = st, c_Reason = reason, c_Message = conditionMessage msg,
       c_ObservedGeneration = m_Generation (agw_Meta agw)\<rparr>
     else cond_of (ast_Conditions (agw_Status agw)) ty')"
  using assms by (simp add: setAGWCondition_def conditions_ok_def)

lemma cond_of_removeAGWCondition:
  assumes "conditions_ok L"
  shows "cond_of (ast_Conditions (agw_Status (removeAGWCondition L agw ty))) ty' =
    (if ty' = ty then None else cond_of (ast_Conditions (agw_Status agw)) ty')"
  using assms by (simp add: removeAGWCondition_def conditions_ok_def)

section \<open>Properties\<close>

text \<open>A status report of the AGW writes one status update and nothing else; the object sent
  carries the reported Ready condition and keeps every other condition; and when the report
  is not Ready=True, the reconcile comes back by an error or a timer.\<close>

lemma agw_status_report:
  assumes "conditions_ok L"
  shows "(\<exists>q. events (updateAGWStatus K L agw rn st reason msg) s =
      [EvStatusUpdate (OAGW (stampAGW L agw rn st reason msg)) q]) \<and>
    (\<forall>ty. cond_of (ast_Conditions (agw_Status (stampAGW L agw rn st reason msg))) ty =
      (if ty = ''Ready'' then Some \<lparr>c_Type = ''Ready'', c_Status = st, c_Reason = reason,
         c_Message = conditionMessage msg, c_ObservedGeneration = m_Generation (agw_Meta agw)\<rparr>
       else cond_of (ast_Conditions (agw_Status agw)) ty)) \<and>
    (st \<noteq> ConditionTrue \<longrightarrow> snd (result (updateAGWStatus K L agw rn st reason msg) s) \<noteq> None \<or>
      0 < res_RequeueAfter (fst (result (updateAGWStatus K L agw rn st reason msg) s)))"
  using specD(2) [OF agw_status.put_triple [of K L agw rn st reason msg], of s]
    specD(2) [OF agw_status.not_ready_comes_back [of st K L agw rn reason msg], of s]
    agw_status.stamp_ready [OF assms] agw_status.stamp_frame [OF assms]
  by (auto simp: split_beta)

lemma agw_status_report_witness:
  "(\<exists>q. events (updateAGWStatus (refClient []) (refLib (\<lambda>_. [])) demoAGW ''agw'' ConditionFalse ''R'' ''m'') refStart =
      [EvStatusUpdate (OAGW (stampAGW (refLib (\<lambda>_. [])) demoAGW ''agw'' ConditionFalse ''R'' ''m'')) q]) \<and>
    \<not> (snd (result (updateAGWStatus (refClient []) (refLib (\<lambda>_. [])) demoAGW ''agw'' ConditionFalse ''R'' ''m'') refStart) = None \<and>
     res_RequeueAfter (fst (result (updateAGWStatus (refClient []) (refLib (\<lambda>_. [])) demoAGW ''agw'' ConditionFalse ''R'' ''m'') refStart)) = 0)"
  using agw_status_report [OF refLib_conditions [of "\<lambda>_. []"], of "refClient []" demoAGW "''agw''" ConditionFalse "''R''" "''m''" refStart]
  by auto

end
