(* ===== verification/SHA256.thy ===== *)
theory SHA256
  imports Go_Strings
begin

text \<open>
  SHA-256 (FIPS 180-4), the hash of \<^verbatim>\<open>crypto/sha256\<close> behind every content hash of the
  operator (\<^verbatim>\<open>sha256Hex\<close> of \<^verbatim>\<open>agw_identity.go\<close>), on 32-bit words with wrap-around addition.
\<close>

unbundle bit_operations_syntax

type_synonym w32 = "32 word"

section \<open>The compression function\<close>

definition rotr :: "nat \<Rightarrow> w32 \<Rightarrow> w32" where
  "rotr n x = drop_bit n x OR push_bit (32 - n) x"

definition Ch :: "w32 \<Rightarrow> w32 \<Rightarrow> w32 \<Rightarrow> w32" where
  "Ch x y z = (x AND y) XOR (NOT x AND z)"

definition Maj :: "w32 \<Rightarrow> w32 \<Rightarrow> w32 \<Rightarrow> w32" where
  "Maj x y z = (x AND y) XOR (x AND z) XOR (y AND z)"

definition Sigma0 :: "w32 \<Rightarrow> w32" where
  "Sigma0 x = rotr 2 x XOR rotr 13 x XOR rotr 22 x"

definition Sigma1 :: "w32 \<Rightarrow> w32" where
  "Sigma1 x = rotr 6 x XOR rotr 11 x XOR rotr 25 x"

definition sigma0 :: "w32 \<Rightarrow> w32" where
  "sigma0 x = rotr 7 x XOR rotr 18 x XOR drop_bit 3 x"

definition sigma1 :: "w32 \<Rightarrow> w32" where
  "sigma1 x = rotr 17 x XOR rotr 19 x XOR drop_bit 10 x"

text \<open>The first 32 bits of the fractional parts of the cube roots of the first 64 primes, in decimal.\<close>

definition round_constants :: "w32 list" where
  "round_constants = [
     1116352408, 1899447441, 3049323471, 3921009573, 961987163, 1508970993, 2453635748, 2870763221,
     3624381080, 310598401, 607225278, 1426881987, 1925078388, 2162078206, 2614888103, 3248222580,
     3835390401, 4022224774, 264347078, 604807628, 770255983, 1249150122, 1555081692, 1996064986,
     2554220882, 2821834349, 2952996808, 3210313671, 3336571891, 3584528711, 113926993, 338241895,
     666307205, 773529912, 1294757372, 1396182291, 1695183700, 1986661051, 2177026350, 2456956037,
     2730485921, 2820302411, 3259730800, 3345764771, 3516065817, 3600352804, 4094571909, 275423344,
     430227734, 506948616, 659060556, 883997877, 958139571, 1322822218, 1537002063, 1747873779,
     1955562222, 2024104815, 2227730452, 2361852424, 2428436474, 2756734187, 3204031479, 3329325298]"

text \<open>The message schedule, newest word first.\<close>

definition schedule_step :: "w32 list \<Rightarrow> w32 list" where
  "schedule_step ws = (sigma1 (ws ! 1) + ws ! 6 + sigma0 (ws ! 14) + ws ! 15) # ws"

definition schedule :: "w32 list \<Rightarrow> w32 list" where
  "schedule block = rev ((schedule_step ^^ 48) (rev block))"

type_synonym hash_state = "w32 \<times> w32 \<times> w32 \<times> w32 \<times> w32 \<times> w32 \<times> w32 \<times> w32"

fun sha_round :: "w32 \<times> w32 \<Rightarrow> hash_state \<Rightarrow> hash_state" where
  "sha_round (k, w) (a, b, c, d, e, f, g, h) =
     (let t1 = h + Sigma1 e + Ch e f g + k + w; t2 = Sigma0 a + Maj a b c
      in (t1 + t2, a, b, c, d + t1, e, f, g))"

fun add_state :: "hash_state \<Rightarrow> hash_state \<Rightarrow> hash_state" where
  "add_state (a, b, c, d, e, f, g, h) (a', b', c', d', e', f', g', h') =
     (a + a', b + b', c + c', d + d', e + e', f + f', g + g', h + h')"

definition compress :: "hash_state \<Rightarrow> w32 list \<Rightarrow> hash_state" where
  "compress st block = add_state st (fold sha_round (zip round_constants (schedule block)) st)"

definition initial_state :: hash_state where
  "initial_state = (1779033703, 3144134277, 1013904242, 2773480762, 1359893119, 2600822924, 528734635, 1541459225)"

section \<open>Padding, blocks and the digest\<close>

definition byte_of :: "char \<Rightarrow> 8 word" where
  "byte_of c = word_of_int (of_char c)"

definition be_bytes :: "nat \<Rightarrow> int \<Rightarrow> 8 word list" where
  "be_bytes n x = map (\<lambda>i. word_of_int (x div 256 ^ (n - 1 - i))) [0..<n]"

definition pad_zeros :: "nat \<Rightarrow> nat" where
  "pad_zeros len = (119 - len mod 64) mod 64"

definition pad :: "8 word list \<Rightarrow> 8 word list" where
  "pad m = m @ [0x80] @ replicate (pad_zeros (length m)) 0 @ be_bytes 8 (8 * int (length m))"

fun words_of :: "8 word list \<Rightarrow> w32 list" where
  "words_of (a # b # c # d # bs) =
     word_of_int (uint a * 16777216 + uint b * 65536 + uint c * 256 + uint d) # words_of bs"
| "words_of _ = []"

function blocks :: "w32 list \<Rightarrow> w32 list list" where
  "blocks ws = (if length ws < 16 then [] else take 16 ws # blocks (drop 16 ws))"
  by auto
termination by (relation "measure length") auto

declare blocks.simps [simp del]

fun state_bytes :: "hash_state \<Rightarrow> 8 word list" where
  "state_bytes (a, b, c, d, e, f, g, h) = concat (map (\<lambda>w. be_bytes 4 (uint w)) [a, b, c, d, e, f, g, h])"

definition sha256 :: "8 word list \<Rightarrow> 8 word list" where
  "sha256 m = state_bytes (fold (\<lambda>block st. compress st block) (blocks (words_of (pad m))) initial_state)"

definition sha256Hex :: "bytes \<Rightarrow> string" where
  "sha256Hex data = hex_of (sha256 (map byte_of data))"

section \<open>Shape of the digest\<close>

lemma length_be_bytes [simp]: "length (be_bytes n x) = n"
  by (simp add: be_bytes_def)

lemma pad_zeros_cases: "r < 64 \<Longrightarrow> (119 - r) mod 64 = (if r \<le> 55 then 55 - r else 119 - r)" for r :: nat
proof -
  assume r: "r < 64"
  show ?thesis
  proof (cases "r \<le> 55")
    case True
    then obtain k where "r + k = 55" using le_Suc_ex by metis
    then have "119 - r = 64 + k" and "55 - r = k" and "k < 64" by linarith+
    with True show ?thesis by simp
  qed (use r in simp)
qed

lemma pad_zeros_aligned: "(n + 1 + pad_zeros n + 8) mod 64 = 0"
proof -
  have r: "n mod 64 < 64" by simp
  have "n + 1 + pad_zeros n + 8 = 64 * (n div 64) + (if n mod 64 \<le> 55 then 64 else 128)"
    using mult_div_mod_eq [of 64 n] r unfolding pad_zeros_def pad_zeros_cases [OF r]
    by (cases "n mod 64 \<le> 55"; simp only: if_True if_False; linarith)
  then show ?thesis by simp
qed

lemma pad_aligned: "length (pad m) mod 64 = 0"
  using pad_zeros_aligned [of "length m"] by (simp add: pad_def ac_simps)

lemma length_words_of: "length (words_of bs) = length bs div 4"
  by (induction bs rule: words_of.induct) auto

lemma blocks_complete: "length ws mod 16 = 0 \<Longrightarrow> concat (blocks ws) = ws"
proof (induction ws rule: blocks.induct)
  case (1 ws)
  show ?case
  proof (cases "length ws < 16")
    case True
    with 1 show ?thesis by (subst blocks.simps) auto
  next
    case False
    with 1 have "concat (blocks (drop 16 ws)) = drop 16 ws" by (simp add: mod_if)
    with False show ?thesis by (subst blocks.simps) simp
  qed
qed

lemma length_state_bytes [simp]: "length (state_bytes st) = 32"
  by (cases st rule: state_bytes.cases) simp

lemma length_sha256Hex [simp]: "length (sha256Hex data) = 64"
  by (simp add: sha256Hex_def sha256_def)

lemma sha256Hex_not_Nil [simp]: "sha256Hex data \<noteq> []"
  by (metis length_sha256Hex list.size(3) zero_neq_numeral)

end
