(* ===== verification/AGW_Identity.thy ===== *)
theory AGW_Identity
  imports Status_Writer SHA256
begin

text \<open>
  The bootstrap identity of an AGW (\<^verbatim>\<open>agw_identity.go\<close>): the challenge key and hardware ID
  kept in a Secret, imported or generated once, and the state derived from them. The key
  and certificate codecs of \<^verbatim>\<open>crypto/x509\<close> and \<^verbatim>\<open>encoding/pem\<close> are fields of the library
  parameter; what a reconcile draws from \<^verbatim>\<open>crypto/rand\<close> is the record \<open>entropy\<close> (each value
  is drawn at most once per reconcile).
\<close>

abbreviation defaultAGWIdentitySecretName :: string where
  "defaultAGWIdentitySecretName \<equiv> ''agw-bootstrap-challenge-key''"
abbreviation defaultAGWChallengeKeySecretKey :: string where
  "defaultAGWChallengeKeySecretKey \<equiv> ''gw_challenge.key''"
abbreviation agwIdentityManagedLabel :: string where "agwIdentityManagedLabel \<equiv> ''magma.infra.don/identity''"
abbreviation agwIdentityManagedValue :: string where "agwIdentityManagedValue \<equiv> ''agw''"

section \<open>Keys\<close>

record entropy =
  ent_GenerateKey :: "error + ecdsaKey"
  ent_Read :: "error + 8 word list"

definition wrapError :: "string \<Rightarrow> error \<Rightarrow> error" where
  "wrapError text e = Error (err_reason e) (text @ err_text e)"

definition encodeECPrivateKeyPEM :: "lib \<Rightarrow> ecdsaKey \<Rightarrow> error + bytes" where
  "encodeECPrivateKeyPEM L key = (case l_MarshalECPrivateKey L key of
     Inl e \<Rightarrow> Inl e
   | Inr der \<Rightarrow> Inr (l_PemEncode L ''EC PRIVATE KEY'' der))"

definition generateECDSAPrivateKeyPEM :: "lib \<Rightarrow> entropy \<Rightarrow> error + bytes" where
  "generateECDSAPrivateKeyPEM L rnd = (case ent_GenerateKey rnd of
     Inl e \<Rightarrow> Inl e
   | Inr key \<Rightarrow> encodeECPrivateKeyPEM L key)"

text \<open>
  The parsing that \<^verbatim>\<open>normalizePrivateKeyPEM\<close> and \<^verbatim>\<open>publicKeyBase64DER\<close> both start with: SEC 1
  first, PKCS 8 as the fallback.
\<close>

definition parseChallengeKey :: "lib \<Rightarrow> bytes \<Rightarrow> error + ecdsaKey" where
  "parseChallengeKey L value = (case l_PemDecode L (trimSpace value) of
     None \<Rightarrow> Inl (Errorf ''AGW challenge key must be PEM encoded'')
   | Some block \<Rightarrow> (case l_ParseECPrivateKey L block of
       Inr key \<Rightarrow> Inr key
     | Inl e \<Rightarrow> (case l_ParsePKCS8PrivateKey L block of
         Inl _ \<Rightarrow> Inl (wrapError ''parse AGW challenge key: '' e)
       | Inr (PKCS8_ECDSA key) \<Rightarrow> Inr key
       | Inr PKCS8_Other \<Rightarrow> Inl (Errorf ''AGW challenge key must be an ECDSA private key''))))"

definition normalizePrivateKeyPEM :: "lib \<Rightarrow> bytes \<Rightarrow> error + bytes" where
  "normalizePrivateKeyPEM L value = (case parseChallengeKey L value of
     Inl e \<Rightarrow> Inl e
   | Inr key \<Rightarrow> encodeECPrivateKeyPEM L key)"

definition publicKeyBase64DER :: "lib \<Rightarrow> bytes \<Rightarrow> error + string" where
  "publicKeyBase64DER L privateKeyPEM = (case parseChallengeKey L privateKeyPEM of
     Inl e \<Rightarrow> Inl e
   | Inr key \<Rightarrow> (case l_MarshalPKIXPublicKey L key of
       Inl e \<Rightarrow> Inl e
     | Inr der \<Rightarrow> Inr (base64_encode der)))"

definition setVersionBits :: "8 word list \<Rightarrow> 8 word list" where
  "setVersionBits raw =
     (let raw' = raw[6 := (raw ! 6 AND 0x0f) OR 0x40]
      in raw'[8 := (raw' ! 8 AND 0x3f) OR 0x80])"

definition formatUUID :: "8 word list \<Rightarrow> string" where
  "formatUUID raw = hex_of (take 4 raw) @ ''-'' @ hex_of (take 2 (drop 4 raw)) @ ''-'' @
     hex_of (take 2 (drop 6 raw)) @ ''-'' @ hex_of (take 2 (drop 8 raw)) @ ''-'' @ hex_of (drop 10 raw)"

definition newHardwareID :: "entropy \<Rightarrow> error + string" where
  "newHardwareID rnd = (case ent_Read rnd of
     Inl e \<Rightarrow> Inl e
   | Inr raw \<Rightarrow> Inr (formatUUID (setVersionBits raw)))"

section \<open>The identity Secret\<close>

record agwIdentityState =
  ids_SecretName :: string
  ids_HardwareID :: string
  ids_PrivateKeyB64 :: string
  ids_PublicKeyB64 :: string
  ids_PublicKeyHash :: string
  ids_GatewayRegistered :: bool

definition identitySecretName :: "magmaAGW \<Rightarrow> string" where
  "identitySecretName agw =
     (let n = id_SecretName (as_Identity (agw_Spec agw)) in
      if n = [] then defaultAGWIdentitySecretName else n)"

text \<open>
  The key the spec asks for; \<^const>\<open>None\<close> is \<^verbatim>\<open>nil\<close>. The text of a base64 error carries no byte
  offset here.
\<close>

definition desiredAGWPrivateKey :: "'w client \<Rightarrow> lib \<Rightarrow> magmaAGW \<Rightarrow> ('w, error + bytes option) kio" where
  "desiredAGWPrivateKey K L agw =
     (let idn = as_Identity (agw_Spec agw);
          refName = id_ImportSecretName idn;
          ns = m_Namespace (agw_Meta agw);
          encoded = mget (as_Values (agw_Spec agw)) ''config.gwChallenge''
      in if refName \<noteq> [] then
           (let refKey = (if id_ImportSecretKey idn = [] then defaultAGWChallengeKeySecretKey else id_ImportSecretKey idn)
            in do {
              r \<leftarrow> getSecret K ns refName;
              return (case r of
                Inl e \<Rightarrow> Inl (wrapError (''read imported AGW challenge key secret '' @ ns @ ''/'' @ refName @ '': '') e)
              | Inr source \<Rightarrow>
                  (let value = mget (sec_Data source) refKey in
                   if value = [] then Inl (Errorf (''imported AGW challenge key secret '' @ ns @ ''/'' @ refName
                     @ '' has no data['' @ quote refKey @ '']''))
                   else map_sum id Some (normalizePrivateKeyPEM L value)))
            })
         else if encoded \<noteq> [] then
           return (case base64_decode encoded of
             None \<Rightarrow> Inl (Errorf ''decode legacy spec.values.config.gwChallenge: illegal base64 data'')
           | Some value \<Rightarrow> map_sum id Some (normalizePrivateKeyPEM L value))
         else return (Inr None))"

text \<open>
  The mutate callback of \<^verbatim>\<open>CreateOrUpdate\<close>: which key, which hardware ID, and the Secret
  written from them.
\<close>

definition identityKey :: "lib \<Rightarrow> entropy \<Rightarrow> magmaAGW \<Rightarrow> bytes option \<Rightarrow> secret \<Rightarrow> error + bytes" where
  "identityKey L rnd agw desired secret =
     (let privateKeyPEM = (case desired of
            None \<Rightarrow> mget (sec_Data secret) defaultAGWChallengeKeySecretKey
          | Some p \<Rightarrow> (if equalFold (id_RotationPolicy (as_Identity (agw_Spec agw))) ''Rotate''
              then mget (sec_Data secret) defaultAGWChallengeKeySecretKey else p))
      in if privateKeyPEM = [] then generateECDSAPrivateKeyPEM L rnd else Inr privateKeyPEM)"

definition identityHardwareID :: "entropy \<Rightarrow> magmaAGW \<Rightarrow> secret \<Rightarrow> error + string" where
  "identityHardwareID rnd agw secret =
     (let a = id_HardwareID (as_Identity (agw_Spec agw));
          b = mget (as_Values (agw_Spec agw)) ''gatewayIdentity.snowflake'';
          c = mget (sec_Data secret) ''hardware_id''
      in if a \<noteq> [] then Inr a else if b \<noteq> [] then Inr b else if c \<noteq> [] then Inr c else newHardwareID rnd)"

definition writeIdentity :: "magmaAGW \<Rightarrow> bytes \<Rightarrow> string \<Rightarrow> string \<Rightarrow> secret \<Rightarrow> secret" where
  "writeIdentity agw privateKeyPEM hardwareID publicKeyB64 secret =
     (let publicKeyHash = sha256Hex publicKeyB64; m = sec_Meta secret in
      secret\<lparr>
        sec_Type := ''Opaque'',
        sec_Meta := m\<lparr>
          m_Labels := mset_key agwIdentityManagedLabel agwIdentityManagedValue
            (mset_key labelAppManagedBy managedByMagmaOperator (m_Labels m)),
          m_Annotations :=
            mset_key ''magma.infra.don/challenge-public-key-sha256'' publicKeyHash
            (mset_key ''magma.infra.don/hardware-id'' hardwareID
            (mset_key ''magma.infra.don/access-gateway-id'' (as_AccessGatewayID (agw_Spec agw))
              (m_Annotations m)))\<rparr>,
        sec_Data :=
          mset_key ''hardware_id'' hardwareID
          (mset_key ''challenge_public_key.sha256'' publicKeyHash
          (mset_key ''challenge_public_key.b64'' publicKeyB64
          (mset_key ''gw_challenge.key.b64'' (base64_encode privateKeyPEM)
          (mset_key defaultAGWChallengeKeySecretKey privateKeyPEM (sec_Data secret)))))\<rparr>)"

definition mutateIdentitySecret ::
    "lib \<Rightarrow> entropy \<Rightarrow> magmaAGW \<Rightarrow> bytes option \<Rightarrow> secret \<Rightarrow> error + secret" where
  "mutateIdentitySecret L rnd agw desired secret = (case identityKey L rnd agw desired secret of
     Inl e \<Rightarrow> Inl e
   | Inr privateKeyPEM \<Rightarrow> (case identityHardwareID rnd agw secret of
       Inl e \<Rightarrow> Inl e
     | Inr hardwareID \<Rightarrow> (case publicKeyBase64DER L privateKeyPEM of
         Inl e \<Rightarrow> Inl e
       | Inr publicKeyB64 \<Rightarrow>
           (let written = writeIdentity agw privateKeyPEM hardwareID publicKeyB64 secret in
            case l_SetControllerReference L (OAGW agw) (sec_Meta written) of
              Inl e \<Rightarrow> Inl e
            | Inr m \<Rightarrow> Inr (written\<lparr>sec_Meta := m\<rparr>)))))"

text \<open>A callback on one kind, as the generic client takes it.\<close>

definition on_secret :: "(secret \<Rightarrow> error + secret) \<Rightarrow> kobj \<Rightarrow> error + kobj" where
  "on_secret f x = (case to_secret x of None \<Rightarrow> Inl decode_error | Some s \<Rightarrow> map_sum id OSecret (f s))"

definition newSecret :: "string \<Rightarrow> string \<Rightarrow> secret" where
  "newSecret ns name = \<lparr>sec_Meta = newMeta ns name, sec_Type = [], sec_Data = []\<rparr>"

definition reconcileAGWIdentity ::
    "'w client \<Rightarrow> lib \<Rightarrow> entropy \<Rightarrow> magmaAGW \<Rightarrow> ('w, error + agwIdentityState) kio" where
  "reconcileAGWIdentity K L rnd agw =
     (let secretName = identitySecretName agw; ns = m_Namespace (agw_Meta agw) in do {
        d \<leftarrow> desiredAGWPrivateKey K L agw;
        case d of
          Inl e \<Rightarrow> return (Inl e)
        | Inr desired \<Rightarrow> do {
            r \<leftarrow> kCreateOrUpdate K (OSecret (newSecret ns secretName)) (on_secret (mutateIdentitySecret L rnd agw desired));
            case r of
              Inl e \<Rightarrow> return (Inl e)
            | Inr _ \<Rightarrow> do {
                g \<leftarrow> getSecret K ns secretName;
                return (case g of
                  Inl e \<Rightarrow> Inl e
                | Inr secret \<Rightarrow>
                    (let privateKeyPEM = mget (sec_Data secret) defaultAGWChallengeKeySecretKey in
                     case publicKeyBase64DER L privateKeyPEM of
                       Inl e \<Rightarrow> Inl e
                     | Inr publicKeyB64 \<Rightarrow> Inr \<lparr>
                         ids_SecretName = secretName,
                         ids_HardwareID = mget (sec_Data secret) ''hardware_id'',
                         ids_PrivateKeyB64 = base64_encode privateKeyPEM,
                         ids_PublicKeyB64 = publicKeyB64,
                         ids_PublicKeyHash = sha256Hex publicKeyB64,
                         ids_GatewayRegistered = False\<rparr>))
              }
          }
      })"

definition updateAGWStatusDetails :: "magmaAGW \<Rightarrow> agwIdentityState \<Rightarrow> magmaAGW" where
  "updateAGWStatusDetails agw identity =
     agw\<lparr>agw_Status := (agw_Status agw)\<lparr>
       ast_IdentitySecretName := ids_SecretName identity,
       ast_HardwareID := ids_HardwareID identity,
       ast_ChallengePublicKeyHash := ids_PublicKeyHash identity,
       ast_GatewayRegistered := ids_GatewayRegistered identity\<rparr>\<rparr>"

section \<open>Codec contracts\<close>

text \<open>
  What the codecs document: encoded keys parse back (also with surrounding white space
  trimmed), and an encoding is never empty.
\<close>

definition codecs_ok :: "lib \<Rightarrow> bool" where
  "codecs_ok L \<longleftrightarrow>
     (\<forall>ty der. l_PemEncode L ty der \<noteq> [] \<and> l_PemDecode L (trimSpace (l_PemEncode L ty der)) = Some der) \<and>
     (\<forall>key der. l_MarshalECPrivateKey L key = Inr der \<longrightarrow> l_ParseECPrivateKey L der = Inr key)"

lemma encode_parse:
  assumes "codecs_ok L" and "encodeECPrivateKeyPEM L key = Inr p"
  shows "p \<noteq> []" and "parseChallengeKey L p = Inr key"
  using assms by (auto simp: codecs_ok_def encodeECPrivateKeyPEM_def parseChallengeKey_def split: sum.splits)

lemma normalize_Inr:
  assumes "codecs_ok L" and "normalizePrivateKeyPEM L v = Inr p"
  shows "p \<noteq> []" and "parseChallengeKey L p = parseChallengeKey L v" and "normalizePrivateKeyPEM L p = Inr p"
    and "publicKeyBase64DER L p = publicKeyBase64DER L v"
proof -
  from assms obtain key where k: "parseChallengeKey L v = Inr key" and e: "encodeECPrivateKeyPEM L key = Inr p"
    by (auto simp: normalizePrivateKeyPEM_def split: sum.splits)
  from encode_parse [OF assms(1) e] k show "p \<noteq> []" and eq: "parseChallengeKey L p = parseChallengeKey L v" by simp_all
  with e k show "normalizePrivateKeyPEM L p = Inr p" and "publicKeyBase64DER L p = publicKeyBase64DER L v"
    by (simp_all add: normalizePrivateKeyPEM_def publicKeyBase64DER_def)
qed

section \<open>The callback\<close>

lemma formatUUID_not_Nil [simp]: "formatUUID raw \<noteq> []"
  by (simp add: formatUUID_def)

lemma identityKey_not_Nil:
  assumes "codecs_ok L" and "identityKey L rnd agw desired secret = Inr p"
  shows "p \<noteq> []"
  using assms encode_parse(1) [OF assms(1)]
  by (auto simp: identityKey_def Let_def generateECDSAPrivateKeyPEM_def split: if_splits option.splits sum.splits)

lemma identityHardwareID_not_Nil: "identityHardwareID rnd agw secret = Inr h \<Longrightarrow> h \<noteq> []"
  by (auto simp: identityHardwareID_def Let_def newHardwareID_def split: if_splits sum.splits)

lemma mutate_Inr:
  assumes "mutateIdentitySecret L rnd agw desired secret = Inr secret'"
  obtains p h b where "identityKey L rnd agw desired secret = Inr p" "identityHardwareID rnd agw secret = Inr h"
    "publicKeyBase64DER L p = Inr b" "sec_Data secret' = sec_Data (writeIdentity agw p h b secret)"
  using assms by (auto simp: mutateIdentitySecret_def Let_def split: sum.splits)

lemma writeIdentity_Data:
  "sec_Data (writeIdentity agw p h b secret) =
     mset_key ''hardware_id'' h
     (mset_key ''challenge_public_key.sha256'' (sha256Hex b)
     (mset_key ''challenge_public_key.b64'' b
     (mset_key ''gw_challenge.key.b64'' (base64_encode p)
     (mset_key defaultAGWChallengeKeySecretKey p (sec_Data secret)))))"
  by (simp add: writeIdentity_def Let_def)

lemma identityKey_kept:
  assumes "mget (sec_Data secret) defaultAGWChallengeKeySecretKey = p" and "p \<noteq> []"
    and "desired = None \<or> desired = Some p \<or>
      equalFold (id_RotationPolicy (as_Identity (agw_Spec agw))) ''Rotate''"
  shows "identityKey L rnd agw desired secret = Inr p"
  using assms by (auto simp: identityKey_def Let_def split: option.splits)

lemma identityKey_fixed:
  assumes "codecs_ok L" and "identityKey L rnd agw desired secret = Inr p" and "desired \<noteq> Some []"
    and "mget (sec_Data secret') defaultAGWChallengeKeySecretKey = p"
  shows "identityKey L rnd' agw desired secret' = Inr p"
  using assms identityKey_not_Nil [OF assms(1,2)]
  by (auto simp: identityKey_def Let_def split: option.splits if_splits)

lemma identityHardwareID_fixed:
  assumes "identityHardwareID rnd agw secret = Inr h" and "mget (sec_Data secret') ''hardware_id'' = h"
  shows "identityHardwareID rnd' agw secret' = Inr h"
  using assms identityHardwareID_not_Nil [OF assms(1)]
  by (auto simp: identityHardwareID_def Let_def split: if_splits)

section \<open>Triples\<close>

lemma spec_desiredAGWPrivateKey:
  "spec (desiredAGWPrivateKey K L agw) (\<lambda>r t. list_all (\<lambda>e. \<not> is_write e) t)"
  unfolding desiredAGWPrivateKey_def Let_def by (intro spec_structure spec_rules) simp_all

definition identity_write :: "magmaAGW \<Rightarrow> error + kobj \<Rightarrow> event" where
  "identity_write agw q =
     EvCreateOrUpdate (OSecret (newSecret (m_Namespace (agw_Meta agw)) (identitySecretName agw))) q"

text \<open>What a returned identity is made of: the Secret read back after it was written.\<close>

definition identity_of :: "lib \<Rightarrow> magmaAGW \<Rightarrow> secret \<Rightarrow> agwIdentityState \<Rightarrow> bool" where
  "identity_of L agw secret st \<longleftrightarrow>
     publicKeyBase64DER L (mget (sec_Data secret) defaultAGWChallengeKeySecretKey) = Inr (ids_PublicKeyB64 st) \<and>
     ids_PrivateKeyB64 st = base64_encode (mget (sec_Data secret) defaultAGWChallengeKeySecretKey) \<and>
     ids_PublicKeyHash st = sha256Hex (ids_PublicKeyB64 st) \<and>
     ids_HardwareID st = mget (sec_Data secret) ''hardware_id'' \<and>
     ids_SecretName st = identitySecretName agw \<and> \<not> ids_GatewayRegistered st"

definition identity_post :: "lib \<Rightarrow> magmaAGW \<Rightarrow> error + agwIdentityState \<Rightarrow> event list \<Rightarrow> bool" where
  "identity_post L agw r t \<longleftrightarrow>
     (\<forall>e\<in>set t. is_write e \<longrightarrow> (\<exists>q. e = identity_write agw q)) \<and>
     (\<forall>st. r = Inr st \<longrightarrow> (\<exists>secret y u. t = u @ [identity_write agw (Inr y),
        EvGet KSecret (m_Namespace (agw_Meta agw)) (identitySecretName agw) (Inr (OSecret secret))] \<and>
        list_all (\<lambda>e. \<not> is_write e) u \<and> identity_of L agw secret st))"

lemma spec_reconcileAGWIdentity: "spec (reconcileAGWIdentity K L rnd agw) (identity_post L agw)"
  unfolding reconcileAGWIdentity_def Let_def
  apply (rule spec_bind, rule spec_weaken [OF spec_desiredAGWPrivateKey], rule spec_sum)
  subgoal by (rule spec_return) (auto simp: identity_post_def list_all_iff)
  apply (rule spec_bind, rule spec_kCreateOrUpdate, rule spec_sum)
  subgoal by (rule spec_return) (auto simp: identity_post_def identity_write_def list_all_iff)
  apply (rule spec_bind, rule spec_getAs, rule spec_return)
  by (auto simp: identity_post_def identity_write_def identity_of_def list_all_iff as_typed_Inr
      split: sum.split sum.splits)

lemma updateAGWStatusDetails_frame [simp]:
  "agw_Meta (updateAGWStatusDetails agw st) = agw_Meta agw"
  "agw_Spec (updateAGWStatusDetails agw st) = agw_Spec agw"
  "ast_Conditions (agw_Status (updateAGWStatusDetails agw st)) = ast_Conditions (agw_Status agw)"
  by (simp_all add: updateAGWStatusDetails_def)

section \<open>Properties\<close>

lemma uuid_digits:
  fixes b :: "8 word"
  shows "unat ((b AND 0x0f) OR 0x40) div 16 = 4" and "unat ((b AND 0x3f) OR 0x80) div 16 \<in> {8, 9, 10, 11}"
proof -
  have all: "\<forall>n\<in>set [0..<256]. unat (((word_of_nat n :: 8 word) AND 0x0f) OR 0x40) div 16 = 4 \<and>
      unat (((word_of_nat n :: 8 word) AND 0x3f) OR 0x80) div 16 \<in> {8, 9, 10, 11}"
    by code_simp
  have "unat b \<in> set [0..<256]" using unsigned_less [of b] by simp
  moreover have w: "word_of_nat (unat b) = b" by simp
  ultimately show "unat ((b AND 0x0f) OR 0x40) div 16 = 4" and "unat ((b AND 0x3f) OR 0x80) div 16 \<in> {8, 9, 10, 11}"
    using all [rule_format, of "unat b"] unfolding w by blast+
qed


lemma hex_char_values:
  "hex_char 4 = CHR ''4''" "hex_char 8 = CHR ''8''" "hex_char 9 = CHR ''9''" "hex_char 10 = CHR ''a''" "hex_char 11 = CHR ''b''"
  by code_simp+

lemma take2_drop: "Suc n < length r \<Longrightarrow> take 2 (drop n r) = [r ! n, r ! Suc n]"
  by (simp add: numeral_2_eq_2 Cons_nth_drop_Suc [symmetric])

lemma formatUUID_shape:
  assumes "length r = 16"
  obtains A B E where "formatUUID r = A @ ''-'' @ B @ ''-'' @ hex_byte (unat (r ! 6)) @ hex_byte (unat (r ! 7)) @ ''-'' @
      hex_byte (unat (r ! 8)) @ hex_byte (unat (r ! 9)) @ ''-'' @ E"
    and "length A = 8" "length B = 4" "length E = 12"
proof
  show "formatUUID r = hex_of (take 4 r) @ ''-'' @ hex_of (take 2 (drop 4 r)) @ ''-'' @ hex_byte (unat (r ! 6)) @
      hex_byte (unat (r ! 7)) @ ''-'' @ hex_byte (unat (r ! 8)) @ hex_byte (unat (r ! 9)) @ ''-'' @ hex_of (drop 10 r)"
    using assms take2_drop [of 6 r] take2_drop [of 8 r] by (simp add: formatUUID_def hex_of_def)
qed (use assms in simp_all)

lemma setVersionBits_nth:
  assumes "length raw = 16"
  shows "length (setVersionBits raw) = 16" and "setVersionBits raw ! 6 = (raw ! 6 AND 0x0f) OR 0x40"
    and "setVersionBits raw ! 8 = (raw ! 8 AND 0x3f) OR 0x80"
  using assms unfolding setVersionBits_def Let_def by (simp_all only: length_list_update nth_list_update) simp_all

text \<open>C17: a generated hardware ID is a random UUID in text form: 36 characters, dashes at the four
  places, the version digit 4, and a variant digit of 8, 9, a or b.\<close>

theorem hardware_id_is_uuid4:
  assumes "ent_Read rnd = Inr raw" and "length raw = 16" and "newHardwareID rnd = Inr h"
  shows "length h = 36 \<and> h ! 8 = CHR ''-'' \<and> h ! 13 = CHR ''-'' \<and> h ! 18 = CHR ''-'' \<and> h ! 23 = CHR ''-'' \<and>
    h ! 14 = CHR ''4'' \<and> h ! 19 \<in> set ''89ab''"
proof -
  define v w where "v = unat (setVersionBits raw ! 6)" and "w = unat (setVersionBits raw ! 8)"
  have v: "v div 16 = 4" and w: "w div 16 \<in> {8, 9, 10, 11}"
    unfolding v_def w_def setVersionBits_nth [OF assms(2)] by (rule uuid_digits)+
  have "h = formatUUID (setVersionBits raw)" using assms by (simp add: newHardwareID_def)
  moreover obtain A B E c d where "formatUUID (setVersionBits raw) = A @ ''-'' @ B @ ''-'' @ hex_byte v @ hex_byte c @ ''-'' @
      hex_byte w @ hex_byte d @ ''-'' @ E" and "length A = 8" "length B = 4" "length E = 12"
    using formatUUID_shape [OF setVersionBits_nth(1) [OF assms(2)]] unfolding v_def w_def by metis
  ultimately show ?thesis
    using v w by (auto simp: nth_append hex_byte_def hex_char_values)
qed

text \<open>The identity is created once and then stays. Whatever Secret was found, once the callback
  has written an identity, running it again on that Secret, with any new random values,
  writes the same data: key, derived keys and hardware ID do not change, for every rotation
  policy and every imported key.\<close>

lemma identity_stable:
  assumes "codecs_ok L" and "desired \<noteq> Some []"
    and "mutateIdentitySecret L rnd agw desired secret = Inr secret1"
    and "mutateIdentitySecret L rnd' agw desired secret1 = Inr secret2"
  shows "map_of (sec_Data secret2) = map_of (sec_Data secret1)"
proof -
  from assms(3) obtain p h b where k: "identityKey L rnd agw desired secret = Inr p"
    and hw: "identityHardwareID rnd agw secret = Inr h" and b: "publicKeyBase64DER L p = Inr b"
    and d1: "sec_Data secret1 = sec_Data (writeIdentity agw p h b secret)" by (rule mutate_Inr)
  have "mget (sec_Data secret1) defaultAGWChallengeKeySecretKey = p" "mget (sec_Data secret1) ''hardware_id'' = h"
    by (simp_all add: d1 writeIdentity_Data)
  then have "identityKey L rnd' agw desired secret1 = Inr p" "identityHardwareID rnd' agw secret1 = Inr h"
    using identityKey_fixed [OF assms(1) k assms(2)] identityHardwareID_fixed [OF hw] by simp_all
  with b mutate_Inr [OF assms(4)] have "sec_Data secret2 = sec_Data (writeIdentity agw p h b secret1)" by (metis sum.inject(2))
  then show ?thesis by (auto simp: writeIdentity_Data d1 update_conv' fun_eq_iff)
qed

text \<open>C16: the identity a reconcile returns is consistent: its private key is the base64 form of the
  key stored in the Secret that was read back after the write, its public key belongs to
  that private key, its hash is the SHA-256 of the public key, and the hardware ID is the
  stored one.\<close>

theorem identity_consistent:
  assumes "result (reconcileAGWIdentity K L rnd agw) s = Inr st"
  shows "\<exists>pem secret. EvGet KSecret (m_Namespace (agw_Meta agw)) (identitySecretName agw) (Inr (OSecret secret))
      \<in> set (events (reconcileAGWIdentity K L rnd agw) s) \<and>
    base64_decode (ids_PrivateKeyB64 st) = Some pem \<and> pem = mget (sec_Data secret) defaultAGWChallengeKeySecretKey \<and>
    publicKeyBase64DER L pem = Inr (ids_PublicKeyB64 st) \<and> ids_PublicKeyHash st = sha256Hex (ids_PublicKeyB64 st) \<and>
    ids_HardwareID st = mget (sec_Data secret) ''hardware_id''"
proof -
  have "identity_post L agw (Inr st) (events (reconcileAGWIdentity K L rnd agw) s)"
    using specD(2) [OF spec_reconcileAGWIdentity [of K L rnd agw], of s] assms by simp
  then obtain secret where "EvGet KSecret (m_Namespace (agw_Meta agw)) (identitySecretName agw) (Inr (OSecret secret))
      \<in> set (events (reconcileAGWIdentity K L rnd agw) s)" and "identity_of L agw secret st"
    unfolding identity_post_def by fastforce
  then show ?thesis by (auto simp: identity_of_def base64_roundtrip)
qed

text \<open>Normalising a key is a projection: a normalised key is not empty, normalises to itself and
  has the public key of the original.\<close>

lemma normalize_projection:
  assumes "codecs_ok L" and "normalizePrivateKeyPEM L v = Inr p"
  shows "p \<noteq> [] \<and> normalizePrivateKeyPEM L p = Inr p \<and> publicKeyBase64DER L p = publicKeyBase64DER L v"
  using normalize_Inr [OF assms] by blast

text \<open>C18: under the rotation policy Rotate an existing key is kept and the key asked for (by import or
  by value) is ignored.\<close>

theorem rotate_keeps_existing_key:
  assumes "equalFold (id_RotationPolicy (as_Identity (agw_Spec agw))) ''Rotate''"
    and "mget (sec_Data secret) defaultAGWChallengeKeySecretKey \<noteq> []"
    and "mutateIdentitySecret L rnd agw desired secret = Inr secret'"
  shows "mget (sec_Data secret') defaultAGWChallengeKeySecretKey = mget (sec_Data secret) defaultAGWChallengeKeySecretKey"
proof -
  from assms(3) obtain p h b where "identityKey L rnd agw desired secret = Inr p"
    and "sec_Data secret' = sec_Data (writeIdentity agw p h b secret)" by (rule mutate_Inr)
  moreover have "identityKey L rnd agw desired secret = Inr (mget (sec_Data secret) defaultAGWChallengeKeySecretKey)"
    by (rule identityKey_kept) (use assms in simp_all)
  ultimately show ?thesis by (simp add: writeIdentity_Data)
qed

subsection \<open>Witnesses\<close>

lemma refLib_codecs: "codecs_ok (refLib M)"
proof -
  have "count_list (replicate n a) b = (if a = b then n else 0)" for n and a b :: char
    by (induction n) auto
  moreover have "trimSpace (CHR ''B'' # der @ ''E'') = CHR ''B'' # der @ ''E''" for der
    by (rule trimSpace_solid) (simp_all add: solid_char_def is_space_def)
  ultimately show ?thesis
    by (auto simp: codecs_ok_def refLib_def refPemEncode_def refPemDecode_def refMarshalKey_def refParseKey_def count_list_append)
qed

abbreviation demoKeys :: lib where "demoKeys \<equiv> refLib (\<lambda>_. [])"

definition demoEntropy :: "nat \<Rightarrow> entropy" where
  "demoEntropy n = \<lparr>ent_GenerateKey = Inr \<lparr>ek_D = n, ek_X = 1, ek_Y = 2\<rparr>, ent_Read = Inr (replicate 16 (of_nat n))\<rparr>"

definition demoRotate :: magmaAGW where
  "demoRotate = demoAGW\<lparr>agw_Spec := demoSpec\<lparr>as_Identity := (as_Identity demoSpec)\<lparr>id_RotationPolicy := ''rotate''\<rparr>\<rparr>\<rparr>"

lemma hardware_id_is_uuid4_witness:
  "\<exists>h. newHardwareID (demoEntropy 255) = Inr h \<and> length h = 36 \<and> h ! 14 = CHR ''4'' \<and> h ! 19 \<in> set ''89ab''"
  using hardware_id_is_uuid4 [of "demoEntropy 255" "replicate 16 (of_nat 255)"]
  by (simp add: demoEntropy_def newHardwareID_def)

definition demoSecret1 :: secret where
  "demoSecret1 = projr (mutateIdentitySecret demoKeys (demoEntropy 3) demoAGW None (newSecret ''magma'' ''s''))"

definition demoSecret2 :: secret where
  "demoSecret2 = projr (mutateIdentitySecret demoKeys (demoEntropy 7) demoAGW None demoSecret1)"

text \<open>The digest stays symbolic while runs are evaluated.\<close>

declare sha256Hex_def [code del]

lemma demo_mutations:
  "mutateIdentitySecret demoKeys (demoEntropy 3) demoAGW None (newSecret ''magma'' ''s'') = Inr demoSecret1"
  "mutateIdentitySecret demoKeys (demoEntropy 7) demoAGW None demoSecret1 = Inr demoSecret2"
proof -
  have "\<not> isl (mutateIdentitySecret demoKeys (demoEntropy 3) demoAGW None (newSecret ''magma'' ''s''))" by code_simp
  then show "mutateIdentitySecret demoKeys (demoEntropy 3) demoAGW None (newSecret ''magma'' ''s'') = Inr demoSecret1"
    unfolding demoSecret1_def by (rule sum.collapse(2) [symmetric])
  have "\<not> isl (mutateIdentitySecret demoKeys (demoEntropy 7) demoAGW None demoSecret1)" by code_simp
  then show "mutateIdentitySecret demoKeys (demoEntropy 7) demoAGW None demoSecret1 = Inr demoSecret2"
    unfolding demoSecret2_def by (rule sum.collapse(2) [symmetric])
qed

lemma identity_stable_witness: "map_of (sec_Data demoSecret2) = map_of (sec_Data demoSecret1)"
  by (rule identity_stable [OF refLib_codecs _ demo_mutations]) simp

definition demoSecret3 :: secret where
  "demoSecret3 = projr (mutateIdentitySecret demoKeys (demoEntropy 7) demoRotate (Some ''BddE'') demoSecret1)"

lemma rotate_keeps_existing_key_witness:
  "mget (sec_Data demoSecret3) defaultAGWChallengeKeySecretKey = mget (sec_Data demoSecret1) defaultAGWChallengeKeySecretKey"
proof -
  have "\<not> isl (mutateIdentitySecret demoKeys (demoEntropy 7) demoRotate (Some ''BddE'') demoSecret1)" by code_simp
  then have "mutateIdentitySecret demoKeys (demoEntropy 7) demoRotate (Some ''BddE'') demoSecret1 = Inr demoSecret3"
    unfolding demoSecret3_def by (rule sum.collapse(2) [symmetric])
  moreover have "equalFold (id_RotationPolicy (as_Identity (agw_Spec demoRotate))) ''Rotate''"
    and "mget (sec_Data demoSecret1) defaultAGWChallengeKeySecretKey \<noteq> []" by code_simp+
  ultimately show ?thesis by (intro rotate_keeps_existing_key)
qed

definition demoStored :: kobj where
  "demoStored = OSecret ((newSecret ''magma'' defaultAGWIdentitySecretName)\<lparr>
     sec_Data := [(defaultAGWChallengeKeySecretKey, ''BdddxyyE''), (''hardware_id'', ''hw-1'')]\<rparr>)"

definition demoIdentity :: agwIdentityState where
  "demoIdentity = projr (result (reconcileAGWIdentity (refClient [demoStored]) demoKeys (demoEntropy 3) demoAGW) refStart)"

lemma identity_consistent_witness:
  "ids_PublicKeyHash demoIdentity = sha256Hex (ids_PublicKeyB64 demoIdentity) \<and>
   (\<exists>pem. base64_decode (ids_PrivateKeyB64 demoIdentity) = Some pem \<and> publicKeyBase64DER demoKeys pem = Inr (ids_PublicKeyB64 demoIdentity))"
proof -
  have "\<not> isl (result (reconcileAGWIdentity (refClient [demoStored]) demoKeys (demoEntropy 3) demoAGW) refStart)" by code_simp
  then have "result (reconcileAGWIdentity (refClient [demoStored]) demoKeys (demoEntropy 3) demoAGW) refStart = Inr demoIdentity"
    unfolding demoIdentity_def by (rule sum.collapse(2) [symmetric])
  from identity_consistent [OF this] show ?thesis by blast
qed

declare sha256Hex_def [code]

end
