(* ===== verification/Hashed_Job.thy ===== *)
theory Hashed_Job
  imports Native_Values
begin

text \<open>
  The interface of the operator's one-shot Jobs. A Job carries the hash of what it was made
  for in an annotation; a reconcile reads it, replaces it when the hash is not the wanted
  one, creates it when there is none, and reports the work as done only on a finished Job
  with the wanted hash. The locale states the contract over one reconcile; \<open>job_step\<close>
  is the plain form (read, then at most one write), which gives it.
\<close>

definition job_hash :: "string \<Rightarrow> job \<Rightarrow> string" where
  "job_hash ann j = mget (m_Annotations (job_Meta j)) ann"

definition job_succeeded :: "job \<Rightarrow> bool" where
  "job_succeeded j \<longleftrightarrow> 0 < sint (job_Succeeded j)"

definition job_failed :: "job \<Rightarrow> bool" where
  "job_failed j \<longleftrightarrow> 0 < sint (job_Failed j)"

abbreviation ev_job :: "string \<Rightarrow> string \<Rightarrow> job \<Rightarrow> event" where
  "ev_job ns name j \<equiv> EvGet KJob ns name (Inr (OJob j))"

abbreviation ev_no_job :: "string \<Rightarrow> string \<Rightarrow> error \<Rightarrow> event" where
  "ev_no_job ns name e \<equiv> EvGet KJob ns name (Inl e)"

definition deletes_only_stale :: "string \<Rightarrow> string \<Rightarrow> string \<Rightarrow> string \<Rightarrow> event list \<Rightarrow> bool" where
  "deletes_only_stale ns name ann hash t \<longleftrightarrow> (\<forall>bg x q. EvDelete bg x q \<in> set t \<longrightarrow>
     bg \<and> (\<exists>j. x = OJob j \<and> ev_job ns name j \<in> set t \<and> job_hash ann j \<noteq> hash))"

definition creates_only_missing :: "string \<Rightarrow> string \<Rightarrow> string \<Rightarrow> string \<Rightarrow> event list \<Rightarrow> bool" where
  "creates_only_missing ns name ann hash t \<longleftrightarrow> (\<forall>x q. EvCreate x q \<in> set t \<longrightarrow>
     (\<exists>e. IsNotFound e \<and> ev_no_job ns name e \<in> set t) \<and>
     (\<exists>j. x = OJob j \<and> job_hash ann j = hash \<and> name_of x = name \<and> namespace_of x = ns))"

definition done_only_current :: "string \<Rightarrow> string \<Rightarrow> string \<Rightarrow> string \<Rightarrow> bool \<Rightarrow> event list \<Rightarrow> bool" where
  "done_only_current ns name ann hash fin t \<longleftrightarrow>
     (fin \<longrightarrow> (\<exists>j. ev_job ns name j \<in> set t \<and> job_hash ann j = hash \<and> (job_succeeded j \<or> job_failed j)))"

locale hashed_job =
  fixes run :: "'w client \<Rightarrow> 'p \<Rightarrow> ('w, 'r) kio"
    and ok :: "'p \<Rightarrow> bool"
    and ns :: "'p \<Rightarrow> string"
    and name :: "'p \<Rightarrow> string"
    and ann :: string
    and hash :: "'p \<Rightarrow> string"
    and is_done :: "'p \<Rightarrow> 'r \<Rightarrow> bool"
  assumes deletes: "ok p \<Longrightarrow> spec (run K p) (\<lambda>r. deletes_only_stale (ns p) (name p) ann (hash p))"
    and creates: "ok p \<Longrightarrow> spec (run K p) (\<lambda>r. creates_only_missing (ns p) (name p) ann (hash p))"
    and finishes: "ok p \<Longrightarrow> spec (run K p) (\<lambda>r. done_only_current (ns p) (name p) ann (hash p) (is_done p r))"
begin

lemma contract:
  assumes "ok p"
  shows "deletes_only_stale (ns p) (name p) ann (hash p) (events (run K p) s) \<and>
    creates_only_missing (ns p) (name p) ann (hash p) (events (run K p) s) \<and>
    done_only_current (ns p) (name p) ann (hash p) (is_done p (result (run K p) s)) (events (run K p) s)"
  using specD(2) [OF deletes [OF assms]] specD(2) [OF creates [OF assms]] specD(2) [OF finishes [OF assms]] by blast

text \<open>A Job made for the wanted hash is never deleted.\<close>

lemma current_kept:
  assumes "ok p" and "EvDelete bg (OJob j) q \<in> set (events (run K p) s)"
  shows "job_hash ann j \<noteq> hash p"
  using contract [OF assms(1)] assms(2) by (fastforce simp: deletes_only_stale_def)

lemma done_evidence:
  assumes "ok p" and "is_done p (result (run K p) s)"
  shows "\<exists>j. ev_job (ns p) (name p) j \<in> set (events (run K p) s) \<and> job_hash ann j = hash p \<and>
    (job_succeeded j \<or> job_failed j)"
  using contract [OF assms(1)] assms(2) by (fastforce simp: done_only_current_def)

end

text \<open>One read and at most one write, and the result says done only on success.\<close>

inductive job_step :: "string \<Rightarrow> string \<Rightarrow> string \<Rightarrow> string \<Rightarrow> job \<Rightarrow> bool \<Rightarrow> event list \<Rightarrow> bool"
  for ns name ann hash fresh where
  job_kept: "(fin \<Longrightarrow> \<exists>j. g = Inr (OJob j) \<and> job_hash ann j = hash \<and> job_succeeded j) \<Longrightarrow>
    job_step ns name ann hash fresh fin [EvGet KJob ns name g]"
| job_replaced: "job_hash ann j \<noteq> hash \<Longrightarrow> \<not> fin \<Longrightarrow>
    job_step ns name ann hash fresh fin [ev_job ns name j, EvDelete True (OJob j) q]"
| job_created: "IsNotFound e \<Longrightarrow> \<not> fin \<Longrightarrow>
    job_step ns name ann hash fresh fin [ev_no_job ns name e, EvCreate (OJob fresh) q]"

locale single_job =
  fixes run :: "'w client \<Rightarrow> 'p \<Rightarrow> ('w, 'r) kio"
    and ns :: "'p \<Rightarrow> string"
    and name :: "'p \<Rightarrow> string"
    and ann :: string
    and hash :: "'p \<Rightarrow> string"
    and is_done :: "'p \<Rightarrow> 'r \<Rightarrow> bool"
    and fresh :: "'p \<Rightarrow> job"
  assumes step: "spec (run K p) (\<lambda>r. job_step (ns p) (name p) ann (hash p) (fresh p) (is_done p r))"
    and fresh_hash: "job_hash ann (fresh p) = hash p"
    and fresh_name: "m_Name (job_Meta (fresh p)) = name p"
    and fresh_ns: "m_Namespace (job_Meta (fresh p)) = ns p"
begin

lemma one_write: "spec (run K p) (\<lambda>r t. length (filter is_write t) \<le> 1)"
  by (rule spec_weaken [OF step]) (auto elim: job_step.cases)

lemma done_succeeded:
  "spec (run K p) (\<lambda>r t. is_done p r \<longrightarrow> (\<exists>j. t = [ev_job (ns p) (name p) j] \<and> job_hash ann j = hash p \<and> job_succeeded j))"
  by (rule spec_weaken [OF step]) (auto elim: job_step.cases)

end

sublocale single_job \<subseteq> hashed_job run "\<lambda>_. True" ns name ann hash is_done
proof
  fix K :: "'w client" and p
  show "spec (run K p) (\<lambda>r. deletes_only_stale (ns p) (name p) ann (hash p))"
    by (rule spec_weaken [OF step]) (auto simp: deletes_only_stale_def elim!: job_step.cases)
  show "spec (run K p) (\<lambda>r. creates_only_missing (ns p) (name p) ann (hash p))"
    by (rule spec_weaken [OF step])
      (auto simp: creates_only_missing_def fresh_hash fresh_name fresh_ns name_of_def namespace_of_def elim!: job_step.cases)
  show "spec (run K p) (\<lambda>r. done_only_current (ns p) (name p) ann (hash p) (is_done p r))"
    by (rule spec_weaken [OF step]) (auto simp: done_only_current_def elim!: job_step.cases)
qed

end
