(* ===== verification/Json.thy ===== *)
theory Json
  imports Go_Strings "HOL-Library.Char_ord" "HOL-Library.List_Lexorder"
begin

text \<open>
  The parts of \<^verbatim>\<open>encoding/json\<close> the gateway payload goes through: \<^verbatim>\<open>json.Marshal\<close> of nested
  maps (keys sorted, strings escaped byte by byte with HTML escaping and replacement of
  invalid UTF-8), the syntax check and decoder behind \<^verbatim>\<open>json.Unmarshal\<close>, and reading one
  string field of a struct. Strings are byte strings.
\<close>

datatype json =
    JNull
  | JBool bool
  | JNum string
  | JStr string
  | JArr "json list"
  | JObj "(string \<times> json) list"

section \<open>UTF-8\<close>

definition is_cont :: "nat \<Rightarrow> bool" where
  "is_cont b \<longleftrightarrow> 128 \<le> b \<and> b < 192"

text \<open>Number of bytes of the well-formed rune at the head, 0 if there is none.\<close>

definition rune2 :: "nat \<Rightarrow> nat \<Rightarrow> bool" where
  "rune2 a b \<longleftrightarrow> 194 \<le> a \<and> a < 224 \<and> is_cont b"

definition rune3 :: "nat \<Rightarrow> nat \<Rightarrow> nat \<Rightarrow> bool" where
  "rune3 a b c \<longleftrightarrow> is_cont c \<and>
     (a = 224 \<and> 160 \<le> b \<and> b < 192 \<or> 225 \<le> a \<and> a < 240 \<and> a \<noteq> 237 \<and> is_cont b \<or> a = 237 \<and> 128 \<le> b \<and> b < 160)"

definition rune4 :: "nat \<Rightarrow> nat \<Rightarrow> nat \<Rightarrow> nat \<Rightarrow> bool" where
  "rune4 a b c d \<longleftrightarrow> is_cont c \<and> is_cont d \<and>
     (a = 240 \<and> 144 \<le> b \<and> b < 192 \<or> 241 \<le> a \<and> a < 244 \<and> is_cont b \<or> a = 244 \<and> 128 \<le> b \<and> b < 144)"

fun utf8_size :: "nat list \<Rightarrow> nat" where
  "utf8_size [] = 0"
| "utf8_size (a # bs) =
     (if a < 128 then 1
      else (case bs of
        [] \<Rightarrow> 0
      | b # bs' \<Rightarrow>
          (if rune2 a b then 2
           else (case bs' of
             [] \<Rightarrow> 0
           | c # bs'' \<Rightarrow>
               (if rune3 a b c then 3
                else (case bs'' of
                  [] \<Rightarrow> 0
                | d # _ \<Rightarrow> (if rune4 a b c d then 4 else 0)))))))"

definition codes :: "string \<Rightarrow> nat list" where
  "codes = map of_char"

definition utf8_encode :: "nat \<Rightarrow> string" where
  "utf8_encode r = map char_of
     (if r < 128 then [r]
      else if r < 2048 then [192 + r div 64, 128 + r mod 64]
      else if r < 65536 then [224 + r div 4096, 128 + r div 64 mod 64, 128 + r mod 64]
      else [240 + r div 262144, 128 + r div 4096 mod 64, 128 + r div 64 mod 64, 128 + r mod 64])"

definition replacement :: nat where
  "replacement = 65533"

section \<open>Marshal\<close>

definition hex4 :: "nat \<Rightarrow> string" where
  "hex4 n = hex_byte (n div 256) @ hex_byte (n mod 256)"

definition uesc :: "nat \<Rightarrow> string" where
  "uesc n = [CHR 0x5C, CHR ''u''] @ hex4 n"

definition escapeByte :: "char \<Rightarrow> string" where
  "escapeByte c =
     (let n = of_char c :: nat in
      if c = CHR 0x22 \<or> c = CHR 0x5C then [CHR 0x5C, c]
      else if n = 8 then [CHR 0x5C, CHR ''b'']
      else if n = 12 then [CHR 0x5C, CHR ''f'']
      else if n = 10 then [CHR 0x5C, CHR ''n'']
      else if n = 13 then [CHR 0x5C, CHR ''r'']
      else if n = 9 then [CHR 0x5C, CHR ''t'']
      else if n < 32 \<or> c = CHR ''<'' \<or> c = CHR ''>'' \<or> c = CHR 0x26 then uesc n
      else [c])"

function quoteBody :: "string \<Rightarrow> string" where
  "quoteBody [] = []"
| "quoteBody (c # cs) =
     (if (of_char c :: nat) < 128 then escapeByte c @ quoteBody cs
      else (let k = utf8_size (codes (c # cs)); rune = take k (c # cs) in
        if k = 0 then uesc replacement @ quoteBody cs
        else (if rune = utf8_encode 8232 then uesc 8232 else if rune = utf8_encode 8233 then uesc 8233 else rune)
          @ quoteBody (drop (k - 1) cs)))"
  by pat_completeness auto
termination by (relation "measure length") auto

definition jsonString :: "string \<Rightarrow> string" where
  "jsonString s = [CHR 0x22] @ quoteBody s @ [CHR 0x22]"

fun joinWith :: "string \<Rightarrow> string list \<Rightarrow> string" where
  "joinWith sep [] = []"
| "joinWith sep [x] = x"
| "joinWith sep (x # xs) = x @ sep @ joinWith sep xs"

text \<open>\<^verbatim>\<open>json.Marshal\<close>: members are written in key order.\<close>

fun marshal :: "json \<Rightarrow> string" where
  "marshal JNull = ''null''"
| "marshal (JBool b) = (if b then ''true'' else ''false'')"
| "marshal (JNum n) = n"
| "marshal (JStr s) = jsonString s"
| "marshal (JArr xs) = ''['' @ joinWith '','' (map marshal xs) @ '']''"
| "marshal (JObj ms) = ''{'' @ joinWith '',''
     (map (\<lambda>(k, v). jsonString k @ '':'' @ v) (sort_key fst (map (\<lambda>(k, v). (k, marshal v)) ms))) @ ''}''"

section \<open>Unmarshal\<close>

definition is_ws :: "char \<Rightarrow> bool" where
  "is_ws c \<longleftrightarrow> c \<in> {CHR '' '', CHR 0x09, CHR 0x0A, CHR 0x0D}"

definition skip_ws :: "string \<Rightarrow> string" where
  "skip_ws = dropWhile is_ws"

definition hex_val :: "char \<Rightarrow> nat option" where
  "hex_val c = (let n = of_char c in
     if 48 \<le> n \<and> n \<le> 57 then Some (n - 48)
     else if 97 \<le> n \<and> n \<le> 102 then Some (n - 87)
     else if 65 \<le> n \<and> n \<le> 70 then Some (n - 55)
     else None)"

fun getu4 :: "string \<Rightarrow> nat option" where
  "getu4 (e # u # a # b # c # d # _) =
     (if e = CHR 0x5C \<and> u = CHR ''u'' then
        (case (hex_val a, hex_val b, hex_val c, hex_val d) of
           (Some w, Some x, Some y, Some z) \<Rightarrow> Some (((w * 16 + x) * 16 + y) * 16 + z)
         | _ \<Rightarrow> None)
      else None)"
| "getu4 _ = None"

definition decode_surrogates :: "nat \<Rightarrow> nat option \<Rightarrow> nat option" where
  "decode_surrogates r1 r2 = (case r2 of
     Some q \<Rightarrow> (if 55296 \<le> r1 \<and> r1 < 56320 \<and> 56320 \<le> q \<and> q < 57344
       then Some ((r1 - 55296) * 1024 + (q - 56320) + 65536) else None)
   | None \<Rightarrow> None)"

definition simple_escape :: "char \<Rightarrow> char option" where
  "simple_escape c = map_of [(CHR 0x22, CHR 0x22), (CHR 0x5C, CHR 0x5C), (CHR ''/'', CHR ''/''), (CHR ''b'', CHR 0x08),
     (CHR ''f'', CHR 0x0C), (CHR ''n'', CHR 0x0A), (CHR ''r'', CHR 0x0D), (CHR ''t'', CHR 0x09)] c"

text \<open>The text up to the closing quote, and what follows it.\<close>

function parseString :: "string \<Rightarrow> (string \<times> string) option" where
  "parseString [] = None"
| "parseString (c # cs) =
     (if c = CHR 0x22 then Some ([], cs)
      else if c = CHR 0x5C then
        (case cs of
           [] \<Rightarrow> None
         | e # es \<Rightarrow>
             (if e = CHR ''u'' then
                (case getu4 (c # cs) of
                   None \<Rightarrow> None
                 | Some r \<Rightarrow>
                     (let rest = drop 5 cs in
                      if 55296 \<le> r \<and> r < 57344 then
                        (case decode_surrogates r (getu4 rest) of
                           Some q \<Rightarrow> map_option (\<lambda>(s, t). (utf8_encode q @ s, t)) (parseString (drop 6 rest))
                         | None \<Rightarrow> map_option (\<lambda>(s, t). (utf8_encode replacement @ s, t)) (parseString rest))
                      else map_option (\<lambda>(s, t). (utf8_encode r @ s, t)) (parseString rest)))
              else (case simple_escape e of
                 None \<Rightarrow> None
               | Some x \<Rightarrow> map_option (\<lambda>(s, t). (x # s, t)) (parseString es))))
      else if (of_char c :: nat) < 32 then None
      else if (of_char c :: nat) < 128 then map_option (\<lambda>(s, t). (c # s, t)) (parseString cs)
      else (let k = utf8_size (codes (c # cs)) in
        if k = 0 then map_option (\<lambda>(s, t). (utf8_encode replacement @ s, t)) (parseString cs)
        else map_option (\<lambda>(s, t). (take k (c # cs) @ s, t)) (parseString (drop (k - 1) cs))))"
  by pat_completeness auto
termination by (relation "measure length") auto

definition is_digit :: "char \<Rightarrow> bool" where
  "is_digit c \<longleftrightarrow> (48::nat) \<le> of_char c \<and> of_char c \<le> (57::nat)"

text \<open>The number at the head of the text: sign, integer part, fraction, exponent.\<close>

definition parseDigits :: "string \<Rightarrow> (string \<times> string) option" where
  "parseDigits s = (let d = takeWhile is_digit s in if d = [] then None else Some (d, dropWhile is_digit s))"

definition parseInt :: "string \<Rightarrow> (string \<times> string) option" where
  "parseInt s = (case s of
     [] \<Rightarrow> None
   | c # cs \<Rightarrow> (if c = CHR ''0'' then Some ([c], cs) else parseDigits s))"

definition parseFrac :: "string \<Rightarrow> (string \<times> string) option" where
  "parseFrac s = (case s of
     c # cs \<Rightarrow> (if c = CHR ''.'' then map_option (\<lambda>(d, t). (c # d, t)) (parseDigits cs) else Some ([], s))
   | [] \<Rightarrow> Some ([], []))"

definition parseExp :: "string \<Rightarrow> (string \<times> string) option" where
  "parseExp s = (case s of
     c # cs \<Rightarrow>
       (if c = CHR ''e'' \<or> c = CHR ''E'' then
          (case cs of
             x # xs \<Rightarrow> (if x = CHR ''+'' \<or> x = CHR ''-'' then map_option (\<lambda>(d, t). (c # x # d, t)) (parseDigits xs)
                      else map_option (\<lambda>(d, t). (c # d, t)) (parseDigits cs))
           | [] \<Rightarrow> None)
        else Some ([], s))
   | [] \<Rightarrow> Some ([], []))"

definition parseNumber :: "string \<Rightarrow> (string \<times> string) option" where
  "parseNumber s =
     (let (sign, s0) = (case s of c # cs \<Rightarrow> if c = CHR ''-'' then ([c], cs) else ([], s) | [] \<Rightarrow> ([], [])) in
      case parseInt s0 of
        None \<Rightarrow> None
      | Some (i, s1) \<Rightarrow> (case parseFrac s1 of
          None \<Rightarrow> None
        | Some (f, s2) \<Rightarrow> (case parseExp s2 of
            None \<Rightarrow> None
          | Some (e, s3) \<Rightarrow> Some (sign @ i @ f @ e, s3))))"

text \<open>
  Values, array elements and members; the first argument bounds the nesting plus the number
  of siblings, and the length of the text is always enough (every call consumes text).
\<close>

fun parseValue :: "nat \<Rightarrow> string \<Rightarrow> (json \<times> string) option"
  and parseElems :: "nat \<Rightarrow> string \<Rightarrow> (json list \<times> string) option"
  and parseMembers :: "nat \<Rightarrow> string \<Rightarrow> ((string \<times> json) list \<times> string) option" where
  "parseValue 0 s = None"
| "parseValue (Suc n) s =
     (case skip_ws s of
        [] \<Rightarrow> None
      | c # cs \<Rightarrow>
          (if c = CHR 0x22 then map_option (\<lambda>(x, t). (JStr x, t)) (parseString cs)
           else if c = CHR ''{'' then
             (case skip_ws cs of
                d # ds \<Rightarrow> (if d = CHR ''}'' then Some (JObj [], ds)
                         else map_option (\<lambda>(ms, t). (JObj ms, t)) (parseMembers n (d # ds)))
              | [] \<Rightarrow> None)
           else if c = CHR ''['' then
             (case skip_ws cs of
                d # ds \<Rightarrow> (if d = CHR '']'' then Some (JArr [], ds)
                         else map_option (\<lambda>(xs, t). (JArr xs, t)) (parseElems n (d # ds)))
              | [] \<Rightarrow> None)
           else (case cutPrefix (c # cs) ''true'' of
             Some t \<Rightarrow> Some (JBool True, t)
           | None \<Rightarrow> (case cutPrefix (c # cs) ''false'' of
               Some t \<Rightarrow> Some (JBool False, t)
             | None \<Rightarrow> (case cutPrefix (c # cs) ''null'' of
                 Some t \<Rightarrow> Some (JNull, t)
               | None \<Rightarrow> map_option (\<lambda>(x, t). (JNum x, t)) (parseNumber (c # cs)))))))"
| "parseElems 0 s = None"
| "parseElems (Suc n) s =
     (case parseValue n s of
        None \<Rightarrow> None
      | Some (x, t) \<Rightarrow> (case skip_ws t of
          d # ds \<Rightarrow> (if d = CHR '']'' then Some ([x], ds)
                   else if d = CHR '','' then map_option (\<lambda>(xs, u). (x # xs, u)) (parseElems n ds)
                   else None)
        | [] \<Rightarrow> None))"
| "parseMembers 0 s = None"
| "parseMembers (Suc n) s =
     (case skip_ws s of
        q # qs \<Rightarrow>
          (if q \<noteq> CHR 0x22 then None
           else (case parseString qs of
             None \<Rightarrow> None
           | Some (k, t) \<Rightarrow> (case skip_ws t of
               e # es \<Rightarrow>
                 (if e \<noteq> CHR '':'' then None
                  else (case parseValue n es of
                    None \<Rightarrow> None
                  | Some (v, u) \<Rightarrow> (case skip_ws u of
                      d # ds \<Rightarrow> (if d = CHR ''}'' then Some ([(k, v)], ds)
                               else if d = CHR '','' then map_option (\<lambda>(ms, w). ((k, v) # ms, w)) (parseMembers n ds)
                               else None)
                    | [] \<Rightarrow> None)))
             | [] \<Rightarrow> None)))
      | [] \<Rightarrow> None)"

definition unmarshal :: "string \<Rightarrow> json option" where
  "unmarshal s = (case parseValue (Suc (length s)) s of
     Some (x, t) \<Rightarrow> (if skip_ws t = [] then Some x else None)
   | None \<Rightarrow> None)"

text \<open>
  \<^verbatim>\<open>json.Unmarshal\<close> into a struct with the one string field \<open>name\<close>, the error dropped: the
  last member whose key is the name (up to ASCII case) and whose value is a string.
\<close>

definition stringField :: "string \<Rightarrow> string \<Rightarrow> string" where
  "stringField name s = (case unmarshal s of
     Some (JObj ms) \<Rightarrow>
       fold (\<lambda>(k, v) acc. case v of JStr x \<Rightarrow> (if equalFold k name then x else acc) | _ \<Rightarrow> acc) ms []
   | _ \<Rightarrow> [])"

end
