(* ===== verification/Gateway_Registration.thy ===== *)
theory Gateway_Registration
  imports AGW_Identity Hashed_Job Json
begin

text \<open>
  Registration and deregistration of the gateway in Orc8r/NMS (\<^verbatim>\<open>agw_identity.go\<close>): the JSON
  payload, the two Jobs with their scripts, and the reconcile functions that run them.
\<close>

abbreviation defaultAGWRegistrationTier :: string where "defaultAGWRegistrationTier \<equiv> ''default''"
abbreviation defaultOrc8rNamespace :: string where "defaultOrc8rNamespace \<equiv> ''magma''"
abbreviation defaultOrc8rReleaseName :: string where "defaultOrc8rReleaseName \<equiv> ''magma-fullstack''"
abbreviation defaultNMSAdminCertSecretName :: string where "defaultNMSAdminCertSecretName \<equiv> ''orc8r-secrets-certs''"
abbreviation payloadHashAnnotation :: string where "payloadHashAnnotation \<equiv> ''magma.infra.don/payload-sha256''"

section \<open>Payload\<close>

definition gatewayRegistrationEnabled :: "magmaAGWGatewayRegistrationSpec \<Rightarrow> bool" where
  "gatewayRegistrationEnabled reg = (case gr_Enabled reg of None \<Rightarrow> True | Some b \<Rightarrow> b)"

definition gatewayPayloadJson :: "magmaAGW \<Rightarrow> agwIdentityState \<Rightarrow> json" where
  "gatewayPayloadJson agw identity =
     (let sp = agw_Spec agw; reg = as_GatewayRegistration sp;
          name = (if gr_Name reg = [] then as_AccessGatewayID sp else gr_Name reg);
          description = (if gr_Description reg = [] then ''Managed by magma-operator'' else gr_Description reg);
          tier = (if gr_Tier reg = [] then defaultAGWRegistrationTier else gr_Tier reg)
      in JObj [
        (''id'', JStr (as_AccessGatewayID sp)),
        (''name'', JStr name),
        (''description'', JStr description),
        (''tier'', JStr tier),
        (''device'', JObj [
          (''hardware_id'', JStr (ids_HardwareID identity)),
          (''key'', JObj [
            (''key'', JStr (ids_PublicKeyB64 identity)),
            (''key_type'', JStr ''SOFTWARE_ECDSA_SHA256'')])]),
        (''magmad'', JObj [
          (''autoupgrade_enabled'', JBool True),
          (''autoupgrade_poll_interval'', JNum ''60''),
          (''checkin_interval'', JNum ''60''),
          (''checkin_timeout'', JNum ''30''),
          (''dynamic_services'', JArr [])]),
        (''cellular'', JObj [
          (''epc'', JObj [
            (''ip_block'', JStr ''192.168.128.0/24''),
            (''nat_enabled'', JBool True),
            (''dns_primary'', JStr ''8.8.8.8''),
            (''dns_secondary'', JStr ''8.8.4.4'')]),
          (''ran'', JObj [
            (''pci'', JNum ''260''),
            (''transmit_enabled'', JBool True)])]),
        (''connected_enodeb_serials'', JArr [])])"

text \<open>\<^verbatim>\<open>json.Marshal\<close> cannot fail on these values.\<close>

definition agwGatewayPayload :: "magmaAGW \<Rightarrow> agwIdentityState \<Rightarrow> bytes" where
  "agwGatewayPayload agw identity = marshal (gatewayPayloadJson agw identity)"

definition gatewayIDFromPayload :: "string \<Rightarrow> string" where
  "gatewayIDFromPayload payload = stringField ''id'' payload"

definition gatewayTierFromPayload :: "string \<Rightarrow> string" where
  "gatewayTierFromPayload payload =
     (let tier = stringField ''tier'' payload in if tier = [] then defaultAGWRegistrationTier else tier)"

section \<open>Jobs\<close>

text \<open>The shell scripts, line by line.\<close>

abbreviation nl :: string where "nl \<equiv> [CHR 0x0A]"
abbreviation dq :: string where "dq \<equiv> [CHR 0x22]"
abbreviation sq :: string where "sq \<equiv> [CHR 0x27]"

definition registrationScript :: string where
  "registrationScript =
     ''until curl -sk --cert '' @ dq @ ''$API_CERT_FILENAME'' @ dq @ '' --key '' @ dq @ ''$API_PRIVATE_KEY_FILENAME'' @ dq @ '' '' @ dq @ ''https://$API_HOST/magma/v1/networks'' @ dq @ '' >/dev/null; do sleep 5; done'' @ nl @
     ''until [ '' @ dq @ ''$(curl -sk -o /tmp/network-get.out -w '' @ sq @ ''%{http_code}'' @ sq @ '' --cert '' @ dq @ ''$API_CERT_FILENAME'' @ dq @ '' --key '' @ dq @ ''$API_PRIVATE_KEY_FILENAME'' @ dq @ '' '' @ dq @ ''https://$API_HOST/magma/v1/networks/$NETWORK_ID'' @ dq @ '')'' @ dq @ '' = '' @ dq @ ''200'' @ dq @ '' ]; do sleep 5; done'' @ nl @
     ''cat > /tmp/tier.json <<EOF'' @ nl @
     ''{'' @ dq @ ''id'' @ dq @ '':'' @ dq @ ''$GATEWAY_TIER'' @ dq @ '','' @ dq @ ''version'' @ dq @ '':'' @ dq @ ''1.0.0'' @ dq @ '','' @ dq @ ''images'' @ dq @ '':[],'' @ dq @ ''gateways'' @ dq @ '':[]}'' @ nl @
     ''EOF'' @ nl @
     ''tier_code='' @ dq @ ''$(curl -sk -o /tmp/tier-get.out -w '' @ sq @ ''%{http_code}'' @ sq @ '' --cert '' @ dq @ ''$API_CERT_FILENAME'' @ dq @ '' --key '' @ dq @ ''$API_PRIVATE_KEY_FILENAME'' @ dq @ '' '' @ dq @ ''https://$API_HOST/magma/v1/networks/$NETWORK_ID/tiers/$GATEWAY_TIER'' @ dq @ '')'' @ dq @ nl @
     ''if [ '' @ dq @ ''$tier_code'' @ dq @ '' = '' @ dq @ ''200'' @ dq @ '' ]; then'' @ nl @
     ''  curl -skf -X PUT --cert '' @ dq @ ''$API_CERT_FILENAME'' @ dq @ '' --key '' @ dq @ ''$API_PRIVATE_KEY_FILENAME'' @ dq @ '' -H '' @ dq @ ''Content-Type: application/json'' @ dq @ '' --data @/tmp/tier.json '' @ dq @ ''https://$API_HOST/magma/v1/networks/$NETWORK_ID/tiers/$GATEWAY_TIER'' @ dq @ '' >/dev/null'' @ nl @
     ''else'' @ nl @
     ''  curl -skf -X POST --cert '' @ dq @ ''$API_CERT_FILENAME'' @ dq @ '' --key '' @ dq @ ''$API_PRIVATE_KEY_FILENAME'' @ dq @ '' -H '' @ dq @ ''Content-Type: application/json'' @ dq @ '' --data @/tmp/tier.json '' @ dq @ ''https://$API_HOST/magma/v1/networks/$NETWORK_ID/tiers'' @ dq @ '' >/dev/null'' @ nl @
     ''fi'' @ nl @
     ''cat > /tmp/gateway.json <<EOF'' @ nl @
     ''$GATEWAY_PAYLOAD'' @ nl @
     ''EOF'' @ nl @
     ''code='' @ dq @ ''$(curl -sk -o /tmp/gateway-get.out -w '' @ sq @ ''%{http_code}'' @ sq @ '' --cert '' @ dq @ ''$API_CERT_FILENAME'' @ dq @ '' --key '' @ dq @ ''$API_PRIVATE_KEY_FILENAME'' @ dq @ '' '' @ dq @ ''https://$API_HOST/magma/v1/lte/$NETWORK_ID/gateways/$GATEWAY_ID'' @ dq @ '')'' @ dq @ nl @
     ''if [ '' @ dq @ ''$code'' @ dq @ '' = '' @ dq @ ''200'' @ dq @ '' ]; then'' @ nl @
     ''  exit 0'' @ nl @
     ''fi'' @ nl @
     ''generic_code='' @ dq @ ''$(curl -sk -o /tmp/generic-gateway-get.out -w '' @ sq @ ''%{http_code}'' @ sq @ '' --cert '' @ dq @ ''$API_CERT_FILENAME'' @ dq @ '' --key '' @ dq @ ''$API_PRIVATE_KEY_FILENAME'' @ dq @ '' '' @ dq @ ''https://$API_HOST/magma/v1/networks/$NETWORK_ID/gateways/$GATEWAY_ID'' @ dq @ '')'' @ dq @ nl @
     ''if [ '' @ dq @ ''$generic_code'' @ dq @ '' = '' @ dq @ ''200'' @ dq @ '' ]; then'' @ nl @
     ''  curl -skf -X DELETE --cert '' @ dq @ ''$API_CERT_FILENAME'' @ dq @ '' --key '' @ dq @ ''$API_PRIVATE_KEY_FILENAME'' @ dq @ '' '' @ dq @ ''https://$API_HOST/magma/v1/networks/$NETWORK_ID/gateways/$GATEWAY_ID'' @ dq @ '' >/dev/null'' @ nl @
     ''fi'' @ nl @
     ''curl -skf -X POST --cert '' @ dq @ ''$API_CERT_FILENAME'' @ dq @ '' --key '' @ dq @ ''$API_PRIVATE_KEY_FILENAME'' @ dq @ '' -H '' @ dq @ ''Content-Type: application/json'' @ dq @ '' --data @/tmp/gateway.json '' @ dq @ ''https://$API_HOST/magma/v1/lte/$NETWORK_ID/gateways'' @ dq @ '' >/dev/null'' @ nl @
     ''curl -skf --cert '' @ dq @ ''$API_CERT_FILENAME'' @ dq @ '' --key '' @ dq @ ''$API_PRIVATE_KEY_FILENAME'' @ dq @ '' '' @ dq @ ''https://$API_HOST/magma/v1/lte/$NETWORK_ID/gateways/$GATEWAY_ID'' @ dq @ '' >/dev/null''"

definition deregistrationScript :: string where
  "deregistrationScript =
     ''until curl -sk --cert '' @ dq @ ''$API_CERT_FILENAME'' @ dq @ '' --key '' @ dq @ ''$API_PRIVATE_KEY_FILENAME'' @ dq @ '' '' @ dq @ ''https://$API_HOST/magma/v1/networks'' @ dq @ '' >/dev/null; do sleep 5; done'' @ nl @
     ''curl -skf -X DELETE --cert '' @ dq @ ''$API_CERT_FILENAME'' @ dq @ '' --key '' @ dq @ ''$API_PRIVATE_KEY_FILENAME'' @ dq @ '' '' @ dq @ ''https://$API_HOST/magma/v1/lte/$NETWORK_ID/gateways/$GATEWAY_ID'' @ dq @ '' >/dev/null || true'' @ nl @
     ''curl -skf -X DELETE --cert '' @ dq @ ''$API_CERT_FILENAME'' @ dq @ '' --key '' @ dq @ ''$API_PRIVATE_KEY_FILENAME'' @ dq @ '' '' @ dq @ ''https://$API_HOST/magma/v1/networks/$NETWORK_ID/gateways/$GATEWAY_ID'' @ dq @ '' >/dev/null || true''"

definition adminEnv :: "envVar list" where
  "adminEnv = [\<lparr>env_Name = ''API_CERT_FILENAME'', env_Value = adminOperatorCertPath\<rparr>,
     \<lparr>env_Name = ''API_PRIVATE_KEY_FILENAME'', env_Value = adminOperatorKeyPath\<rparr>]"

definition adminMounts :: "volumeMount list" where
  "adminMounts = [
     \<lparr>vm_Name = defaultNMSAdminCertSecretName, vm_MountPath = adminOperatorCertPath, vm_SubPath = adminOperatorCertKey, vm_ReadOnly = True\<rparr>,
     \<lparr>vm_Name = defaultNMSAdminCertSecretName, vm_MountPath = adminOperatorKeyPath, vm_SubPath = adminOperatorKeyKey, vm_ReadOnly = True\<rparr>]"

definition certVolume :: "string \<Rightarrow> volume" where
  "certVolume certSecret = \<lparr>vol_Name = defaultNMSAdminCertSecretName, vol_Source = SecretSource certSecret 292\<rparr>"

definition registrationJob ::
    "string \<Rightarrow> string \<Rightarrow> string \<Rightarrow> string \<Rightarrow> string \<Rightarrow> string \<Rightarrow> string \<Rightarrow> string \<Rightarrow> job" where
  "registrationJob ns name img certSecret apiHost networkID payload payloadHash = \<lparr>
     job_Meta = (newMeta ns name)\<lparr>
       m_Labels := [(labelAppComponent, ''agw-registration''), (labelAppManagedBy, managedByMagmaOperator)],
       m_Annotations := [(payloadHashAnnotation, payloadHash)]\<rparr>,
     job_BackoffLimit = Some 6,
     job_TTLSecondsAfterFinished = Some 3600,
     job_ActiveDeadlineSeconds = None,
     job_PodSpec = \<lparr>
       ps_ServiceAccountName = [],
       ps_RestartPolicy = ''OnFailure'',
       ps_Containers = [\<lparr>
         ct_Name = ''register'',
         ct_Image = img,
         ct_ImagePullPolicy = ''IfNotPresent'',
         ct_Command = [''/bin/sh'', shellExitOnErrorCommand],
         ct_Args = [registrationScript],
         ct_Env = [
           \<lparr>env_Name = ''API_HOST'', env_Value = apiHost\<rparr>,
           \<lparr>env_Name = ''NETWORK_ID'', env_Value = networkID\<rparr>,
           \<lparr>env_Name = ''GATEWAY_ID'', env_Value = gatewayIDFromPayload payload\<rparr>,
           \<lparr>env_Name = ''GATEWAY_TIER'', env_Value = gatewayTierFromPayload payload\<rparr>,
           \<lparr>env_Name = ''GATEWAY_PAYLOAD'', env_Value = payload\<rparr>] @ adminEnv,
         ct_VolumeMounts = adminMounts\<rparr>],
       ps_Volumes = [certVolume certSecret]\<rparr>,
     job_Succeeded = 0,
     job_Failed = 0\<rparr>"

definition deregistrationJob ::
    "string \<Rightarrow> string \<Rightarrow> string \<Rightarrow> string \<Rightarrow> string \<Rightarrow> string \<Rightarrow> string \<Rightarrow> job" where
  "deregistrationJob ns name img certSecret apiHost networkID gatewayID = \<lparr>
     job_Meta = (newMeta ns name)\<lparr>
       m_Labels := [(labelAppComponent, ''agw-deregistration''), (labelAppManagedBy, managedByMagmaOperator)]\<rparr>,
     job_BackoffLimit = Some 6,
     job_TTLSecondsAfterFinished = Some 3600,
     job_ActiveDeadlineSeconds = None,
     job_PodSpec = \<lparr>
       ps_ServiceAccountName = [],
       ps_RestartPolicy = ''OnFailure'',
       ps_Containers = [\<lparr>
         ct_Name = ''deregister'',
         ct_Image = img,
         ct_ImagePullPolicy = ''IfNotPresent'',
         ct_Command = [''/bin/sh'', shellExitOnErrorCommand],
         ct_Args = [deregistrationScript],
         ct_Env = [
           \<lparr>env_Name = ''API_HOST'', env_Value = apiHost\<rparr>,
           \<lparr>env_Name = ''NETWORK_ID'', env_Value = networkID\<rparr>,
           \<lparr>env_Name = ''GATEWAY_ID'', env_Value = gatewayID\<rparr>] @ adminEnv,
         ct_VolumeMounts = adminMounts\<rparr>],
       ps_Volumes = [certVolume certSecret]\<rparr>,
     job_Succeeded = 0,
     job_Failed = 0\<rparr>"

section \<open>Settings both directions share\<close>

definition orDefault :: "string \<Rightarrow> string \<Rightarrow> string" where
  "orDefault s d = (if s = [] then d else s)"

definition registrationNamespace :: "magmaAGW \<Rightarrow> string" where
  "registrationNamespace agw = orDefault (as_Orc8rNamespace (agw_Spec agw)) defaultOrc8rNamespace"

definition registrationCertSecret :: "magmaAGW \<Rightarrow> string" where
  "registrationCertSecret agw = orDefault (as_NMSAdminCertSecretName (agw_Spec agw)) defaultNMSAdminCertSecretName"

definition registrationAPIHost :: "magmaAGW \<Rightarrow> string" where
  "registrationAPIHost agw = orDefault (as_NMSAPIHost (agw_Spec agw))
     (orDefault (as_Orc8rReleaseName (agw_Spec agw)) defaultOrc8rReleaseName @ ''-nginx-proxy'')"

section \<open>Registration\<close>

text \<open>
  The Job part of the registration, once the image is known: parameters are the gateway,
  its identity and the image.
\<close>

type_synonym registration = "magmaAGW \<times> agwIdentityState \<times> string"

definition registrationJobName :: "registration \<Rightarrow> string" where
  "registrationJobName p = m_Name (agw_Meta (fst p)) @ ''-register-gateway''"

definition registrationHash :: "registration \<Rightarrow> string" where
  "registrationHash p = (case p of (agw, identity, img) \<Rightarrow> sha256Hex (agwGatewayPayload agw identity))"

definition freshRegistrationJob :: "registration \<Rightarrow> job" where
  "freshRegistrationJob p = (case p of (agw, identity, img) \<Rightarrow>
     registrationJob (registrationNamespace agw) (registrationJobName p) img (registrationCertSecret agw)
       (registrationAPIHost agw) (as_NetworkID (agw_Spec agw)) (agwGatewayPayload agw identity) (registrationHash p))"

definition runRegistrationJob :: "'w client \<Rightarrow> registration \<Rightarrow> ('w, bool \<times> string \<times> error option) kio" where
  "runRegistrationJob K p =
     (let ns = registrationNamespace (fst p); jobName = registrationJobName p; payloadHash = registrationHash p in do {
        r \<leftarrow> getJob K ns jobName;
        case r of
          Inr existing \<Rightarrow>
            (if job_hash payloadHashAnnotation existing \<noteq> payloadHash then do {
               d \<leftarrow> deleteIgnoringNotFound K True (OJob existing);
               return (case d of
                 Some e \<Rightarrow> (False, ''GatewayRegistrationJobDeleteFailed'', Some e)
               | None \<Rightarrow> (False, ''GatewayRegistrationJobReplacing'', None))
             }
             else if job_succeeded existing then return (True, ''GatewayRegistered'', None)
             else if job_failed existing then return (False, ''GatewayRegistrationJobFailed'',
               Some (Errorf (''gateway registration job '' @ ns @ ''/'' @ jobName @ '' failed'')))
             else return (False, ''GatewayRegistrationJobRunning'', None))
        | Inl e \<Rightarrow>
            (if \<not> IsNotFound e then return (False, ''GatewayRegistrationJobReadFailed'', Some e)
             else do {
               c \<leftarrow> kCreate K (OJob (freshRegistrationJob p));
               return (case c of
                 Some e \<Rightarrow> (False, ''GatewayRegistrationJobCreateFailed'', Some e)
               | None \<Rightarrow> (False, ''GatewayRegistrationJobCreated'', None))
             })
      })"

definition reconcileAGWGatewayRegistration ::
    "'w client \<Rightarrow> magmaAGW \<Rightarrow> agwIdentityState \<Rightarrow> ('w, bool \<times> string \<times> error option) kio" where
  "reconcileAGWGatewayRegistration K agw identity =
     (if \<not> gatewayRegistrationEnabled (as_GatewayRegistration (agw_Spec agw))
      then return (False, ''GatewayRegistrationDisabled'', None)
      else if as_NetworkID (agw_Spec agw) = []
      then return (False, ''NetworkIDRequired'', Some (Errorf ''gateway registration requires spec.networkID''))
      else if as_AccessGatewayID (agw_Spec agw) = []
      then return (False, ''AccessGatewayIDRequired'', Some (Errorf ''gateway registration requires spec.accessGatewayID''))
      else do {
        c \<leftarrow> getSecret K (registrationNamespace agw) (registrationCertSecret agw);
        case c of
          Inl e \<Rightarrow> return (if IsNotFound e then (False, ''WaitingForNMSCertSecret'', None)
                           else (False, ''NMSCertSecretReadFailed'', Some e))
        | Inr certSecret \<Rightarrow> do {
            m \<leftarrow> getDeployment K (registrationNamespace agw) magmalteDeploymentName;
            case m of
              Inl e \<Rightarrow> return (if IsNotFound e then (False, ''WaitingForMagmalte'', None)
                               else (False, ''MagmalteReadFailed'', Some e))
            | Inr magmalte \<Rightarrow>
                (case dep_Containers magmalte of
                   [] \<Rightarrow> return (False, ''MagmalteImageUnavailable'', None)
                 | container # _ \<Rightarrow> runRegistrationJob K (agw, identity, ct_Image container))
          }
      })"

section \<open>Deregistration\<close>

definition deregistrationJobName :: "magmaAGW \<Rightarrow> string" where
  "deregistrationJobName agw = m_Name (agw_Meta agw) @ ''-delete-gateway''"

definition runDeregistrationJob :: "'w client \<Rightarrow> magmaAGW \<Rightarrow> string \<Rightarrow> ('w, bool \<times> string \<times> string \<times> error option) kio" where
  "runDeregistrationJob K agw img =
     (let ns = registrationNamespace agw; jobName = deregistrationJobName agw; at = ns @ ''/'' @ jobName in do {
        r \<leftarrow> getJob K ns jobName;
        case r of
          Inr existing \<Rightarrow> return
            (if job_succeeded existing
             then (True, ''GatewayDeregistered'', ''AGW gateway record was removed from Orc8r/NMS'', None)
             else if job_failed existing
             then (False, ''GatewayDeregistrationJobFailed'', ''gateway deregistration job '' @ at @ '' failed'',
               Some (Errorf (''gateway deregistration job '' @ at @ '' failed'')))
             else (False, ''GatewayDeregistrationJobRunning'', ''waiting for gateway deregistration job '' @ at, None))
        | Inl e \<Rightarrow>
            (if \<not> IsNotFound e then return (False, ''GatewayDeregistrationJobReadFailed'', err_text e, Some e)
             else do {
               c \<leftarrow> kCreate K (OJob (deregistrationJob ns jobName img (registrationCertSecret agw)
                     (registrationAPIHost agw) (as_NetworkID (agw_Spec agw)) (as_AccessGatewayID (agw_Spec agw))));
               return (case c of
                 Some e \<Rightarrow> (False, ''GatewayDeregistrationJobCreateFailed'', err_text e, Some e)
               | None \<Rightarrow> (False, ''GatewayDeregistrationJobCreated'', ''created gateway deregistration job '' @ at, None))
             })
      })"

definition reconcileAGWGatewayDeregistration ::
    "'w client \<Rightarrow> magmaAGW \<Rightarrow> ('w, bool \<times> string \<times> string \<times> error option) kio" where
  "reconcileAGWGatewayDeregistration K agw =
     (let sp = agw_Spec agw; ns = registrationNamespace agw in
      if \<not> gr_DeleteOnRemoval (as_GatewayRegistration sp)
      then return (True, ''GatewayDeregistrationSkipped'', ''gatewayRegistration.deleteOnRemoval is false'', None)
      else if \<not> gatewayRegistrationEnabled (as_GatewayRegistration sp)
      then return (True, ''GatewayDeregistrationSkipped'', ''gateway registration is disabled'', None)
      else if as_NetworkID sp = [] \<or> as_AccessGatewayID sp = []
      then return (False, ''GatewayDeregistrationInvalid'',
        ''gateway deregistration requires spec.networkID and spec.accessGatewayID'',
        Some (Errorf ''gateway deregistration requires spec.networkID and spec.accessGatewayID''))
      else do {
        c \<leftarrow> getSecret K ns (registrationCertSecret agw);
        case c of
          Inl e \<Rightarrow> return (if IsNotFound e
            then (False, ''WaitingForNMSCertSecret'', ''waiting for NMS cert Secret '' @ ns @ ''/'' @ registrationCertSecret agw
              @ '' before gateway deregistration'', None)
            else (False, ''NMSCertSecretReadFailed'', err_text e, Some e))
        | Inr certSecret \<Rightarrow> do {
            m \<leftarrow> getDeployment K ns magmalteDeploymentName;
            case m of
              Inl e \<Rightarrow> return (if IsNotFound e
                then (False, ''WaitingForMagmalte'', ''waiting for magmalte before gateway deregistration'', None)
                else (False, ''MagmalteReadFailed'', err_text e, Some e))
            | Inr magmalte \<Rightarrow>
                (case dep_Containers magmalte of
                   [] \<Rightarrow> return (False, ''MagmalteImageUnavailable'', ''magmalte deployment has no containers'', None)
                 | container # _ \<Rightarrow> runDeregistrationJob K agw (ct_Image container))
          }
      })"

section \<open>Contracts\<close>

lemma registrationJob_meta [simp]:
  "job_Meta (registrationJob ns name img certSecret apiHost networkID payload h) = (newMeta ns name)\<lparr>
     m_Labels := [(labelAppComponent, ''agw-registration''), (labelAppManagedBy, managedByMagmaOperator)],
     m_Annotations := [(payloadHashAnnotation, h)]\<rparr>"
  by (simp add: registrationJob_def)

interpretation registration_job: single_job runRegistrationJob "\<lambda>p. registrationNamespace (fst p)"
  registrationJobName payloadHashAnnotation registrationHash "\<lambda>p r. fst r" freshRegistrationJob
proof
  fix K :: "'w client" and p
  show "spec (runRegistrationJob K p) (\<lambda>r. job_step (registrationNamespace (fst p)) (registrationJobName p)
      payloadHashAnnotation (registrationHash p) (freshRegistrationJob p) (fst r))"
    unfolding runRegistrationJob_def Let_def
    by (intro spec_structure spec_rules)
      (auto simp: as_typed_Inr as_typed_def decode_error_def Errorf_def IsNotFound_def
        intro: job_step.intros split: option.splits sum.splits)
  show "job_hash payloadHashAnnotation (freshRegistrationJob p) = registrationHash p"
    and "m_Name (job_Meta (freshRegistrationJob p)) = registrationJobName p"
    and "m_Namespace (job_Meta (freshRegistrationJob p)) = registrationNamespace (fst p)"
    by (auto simp: freshRegistrationJob_def job_hash_def newMeta_def split: prod.split)
qed

text \<open>What a reconcile of the registration may do, and what a positive answer rests on.\<close>

definition registration_post ::
    "magmaAGW \<Rightarrow> agwIdentityState \<Rightarrow> bool \<times> string \<times> error option \<Rightarrow> event list \<Rightarrow> bool" where
  "registration_post agw identity r t \<longleftrightarrow>
     length (filter is_write t) \<le> 1 \<and>
     (\<forall>e\<in>set t. is_write e \<longrightarrow> (\<exists>j q. e = EvDelete True (OJob j) q \<or> e = EvCreate (OJob j) q)) \<and>
     (\<forall>j q. EvDelete True (OJob j) q \<in> set t \<longrightarrow>
        ev_job (registrationNamespace agw) (m_Name (agw_Meta agw) @ ''-register-gateway'') j \<in> set t \<and>
        job_hash payloadHashAnnotation j \<noteq> sha256Hex (agwGatewayPayload agw identity)) \<and>
     (\<forall>x q. EvCreate x q \<in> set t \<longrightarrow>
        (\<exists>e. IsNotFound e \<and> ev_no_job (registrationNamespace agw) (m_Name (agw_Meta agw) @ ''-register-gateway'') e \<in> set t) \<and>
        (\<exists>image'. x = OJob (freshRegistrationJob (agw, identity, image')))) \<and>
     (fst r \<longrightarrow> snd (snd r) = None \<and> gatewayRegistrationEnabled (as_GatewayRegistration (agw_Spec agw)) \<and>
       (\<exists>j. ev_job (registrationNamespace agw) (m_Name (agw_Meta agw) @ ''-register-gateway'') j \<in> set t \<and>
          job_hash payloadHashAnnotation j = sha256Hex (agwGatewayPayload agw identity) \<and> job_succeeded j))"

lemma spec_runRegistrationJob:
  assumes "gatewayRegistrationEnabled (as_GatewayRegistration (agw_Spec agw))"
  shows "spec (runRegistrationJob K (agw, identity, img)) (registration_post agw identity)"
  unfolding runRegistrationJob_def Let_def
  by (intro spec_structure spec_rules)
    (use assms in \<open>auto simp: registration_post_def as_typed_Inr registrationJobName_def registrationHash_def
      dest!: as_typed_Inl_NotFound split: option.splits\<close>)

lemma registration_post_prefix:
  "registration_post agw identity r t \<Longrightarrow> list_all (\<lambda>e. \<not> is_write e) u \<Longrightarrow> registration_post agw identity r (u @ t)"
proof -
  assume post: "registration_post agw identity r t" and u: "list_all (\<lambda>e. \<not> is_write e) u"
  then have "filter is_write (u @ t) = filter is_write t" and "\<And>j q. EvDelete True (OJob j) q \<notin> set u"
    and "\<And>x q. EvCreate x q \<notin> set u"
    by (auto simp: list_all_iff filter_empty_conv)
  with post u show ?thesis
    unfolding registration_post_def set_append list_all_iff by (simp only: Un_iff) blast
qed

lemma registration_post_quiet:
  "list_all (\<lambda>e. \<not> is_write e) t \<Longrightarrow> registration_post agw identity (False, reason, err) t"
  by (auto simp: registration_post_def list_all_iff)

lemma spec_reconcileAGWGatewayRegistration:
  "spec (reconcileAGWGatewayRegistration K agw identity) (registration_post agw identity)"
  unfolding reconcileAGWGatewayRegistration_def
  apply (intro spec_if spec_bind spec_getAs spec_sum spec_return)
  subgoal by (rule registration_post_quiet) simp
  subgoal by (rule registration_post_quiet) simp
  subgoal by (rule registration_post_quiet) simp
  subgoal by (auto intro!: registration_post_quiet)
  subgoal by (auto intro!: registration_post_quiet)
  subgoal for r secret r' magmalte
    by (cases "dep_Containers magmalte")
      (auto intro!: spec_return registration_post_quiet spec_weaken [OF spec_runRegistrationJob]
        registration_post_prefix [where u = "[a, b]" for a b, simplified])
  done

definition deregistration_post :: "magmaAGW \<Rightarrow> bool \<times> string \<times> string \<times> error option \<Rightarrow> event list \<Rightarrow> bool" where
  "deregistration_post agw r t \<longleftrightarrow>
     (\<forall>e\<in>set t. is_write e \<longrightarrow> (\<exists>image' q. e = EvCreate (OJob (deregistrationJob (registrationNamespace agw)
        (deregistrationJobName agw) image' (registrationCertSecret agw) (registrationAPIHost agw)
        (as_NetworkID (agw_Spec agw)) (as_AccessGatewayID (agw_Spec agw)))) q)) \<and>
     (\<forall>x q. EvCreate x q \<in> set t \<longrightarrow>
        (\<exists>e. IsNotFound e \<and> ev_no_job (registrationNamespace agw) (deregistrationJobName agw) e \<in> set t)) \<and>
     (fst r \<longrightarrow> snd (snd (snd r)) = None \<and>
       (\<not> gr_DeleteOnRemoval (as_GatewayRegistration (agw_Spec agw)) \<or>
        \<not> gatewayRegistrationEnabled (as_GatewayRegistration (agw_Spec agw)) \<or>
        (\<exists>j. ev_job (registrationNamespace agw) (deregistrationJobName agw) j \<in> set t \<and> job_succeeded j)))"

lemma spec_reconcileAGWGatewayDeregistration:
  "spec (reconcileAGWGatewayDeregistration K agw) (deregistration_post agw)"
  unfolding reconcileAGWGatewayDeregistration_def runDeregistrationJob_def Let_def
  apply (intro spec_if spec_bind spec_getAs spec_sum spec_return)
  subgoal by (simp add: deregistration_post_def)
  subgoal by (simp add: deregistration_post_def)
  subgoal by (simp add: deregistration_post_def)
  subgoal by (simp add: deregistration_post_def)
  subgoal by (simp add: deregistration_post_def)
  subgoal for r secret r' magmalte
    by (cases "dep_Containers magmalte"; simp only: list.case; intro spec_structure spec_rules)
      (auto simp: deregistration_post_def as_typed_Inr dest!: as_typed_Inl_NotFound split: option.splits)
  done

section \<open>Properties\<close>

text \<open>C19: the registration Job. A reconcile of the registration makes at most one write; it deletes only
  a Job it has just read that carries another payload hash, and creates only after reading that
  the Job does not exist, and then exactly the registration Job of this gateway, identity and
  payload; and it answers "registered" only if registration is enabled and it has just read a
  succeeded Job that carries the hash of the current payload.\<close>

theorem registration_contract:
  assumes "events (reconcileAGWGatewayRegistration K agw identity) s = t"
    and "result (reconcileAGWGatewayRegistration K agw identity) s = r"
  shows "length (filter is_write t) \<le> 1 \<and>
    (\<forall>j q. EvDelete True (OJob j) q \<in> set t \<longrightarrow>
       ev_job (registrationNamespace agw) (m_Name (agw_Meta agw) @ ''-register-gateway'') j \<in> set t \<and>
       job_hash payloadHashAnnotation j \<noteq> sha256Hex (agwGatewayPayload agw identity)) \<and>
    (\<forall>x q. EvCreate x q \<in> set t \<longrightarrow>
       (\<exists>e. IsNotFound e \<and> ev_no_job (registrationNamespace agw) (m_Name (agw_Meta agw) @ ''-register-gateway'') e \<in> set t) \<and>
       (\<exists>image'. x = OJob (freshRegistrationJob (agw, identity, image')))) \<and>
    (fst r \<longrightarrow> gatewayRegistrationEnabled (as_GatewayRegistration (agw_Spec agw)) \<and>
       (\<exists>j. ev_job (registrationNamespace agw) (m_Name (agw_Meta agw) @ ''-register-gateway'') j \<in> set t \<and>
          job_hash payloadHashAnnotation j = sha256Hex (agwGatewayPayload agw identity) \<and> job_succeeded j))"
  using specD(2) [OF spec_reconcileAGWGatewayRegistration [of K agw identity], of s]
  unfolding registration_post_def assms by blast

text \<open>C20: the deregistration Job. A reconcile of the deregistration writes nothing but its Job, which
  names this gateway and network, and only after reading that it does not exist; it answers
  "done" only when deregistration is not asked for, registration is disabled, or it has just
  read the Job succeeded.\<close>

theorem deregistration_contract:
  assumes "events (reconcileAGWGatewayDeregistration K agw) s = t"
    and "result (reconcileAGWGatewayDeregistration K agw) s = r"
  shows "(\<forall>e\<in>set t. is_write e \<longrightarrow>
       (\<exists>image' q. e = EvCreate (OJob (deregistrationJob (registrationNamespace agw) (deregistrationJobName agw) image'
          (registrationCertSecret agw) (registrationAPIHost agw) (as_NetworkID (agw_Spec agw)) (as_AccessGatewayID (agw_Spec agw)))) q) \<and>
       (\<exists>e. IsNotFound e \<and> ev_no_job (registrationNamespace agw) (deregistrationJobName agw) e \<in> set t)) \<and>
    (fst r \<longrightarrow> \<not> gr_DeleteOnRemoval (as_GatewayRegistration (agw_Spec agw)) \<or>
       \<not> gatewayRegistrationEnabled (as_GatewayRegistration (agw_Spec agw)) \<or>
       (\<exists>j. ev_job (registrationNamespace agw) (deregistrationJobName agw) j \<in> set t \<and> job_succeeded j))"
proof (intro conjI ballI impI)
  note post = specD(2) [OF spec_reconcileAGWGatewayDeregistration [of K agw], of s, unfolded deregistration_post_def assms]
  fix e assume e: "e \<in> set t" "is_write e"
  with post show "\<exists>image' q. e = EvCreate (OJob (deregistrationJob (registrationNamespace agw) (deregistrationJobName agw) image'
      (registrationCertSecret agw) (registrationAPIHost agw) (as_NetworkID (agw_Spec agw)) (as_AccessGatewayID (agw_Spec agw)))) q"
    by blast
  with post e show "\<exists>e. IsNotFound e \<and> ev_no_job (registrationNamespace agw) (deregistrationJobName agw) e \<in> set t" by blast
next
  note post = specD(2) [OF spec_reconcileAGWGatewayDeregistration [of K agw], of s, unfolded deregistration_post_def assms]
  assume "fst r"
  with post show "\<not> gr_DeleteOnRemoval (as_GatewayRegistration (agw_Spec agw)) \<or>
      \<not> gatewayRegistrationEnabled (as_GatewayRegistration (agw_Spec agw)) \<or>
      (\<exists>j. ev_job (registrationNamespace agw) (deregistrationJobName agw) j \<in> set t \<and> job_succeeded j)" by blast
qed

subsection \<open>Witnesses\<close>

definition demoManaged :: magmaAGW where
  "demoManaged = demoAGW\<lparr>agw_Spec := demoSpec\<lparr>as_GatewayRegistration :=
     (as_GatewayRegistration demoSpec)\<lparr>gr_Enabled := None, gr_DeleteOnRemoval := True\<rparr>\<rparr>\<rparr>"

definition demoOrc8r :: "kobj list" where
  "demoOrc8r = [OSecret (newSecret ''magma'' ''orc8r-secrets-certs''),
     ODeployment \<lparr>dep_Meta = newMeta ''magma'' magmalteDeploymentName, dep_Replicas = None, dep_TemplateAnnotations = [],
       dep_Containers = [\<lparr>ct_Name = ''magmalte'', ct_Image = ''nms'', ct_ImagePullPolicy = [], ct_Command = [], ct_Args = [],
         ct_Env = [], ct_VolumeMounts = []\<rparr>],
       dep_ObservedGeneration = 0, dep_ReadyReplicas = 0, dep_AvailableReplicas = 0\<rparr>]"

declare sha256Hex_def [code del] agwGatewayPayload_def [code del]

lemma registration_contract_witness:
  "\<exists>image' q. EvCreate (OJob (freshRegistrationJob (demoManaged, demoIdentity, image'))) q
     \<in> set (events (reconcileAGWGatewayRegistration (refClient demoOrc8r) demoManaged demoIdentity) refStart)"
proof -
  have "list_ex is_create (events (reconcileAGWGatewayRegistration (refClient demoOrc8r) demoManaged demoIdentity) refStart)"
    by code_simp
  then obtain x q where "EvCreate x q
      \<in> set (events (reconcileAGWGatewayRegistration (refClient demoOrc8r) demoManaged demoIdentity) refStart)"
    by (auto simp: list_ex_iff is_create_iff)
  with registration_contract [of "refClient demoOrc8r" demoManaged demoIdentity refStart, OF refl refl] show ?thesis by blast
qed

lemma deregistration_contract_witness:
  "\<exists>j. ev_job ''magma'' ''agw-delete-gateway'' j
     \<in> set (events (reconcileAGWGatewayDeregistration (refClient (demoJob ''agw-delete-gateway'' # demoOrc8r)) demoManaged) refStart)
     \<and> job_succeeded j"
proof -
  have "fst (result (reconcileAGWGatewayDeregistration (refClient (demoJob ''agw-delete-gateway'' # demoOrc8r)) demoManaged) refStart)"
    and "gr_DeleteOnRemoval (as_GatewayRegistration (agw_Spec demoManaged))"
    and "gatewayRegistrationEnabled (as_GatewayRegistration (agw_Spec demoManaged))"
    and "registrationNamespace demoManaged = ''magma''" and "deregistrationJobName demoManaged = ''agw-delete-gateway''"
    by code_simp+
  with deregistration_contract [of "refClient (demoJob ''agw-delete-gateway'' # demoOrc8r)" demoManaged refStart, OF refl refl]
  show ?thesis by auto
qed

declare sha256Hex_def [code] agwGatewayPayload_def [code]

end
