(* ===== verification/AGW_Lifecycle.thy ===== *)
theory AGW_Lifecycle
  imports Gateway_Registration Patch_Loop
begin

text \<open>
  Lifecycle prerequisites of an AGW (\<^verbatim>\<open>agw_lifecycle.go\<close>): discovery of the Orc8r service,
  the trust bundle copied from the Orc8r Secret, the Job that syncs it into the AGW's
  volume, the rollout annotation on Deployments and the readiness of Deployments.
\<close>

abbreviation agwRootCASyncComponent :: string where "agwRootCASyncComponent \<equiv> ''agw-rootca-sync''"
abbreviation rootCASecretKey :: string where "rootCASecretKey \<equiv> ''rootCA.pem''"
abbreviation rootCAHashAnnotation :: string where "rootCAHashAnnotation \<equiv> ''magma.infra.don/rootca-sha256''"

section \<open>Names\<close>

record agwLifecycleState =
  ls_Orc8rServiceIP :: string
  ls_TrustBundleHash :: string

definition agwCertSecretName :: "string \<Rightarrow> smap \<Rightarrow> string" where
  "agwCertSecretName releaseName values' =
     (if mget values' ''secret.certs'' \<noteq> [] then mget values' ''secret.certs'' else releaseName @ ''-secret-certs'')"

definition orc8rNamespace :: "magmaAGW \<Rightarrow> string" where
  "orc8rNamespace agw =
     (if as_Orc8rNamespace (agw_Spec agw) \<noteq> [] then as_Orc8rNamespace (agw_Spec agw) else defaultOrc8rNamespace)"

definition orc8rReleaseName :: "magmaAGW \<Rightarrow> string" where
  "orc8rReleaseName agw =
     (if as_Orc8rReleaseName (agw_Spec agw) \<noteq> [] then as_Orc8rReleaseName (agw_Spec agw) else defaultOrc8rReleaseName)"

definition updateAGWLifecycleStatus :: "magmaAGW \<Rightarrow> agwLifecycleState \<Rightarrow> magmaAGW" where
  "updateAGWLifecycleStatus agw state =
     agw\<lparr>agw_Status := (agw_Status agw)\<lparr>
       ast_Orc8rServiceIP := ls_Orc8rServiceIP state, ast_TrustBundleHash := ls_TrustBundleHash state\<rparr>\<rparr>"

section \<open>Service discovery\<close>

text \<open>The \<^verbatim>\<open>values\<close> map is updated in place: the new map is part of the result.\<close>

definition reconcileOrc8rHostAlias ::
    "'w client \<Rightarrow> magmaAGW \<Rightarrow> smap \<Rightarrow> ('w, (error + string) \<times> smap) kio" where
  "reconcileOrc8rHostAlias K agw values' =
     (if mget values' ''orc8r.hostAliases.enabled'' = stringFalse then return (Inr [], values')
      else
        (let serviceName = (if as_NMSAPIHost (agw_Spec agw) = [] then orc8rReleaseName agw @ ''-nginx-proxy''
                            else as_NMSAPIHost (agw_Spec agw)) in do {
           r \<leftarrow> getService K (orc8rNamespace agw) serviceName;
           return (case r of
             Inl e \<Rightarrow> (if IsNotFound e then (Inr [], values') else (Inl e, values'))
           | Inr svc \<Rightarrow>
               (if svc_ClusterIP svc = [] \<or> svc_ClusterIP svc = ''None'' then (Inr [], values')
                else (Inr (svc_ClusterIP svc),
                      mset_key ''orc8r.hostAliases.ip'' (svc_ClusterIP svc)
                        (mset_key ''orc8r.hostAliases.enabled'' stringTrue values'))))
         }))"

section \<open>The root CA sync Job\<close>

definition rootCASyncScript :: string where
  "rootCASyncScript =
     ''mkdir -p /var/opt/magma/certs'' @ nl @
     ''rm -f /var/opt/magma/certs/gateway.crt /var/opt/magma/certs/gateway.key /var/opt/magma/certs/controller.crt /var/opt/magma/certs/controller.key'' @ nl @
     ''cp -f /certs/rootCA.pem /var/opt/magma/certs/rootCA.pem'' @ nl @
     ''chmod 0644 /var/opt/magma/certs/rootCA.pem''"

definition rootCASyncJob :: "string \<Rightarrow> string \<Rightarrow> string \<Rightarrow> string \<Rightarrow> string \<Rightarrow> string \<Rightarrow> job" where
  "rootCASyncJob ns name releaseName secretName pvcName hash = \<lparr>
     job_Meta = (newMeta ns name)\<lparr>
       m_Labels := [(labelAppComponent, agwRootCASyncComponent), (labelAppInstance, releaseName),
         (labelAppManagedBy, managedByMagmaOperator)],
       m_Annotations := [(rootCAHashAnnotation, hash)]\<rparr>,
     job_BackoffLimit = Some 1,
     job_TTLSecondsAfterFinished = Some 3600,
     job_ActiveDeadlineSeconds = None,
     job_PodSpec = \<lparr>
       ps_ServiceAccountName = [],
       ps_RestartPolicy = ''Never'',
       ps_Containers = [\<lparr>
         ct_Name = ''sync-rootca'',
         ct_Image = ''busybox:1.36'',
         ct_ImagePullPolicy = [],
         ct_Command = [''sh'', shellExitOnErrorCommand],
         ct_Args = [rootCASyncScript],
         ct_Env = [],
         ct_VolumeMounts = [
           \<lparr>vm_Name = ''agwc-claim'', vm_MountPath = ''/var/opt/magma'', vm_SubPath = [], vm_ReadOnly = False\<rparr>,
           \<lparr>vm_Name = ''agwc-secret'', vm_MountPath = ''/certs'', vm_SubPath = [], vm_ReadOnly = True\<rparr>]\<rparr>],
       ps_Volumes = [
         \<lparr>vol_Name = ''agwc-claim'', vol_Source = PVCSource pvcName\<rparr>,
         \<lparr>vol_Name = ''agwc-secret'', vol_Source = SecretSource secretName 292\<rparr>]\<rparr>,
     job_Succeeded = 0,
     job_Failed = 0\<rparr>"

text \<open>The arguments of the sync: namespace, release, Secret, volume claim and hash.\<close>

record rootCASync =
  rs_Namespace :: string
  rs_ReleaseName :: string
  rs_SecretName :: string
  rs_PVCName :: string
  rs_Hash :: string

definition rootCASyncJobName :: "rootCASync \<Rightarrow> string" where
  "rootCASyncJobName p = rs_ReleaseName p @ ''-rootca-sync''"

definition freshRootCASyncJob :: "rootCASync \<Rightarrow> job" where
  "freshRootCASyncJob p = rootCASyncJob (rs_Namespace p) (rootCASyncJobName p) (rs_ReleaseName p)
     (rs_SecretName p) (rs_PVCName p) (rs_Hash p)"

definition reconcileRootCASyncJob :: "'w client \<Rightarrow> rootCASync \<Rightarrow> ('w, bool \<times> string \<times> string \<times> error option) kio" where
  "reconcileRootCASyncJob K p =
     (let ns = rs_Namespace p; jobName = rootCASyncJobName p; at = ns @ ''/'' @ jobName in do {
        r \<leftarrow> getJob K ns jobName;
        case r of
          Inr existing \<Rightarrow>
            (if job_hash rootCAHashAnnotation existing \<noteq> rs_Hash p then do {
               d \<leftarrow> deleteIgnoringNotFound K True (OJob existing);
               return (case d of
                 Some e \<Rightarrow> (False, ''RootCASyncJobDeleteFailed'', err_text e, Some e)
               | None \<Rightarrow> (False, ''RootCASyncJobReplacing'', ''root CA changed; replacing AGW PVC sync job'', None))
             }
             else if job_succeeded existing then return (True, [], [], None)
             else if job_failed existing
             then return (False, ''RootCASyncJobFailed'', ''root CA sync job '' @ at @ '' failed'', None)
             else return (False, ''RootCASyncJobRunning'', ''waiting for root CA sync job '' @ at, None))
        | Inl e \<Rightarrow>
            (if \<not> IsNotFound e then return (False, ''RootCASyncJobReadFailed'', err_text e, Some e)
             else do {
               c \<leftarrow> kCreate K (OJob (freshRootCASyncJob p));
               return (case c of
                 Some e \<Rightarrow> (False, ''RootCASyncJobCreateFailed'', err_text e, Some e)
               | None \<Rightarrow> (False, ''RootCASyncJobCreated'', ''created root CA sync job '' @ at, None))
             })
      })"

section \<open>The trust bundle\<close>

definition syncTrustBundle :: "string \<Rightarrow> bytes \<Rightarrow> secret \<Rightarrow> error + secret" where
  "syncTrustBundle hash rootCA agwSecret =
     (let m = sec_Meta agwSecret in Inr (agwSecret\<lparr>
        sec_Type := ''Opaque'',
        sec_Meta := m\<lparr>
          m_Labels := mset_key labelAppManagedBy managedByMagmaOperator (m_Labels m),
          m_Annotations := mset_key rootCAHashAnnotation hash (m_Annotations m)\<rparr>,
        sec_Data := mdel ''controller.key'' (mdel ''controller.crt'' (mdel ''gateway.key'' (mdel ''gateway.crt''
          (mset_key rootCASecretKey rootCA (sec_Data agwSecret)))))\<rparr>))"

definition orc8rCertSecretName :: "magmaAGW \<Rightarrow> string" where
  "orc8rCertSecretName agw =
     (if as_NMSAdminCertSecretName (agw_Spec agw) = [] then defaultNMSAdminCertSecretName
      else as_NMSAdminCertSecretName (agw_Spec agw))"

definition reconcileAGWTrustBundle ::
    "'w client \<Rightarrow> magmaAGW \<Rightarrow> string \<Rightarrow> smap \<Rightarrow> ('w, string \<times> bool \<times> string \<times> string \<times> error option) kio" where
  "reconcileAGWTrustBundle K agw releaseName values' =
     (let orc8rNs = orc8rNamespace agw; orc8rSecretName = orc8rCertSecretName agw; ns = m_Namespace (agw_Meta agw);
          at = orc8rNs @ ''/'' @ orc8rSecretName in do {
        r \<leftarrow> getSecret K orc8rNs orc8rSecretName;
        case r of
          Inl e \<Rightarrow> return (if IsNotFound e
            then ([], False, ''WaitingForOrc8rCertSecret'', ''waiting for Orc8r cert Secret '' @ at, None)
            else ([], False, ''Orc8rCertSecretReadFailed'', err_text e, Some e))
        | Inr orc8rSecret \<Rightarrow>
            (let rootCA = mget (sec_Data orc8rSecret) rootCASecretKey; hash = sha256Hex rootCA;
                 certSecretName = agwCertSecretName releaseName values'; pvcName = releaseName @ ''-claim'' in
             if rootCA = [] then return ([], False, ''Orc8rRootCAMissing'',
               ''Orc8r cert Secret '' @ at @ '' is missing '' @ rootCASecretKey, None)
             else do {
               c \<leftarrow> kCreateOrUpdate K (OSecret (newSecret ns certSecretName)) (on_secret (syncTrustBundle hash rootCA));
               case c of
                 Inl e \<Rightarrow> return (hash, False, ''AGWCertSecretSyncFailed'', err_text e, Some e)
               | Inr _ \<Rightarrow> do {
                   v \<leftarrow> getPVC K ns pvcName;
                   case v of
                     Inl e \<Rightarrow> return (if IsNotFound e then (hash, True, [], [], None)
                                      else (hash, False, ''AGWPVCReadFailed'', err_text e, Some e))
                   | Inr _ \<Rightarrow> do {
                       (ready, reason, message, err) \<leftarrow> reconcileRootCASyncJob K
                         \<lparr>rs_Namespace = ns, rs_ReleaseName = releaseName, rs_SecretName = certSecretName,
                          rs_PVCName = pvcName, rs_Hash = hash\<rparr>;
                       return (hash, ready, reason, message, err)
                     }
                 }
             })
      })"

definition reconcileAGWLifecyclePrereqs ::
    "'w client \<Rightarrow> magmaAGW \<Rightarrow> string \<Rightarrow> smap
      \<Rightarrow> ('w, (agwLifecycleState \<times> bool \<times> string \<times> string \<times> error option) \<times> smap) kio" where
  "reconcileAGWLifecyclePrereqs K agw releaseName values' = do {
     (alias, values1) \<leftarrow> reconcileOrc8rHostAlias K agw values';
     case alias of
       Inl e \<Rightarrow> return ((\<lparr>ls_Orc8rServiceIP = [], ls_TrustBundleHash = []\<rparr>, False,
         ''Orc8rServiceDiscoveryFailed'', err_text e, Some e), values1)
     | Inr serviceIP \<Rightarrow> do {
         (hash, ready, reason, message, err) \<leftarrow> reconcileAGWTrustBundle K agw releaseName values1;
         return (if err \<noteq> None \<or> \<not> ready
           then ((\<lparr>ls_Orc8rServiceIP = serviceIP, ls_TrustBundleHash = hash\<rparr>, ready, reason, message, err), values1)
           else ((\<lparr>ls_Orc8rServiceIP = serviceIP, ls_TrustBundleHash = hash\<rparr>, True, [], [], None), values1))
       }
   }"

section \<open>Deployments\<close>

definition isUERANSIMDeployment :: "string \<Rightarrow> bool" where
  "isUERANSIMDeployment name = contains (toLower name) ''ueransim''"

definition agwSelector :: "string \<Rightarrow> smap" where
  "agwSelector releaseName = [(labelAppInstance, releaseName), (labelAppName, magmaAGWAppName)]"

definition template_annotation :: "string \<Rightarrow> deployment \<Rightarrow> string" where
  "template_annotation ann d = mget (dep_TemplateAnnotations d) ann"

definition setTemplateAnnotation :: "string \<Rightarrow> string \<Rightarrow> deployment \<Rightarrow> deployment" where
  "setTemplateAnnotation ann hash d =
     d\<lparr>dep_TemplateAnnotations := mset_key ann hash (dep_TemplateAnnotations d)\<rparr>"

text \<open>One iteration: skip what is not included or already carries the hash, patch the rest.\<close>

definition annotateStep ::
    "(deployment \<Rightarrow> bool) \<Rightarrow> string \<Rightarrow> 'w client \<Rightarrow> string \<Rightarrow> deployment \<Rightarrow> ('w, error option) kio" where
  "annotateStep incl ann K hash d =
     (if \<not> incl d then return None
      else if template_annotation ann d = hash then return None
      else kPatch K (ODeployment (setTemplateAnnotation ann hash d)) (MergeFrom (ODeployment d)))"

definition annotateDeploymentsForRootCA ::
    "'w client \<Rightarrow> string \<Rightarrow> string \<Rightarrow> string \<Rightarrow> (deployment \<Rightarrow> bool) \<Rightarrow> ('w, error option) kio" where
  "annotateDeploymentsForRootCA K ns releaseName hash incl =
     (if hash = [] then return None
      else do {
        r \<leftarrow> listDeployments K ns (agwSelector releaseName);
        case r of
          Inl e \<Rightarrow> return (Some e)
        | Inr deployments \<Rightarrow> each (annotateStep incl rootCAHashAnnotation K hash) deployments
      })"

definition agwCoreDeployment :: "deployment \<Rightarrow> bool" where
  "agwCoreDeployment d \<longleftrightarrow> \<not> isUERANSIMDeployment (m_Name (dep_Meta d))"

definition annotateAGWCoreDeploymentsForRootCA ::
    "'w client \<Rightarrow> string \<Rightarrow> string \<Rightarrow> string \<Rightarrow> ('w, error option) kio" where
  "annotateAGWCoreDeploymentsForRootCA K ns releaseName hash =
     annotateDeploymentsForRootCA K ns releaseName hash agwCoreDeployment"

text \<open>Readiness: the first deployment that is not ready, else ready if any matched.\<close>

definition desiredReplicas :: "deployment \<Rightarrow> int32" where
  "desiredReplicas d = (case dep_Replicas d of None \<Rightarrow> 1 | Some n \<Rightarrow> n)"

definition deploymentWait :: "string \<Rightarrow> string \<Rightarrow> string \<Rightarrow> deployment \<Rightarrow> string option" where
  "deploymentWait label ns requiredRootCAHash d =
     (let at = label @ '' deployment '' @ ns @ ''/'' @ m_Name (dep_Meta d); desired = desiredReplicas d in
      if requiredRootCAHash \<noteq> [] \<and> template_annotation rootCAHashAnnotation d \<noteq> requiredRootCAHash
      then Some (''waiting for '' @ at @ '' root CA rollout annotation'')
      else if sint (dep_ObservedGeneration d) < sint (m_Generation (dep_Meta d))
      then Some (''waiting for '' @ at @ '' controller observation'')
      else if sint (dep_ReadyReplicas d) < sint desired \<or> sint (dep_AvailableReplicas d) < sint desired
      then Some (''waiting for '' @ at @ '' readiness: '' @ int_str (sint (dep_ReadyReplicas d)) @ ''/''
        @ int_str (sint desired) @ '' ready'')
      else None)"

fun deploymentsScan ::
    "string \<Rightarrow> string \<Rightarrow> string \<Rightarrow> (deployment \<Rightarrow> bool) \<Rightarrow> nat \<Rightarrow> deployment list \<Rightarrow> string + nat" where
  "deploymentsScan label ns required incl matched [] = Inr matched"
| "deploymentsScan label ns required incl matched (d # ds) =
     (if \<not> incl d then deploymentsScan label ns required incl matched ds
      else (case deploymentWait label ns required d of
        Some message \<Rightarrow> Inl message
      | None \<Rightarrow> deploymentsScan label ns required incl (Suc matched) ds))"

definition deploymentsReady ::
    "'w client \<Rightarrow> string \<Rightarrow> string \<Rightarrow> string \<Rightarrow> (deployment \<Rightarrow> bool) \<Rightarrow> string
      \<Rightarrow> ('w, bool \<times> string \<times> error option) kio" where
  "deploymentsReady K ns releaseName label incl requiredRootCAHash = do {
     r \<leftarrow> listDeployments K ns (agwSelector releaseName);
     return (case r of
       Inl e \<Rightarrow> (False, [], Some e)
     | Inr deployments \<Rightarrow> (case deploymentsScan label ns requiredRootCAHash incl 0 deployments of
         Inl message \<Rightarrow> (False, message, None)
       | Inr matched \<Rightarrow>
           (if matched = 0 then (False, ''waiting for '' @ label @ '' deployments for release '' @ ns @ ''/'' @ releaseName, None)
            else (True, label @ '' deployments are ready'', None))))
   }"

section \<open>Interfaces\<close>

interpretation rootca_job: single_job reconcileRootCASyncJob rs_Namespace rootCASyncJobName rootCAHashAnnotation
  rs_Hash "\<lambda>p r. fst r" freshRootCASyncJob
proof
  fix K :: "'w client" and p
  show "spec (reconcileRootCASyncJob K p) (\<lambda>r. job_step (rs_Namespace p) (rootCASyncJobName p)
      rootCAHashAnnotation (rs_Hash p) (freshRootCASyncJob p) (fst r))"
    unfolding reconcileRootCASyncJob_def Let_def
    by (intro spec_structure spec_rules)
      (auto simp: as_typed_Inr as_typed_def decode_error_def Errorf_def IsNotFound_def
        intro: job_step.intros split: option.splits sum.splits)
qed (auto simp: freshRootCASyncJob_def rootCASyncJob_def job_hash_def newMeta_def)

interpretation annotate_loop: patch_loop "annotateStep incl ann"
  "\<lambda>hash d. incl d \<and> template_annotation ann d \<noteq> hash" "setTemplateAnnotation ann" ODeployment
  for incl ann
  by unfold_locales (auto simp: annotateStep_def template_annotation_def setTemplateAnnotation_def)

section \<open>Behaviour\<close>

lemma orc8r_names_agree:
  "orc8rNamespace agw = registrationNamespace agw" "orc8rCertSecretName agw = registrationCertSecret agw"
  by (simp_all add: orc8rNamespace_def registrationNamespace_def orc8rCertSecretName_def registrationCertSecret_def orDefault_def)

lemma updateAGWLifecycleStatus_frame [simp]:
  "agw_Meta (updateAGWLifecycleStatus agw st) = agw_Meta agw"
  "agw_Spec (updateAGWLifecycleStatus agw st) = agw_Spec agw"
  "ast_Conditions (agw_Status (updateAGWLifecycleStatus agw st)) = ast_Conditions (agw_Status agw)"
  "ast_TrustBundleHash (agw_Status (updateAGWLifecycleStatus agw st)) = ls_TrustBundleHash st"
  by (simp_all add: updateAGWLifecycleStatus_def)

lemma spec_reconcileOrc8rHostAlias:
  "spec (reconcileOrc8rHostAlias K agw vs) (\<lambda>(r, vs') t. list_all (\<lambda>e. \<not> is_write e) t \<and>
     (\<forall>k. k \<noteq> ''orc8r.hostAliases.enabled'' \<longrightarrow> k \<noteq> ''orc8r.hostAliases.ip'' \<longrightarrow> mget vs' k = mget vs k))"
  unfolding reconcileOrc8rHostAlias_def Let_def
  by (intro spec_structure spec_rules) (auto split: sum.split)

text \<open>The AGW Secret a synchronisation leaves behind.\<close>

definition bundle_synced :: "string \<Rightarrow> bytes \<Rightarrow> secret \<Rightarrow> bool" where
  "bundle_synced hash rootCA y \<longleftrightarrow> mget (sec_Data y) rootCASecretKey = rootCA \<and>
     mget (m_Annotations (sec_Meta y)) rootCAHashAnnotation = hash \<and>
     (\<forall>k\<in>{''gateway.crt'', ''gateway.key'', ''controller.crt'', ''controller.key''}. \<not> mhas (sec_Data y) k)"

lemma syncTrustBundle_synced: "syncTrustBundle hash rootCA x = Inr y \<Longrightarrow> bundle_synced hash rootCA y"
  by (auto simp: syncTrustBundle_def bundle_synced_def Let_def)

lemma on_secret_Inr: "on_secret f x = Inr y \<longleftrightarrow> (\<exists>a b. x = OSecret a \<and> f a = Inr b \<and> y = OSecret b)"
  by (cases "to_secret x"; cases "f (the (to_secret x))") (auto simp: on_secret_def)

text \<open>
  A trust bundle reported as synced: the root CA was read from the Orc8r Secret, the AGW's
  certificate Secret was written, and the volume is absent or was synced by a Job for this root CA.
  What was written is known of a client that keeps the contract of \<^verbatim>\<open>CreateOrUpdate\<close> (\<open>cu\<close>): exactly
  this root CA, its hash, and none of the stale keys.
\<close>

definition trust_evidence :: "bool \<Rightarrow> magmaAGW \<Rightarrow> string \<Rightarrow> string \<Rightarrow> string \<Rightarrow> event list \<Rightarrow> bool" where
  "trust_evidence cu agw releaseName certs hash t \<longleftrightarrow> (\<exists>orc8rSecret y.
     EvGet KSecret (orc8rNamespace agw) (orc8rCertSecretName agw) (Inr (OSecret orc8rSecret)) \<in> set t \<and>
     mget (sec_Data orc8rSecret) rootCASecretKey \<noteq> [] \<and>
     hash = sha256Hex (mget (sec_Data orc8rSecret) rootCASecretKey) \<and>
     EvCreateOrUpdate (OSecret (newSecret (m_Namespace (agw_Meta agw)) certs)) (Inr y) \<in> set t \<and>
     (cu \<longrightarrow> (\<exists>z. y = OSecret z \<and> bundle_synced hash (mget (sec_Data orc8rSecret) rootCASecretKey) z)) \<and>
     ((\<exists>e. IsNotFound e \<and> EvGet KPVC (m_Namespace (agw_Meta agw)) (releaseName @ ''-claim'') (Inl e) \<in> set t) \<or>
      (\<exists>j. ev_job (m_Namespace (agw_Meta agw)) (releaseName @ ''-rootca-sync'') j \<in> set t \<and>
         job_hash rootCAHashAnnotation j = hash \<and> job_succeeded j)))"

definition prep_write :: "event \<Rightarrow> bool" where
  "prep_write e \<longleftrightarrow> (\<exists>j q. e = EvDelete True (OJob j) q) \<or> (\<exists>j q. e = EvCreate (OJob j) q) \<or>
     (\<exists>x q. e = EvCreateOrUpdate (OSecret x) q)"

definition prep_event :: "event \<Rightarrow> bool" where
  "prep_event e \<longleftrightarrow> is_write e \<longrightarrow> prep_write e"

lemma prep_event_simps [simp]:
  "\<not> is_write e \<Longrightarrow> prep_event e" "prep_event (EvCreateOrUpdate (OSecret x) q)"
  "prep_event (EvDelete True (OJob j) r)" "prep_event (EvCreate (OJob j) r)"
  by (simp_all add: prep_event_def prep_write_def)

lemma nonwrite_prep: "list_all (\<lambda>e. \<not> is_write e) t \<Longrightarrow> list_all prep_event t"
  by (erule list.pred_mono_strong) simp

lemma job_step_prep: "job_step ns name ann hash fresh fin t \<Longrightarrow> list_all prep_event t"
  by (auto elim: job_step.cases)

lemma trust_evidence_prefix: "trust_evidence cu agw rn certs h t \<Longrightarrow> trust_evidence cu agw rn certs h (u @ t)"
  unfolding trust_evidence_def by fastforce

text \<open>What the callback of the trust bundle is known to have written.\<close>

definition bundle_known :: "bool \<Rightarrow> bytes \<Rightarrow> kobj \<Rightarrow> bool" where
  "bundle_known cu rootCA y \<longleftrightarrow> (cu \<longrightarrow> (\<exists>z. y = OSecret z \<and> bundle_synced (sha256Hex rootCA) rootCA z))"

lemma spec_bundle_write:
  assumes "cu \<longrightarrow> createOrUpdate_ok K"
    and "\<And>e. Q (Inl e) [EvCreateOrUpdate x (Inl e)]"
    and "\<And>y. bundle_known cu rootCA y \<Longrightarrow> Q (Inr y) [EvCreateOrUpdate x (Inr y)]"
  shows "spec (kCreateOrUpdate K x (on_secret (syncTrustBundle (sha256Hex rootCA) rootCA))) Q"
proof (cases cu)
  case True
  with assms(1) have "createOrUpdate_ok K" by simp
  then show ?thesis
    by (rule spec_kCreateOrUpdate_ok)
      (auto intro!: assms(2,3) dest: syncTrustBundle_synced simp: on_secret_Inr bundle_known_def)
next
  case False
  show ?thesis
  proof (rule spec_kCreateOrUpdate)
    fix r show "Q r [EvCreateOrUpdate x r]"
      by (cases r) (auto intro!: assms(2,3) simp: bundle_known_def False)
  qed
qed

lemma trust_evidence_no_volume:
  assumes "mget (sec_Data s) rootCASecretKey \<noteq> []" and "IsNotFound e" and "bundle_known cu (mget (sec_Data s) rootCASecretKey) y"
  shows "trust_evidence cu agw rn certs (sha256Hex (mget (sec_Data s) rootCASecretKey))
    [EvGet KSecret (orc8rNamespace agw) (orc8rCertSecretName agw) (Inr (OSecret s)),
     EvCreateOrUpdate (OSecret (newSecret (m_Namespace (agw_Meta agw)) certs)) (Inr y),
     EvGet KPVC (m_Namespace (agw_Meta agw)) (rn @ ''-claim'') (Inl e)]"
  unfolding trust_evidence_def
  by (rule exI [of _ s], rule exI [of _ y]) (use assms in \<open>auto simp: bundle_known_def\<close>)

lemma trust_evidence_job:
  assumes "mget (sec_Data s) rootCASecretKey \<noteq> []" and "bundle_known cu (mget (sec_Data s) rootCASecretKey) y"
    and "job_hash rootCAHashAnnotation j = sha256Hex (mget (sec_Data s) rootCASecretKey)" and "job_succeeded j"
  shows "trust_evidence cu agw rn certs (sha256Hex (mget (sec_Data s) rootCASecretKey))
    [EvGet KSecret (orc8rNamespace agw) (orc8rCertSecretName agw) (Inr (OSecret s)),
     EvCreateOrUpdate (OSecret (newSecret (m_Namespace (agw_Meta agw)) certs)) (Inr y), v,
     ev_job (m_Namespace (agw_Meta agw)) (rn @ ''-rootca-sync'') j]"
  unfolding trust_evidence_def
  by (rule exI [of _ s], rule exI [of _ y]) (use assms in \<open>auto simp: bundle_known_def\<close>)

lemma spec_reconcileAGWTrustBundle:
  assumes "cu \<longrightarrow> createOrUpdate_ok K"
  shows "spec (reconcileAGWTrustBundle K agw releaseName vs) (\<lambda>(hash, ready, reason, message, err) t.
     list_all prep_event t \<and>
     (ready \<longrightarrow> err = None \<longrightarrow> trust_evidence cu agw releaseName (agwCertSecretName releaseName vs) hash t))"
  unfolding reconcileAGWTrustBundle_def Let_def
  apply (rule spec_bind, rule spec_getAs, rule spec_sum)
  subgoal by (rule spec_return) simp
  apply (rule spec_if)
  subgoal by (rule spec_return) simp
  apply (rule spec_bind, rule spec_bundle_write [OF assms]; unfold sum.case)
  subgoal by (rule spec_return) simp
  apply (rule spec_bind, rule spec_getAs, rule spec_sum)
  subgoal by (rule spec_return) (auto simp: as_typed_Inr dest!: as_typed_Inl_NotFound intro: trust_evidence_no_volume)
  subgoal
    by (rule spec_bind, rule spec_weaken [OF spec_conj [OF rootca_job.step rootca_job.done_succeeded]])
      (auto intro!: spec_return trust_evidence_job dest: job_step_prep simp: as_typed_Inr rootCASyncJobName_def)
  done

lemma agwCertSecretName_cong: "mget vs ''secret.certs'' = mget vs' ''secret.certs'' \<Longrightarrow> agwCertSecretName rn vs = agwCertSecretName rn vs'"
  by (simp add: agwCertSecretName_def)

lemma spec_reconcileAGWLifecyclePrereqs:
  assumes "cu \<longrightarrow> createOrUpdate_ok K"
  shows "spec (reconcileAGWLifecyclePrereqs K agw releaseName vs) (\<lambda>((st, ready, reason, message, err), vs') t.
     list_all prep_event t \<and>
     (ready \<longrightarrow> err = None \<longrightarrow>
        trust_evidence cu agw releaseName (agwCertSecretName releaseName vs) (ls_TrustBundleHash st) t) \<and>
     (\<forall>k. k \<noteq> ''orc8r.hostAliases.enabled'' \<longrightarrow> k \<noteq> ''orc8r.hostAliases.ip'' \<longrightarrow> mget vs' k = mget vs k))"
  unfolding reconcileAGWLifecyclePrereqs_def
  apply (rule spec_bind, rule spec_weaken [OF spec_reconcileOrc8rHostAlias], rule spec_prod, rule spec_sum)
  subgoal by (rule spec_return) (simp add: nonwrite_prep)
  apply (rule spec_bind, rule spec_weaken [OF spec_reconcileAGWTrustBundle [OF assms]], intro spec_prod spec_return)
  subgoal premises prems for r t r0 vs1
  proof -
    have "agwCertSecretName releaseName vs1 = agwCertSecretName releaseName vs"
      by (rule agwCertSecretName_cong) (use prems in auto)
    then show ?thesis using prems by (auto simp: nonwrite_prep intro: trust_evidence_prefix)
  qed
  done

lemma as_list_deployments: "as_list to_deployment r = Inr ds \<longleftrightarrow> r = Inr (map ODeployment ds)"
  by (rule as_list_Inr) simp

definition annotates :: "string \<Rightarrow> string \<Rightarrow> deployment \<Rightarrow> error option \<Rightarrow> event" where
  "annotates ann hash d q = EvPatch (ODeployment (setTemplateAnnotation ann hash d)) (MergeFrom (ODeployment d)) q"

definition annotate_post :: "(deployment \<Rightarrow> bool) \<Rightarrow> string \<Rightarrow> string \<Rightarrow> string \<Rightarrow> smap \<Rightarrow> error option \<Rightarrow> event list \<Rightarrow> bool" where
  "annotate_post incl ann hash ns sel r t \<longleftrightarrow>
     (\<forall>e\<in>set t. is_write e \<longrightarrow> (\<exists>d q. incl d \<and> template_annotation ann d \<noteq> hash \<and> e = annotates ann hash d q)) \<and>
     (r = None \<longrightarrow> hash \<noteq> [] \<longrightarrow> (\<exists>ds. EvList KDeployment ns sel (Inr (map ODeployment ds)) \<in> set t \<and>
        (\<forall>d\<in>set ds. incl d \<longrightarrow> template_annotation ann d = hash \<or> annotates ann hash d None \<in> set t)))"

lemma annotate_loop_post:
  assumes "annotate_loop.patch_post incl ann hash ds r u"
  shows "annotate_post incl ann hash ns sel r (EvList KDeployment ns sel (Inr (map ODeployment ds)) # u)"
  using annotate_loop.post_events [OF assms] annotate_loop.post_success [where incl = incl and ann = ann and p = hash and xs = ds and t = u]
    assms
  unfolding annotate_post_def annotates_def annotate_loop.patch_event_def
  by fastforce

lemma spec_annotateDeploymentsForRootCA:
  "spec (annotateDeploymentsForRootCA K ns rn hash incl)
     (annotate_post incl rootCAHashAnnotation hash ns (agwSelector rn))"
  unfolding annotateDeploymentsForRootCA_def
  apply (rule spec_if)
  subgoal by (rule spec_return) (simp add: annotate_post_def)
  apply (rule spec_bind, rule spec_listAs, rule spec_sum)
  subgoal by (rule spec_return) (simp add: annotate_post_def)
  by (rule spec_weaken [OF annotate_loop.loop_spec]) (auto simp: as_list_deployments intro: annotate_loop_post)

lemma deploymentsScan_Inr:
  "deploymentsScan label ns required incl m ds = Inr n \<longleftrightarrow>
     (\<forall>d\<in>set ds. incl d \<longrightarrow> deploymentWait label ns required d = None) \<and> n = m + length (filter incl ds)"
  by (induction ds arbitrary: m) (auto split: option.splits)

definition deployment_ready :: "string \<Rightarrow> deployment \<Rightarrow> bool" where
  "deployment_ready required d \<longleftrightarrow>
     (required \<noteq> [] \<longrightarrow> template_annotation rootCAHashAnnotation d = required) \<and>
     sint (m_Generation (dep_Meta d)) \<le> sint (dep_ObservedGeneration d) \<and>
     sint (desiredReplicas d) \<le> sint (dep_ReadyReplicas d) \<and> sint (desiredReplicas d) \<le> sint (dep_AvailableReplicas d)"

lemma deploymentWait_None: "deploymentWait label ns required d = None \<longleftrightarrow> deployment_ready required d"
  by (auto simp: deploymentWait_def Let_def deployment_ready_def)

definition ready_post :: "string \<Rightarrow> string \<Rightarrow> (deployment \<Rightarrow> bool) \<Rightarrow> string \<Rightarrow> bool \<times> string \<times> error option \<Rightarrow> event list \<Rightarrow> bool" where
  "ready_post ns rn incl required r t \<longleftrightarrow>
     (\<exists>q. t = [EvList KDeployment ns (agwSelector rn) q] \<and>
       (fst r \<longleftrightarrow> (\<exists>ds. q = Inr (map ODeployment ds) \<and> filter incl ds \<noteq> [] \<and>
          (\<forall>d\<in>set (filter incl ds). deployment_ready required d))))"

lemma spec_deploymentsReady: "spec (deploymentsReady K ns rn label incl required) (ready_post ns rn incl required)"
  unfolding deploymentsReady_def
proof (rule spec_bind, rule spec_listAs, rule spec_return)
  fix q
  show "ready_post ns rn incl required
     (case as_list to_deployment q of Inl e \<Rightarrow> (False, [], Some e)
      | Inr deployments \<Rightarrow> (case deploymentsScan label ns required incl 0 deployments of
         Inl message \<Rightarrow> (False, message, None)
       | Inr matched \<Rightarrow>
           (if matched = 0 then (False, ''waiting for '' @ label @ '' deployments for release '' @ ns @ ''/'' @ rn, None)
            else (True, label @ '' deployments are ready'', None)))) ([EvList KDeployment ns (agwSelector rn) q] @ [])"
  proof (cases "as_list to_deployment q")
    case (Inl e)
    then have "\<nexists>ds. q = Inr (map ODeployment ds)" by (metis as_list_deployments sum.distinct(1))
    with Inl show ?thesis by (simp add: ready_post_def)
  next
    case (Inr ds)
    then have q: "q = Inr (map ODeployment ds)" by (simp add: as_list_deployments)
    have inj: "map ODeployment ds = map ODeployment ds' \<longleftrightarrow> ds = ds'" for ds'
      by (auto intro: map_injective simp: inj_def)
    show ?thesis
    proof (cases "deploymentsScan label ns required incl 0 ds")
      case (Inl m)
      then have "\<not> (\<forall>d\<in>set ds. incl d \<longrightarrow> deployment_ready required d)"
        using deploymentsScan_Inr [of label ns required incl 0 ds "length (filter incl ds)"]
        by (auto simp: deploymentWait_None)
      then show ?thesis unfolding \<open>as_list to_deployment q = Inr ds\<close> sum.case Inl
        by (auto simp: ready_post_def q inj)
    next
      case (Inr n)
      then have "\<forall>d\<in>set ds. incl d \<longrightarrow> deployment_ready required d" "n = length (filter incl ds)"
        by (auto simp: deploymentsScan_Inr deploymentWait_None)
      then show ?thesis unfolding \<open>as_list to_deployment q = Inr ds\<close> sum.case Inr
        by (auto simp: ready_post_def q inj filter_empty_conv)
    qed
  qed
qed

section \<open>Properties\<close>

text \<open>A trust bundle reported as synced is synced: the root CA was read from the Orc8r certificate
  Secret and is not empty, the reported hash is its SHA-256, the AGW's own Secret was written with
  exactly this root CA, its hash as annotation and none of the stale gateway and controller keys, and
  the AGW volume is either absent or was updated by a succeeded Job that carries this hash.\<close>

lemma trust_bundle_synced:
  assumes "createOrUpdate_ok K"
    and "result (reconcileAGWTrustBundle K agw releaseName vs) s = (hash, True, reason, message, None)"
    and "events (reconcileAGWTrustBundle K agw releaseName vs) s = t"
  shows "trust_evidence True agw releaseName (agwCertSecretName releaseName vs) hash t"
  using specD(2) [OF spec_reconcileAGWTrustBundle [of True K agw releaseName vs], of s] assms by simp

text \<open>A new root CA rolls out to the AGW and to nothing else: the only writes set the hash annotation
  of deployments that are not the simulator's and do not have it yet; and without an error, every
  core deployment of the release that was listed has the hash or was patched to have it.\<close>

lemma root_ca_rollout:
  assumes "events (annotateAGWCoreDeploymentsForRootCA K ns rn hash) s = t"
    and "result (annotateAGWCoreDeploymentsForRootCA K ns rn hash) s = r"
  shows "(\<forall>e\<in>set t. is_write e \<longrightarrow> (\<exists>d q. \<not> isUERANSIMDeployment (m_Name (dep_Meta d)) \<and>
      template_annotation rootCAHashAnnotation d \<noteq> hash \<and> e = annotates rootCAHashAnnotation hash d q)) \<and>
    (r = None \<longrightarrow> hash \<noteq> [] \<longrightarrow> (\<exists>ds. EvList KDeployment ns (agwSelector rn) (Inr (map ODeployment ds)) \<in> set t \<and>
      (\<forall>d\<in>set ds. \<not> isUERANSIMDeployment (m_Name (dep_Meta d)) \<longrightarrow>
         template_annotation rootCAHashAnnotation d = hash \<or> annotates rootCAHashAnnotation hash d None \<in> set t)))"
  using specD(2) [OF spec_annotateDeploymentsForRootCA [of K ns rn hash agwCoreDeployment], of s]
    assms [unfolded annotateAGWCoreDeploymentsForRootCA_def]
  unfolding annotate_post_def agwCoreDeployment_def by blast

text \<open>C22: readiness of deployments is exact: one list call, and the answer is "ready" just when that list
  has at least one deployment of interest and each of them carries the required root CA hash (if
  one is required), was observed at its current generation, and has at least the desired number
  of ready and of available replicas (one, if the field is absent).\<close>

theorem deployments_ready_exact:
  "\<exists>q. events (deploymentsReady K ns rn label incl required) s = [EvList KDeployment ns (agwSelector rn) q] \<and>
    (fst (result (deploymentsReady K ns rn label incl required) s) \<longleftrightarrow>
      (\<exists>ds. q = Inr (map ODeployment ds) \<and> filter incl ds \<noteq> [] \<and> list_all (deployment_ready required) (filter incl ds)))"
  using specD(2) [OF spec_deploymentsReady [of K ns rn label incl required], of s]
  unfolding ready_post_def list_all_iff .

subsection \<open>Witnesses\<close>

definition demoDeployment :: "string \<Rightarrow> smap \<Rightarrow> deployment" where
  "demoDeployment name ann = \<lparr>dep_Meta = (newMeta ''magma'' name)\<lparr>m_Labels := agwSelector ''agw''\<rparr>, dep_Replicas = None,
     dep_TemplateAnnotations = ann, dep_Containers = [], dep_ObservedGeneration = 0, dep_ReadyReplicas = 1,
     dep_AvailableReplicas = 1\<rparr>"

definition demoTrust :: "kobj list" where
  "demoTrust = [OSecret ((newSecret ''magma'' ''orc8r-secrets-certs'')\<lparr>sec_Data := [(rootCASecretKey, ''ca'')]\<rparr>)]"

declare sha256Hex_def [code del]

lemma trust_bundle_synced_witness:
  "\<exists>h. trust_evidence True demoAGW ''agw'' ''agw-secret-certs'' h
     (events (reconcileAGWTrustBundle (refClient demoTrust) demoAGW ''agw'' []) refStart)"
proof -
  have "result (reconcileAGWTrustBundle (refClient demoTrust) demoAGW ''agw'' []) refStart = (sha256Hex ''ca'', True, [], [], None)"
    and "agwCertSecretName ''agw'' [] = ''agw-secret-certs''" by code_simp+
  with trust_bundle_synced [OF refClient_createOrUpdate this(1) refl] show ?thesis by metis
qed

declare sha256Hex_def [code]

lemma root_ca_rollout_witness:
  "\<exists>ds. EvList KDeployment ''magma'' (agwSelector ''agw'') (Inr (map ODeployment ds))
      \<in> set (events (annotateAGWCoreDeploymentsForRootCA (refClient [ODeployment (demoDeployment ''agw-mme'' [])]) ''magma'' ''agw'' ''h'') refStart)"
proof -
  have "result (annotateAGWCoreDeploymentsForRootCA (refClient [ODeployment (demoDeployment ''agw-mme'' [])]) ''magma'' ''agw'' ''h'')
      refStart = None" by code_simp
  from root_ca_rollout [OF refl this] show ?thesis by blast
qed

end
