(* ===== verification/AGW_Validation.thy ===== *)
theory AGW_Validation
  imports AGW_Lifecycle
begin

text \<open>
  One-shot validation of the simulated UE (\<^verbatim>\<open>agw_validation.go\<close>): access rights of the
  validation Job, the rollout of the UERANSIM Deployments it waits for, the choice of the
  UE pod, the Job itself and the reconcile that drives them. Timeouts and ports are 32-bit
  integers, the Job's deadline is computed at that width.
\<close>

abbreviation ueransimValidationComponent :: string where "ueransimValidationComponent \<equiv> ''ueransim-validation''"
abbreviation ueransimValidationHash :: string where
  "ueransimValidationHash \<equiv> ''magma.infra.don/ueransim-validation-hash''"
abbreviation ueransimValidationRolloutHash :: string where
  "ueransimValidationRolloutHash \<equiv> ''magma.infra.don/ueransim-validation-rollout-hash''"
abbreviation ueransimValidationServiceAcct :: string where
  "ueransimValidationServiceAcct \<equiv> ''magma-operator-ueransim-validation''"

section \<open>Settings and hash\<close>

definition ueransimValidationEnabled :: "magmaAGWUERANSIMValidationSpec \<Rightarrow> bool" where
  "ueransimValidationEnabled v = (case uv_Enabled v of None \<Rightarrow> False | Some b \<Rightarrow> b)"

definition ueransimValidationSpecText :: "magmaAGW \<Rightarrow> string \<Rightarrow> string" where
  "ueransimValidationSpecText agw releaseName =
     (let v = as_UERANSIMValidation (agw_Spec agw) in
      releaseName @ ''|'' @ uv_Trigger v @ ''|'' @ uv_UEDeploymentName v @ ''|'' @ uv_PingHost v @ ''|'' @
      int_str (sint (uv_IPerfPort v)) @ ''|'' @ int_str (sint (uv_TimeoutSeconds v)) @ ''|'' @ uv_IPerfServer v)"

definition ueransimValidationSpecHash :: "magmaAGW \<Rightarrow> string \<Rightarrow> string" where
  "ueransimValidationSpecHash agw releaseName = sha256Hex (ueransimValidationSpecText agw releaseName)"

section \<open>The Job\<close>

definition validationTimeout :: "magmaAGW \<Rightarrow> int32" where
  "validationTimeout agw =
     (let timeout = uv_TimeoutSeconds (as_UERANSIMValidation (agw_Spec agw)) in if sint timeout \<le> 0 then 180 else timeout)"

definition validationPort :: "magmaAGW \<Rightarrow> int32" where
  "validationPort agw =
     (let port = uv_IPerfPort (as_UERANSIMValidation (agw_Spec agw)) in if sint port \<le> 0 then 5201 else port)"

definition validationPingHost :: "magmaAGW \<Rightarrow> string" where
  "validationPingHost agw =
     (let host = uv_PingHost (as_UERANSIMValidation (agw_Spec agw)) in if host = [] then ''4.2.2.2'' else host)"

text \<open>\<^verbatim>\<open>deadline := timeout + 60\<close> on 32 bits, then \<^verbatim>\<open>int64(deadline)\<close>.\<close>

definition validationDeadline :: "magmaAGW \<Rightarrow> int64" where
  "validationDeadline agw = scast (validationTimeout agw + 60)"

definition ueransimValidationScript :: string where
  "ueransimValidationScript =
     ''deadline=$(( $(date +%s) + TIMEOUT_SECONDS ))'' @ nl @
     ''echo '' @ dq @ ''Validating UE pod'' @ dq @ nl @
     ''while [ '' @ dq @ ''$(date +%s)'' @ dq @ '' -lt '' @ dq @ ''$deadline'' @ dq @ '' ]; do'' @ nl @
     ''  ue_ip='' @ dq @ ''$(ip -4 -o addr show uesimtun0 2>/dev/null | awk '' @ sq @ ''{print $4}'' @ sq @ '' | cut -d/ -f1 || true)'' @ dq @ nl @
     ''  if [ -n '' @ dq @ ''$ue_ip'' @ dq @ '' ]; then'' @ nl @
     ''    echo '' @ dq @ ''uesimtun0 is up with $ue_ip'' @ dq @ nl @
     ''    ping -I uesimtun0 -c 3 -W 3 '' @ dq @ ''$PING_HOST'' @ dq @ nl @
     ''    if [ -n '' @ dq @ ''$IPERF_SERVER'' @ dq @ '' ]; then'' @ nl @
     ''      iperf3 -c '' @ dq @ ''$IPERF_SERVER'' @ dq @ '' -p '' @ dq @ ''$IPERF_PORT'' @ dq @ '' -B '' @ dq @ ''$ue_ip'' @ dq @ '' -t 5'' @ nl @
     ''    fi'' @ nl @
     ''    exit 0'' @ nl @
     ''  fi'' @ nl @
     ''  sleep 5'' @ nl @
     ''done'' @ nl @
     ''echo '' @ dq @ ''Timed out waiting for uesimtun0'' @ dq @ nl @
     ''exit 1''"

definition ueransimValidationJob :: "magmaAGW \<Rightarrow> string \<Rightarrow> string \<Rightarrow> string \<Rightarrow> string \<Rightarrow> job" where
  "ueransimValidationJob agw releaseName jobName uePod specHash =
     (let ns = m_Namespace (agw_Meta agw) in \<lparr>
     job_Meta = (newMeta ns jobName)\<lparr>
       m_Labels := [(labelAppComponent, ueransimValidationComponent), (labelAppInstance, releaseName),
         (labelAppManagedBy, managedByMagmaOperator)],
       m_Annotations := [(ueransimValidationHash, specHash)]\<rparr>,
     job_BackoffLimit = Some 0,
     job_TTLSecondsAfterFinished = None,
     job_ActiveDeadlineSeconds = Some (validationDeadline agw),
     job_PodSpec = \<lparr>
       ps_ServiceAccountName = ueransimValidationServiceAcct,
       ps_RestartPolicy = ''Never'',
       ps_Containers = [\<lparr>
         ct_Name = ''validate'',
         ct_Image = ''registry.k8s.io/kubectl:v1.36.2'',
         ct_ImagePullPolicy = ''IfNotPresent'',
         ct_Command = [],
         ct_Args = [''exec'', ''-n'', ns, uePod, ''--'', ''env'',
           ''TIMEOUT_SECONDS='' @ int_str (sint (validationTimeout agw)),
           ''PING_HOST='' @ validationPingHost agw,
           ''IPERF_SERVER='' @ uv_IPerfServer (as_UERANSIMValidation (agw_Spec agw)),
           ''IPERF_PORT='' @ int_str (sint (validationPort agw)),
           ''sh'', shellExitOnErrorCommand, ueransimValidationScript],
         ct_Env = [],
         ct_VolumeMounts = []\<rparr>],
       ps_Volumes = []\<rparr>,
     job_Succeeded = 0,
     job_Failed = 0\<rparr>)"

section \<open>Access rights\<close>

definition mutateValidationSA :: "kobj \<Rightarrow> error + kobj" where
  "mutateValidationSA x = (case x of
     OServiceAccount sa \<Rightarrow> (let m = sa_Meta sa in Inr (OServiceAccount (sa\<lparr>sa_Meta := m\<lparr>m_Labels :=
       mset_key labelAppComponent ueransimValidationComponent
         (mset_key labelAppManagedBy managedByMagmaOperator (m_Labels m))\<rparr>\<rparr>)))
   | _ \<Rightarrow> Inl decode_error)"

definition validationRules :: "policyRule list" where
  "validationRules = [
     \<lparr>pr_APIGroups = [[]], pr_Resources = [''pods'', ''pods/log''], pr_Verbs = [''get'', ''list'']\<rparr>,
     \<lparr>pr_APIGroups = [[]], pr_Resources = [''pods/exec''], pr_Verbs = [''create'']\<rparr>]"

definition mutateValidationRole :: "kobj \<Rightarrow> error + kobj" where
  "mutateValidationRole x = (case x of
     ORole r \<Rightarrow> Inr (ORole (r\<lparr>role_Rules := validationRules\<rparr>))
   | _ \<Rightarrow> Inl decode_error)"

definition mutateValidationBinding :: "string \<Rightarrow> kobj \<Rightarrow> error + kobj" where
  "mutateValidationBinding ns x = (case x of
     ORoleBinding b \<Rightarrow> Inr (ORoleBinding (b\<lparr>
       rb_Subjects := [\<lparr>subj_Kind = ''ServiceAccount'', subj_Name = ueransimValidationServiceAcct, subj_Namespace = ns\<rparr>],
       rb_RoleRef := \<lparr>rr_APIGroup = ''rbac.authorization.k8s.io'', rr_Kind = ''Role'', rr_Name = ueransimValidationServiceAcct\<rparr>\<rparr>))
   | _ \<Rightarrow> Inl decode_error)"

definition reconcileUERANSIMValidationRBAC :: "'w client \<Rightarrow> string \<Rightarrow> ('w, error option) kio" where
  "reconcileUERANSIMValidationRBAC K ns =
     (let m = newMeta ns ueransimValidationServiceAcct in do {
        a \<leftarrow> kCreateOrUpdate K (OServiceAccount \<lparr>sa_Meta = m\<rparr>) mutateValidationSA;
        case a of
          Inl e \<Rightarrow> return (Some e)
        | Inr _ \<Rightarrow> do {
            b \<leftarrow> kCreateOrUpdate K (ORole \<lparr>role_Meta = m, role_Rules = []\<rparr>) mutateValidationRole;
            case b of
              Inl e \<Rightarrow> return (Some e)
            | Inr _ \<Rightarrow> do {
                c \<leftarrow> kCreateOrUpdate K (ORoleBinding \<lparr>rb_Meta = m, rb_Subjects = [],
                       rb_RoleRef = \<lparr>rr_APIGroup = [], rr_Kind = [], rr_Name = []\<rparr>\<rparr>) (mutateValidationBinding ns);
                return (case c of Inl e \<Rightarrow> Some e | Inr _ \<Rightarrow> None)
              }
          }
      })"

section \<open>Rollout of the simulator\<close>

definition ueransimDeployments :: "string \<Rightarrow> string list" where
  "ueransimDeployments releaseName = [releaseName @ ''-ueransim-gnb'', releaseName @ ''-ueransim-ue'']"

text \<open>The loop keeps the names found so far and whether anything was patched.\<close>

fun rolloutLoop ::
    "'w client \<Rightarrow> string list \<Rightarrow> string \<Rightarrow> string list \<Rightarrow> bool \<Rightarrow> deployment list
      \<Rightarrow> ('w, error + string list \<times> bool) kio" where
  "rolloutLoop K required hash found patched [] = return (Inr (found, patched))"
| "rolloutLoop K required hash found patched (d # ds) =
     (let name = m_Name (dep_Meta d) in
      if name \<notin> set required then rolloutLoop K required hash found patched ds
      else if template_annotation ueransimValidationRolloutHash d = hash
      then rolloutLoop K required hash (name # found) patched ds
      else do {
        r \<leftarrow> kPatch K (ODeployment (setTemplateAnnotation ueransimValidationRolloutHash hash d)) (MergeFrom (ODeployment d));
        case r of
          Some e \<Rightarrow> return (Inl e)
        | None \<Rightarrow> rolloutLoop K required hash (name # found) True ds
      })"

text \<open>The missing name that is reported is the first one; Go may report either.\<close>

definition reconcileUERANSIMValidationRollout ::
    "'w client \<Rightarrow> string \<Rightarrow> string \<Rightarrow> string \<Rightarrow> ('w, bool \<times> string \<times> string \<times> error option) kio" where
  "reconcileUERANSIMValidationRollout K ns releaseName hash =
     (let required = ueransimDeployments releaseName in do {
        l \<leftarrow> listDeployments K ns (agwSelector releaseName);
        case l of
          Inl e \<Rightarrow> return (False, ''UERANSIMValidationRolloutReadFailed'', err_text e, Some e)
        | Inr deployments \<Rightarrow> do {
            s \<leftarrow> rolloutLoop K required hash [] False deployments;
            case s of
              Inl e \<Rightarrow> return (False, ''UERANSIMValidationRolloutPatchFailed'', err_text e, Some e)
            | Inr (found, patched) \<Rightarrow>
                (case find (\<lambda>n. n \<notin> set found) required of
                   Some name \<Rightarrow> return (False, ''WaitingForUERANSIMDeployment'',
                     ''waiting for UERANSIM deployment '' @ ns @ ''/'' @ name @ '' before one-shot validation'', None)
                 | None \<Rightarrow>
                     (if patched then return (False, ''UERANSIMValidationRolloutStarted'',
                        ''recreated UERANSIM gNB and UE deployments for one-shot validation'', None)
                      else do {
                        (ready, message, err) \<leftarrow> deploymentsReady K ns releaseName ''UERANSIM validation''
                          (\<lambda>d. m_Name (dep_Meta d) \<in> set required) [];
                        return (case err of
                          Some e \<Rightarrow> (False, ''UERANSIMValidationRolloutReadinessFailed'', err_text e, Some e)
                        | None \<Rightarrow>
                            (if \<not> ready then (False, ''WaitingForUERANSIMValidationRollout'', message, None)
                             else (True, ''UERANSIMValidationRolloutReady'',
                               ''UERANSIM gNB and UE deployments were recreated and are ready'', None)))
                      }))
          }
      })"

definition ueransimUEPod :: "'w client \<Rightarrow> string \<Rightarrow> string \<Rightarrow> ('w, error + string) kio" where
  "ueransimUEPod K ns releaseName = do {
     r \<leftarrow> listPods K ns [(labelAppInstance, releaseName), (labelAppComponent, ''ueransim-ue'')];
     return (case r of
       Inl e \<Rightarrow> Inl e
     | Inr pods \<Rightarrow> (case find (\<lambda>p. pod_Phase p = ''Running'') pods of
         Some p \<Rightarrow> Inr (m_Name (pod_Meta p))
       | None \<Rightarrow> Inr []))
   }"

section \<open>The reconcile\<close>

definition validationJobName :: "string \<Rightarrow> string" where
  "validationJobName releaseName = releaseName @ ''-ueransim-validation''"

text \<open>From the missing Job on: rollout, pod, creation.\<close>

definition startValidationJob ::
    "'w client \<Rightarrow> lib \<Rightarrow> magmaAGW \<Rightarrow> string \<Rightarrow> ('w, bool \<times> string \<times> string \<times> error option) kio" where
  "startValidationJob K L agw releaseName =
     (let ns = m_Namespace (agw_Meta agw); jobName = validationJobName releaseName;
          desiredHash = ueransimValidationSpecHash agw releaseName in do {
        (rolloutReady, reason, message, err) \<leftarrow> reconcileUERANSIMValidationRollout K ns releaseName desiredHash;
        if err \<noteq> None \<or> \<not> rolloutReady then return (False, reason, message, err)
        else do {
          u \<leftarrow> ueransimUEPod K ns releaseName;
          case u of
            Inl e \<Rightarrow> return (False, ''UERANSIMValidationPodReadFailed'', err_text e, Some e)
          | Inr uePod \<Rightarrow>
              (if uePod = [] then return (False, ''WaitingForUERANSIMUEPod'',
                 ''waiting for a running UERANSIM UE pod before one-shot validation'', None)
               else
                 (let job = ueransimValidationJob agw releaseName jobName uePod desiredHash in
                  case l_SetControllerReference L (OAGW agw) (job_Meta job) of
                    Inl e \<Rightarrow> return (False, ''UERANSIMValidationOwnerRefFailed'', err_text e, Some e)
                  | Inr m \<Rightarrow> do {
                      c \<leftarrow> kCreate K (OJob (job\<lparr>job_Meta := m\<rparr>));
                      return (case c of
                        Some e \<Rightarrow> (False, ''UERANSIMValidationJobCreateFailed'', err_text e, Some e)
                      | None \<Rightarrow> (False, ''UERANSIMValidationJobCreated'',
                          ''created one-shot UERANSIM validation job '' @ ns @ ''/'' @ jobName, None))
                    }))
        }
      })"

text \<open>The AGW is returned too: its \<^verbatim>\<open>UERANSIMValidated\<close> condition is dropped when disabled.\<close>

definition reconcileUERANSIMValidation ::
    "'w client \<Rightarrow> lib \<Rightarrow> magmaAGW \<Rightarrow> string \<Rightarrow> ('w, magmaAGW \<times> bool \<times> string \<times> string \<times> error option) kio" where
  "reconcileUERANSIMValidation K L agw releaseName =
     (let ns = m_Namespace (agw_Meta agw); jobName = validationJobName releaseName; at = ns @ ''/'' @ jobName;
          desiredHash = ueransimValidationSpecHash agw releaseName in
      if \<not> ueransimValidationEnabled (as_UERANSIMValidation (agw_Spec agw))
      then return (removeAGWCondition L agw ''UERANSIMValidated'', True, ''UERANSIMValidationDisabled'',
        ''UERANSIM validation is disabled'', None)
      else if \<not> as_EnableUERANSIM (agw_Spec agw)
      then return (agw, True, ''UERANSIMValidationSkipped'', ''UERANSIM is disabled'', None)
      else do {
        b \<leftarrow> reconcileUERANSIMValidationRBAC K ns;
        case b of
          Some e \<Rightarrow> return (agw, False, ''UERANSIMValidationRBACFailed'', err_text e, Some e)
        | None \<Rightarrow> do {
            r \<leftarrow> getJob K ns jobName;
            case r of
              Inr existing \<Rightarrow>
                (if job_hash ueransimValidationHash existing \<noteq> desiredHash then do {
                   d \<leftarrow> deleteIgnoringNotFound K True (OJob existing);
                   return (case d of
                     Some e \<Rightarrow> (agw, False, ''UERANSIMValidationJobDeleteFailed'', err_text e, Some e)
                   | None \<Rightarrow> (agw, False, ''UERANSIMValidationJobReplacing'',
                       ''UERANSIM validation trigger changed; replacing validation job'', None))
                 }
                 else if job_succeeded existing
                 then return (agw, True, ''UERANSIMValidated'', ''one-shot UERANSIM validation passed'', None)
                 else if job_failed existing
                 then return (agw, True, ''UERANSIMValidationFailed'',
                   ''one-shot UERANSIM validation job '' @ at @ '' failed'', None)
                 else return (agw, False, ''UERANSIMValidationRunning'',
                   ''waiting for one-shot UERANSIM validation job '' @ at, None))
            | Inl e \<Rightarrow>
                (if \<not> IsNotFound e then return (agw, False, ''UERANSIMValidationJobReadFailed'', err_text e, Some e)
                 else do {
                   v \<leftarrow> startValidationJob K L agw releaseName;
                   return (agw, v)
                 })
          }
      })"

section \<open>Behaviour\<close>

definition rbac_write :: "event \<Rightarrow> bool" where
  "rbac_write e \<longleftrightarrow> (\<exists>x q. e = EvCreateOrUpdate x q \<and> kind_of x \<in> {KServiceAccount, KRole, KRoleBinding} \<and>
     name_of x = ueransimValidationServiceAcct)"

definition rollout_write :: "string \<Rightarrow> string \<Rightarrow> event \<Rightarrow> bool" where
  "rollout_write releaseName hash e \<longleftrightarrow> (\<exists>d q. m_Name (dep_Meta d) \<in> set (ueransimDeployments releaseName) \<and>
     template_annotation ueransimValidationRolloutHash d \<noteq> hash \<and> e = annotates ueransimValidationRolloutHash hash d q)"

lemma spec_reconcileUERANSIMValidationRBAC:
  "spec (reconcileUERANSIMValidationRBAC K ns) (\<lambda>r t. list_all rbac_write t)"
  unfolding reconcileUERANSIMValidationRBAC_def Let_def
  by (intro spec_structure spec_rules) (simp_all add: rbac_write_def name_of_def newMeta_def)

lemma spec_rolloutLoop:
  "spec (rolloutLoop K (ueransimDeployments rn) hash found patched ds) (\<lambda>r t.
     list_all (rollout_write rn hash) t \<and>
     (\<forall>found' patched'. r = Inr (found', patched') \<longrightarrow>
        set found' = set found \<union> {n \<in> (\<lambda>d. m_Name (dep_Meta d)) ` set ds. n \<in> set (ueransimDeployments rn)} \<and>
        (patched' \<longleftrightarrow> patched \<or> t \<noteq> []) \<and>
        (\<not> patched' \<longrightarrow> (\<forall>d\<in>set ds. m_Name (dep_Meta d) \<in> set (ueransimDeployments rn) \<longrightarrow>
           template_annotation ueransimValidationRolloutHash d = hash))))"
proof (induction ds arbitrary: found patched)
  case Nil
  show ?case by (auto intro: spec_return)
next
  case (Cons d ds)
  show ?case
    unfolding rolloutLoop.simps Let_def
    apply (intro spec_if)
    subgoal by (rule spec_weaken [OF Cons.IH]) auto
    subgoal by (rule spec_weaken [OF Cons.IH]) auto
    apply (rule spec_bind, rule spec_kPatch, rule spec_option)
    subgoal by (rule spec_weaken [OF Cons.IH]) (auto simp: rollout_write_def annotates_def)
    subgoal by (rule spec_return) (auto simp: rollout_write_def annotates_def)
    done
qed

definition validation_event :: "string \<Rightarrow> string \<Rightarrow> event \<Rightarrow> bool" where
  "validation_event rn hash e \<longleftrightarrow> (is_write e \<longrightarrow> rbac_write e \<or> rollout_write rn hash e \<or>
     (\<exists>j q. e = EvDelete True (OJob j) q \<or> e = EvCreate (OJob j) q))"

lemma validation_event_simps [simp]:
  "\<not> is_write e \<Longrightarrow> validation_event rn hash e" "rbac_write e \<Longrightarrow> validation_event rn hash e"
  "rollout_write rn hash e \<Longrightarrow> validation_event rn hash e"
  by (simp_all add: validation_event_def)

definition not_job_write :: "event \<Rightarrow> bool" where
  "not_job_write e \<longleftrightarrow> (\<forall>bg x q. e \<noteq> EvDelete bg x q) \<and> (\<forall>x q. e \<noteq> EvCreate x q)"

lemma rbac_not_job [simp]: "rbac_write e \<Longrightarrow> not_job_write e"
  and rollout_not_job [simp]: "rollout_write rn hash e \<Longrightarrow> not_job_write e"
  by (auto simp: rbac_write_def rollout_write_def not_job_write_def annotates_def)

lemma not_job_write_simps [simp]:
  "not_job_write (EvGet k ns n g)" "not_job_write (EvList k ns sel l)"
  "\<not> not_job_write (EvDelete bg x q)" "\<not> not_job_write (EvCreate x q)"
  by (simp_all add: not_job_write_def)

text \<open>
  What a rollout reported as ready has seen: two listings, one right after the other. In the first
  both simulator deployments are there, and what is there has been rolled out for these settings; in
  the second those that are listed are ready.
\<close>

definition rollout_evidence :: "string \<Rightarrow> string \<Rightarrow> string \<Rightarrow> event list \<Rightarrow> bool" where
  "rollout_evidence ns rn hash t \<longleftrightarrow> (\<exists>a ds ds' b. t = a @ EvList KDeployment ns (agwSelector rn) (Inr (map ODeployment ds)) #
       EvList KDeployment ns (agwSelector rn) (Inr (map ODeployment ds')) # b \<and>
     (\<forall>n\<in>set (ueransimDeployments rn). \<exists>d\<in>set ds. m_Name (dep_Meta d) = n) \<and>
     (\<forall>d\<in>set ds. m_Name (dep_Meta d) \<in> set (ueransimDeployments rn) \<longrightarrow>
        template_annotation ueransimValidationRolloutHash d = hash) \<and>
     (\<exists>d\<in>set ds'. m_Name (dep_Meta d) \<in> set (ueransimDeployments rn)) \<and>
     (\<forall>d\<in>set ds'. m_Name (dep_Meta d) \<in> set (ueransimDeployments rn) \<longrightarrow> deployment_ready [] d))"

lemma rollout_evidence_append: "rollout_evidence ns rn hash t \<Longrightarrow> rollout_evidence ns rn hash (t @ u)"
  unfolding rollout_evidence_def by (elim exE conjE, rule exI, rule exI, rule exI, rule exI [of _ "b @ u" for b]) (intro conjI; simp)

lemma rollout_evidence_prefix: "rollout_evidence ns rn hash t \<Longrightarrow> rollout_evidence ns rn hash (u @ t)"
  unfolding rollout_evidence_def by (elim exE conjE, rule exI [of _ "u @ a" for a], rule exI, rule exI, rule exI) (intro conjI; simp)

lemma ready_post_evidence:
  assumes "ready_post ns rn (\<lambda>d. m_Name (dep_Meta d) \<in> set (ueransimDeployments rn)) [] r t"
  shows "list_all (\<lambda>e. \<not> is_write e \<and> not_job_write e) t"
    and "\<lbrakk>fst r; \<forall>n\<in>set (ueransimDeployments rn). \<exists>d\<in>set ds. m_Name (dep_Meta d) = n;
      \<forall>d\<in>set ds. m_Name (dep_Meta d) \<in> set (ueransimDeployments rn) \<longrightarrow> template_annotation ueransimValidationRolloutHash d = hash\<rbrakk> \<Longrightarrow>
      rollout_evidence ns rn hash (EvList KDeployment ns (agwSelector rn) (Inr (map ODeployment ds)) # t)"
proof -
  from assms obtain q where t: "t = [EvList KDeployment ns (agwSelector rn) q]"
    and q: "fst r \<longleftrightarrow> (\<exists>ds. q = Inr (map ODeployment ds) \<and>
      filter (\<lambda>d. m_Name (dep_Meta d) \<in> set (ueransimDeployments rn)) ds \<noteq> [] \<and>
      (\<forall>d\<in>set (filter (\<lambda>d. m_Name (dep_Meta d) \<in> set (ueransimDeployments rn)) ds). deployment_ready [] d))"
    unfolding ready_post_def by blast
  show "list_all (\<lambda>e. \<not> is_write e \<and> not_job_write e) t" by (simp add: t)
  assume "fst r" and seen: "\<forall>n\<in>set (ueransimDeployments rn). \<exists>d\<in>set ds. m_Name (dep_Meta d) = n"
    "\<forall>d\<in>set ds. m_Name (dep_Meta d) \<in> set (ueransimDeployments rn) \<longrightarrow> template_annotation ueransimValidationRolloutHash d = hash"
  with q obtain ds' where "q = Inr (map ODeployment ds')" "\<exists>d\<in>set ds'. m_Name (dep_Meta d) \<in> set (ueransimDeployments rn)"
    "\<forall>d\<in>set ds'. m_Name (dep_Meta d) \<in> set (ueransimDeployments rn) \<longrightarrow> deployment_ready [] d"
    by (auto simp: filter_empty_conv)
  with seen show "rollout_evidence ns rn hash (EvList KDeployment ns (agwSelector rn) (Inr (map ODeployment ds)) # t)"
    unfolding rollout_evidence_def t by (intro exI [of _ "[]"] exI [of _ ds] exI [of _ ds']) auto
qed

lemma rollout_seen:
  assumes "ready_post ns rn (\<lambda>d. m_Name (dep_Meta d) \<in> set (ueransimDeployments rn)) [] r t" and "fst r"
    and "as_list to_deployment l = Inr ds" and "find (\<lambda>n. n \<notin> set found) (ueransimDeployments rn) = None"
    and "set found = {n \<in> (\<lambda>d. m_Name (dep_Meta d)) ` set ds. n \<in> set (ueransimDeployments rn)}"
    and "\<forall>d\<in>set ds. m_Name (dep_Meta d) \<in> set (ueransimDeployments rn) \<longrightarrow> template_annotation ueransimValidationRolloutHash d = hash"
  shows "rollout_evidence ns rn hash (EvList KDeployment ns (agwSelector rn) l # t)"
proof -
  have "l = Inr (map ODeployment ds)" using assms(3) by (simp only: as_list_deployments)
  moreover have "\<forall>n\<in>set (ueransimDeployments rn). \<exists>d\<in>set ds. m_Name (dep_Meta d) = n"
    using assms(4,5) by (fastforce simp: find_None_iff)
  ultimately show ?thesis using ready_post_evidence(2) [OF assms(1,2) _ assms(6)] by simp
qed

lemma spec_reconcileUERANSIMValidationRollout:
  "spec (reconcileUERANSIMValidationRollout K ns rn hash) (\<lambda>(ready, reason, message, err) t.
     list_all (\<lambda>e. not_job_write e \<and> validation_event rn hash e) t \<and>
     reason \<notin> {''UERANSIMValidated'', ''UERANSIMValidationFailed''} \<and>
     (ready \<longrightarrow> err = None \<and> rollout_evidence ns rn hash t \<and> list_all (\<lambda>e. \<not> is_write e) t))"
  unfolding reconcileUERANSIMValidationRollout_def Let_def
  apply (rule spec_bind, rule spec_listAs, rule spec_sum)
  subgoal by (rule spec_return) simp
  apply (rule spec_bind, rule spec_weaken [OF spec_rolloutLoop], rule spec_sum)
  subgoal by (rule spec_return) (auto simp: list_all_iff)
  apply (rule spec_prod, rule spec_option)
  subgoal
    apply (rule spec_if)
    subgoal by (rule spec_return) (auto simp: list_all_iff)
    apply (rule spec_bind, rule spec_weaken [OF spec_deploymentsReady])
    apply (intro spec_prod spec_return)
    by (frule ready_post_evidence(1)) (auto simp: list_all_iff intro: rollout_seen split: option.split)
  subgoal by (rule spec_return) (auto simp: list_all_iff)
  done

lemma spec_ueransimUEPod:
  "spec (ueransimUEPod K ns rn) (\<lambda>r t. list_all (\<lambda>e. \<not> is_write e \<and> not_job_write e) t)"
  unfolding ueransimUEPod_def by (intro spec_structure spec_rules) simp

lemma ueransimValidationJob_meta:
  "job_Meta (ueransimValidationJob agw rn name pod hash) = (newMeta (m_Namespace (agw_Meta agw)) name)\<lparr>
     m_Labels := [(labelAppComponent, ueransimValidationComponent), (labelAppInstance, rn),
       (labelAppManagedBy, managedByMagmaOperator)],
     m_Annotations := [(ueransimValidationHash, hash)]\<rparr>"
  by (simp add: ueransimValidationJob_def Let_def)

text \<open>The Job a start may create: named, hashed, made after a rollout was seen ready.\<close>

definition fresh_validation_job :: "magmaAGW \<Rightarrow> string \<Rightarrow> job \<Rightarrow> bool" where
  "fresh_validation_job agw rn j \<longleftrightarrow> (\<exists>m pod. pod \<noteq> [] \<and>
     j = (ueransimValidationJob agw rn (validationJobName rn) pod (ueransimValidationSpecHash agw rn))\<lparr>job_Meta := m\<rparr>) \<and>
     job_hash ueransimValidationHash j = ueransimValidationSpecHash agw rn \<and>
     m_Name (job_Meta j) = validationJobName rn \<and> m_Namespace (job_Meta j) = m_Namespace (agw_Meta agw)"

lemma owned_validation_job:
  assumes "owner_ok L" and "pod \<noteq> []"
    and "l_SetControllerReference L own (job_Meta (ueransimValidationJob agw rn (validationJobName rn) pod
      (ueransimValidationSpecHash agw rn))) = Inr m"
  shows "fresh_validation_job agw rn ((ueransimValidationJob agw rn (validationJobName rn) pod
    (ueransimValidationSpecHash agw rn))\<lparr>job_Meta := m\<rparr>)"
proof -
  from assms(1,3) obtain os where "m = (job_Meta (ueransimValidationJob agw rn (validationJobName rn) pod
      (ueransimValidationSpecHash agw rn)))\<lparr>m_OwnerReferences := os\<rparr>"
    unfolding owner_ok_def by blast
  then show ?thesis using assms(2)
    by (auto simp: fresh_validation_job_def job_hash_def ueransimValidationJob_meta newMeta_def)
qed

definition start_post :: "magmaAGW \<Rightarrow> string \<Rightarrow> bool \<times> string \<times> string \<times> error option \<Rightarrow> event list \<Rightarrow> bool" where
  "start_post agw rn r t \<longleftrightarrow> \<not> fst r \<and>
     fst (snd r) \<notin> {''UERANSIMValidated'', ''UERANSIMValidationFailed''} \<and>
     list_all (validation_event rn (ueransimValidationSpecHash agw rn)) t \<and>
     (\<forall>bg x q. EvDelete bg x q \<notin> set t) \<and>
     (\<forall>x q. EvCreate x q \<in> set t \<longrightarrow> (\<exists>u. t = u @ [EvCreate x q] \<and>
        rollout_evidence (m_Namespace (agw_Meta agw)) rn (ueransimValidationSpecHash agw rn) u) \<and>
        (\<exists>j. x = OJob j \<and> fresh_validation_job agw rn j))"

lemma start_post_quiet:
  assumes "list_all (\<lambda>e. not_job_write e \<and> validation_event rn (ueransimValidationSpecHash agw rn) e) t"
    and "reason \<notin> {''UERANSIMValidated'', ''UERANSIMValidationFailed''}"
  shows "start_post agw rn (False, reason, msg, err) t"
  using assms by (auto simp: start_post_def list_all_iff)

lemma spec_startValidationJob:
  assumes "owner_ok L"
  shows "spec (startValidationJob K L agw rn) (start_post agw rn)"
  unfolding startValidationJob_def Let_def
  apply (rule spec_bind, rule spec_weaken [OF spec_reconcileUERANSIMValidationRollout], intro spec_prod spec_if)
  subgoal by (rule spec_return) (auto intro!: start_post_quiet simp: list_all_iff)
  apply (rule spec_bind, rule spec_weaken [OF spec_ueransimUEPod], rule spec_sum)
  subgoal by (rule spec_return) (auto intro!: start_post_quiet simp: list_all_iff)
  apply (rule spec_if)
  subgoal by (rule spec_return) (auto intro!: start_post_quiet simp: list_all_iff)
  apply (rule spec_sum)
  subgoal by (rule spec_return) (auto intro!: start_post_quiet simp: list_all_iff)
  apply (rule spec_bind, rule spec_kCreate, rule spec_return)
  apply (frule (1) owned_validation_job [OF assms])
  by (auto simp: start_post_def list_all_iff validation_event_def not_job_write_def intro: rollout_evidence_append
      split: option.split)

definition validation_post ::
    "lib \<Rightarrow> magmaAGW \<Rightarrow> string \<Rightarrow> magmaAGW \<times> bool \<times> string \<times> string \<times> error option \<Rightarrow> event list \<Rightarrow> bool" where
  "validation_post L agw rn r t \<longleftrightarrow> (case r of (agw', ready, reason, message, err) \<Rightarrow>
     list_all (validation_event rn (ueransimValidationSpecHash agw rn)) t \<and>
     (agw' = agw \<or> agw' = removeAGWCondition L agw ''UERANSIMValidated'' \<and> t = []) \<and>
     deletes_only_stale (m_Namespace (agw_Meta agw)) (validationJobName rn) ueransimValidationHash
       (ueransimValidationSpecHash agw rn) t \<and>
     creates_only_missing (m_Namespace (agw_Meta agw)) (validationJobName rn) ueransimValidationHash
       (ueransimValidationSpecHash agw rn) t \<and>
     (\<forall>x q. EvCreate x q \<in> set t \<longrightarrow> (\<exists>u e. t = u @ [EvCreate x q] \<and> IsNotFound e \<and>
        ev_no_job (m_Namespace (agw_Meta agw)) (validationJobName rn) e \<in> set u \<and>
        rollout_evidence (m_Namespace (agw_Meta agw)) rn (ueransimValidationSpecHash agw rn) u) \<and>
        (\<exists>j. x = OJob j \<and> fresh_validation_job agw rn j)) \<and>
     (ready \<longrightarrow> err = None \<and> (t = [] \<or> (\<exists>j. ev_job (m_Namespace (agw_Meta agw)) (validationJobName rn) j \<in> set t \<and>
        job_hash ueransimValidationHash j = ueransimValidationSpecHash agw rn \<and> (job_succeeded j \<or> job_failed j)))) \<and>
     (reason = ''UERANSIMValidated'' \<longrightarrow> (\<exists>j. ev_job (m_Namespace (agw_Meta agw)) (validationJobName rn) j \<in> set t \<and>
        job_hash ueransimValidationHash j = ueransimValidationSpecHash agw rn \<and> job_succeeded j)))"

lemma validation_post_quiet:
  assumes "list_all (\<lambda>e. not_job_write e \<and> validation_event rn (ueransimValidationSpecHash agw rn) e) t"
    and "reason \<noteq> ''UERANSIMValidated''"
  shows "validation_post L agw rn (agw, False, reason, msg, err) t"
  using assms by (auto simp: validation_post_def list_all_iff deletes_only_stale_def creates_only_missing_def)

lemma start_post_validation:
  assumes "start_post agw rn r t" and u: "list_all rbac_write u" and e: "IsNotFound e"
  shows "validation_post L agw rn (agw, r) (u @ ev_no_job (m_Namespace (agw_Meta agw)) (validationJobName rn) e # t)"
    (is "validation_post _ _ _ _ ?t")
proof -
  obtain ready reason message err where r: "r = (ready, reason, message, err)" by (cases r)
  have quiet: "EvCreate x q \<notin> set u" "EvDelete bg x q \<notin> set u" for bg x q
    using u by (auto simp: list_all_iff rbac_write_def)
  have fresh: "EvCreate x q \<in> set t \<Longrightarrow> (\<exists>u. t = u @ [EvCreate x q] \<and>
        rollout_evidence (m_Namespace (agw_Meta agw)) rn (ueransimValidationSpecHash agw rn) u) \<and>
      (\<exists>j. x = OJob j \<and> fresh_validation_job agw rn j)" and none: "EvDelete bg x q \<notin> set t" for bg x q
    using assms(1) by (auto simp: r start_post_def)
  have "deletes_only_stale (m_Namespace (agw_Meta agw)) (validationJobName rn) ueransimValidationHash
      (ueransimValidationSpecHash agw rn) ?t"
    using quiet none by (auto simp: deletes_only_stale_def)
  moreover have "creates_only_missing (m_Namespace (agw_Meta agw)) (validationJobName rn) ueransimValidationHash
      (ueransimValidationSpecHash agw rn) ?t"
    unfolding creates_only_missing_def
  proof (intro allI impI conjI)
    fix x q assume "EvCreate x q \<in> set ?t"
    with quiet have "EvCreate x q \<in> set t" by auto
    from fresh [OF this] show "\<exists>j. x = OJob j \<and> job_hash ueransimValidationHash j = ueransimValidationSpecHash agw rn \<and>
        name_of x = validationJobName rn \<and> namespace_of x = m_Namespace (agw_Meta agw)"
      by (auto simp: fresh_validation_job_def name_of_def namespace_of_def)
    show "\<exists>e. IsNotFound e \<and> ev_no_job (m_Namespace (agw_Meta agw)) (validationJobName rn) e \<in> set ?t"
      using e by auto
  qed
  moreover have "(\<exists>w e. ?t = w @ [EvCreate x q] \<and> IsNotFound e \<and>
        ev_no_job (m_Namespace (agw_Meta agw)) (validationJobName rn) e \<in> set w \<and>
        rollout_evidence (m_Namespace (agw_Meta agw)) rn (ueransimValidationSpecHash agw rn) w) \<and>
      (\<exists>j. x = OJob j \<and> fresh_validation_job agw rn j)" if "EvCreate x q \<in> set ?t" for x q
  proof -
    from that quiet have "EvCreate x q \<in> set t" by auto
    from fresh [OF this] obtain v where v: "t = v @ [EvCreate x q]"
      and seen: "rollout_evidence (m_Namespace (agw_Meta agw)) rn (ueransimValidationSpecHash agw rn) v"
      and j: "\<exists>j. x = OJob j \<and> fresh_validation_job agw rn j" by blast
    let ?w = "(u @ [ev_no_job (m_Namespace (agw_Meta agw)) (validationJobName rn) e]) @ v"
    from rollout_evidence_prefix [OF seen, of "u @ [ev_no_job (m_Namespace (agw_Meta agw)) (validationJobName rn) e]"]
    show ?thesis using e j by (intro conjI exI [of _ ?w] exI [of _ e]) (simp_all add: v)
  qed
  ultimately show ?thesis
    using assms(1) u by (auto simp: r start_post_def validation_post_def list_all_iff)
qed

lemma spec_reconcileUERANSIMValidation:
  assumes "owner_ok L"
  shows "spec (reconcileUERANSIMValidation K L agw rn) (validation_post L agw rn)"
  unfolding reconcileUERANSIMValidation_def Let_def
  apply (rule spec_if)
  subgoal by (rule spec_return) (simp add: validation_post_def deletes_only_stale_def creates_only_missing_def)
  apply (rule spec_if)
  subgoal by (rule spec_return) (simp add: validation_post_def deletes_only_stale_def creates_only_missing_def)
  apply (rule spec_bind, rule spec_weaken [OF spec_reconcileUERANSIMValidationRBAC], rule spec_option)
  subgoal
    apply (rule spec_bind, rule spec_getAs, rule spec_sum)
    subgoal
      apply (rule spec_if)
      subgoal by (rule spec_return) (auto intro!: validation_post_quiet simp: list_all_iff)
      apply (rule spec_bind, rule spec_weaken [OF spec_startValidationJob [OF assms]], rule spec_return)
      by (auto dest!: as_typed_Inl_NotFound intro!: start_post_validation)
    apply (rule spec_if)
    subgoal
      apply (rule spec_bind, rule spec_deleteIgnoringNotFound; rule spec_return)
      by (auto simp: validation_post_def list_all_iff deletes_only_stale_def creates_only_missing_def as_typed_Inr
          rbac_write_def validation_event_def)
    apply (rule spec_if)
    subgoal by (rule spec_return) (fastforce simp: validation_post_def list_all_iff deletes_only_stale_def
          creates_only_missing_def as_typed_Inr rbac_write_def)
    apply (rule spec_if)
    subgoal by (rule spec_return) (fastforce simp: validation_post_def list_all_iff deletes_only_stale_def
          creates_only_missing_def as_typed_Inr rbac_write_def)
    by (rule spec_return) (auto intro!: validation_post_quiet simp: list_all_iff)
  by (rule spec_return) (auto intro!: validation_post_quiet simp: list_all_iff)

interpretation validation_job: hashed_job
  "\<lambda>K (L, agw, rn). reconcileUERANSIMValidation K L agw rn" "\<lambda>(L, agw, rn). owner_ok L"
  "\<lambda>(L, agw, rn). m_Namespace (agw_Meta agw)" "\<lambda>(L, agw, rn). validationJobName rn" ueransimValidationHash
  "\<lambda>(L, agw, rn). ueransimValidationSpecHash agw rn"
  "\<lambda>p r. fst (snd (snd r)) = ''UERANSIMValidated''"
proof (unfold_locales, goal_cases)
  case (1 p K)
  obtain L agw rn where p: "p = (L, agw, rn)" by (cases p)
  with 1 show ?case
    by (auto intro!: spec_weaken [OF spec_reconcileUERANSIMValidation] simp: validation_post_def split: prod.splits)
next
  case (2 p K)
  obtain L agw rn where p: "p = (L, agw, rn)" by (cases p)
  with 2 show ?case
    by (auto intro!: spec_weaken [OF spec_reconcileUERANSIMValidation] simp: validation_post_def split: prod.splits)
next
  case (3 p K)
  obtain L agw rn where p: "p = (L, agw, rn)" by (cases p)
  with 3 show ?case
    by (auto intro!: spec_weaken [OF spec_reconcileUERANSIMValidation] simp: validation_post_def done_only_current_def
        split: prod.splits)
qed

section \<open>The deadline at 32 bits\<close>

lemma wrap32_id: "- 2147483648 \<le> x \<Longrightarrow> x < 2147483648 \<Longrightarrow> signed_take_bit 31 x = x" for x :: int
  by (simp add: signed_take_bit_int_eq_self)

lemma wrap32_over: "2147483648 \<le> x \<Longrightarrow> x < 4294967296 \<Longrightarrow> signed_take_bit 31 x = x - 4294967296" for x :: int
proof -
  assume x: "2147483648 \<le> x" "x < 4294967296"
  have "x + 2147483648 = (x - 2147483648) + 4294967296" by simp
  then have "(x + 2147483648) mod 4294967296 = (x - 2147483648) mod 4294967296" by (simp only: mod_add_self2)
  also have "\<dots> = x - 2147483648" using x by (intro mod_pos_pos_trivial) simp_all
  finally have "(x + 2147483648) mod 4294967296 = x - 2147483648" .
  then show ?thesis by (simp add: signed_take_bit_eq_take_bit_shift take_bit_eq_mod)
qed

lemma validationTimeout_pos: "0 < sint (validationTimeout agw)"
  by (simp add: validationTimeout_def Let_def)

lemma sint_int64_of_int32: "sint (scast (w :: int32) :: int64) = sint w"
  by (rule sint_up_scast) (simp add: is_up)

lemma sint_validationDeadline:
  "sint (validationDeadline agw) = (let t = sint (validationTimeout agw) in
     if t \<le> 2147483587 then t + 60 else t + 60 - 4294967296)"
proof -
  have "sint (validationTimeout agw) < 2147483648" using sint_less [of "validationTimeout agw"] by simp
  moreover have "sint (validationTimeout agw + 60) = signed_take_bit 31 (sint (validationTimeout agw) + 60)"
    by (simp add: sint_word_ariths)
  ultimately show ?thesis
    using validationTimeout_pos [of agw]
    unfolding validationDeadline_def sint_int64_of_int32 Let_def by (simp add: wrap32_id wrap32_over)
qed

lemma ueransimValidationJob_deadline:
  "job_ActiveDeadlineSeconds (ueransimValidationJob agw rn name pod hash) = Some (validationDeadline agw)"
  by (simp add: ueransimValidationJob_def Let_def)

section \<open>Properties\<close>

text \<open>C23: the validation Job. A validation deletes only its own Job, and only when it has just read it
  with another hash. A creation is its last call; before it, the Job was read as missing, a listing
  showed both simulator deployments with the rollout annotation of the current settings, and the next
  listing showed simulator deployments that were all ready; what is created is exactly the Job of this
  AGW for a named pod. And \<open>UERANSIMValidated\<close> is reported only when the validation has just read a
  succeeded Job with the hash of the current settings.\<close>

theorem validation_contract:
  assumes "owner_ok L"
    and "result (reconcileUERANSIMValidation K L agw rn) s = (agw', ready, reason, message, err)"
    and "events (reconcileUERANSIMValidation K L agw rn) s = t"
  shows "(\<forall>bg x q. EvDelete bg x q \<in> set t \<longrightarrow> bg \<and> (\<exists>j. x = OJob j \<and>
      ev_job (m_Namespace (agw_Meta agw)) (validationJobName rn) j \<in> set t \<and>
      job_hash ueransimValidationHash j \<noteq> ueransimValidationSpecHash agw rn)) \<and>
    (\<forall>x q. EvCreate x q \<in> set t \<longrightarrow>
      (\<exists>u e. t = u @ [EvCreate x q] \<and> IsNotFound e \<and>
         ev_no_job (m_Namespace (agw_Meta agw)) (validationJobName rn) e \<in> set u \<and>
         rollout_evidence (m_Namespace (agw_Meta agw)) rn (ueransimValidationSpecHash agw rn) u) \<and>
      (\<exists>j. x = OJob j \<and> fresh_validation_job agw rn j)) \<and>
    (reason = ''UERANSIMValidated'' \<longrightarrow> (\<exists>j. ev_job (m_Namespace (agw_Meta agw)) (validationJobName rn) j \<in> set t \<and>
      job_hash ueransimValidationHash j = ueransimValidationSpecHash agw rn \<and> job_succeeded j))"
proof -
  have post: "validation_post L agw rn (agw', ready, reason, message, err) t"
    using specD(2) [OF spec_reconcileUERANSIMValidation [OF assms(1), of K agw rn], of s] assms(2,3) by simp
  then show ?thesis
    unfolding validation_post_def prod.case deletes_only_stale_def creates_only_missing_def by blast
qed

text \<open>C24: the deadline of the validation Job, at 32 bits. The timeout used is always positive, and the
  deadline is the timeout plus a minute as long as that fits an \<^verbatim>\<open>int32\<close>; for the 60 largest
  timeouts the sum wraps around and the Job gets a negative deadline.\<close>

theorem validation_deadline:
  "\<exists>d. job_ActiveDeadlineSeconds (ueransimValidationJob agw rn name pod hash) = Some d \<and>
    0 < sint (validationTimeout agw) \<and>
    sint d = (if sint (validationTimeout agw) \<le> 2147483587 then sint (validationTimeout agw) + 60
              else sint (validationTimeout agw) + 60 - 4294967296) \<and>
    (sint d < 0 \<longleftrightarrow> 2147483587 < sint (validationTimeout agw))"
proof -
  have "sint (validationTimeout agw) < 2147483648" using sint_less [of "validationTimeout agw"] by simp
  then show ?thesis
    using validationTimeout_pos [of agw] sint_validationDeadline [of agw]
    by (auto simp: ueransimValidationJob_deadline Let_def)
qed

text \<open>A validation is confined: apart from its service account, role and binding, its Job, and the
  rollout annotation of deployments, it writes nothing, and it changes the AGW object only by
  dropping the condition \<open>UERANSIMValidated\<close> when validation is disabled.\<close>

lemma validation_confined:
  assumes "owner_ok L"
    and "result (reconcileUERANSIMValidation K L agw rn) s = (agw', ready, reason, message, err)"
    and "events (reconcileUERANSIMValidation K L agw rn) s = t"
  shows "list_all (validation_event rn (ueransimValidationSpecHash agw rn)) t \<and>
    (agw' = agw \<or> agw' = removeAGWCondition L agw ''UERANSIMValidated'' \<and> t = []) \<and>
    (ready \<longrightarrow> err = None)"
proof -
  have post: "validation_post L agw rn (agw', ready, reason, message, err) t"
    using specD(2) [OF spec_reconcileUERANSIMValidation [OF assms(1), of K agw rn], of s] assms(2,3) by simp
  then show ?thesis unfolding validation_post_def prod.case by blast
qed

subsection \<open>Witnesses\<close>

definition demoValidated :: magmaAGW where
  "demoValidated = demoAGW\<lparr>agw_Spec := demoSpec\<lparr>as_UERANSIMValidation := (as_UERANSIMValidation demoSpec)\<lparr>uv_Enabled := Some True\<rparr>\<rparr>\<rparr>"

definition demoStale :: "kobj list" where
  "demoStale = [demoJob ''agw-ueransim-validation'']"

declare sha256Hex_def [code del]

text \<open>The Job in the cluster has no hash: it is replaced.\<close>

lemma demo_replaced:
  "list_ex is_delete
     (events (reconcileUERANSIMValidation (refClient demoStale) (refLib (\<lambda>_. [])) demoValidated ''agw'') refStart)"
  apply code_simp
  apply (simp only: sha256Hex_not_Nil not_sym [OF sha256Hex_not_Nil] simp_thms if_True)
  apply code_simp
  done

declare sha256Hex_def [code]

lemma validation_contract_witness:
  "\<exists>j. ev_job ''magma'' ''agw-ueransim-validation'' j
      \<in> set (events (reconcileUERANSIMValidation (refClient demoStale) (refLib (\<lambda>_. [])) demoValidated ''agw'') refStart) \<and>
    job_hash ueransimValidationHash j \<noteq> ueransimValidationSpecHash demoValidated ''agw''"
proof -
  let ?m = "reconcileUERANSIMValidation (refClient demoStale) (refLib (\<lambda>_. [])) demoValidated ''agw''"
  obtain agw' ready reason message err where r: "result ?m refStart = (agw', ready, reason, message, err)"
    by (metis prod.exhaust)
  obtain bg x q where "EvDelete bg x q \<in> set (events ?m refStart)"
    using demo_replaced by (auto simp: list_ex_iff is_delete_iff)
  moreover have "m_Namespace (agw_Meta demoValidated) = ''magma''" "validationJobName ''agw'' = ''agw-ueransim-validation''"
    by (simp_all add: demoValidated_def demoAGW_def demoMeta_def newMeta_def validationJobName_def)
  ultimately show ?thesis using validation_contract [OF refLib_owner r refl] by fastforce
qed

end
