(* ===== verification/AGW_Controller.thy ===== *)
theory AGW_Controller
  imports Native_Runner AGW_Datapath AGW_Validation
begin

text \<open>
  \<^verbatim>\<open>MagmaAGWReconciler\<close> of \<^verbatim>\<open>magmaagw_controller.go\<close>: the reconcile of a MagmaAGW from the
  finalizer to the Ready condition, its deletion, the start gate of the simulator and the
  mapping of gate ConfigMaps to requests. \<open>Reconcile\<close> is written as a chain of stages in
  the order of the source; the last stage comes first below.
\<close>

abbreviation magmaAGWFinalizer :: string where "magmaAGWFinalizer \<equiv> ''magma.infra.don/magmaagw-finalizer''"
abbreviation ueransimStartPolicyAfterAGWReady :: string where "ueransimStartPolicyAfterAGWReady \<equiv> ''AfterAGWReady''"
abbreviation ueransimStartPolicyImmediate :: string where "ueransimStartPolicyImmediate \<equiv> ''Immediate''"

section \<open>Names, values and the start gate\<close>

definition agwReleaseName :: "magmaAGW \<Rightarrow> string" where
  "agwReleaseName agw =
     (if as_ReleaseName (agw_Spec agw) = [] then m_Name (agw_Meta agw) else as_ReleaseName (agw_Spec agw))"

definition ueransimGateName :: "magmaAGW \<Rightarrow> string \<Rightarrow> string" where
  "ueransimGateName agw releaseName =
     (if as_UERANSIMReadyConfigMap (agw_Spec agw) = [] then releaseName @ ''-ueransim-ready''
      else as_UERANSIMReadyConfigMap (agw_Spec agw))"

definition ueransimStartGateReady ::
    "'w client \<Rightarrow> string \<Rightarrow> magmaAGW \<Rightarrow> string \<Rightarrow> ('w, bool \<times> string \<times> error option) kio" where
  "ueransimStartGateReady K ns agw releaseName =
     (let gateName = ueransimGateName agw releaseName in do {
        r \<leftarrow> getConfigMap K ns gateName;
        return (case r of
          Inl e \<Rightarrow> (if IsNotFound e then (False, gateName, None) else (False, gateName, Some e))
        | Inr gate \<Rightarrow> (equalFold (mget (cm_Data gate) ''ready'') stringTrue, gateName, None))
      })"

text \<open>Requests are pairs of namespace and name; a failing list gives none.\<close>

definition mapUERANSIMGateConfigMap :: "'w client \<Rightarrow> objectMeta \<Rightarrow> ('w, (string \<times> string) list) kio" where
  "mapUERANSIMGateConfigMap K object = do {
     r \<leftarrow> listAGWs K (m_Namespace object) [];
     return (case r of
       Inl e \<Rightarrow> []
     | Inr agws \<Rightarrow>
         map (\<lambda>agw. (m_Namespace (agw_Meta agw), m_Name (agw_Meta agw)))
           (filter (\<lambda>agw. as_EnableUERANSIM (agw_Spec agw) \<and>
              ueransimGateName agw (agwReleaseName agw) = m_Name object) agws))
   }"

definition agwIdentityValues :: "agwIdentityState \<Rightarrow> smap \<Rightarrow> smap" where
  "agwIdentityValues identity vs =
     mset_key ''gatewayIdentity.snowflake'' (ids_HardwareID identity)
       (mset_key ''config.gwChallenge'' (ids_PrivateKeyB64 identity) vs)"

definition agwNodeSelectorOf :: "magmaAGW \<Rightarrow> smap" where
  "agwNodeSelectorOf agw = mergedSelectors [as_AGWNodeSelector (agw_Spec agw), as_AGWNodeLabelSelector (agw_Spec agw)]"

text \<open>The map \<^verbatim>\<open>values\<close> as it stands before the lifecycle prerequisites.\<close>

definition agwValues :: "string \<Rightarrow> magmaAGW \<Rightarrow> agwIdentityState \<Rightarrow> smap" where
  "agwValues ns agw identity =
     (let sp = agw_Spec agw; dp = as_Datapath sp; selector = agwNodeSelectorOf agw;
          v0 = [(''namespace'', ns), (''agwAntiAffinity.enabled'', stringTrue), (''simulator.enabled'', stringFalse),
                (''simulator.antiAffinity.separateFromAgw'', stringTrue)];
          v1 = setValue v0 ''nodePrep.interfaces.s1.parent'' (as_S1Interface sp);
          v2 = setValue v1 ''nodePrep.interfaces.nat.parent'' (as_SGiInterface sp);
          v3 = agwIdentityValues identity v2;
          v4 = (if datapathGateEnabled dp then
                  (let w0 = setSelectorValues v3 ''nodePrep.nodeSelector'' selector;
                       workloadSelector = mset_key (datapathReadyLabelKey dp) (datapathReadyLabelValue dp) selector;
                       w1 = setSelectorValues w0 ''nodeSelector'' workloadSelector;
                       w2 = mset_key ''nodePrep.requireMagmaOvsKmod'' (boolString (dps_RequireMagmaOvsKmod dp)) w1
                   in setValue w2 ''nodePrep.magmaOvsKmodUpgradePath'' (dps_OvsKmodUpgradePath dp))
                else setSelectorValues v3 ''nodeSelector'' selector);
          v5 = setSelectorValues v4 ''simulator.nodeSelector'' (as_UERANSIMNodeSelector sp);
          v6 = mergeValues v5 (as_Values sp)
      in mset_key ''simulator.enabled'' stringFalse (agwIdentityValues identity v6))"

section \<open>Clean-up\<close>

definition cleanupStaleAGWPods :: "'w client \<Rightarrow> string \<Rightarrow> string \<Rightarrow> ('w, error option) kio" where
  "cleanupStaleAGWPods K ns releaseName = do {
     r \<leftarrow> listPods K ns (agwSelector releaseName);
     case r of
       Inl e \<Rightarrow> return (Some e)
     | Inr pods \<Rightarrow> each (\<lambda>p. if pod_Reason p \<noteq> ''NodeAffinity'' then return None
                             else deleteIgnoringNotFound K False (OPod p)) pods
   }"

definition cleanupAGWDurableState :: "'w client \<Rightarrow> magmaAGW \<Rightarrow> string \<Rightarrow> ('w, error option) kio" where
  "cleanupAGWDurableState K agw releaseName =
     (let ns = m_Namespace (agw_Meta agw); policy = as_DeletionPolicy (agw_Spec agw) in do {
        p \<leftarrow> (if dp_DeletePVC policy
              then deleteIgnoringNotFound K False (OPVC \<lparr>pvc_Meta = newMeta ns (releaseName @ ''-claim'')\<rparr>)
              else return None);
        case p of
          Some e \<Rightarrow> return (Some e)
        | None \<Rightarrow>
            (if dp_DeleteIdentitySecret policy
             then deleteIgnoringNotFound K False (OSecret (newSecret ns (identitySecretName agw)))
             else return None)
      })"

section \<open>Deletion\<close>

definition agwDeletionRelease :: "magmaAGW \<Rightarrow> string \<Rightarrow> nativeRelease" where
  "agwDeletionRelease agw releaseName = \<lparr>rel_ReleaseName = releaseName, rel_Namespace = m_Namespace (agw_Meta agw),
     rel_Manifest = ''agw.yaml'', rel_Values = [], rel_ApplyFilter = None\<rparr>"

text \<open>A status report during deletion: its error is returned, else the reconcile comes back.\<close>

definition reportDeletion ::
    "'w client \<Rightarrow> lib \<Rightarrow> magmaAGW \<Rightarrow> string \<Rightarrow> string \<Rightarrow> string \<Rightarrow> nat \<Rightarrow> ('w, ctrlResult \<times> error option) kio" where
  "reportDeletion K L agw releaseName reason message after = do {
     (_, statusErr) \<leftarrow> updateAGWStatus K L agw releaseName ConditionFalse reason message;
     return (case statusErr of Some e \<Rightarrow> (noResult, Some e) | None \<Rightarrow> (requeueAfter after, None))
   }"

definition removeAGWFinalizer :: "lib \<Rightarrow> magmaAGW \<Rightarrow> magmaAGW" where
  "removeAGWFinalizer L agw =
     agw\<lparr>agw_Meta := (agw_Meta agw)\<lparr>m_Finalizers := l_RemoveFinalizer L (m_Finalizers (agw_Meta agw)) magmaAGWFinalizer\<rparr>\<rparr>"

definition addAGWFinalizer :: "lib \<Rightarrow> magmaAGW \<Rightarrow> magmaAGW" where
  "addAGWFinalizer L agw =
     agw\<lparr>agw_Meta := (agw_Meta agw)\<lparr>m_Finalizers := l_AddFinalizer L (m_Finalizers (agw_Meta agw)) magmaAGWFinalizer\<rparr>\<rparr>"

text \<open>The labels of the selected nodes, when there is a selector at all.\<close>

definition removeSelectedLabels :: "'w client \<Rightarrow> magmaAGW \<Rightarrow> ('w, error option) kio" where
  "removeSelectedLabels K agw =
     (let selector = agwNodeSelectorOf agw in
      if selector = [] then return None
      else do {
        ns \<leftarrow> selectedAGWNodes K selector;
        case ns of
          Inl e \<Rightarrow> return (Some e)
        | Inr nodes \<Rightarrow> removeAGWDatapathLabels K nodes (as_Datapath (agw_Spec agw))
      })"

definition reconcileAGWDeletion ::
    "'w client \<Rightarrow> lib \<Rightarrow> magmaAGW \<Rightarrow> string \<Rightarrow> ('w, ctrlResult \<times> error option) kio" where
  "reconcileAGWDeletion K L agw releaseName =
     (if \<not> l_ContainsFinalizer L (m_Finalizers (agw_Meta agw)) magmaAGWFinalizer then return (noResult, None)
      else do {
        (deregistered, reason, message, err) \<leftarrow> reconcileAGWGatewayDeregistration K agw;
        case err of
          Some e \<Rightarrow> reportDeletion K L agw releaseName reason (err_text e) 30
        | None \<Rightarrow>
            (if \<not> deregistered then reportDeletion K L agw releaseName reason message 20
             else do {
               d \<leftarrow> deleteNativeRelease K L (agwDeletionRelease agw releaseName);
               case d of
                 Some e \<Rightarrow> reportDeletion K L agw releaseName ''NativeDeleteFailed'' (err_text e) 30
               | None \<Rightarrow> do {
                   u \<leftarrow> removeSelectedLabels K agw;
                   case u of
                     Some e \<Rightarrow> return (noResult, Some e)
                   | None \<Rightarrow> do {
                       c \<leftarrow> cleanupAGWDurableState K agw releaseName;
                       case c of
                         Some e \<Rightarrow> return (noResult, Some e)
                       | None \<Rightarrow> do {
                           r \<leftarrow> kPatch K (OAGW (removeAGWFinalizer L agw)) (MergeFrom (OAGW agw));
                           return (noResult, r)
                         }
                     }
                 }
             })
      })"

section \<open>Reconcile\<close>

text \<open>Local variables of \<^verbatim>\<open>Reconcile\<close> that later stages read.\<close>

record agwRun =
  run_Namespace :: string
  run_ReleaseName :: string
  run_NodeSelector :: smap
  run_DatapathEnabled :: bool
  run_DatapathReady :: bool

definition validationCondition ::
    "lib \<Rightarrow> magmaAGW \<Rightarrow> bool \<Rightarrow> string \<Rightarrow> string \<Rightarrow> error option \<Rightarrow> magmaAGW" where
  "validationCondition L agw ready reason message err =
     (if err \<noteq> None then setAGWCondition L agw ''UERANSIMValidated'' ConditionFalse reason message
      else if reason = ''UERANSIMValidated'' then setAGWCondition L agw ''UERANSIMValidated'' ConditionTrue reason message
      else if reason = ''UERANSIMValidationFailed''
      then setAGWCondition L agw ''UERANSIMValidated'' ConditionFalse reason message
      else if \<not> ready then setAGWCondition L agw ''UERANSIMValidated'' ConditionUnknown reason message
      else agw)"

definition agwValidate :: "'w client \<Rightarrow> lib \<Rightarrow> magmaAGW \<Rightarrow> agwRun \<Rightarrow> ('w, ctrlResult \<times> error option) kio" where
  "agwValidate K L agw run = do {
     (agw1, validationReady, validationReason, validationMessage, err) \<leftarrow>
       reconcileUERANSIMValidation K L agw (run_ReleaseName run);
     let agw2 = validationCondition L agw1 validationReady validationReason validationMessage err;
     if \<not> validationReady
     then updateAGWReadyStatusWithRequeue K L agw2 (run_ReleaseName run) ''NativeResourcesReady''
            ''Magma AGW resources are ready'' 15
     else updateAGWStatus K L agw2 (run_ReleaseName run) ConditionTrue ''NativeResourcesReady''
            ''Magma AGW resources are ready''
   }"

text \<open>After the workloads: the datapath labels, the pending gate, the validation.\<close>

definition agwDatapathLabels ::
    "'w client \<Rightarrow> lib \<Rightarrow> magmaAGW \<Rightarrow> agwRun \<Rightarrow> ('w, ctrlResult \<times> error option) kio" where
  "agwDatapathLabels K L agw run = do {
     (datapathReadyNow, message, err) \<leftarrow>
       reconcileAGWDatapathLabels K (run_Namespace run) (run_NodeSelector run) (as_Datapath (agw_Spec agw));
     case err of
       Some e \<Rightarrow> updateAGWStatus K L agw (run_ReleaseName run) ConditionFalse ''DatapathLabelReconcileFailed'' (err_text e)
     | None \<Rightarrow>
         (if datapathReadyNow
          then updateAGWStatusWithRequeue K L agw (run_ReleaseName run) ConditionFalse ''DatapathReady''
                 ''AGW datapath node prep is ready; reconciling AGW workloads'' 5
          else updateAGWStatus K L agw (run_ReleaseName run) ConditionFalse ''WaitingForDatapathReady'' message)
   }"

definition agwGateMessage :: "agwRun \<Rightarrow> string \<Rightarrow> string" where
  "agwGateMessage run gateName =
     ''Magma AGW resources are ready with UERANSIM disabled. After AGW is registered with Orc8r and the UE is provisioned in NMS, create or update ConfigMap ''
     @ run_Namespace run @ ''/'' @ gateName @ '' with data ready=true.''"

definition agwRollOut ::
    "'w client \<Rightarrow> lib \<Rightarrow> magmaAGW \<Rightarrow> agwRun \<Rightarrow> string option \<Rightarrow> ('w, ctrlResult \<times> error option) kio" where
  "agwRollOut K L agw run pendingGate = do {
     a \<leftarrow> annotateAGWCoreDeploymentsForRootCA K (run_Namespace run) (run_ReleaseName run)
           (ast_TrustBundleHash (agw_Status agw));
     case a of
       Some e \<Rightarrow> updateAGWStatus K L agw (run_ReleaseName run) ConditionFalse ''RootCARolloutAnnotationFailed'' (err_text e)
     | None \<Rightarrow> do {
         p \<leftarrow> cleanupStaleAGWPods K (run_Namespace run) (run_ReleaseName run);
         case p of
           Some e \<Rightarrow> updateAGWStatus K L agw (run_ReleaseName run) ConditionFalse ''StalePodCleanupFailed'' (err_text e)
         | None \<Rightarrow>
             (if run_DatapathEnabled run \<and> \<not> run_DatapathReady run then agwDatapathLabels K L agw run
              else (case pendingGate of
                Some gateName \<Rightarrow> updateAGWStatus K L agw (run_ReleaseName run) ConditionFalse ''WaitingForUERANSIMGate''
                  (agwGateMessage run gateName)
              | None \<Rightarrow> agwValidate K L agw run))
       }
   }"

definition agwRelease :: "agwRun \<Rightarrow> smap \<Rightarrow> nativeRelease" where
  "agwRelease run vs = \<lparr>rel_ReleaseName = run_ReleaseName run, rel_Namespace = run_Namespace run,
     rel_Manifest = ''agw.yaml'', rel_Values = vs,
     rel_ApplyFilter = Some (nativeAGWApplyFilter (mget vs ''simulator.enabled'' = stringTrue))\<rparr>"

definition agwApply ::
    "'w client \<Rightarrow> lib \<Rightarrow> magmaAGW \<Rightarrow> agwRun \<Rightarrow> smap \<Rightarrow> string option \<Rightarrow> ('w, ctrlResult \<times> error option) kio" where
  "agwApply K L agw run vs pendingGate =
     (let agw1 = removeAGWCondition L agw ''UERANSIMReady'' in do {
        r \<leftarrow> reconcileNativeRelease K L (OAGW agw1) (agwRelease run vs);
        case r of
          Some e \<Rightarrow> updateAGWStatus K L agw1 (run_ReleaseName run) ConditionFalse ''NativeReconcileFailed'' (err_text e)
        | None \<Rightarrow> agwRollOut K L agw1 run pendingGate
      })"

definition agwStartGate ::
    "'w client \<Rightarrow> lib \<Rightarrow> magmaAGW \<Rightarrow> agwRun \<Rightarrow> smap \<Rightarrow> ('w, ctrlResult \<times> error option) kio" where
  "agwStartGate K L agw run vs =
     (let policy = as_UERANSIMStartPolicy (agw_Spec agw);
          startPolicy = (if policy = [] then ueransimStartPolicyAfterAGWReady else policy);
          enabled = mset_key ''simulator.enabled'' stringTrue vs in
      if \<not> as_EnableUERANSIM (agw_Spec agw) then agwApply K L agw run vs None
      else if startPolicy = ueransimStartPolicyImmediate then agwApply K L agw run enabled None
      else if startPolicy = ueransimStartPolicyAfterAGWReady then do {
        (gateReady, gateName, err) \<leftarrow> ueransimStartGateReady K (run_Namespace run) agw (run_ReleaseName run);
        case err of
          Some e \<Rightarrow> updateAGWStatus K L agw (run_ReleaseName run) ConditionFalse ''UERANSIMGateReadFailed'' (err_text e)
        | None \<Rightarrow> (if gateReady then agwApply K L agw run enabled None
                   else agwApply K L agw run vs (Some gateName))
      }
      else updateAGWStatus K L agw (run_ReleaseName run) ConditionFalse ''InvalidUERANSIMStartPolicy''
        (''unsupported ueransimStartPolicy '' @ quote startPolicy @ ''; use '' @ quote ueransimStartPolicyAfterAGWReady
         @ '' or '' @ quote ueransimStartPolicyImmediate))"

definition agwRegister ::
    "'w client \<Rightarrow> lib \<Rightarrow> magmaAGW \<Rightarrow> agwRun \<Rightarrow> agwIdentityState \<Rightarrow> smap \<Rightarrow> ('w, ctrlResult \<times> error option) kio" where
  "agwRegister K L agw run identity vs = do {
     (registered, reason, err) \<leftarrow> reconcileAGWGatewayRegistration K agw identity;
     case err of
       Some e \<Rightarrow> updateAGWStatus K L (setAGWCondition L agw ''GatewayRegistered'' ConditionFalse reason (err_text e))
                   (run_ReleaseName run) ConditionFalse reason (err_text e)
     | None \<Rightarrow>
         (let agw1 = updateAGWStatusDetails agw (identity\<lparr>ids_GatewayRegistered := registered\<rparr>);
              waiting = ''waiting for AGW identity registration in Orc8r/NMS'' in
          if \<not> registered \<and> gatewayRegistrationEnabled (as_GatewayRegistration (agw_Spec agw))
          then updateAGWStatusWithRequeue K L (setAGWCondition L agw1 ''GatewayRegistered'' ConditionFalse reason waiting)
                 (run_ReleaseName run) ConditionFalse reason waiting 20
          else agwStartGate K L
                 (if registered
                  then setAGWCondition L agw1 ''GatewayRegistered'' ConditionTrue ''GatewayRegistered''
                         ''AGW is registered in Orc8r/NMS''
                  else setAGWCondition L agw1 ''GatewayRegistered'' ConditionFalse ''GatewayRegistrationDisabled''
                         ''AGW gateway registration is disabled'')
                 run vs)
   }"

definition agwPrerequisites ::
    "'w client \<Rightarrow> lib \<Rightarrow> magmaAGW \<Rightarrow> agwRun \<Rightarrow> agwIdentityState \<Rightarrow> smap \<Rightarrow> ('w, ctrlResult \<times> error option) kio" where
  "agwPrerequisites K L agw run identity vs = do {
     (outcome, vs1) \<leftarrow> reconcileAGWLifecyclePrereqs K agw (run_ReleaseName run) vs;
     case outcome of (lifecycle, ready, reason, message, err) \<Rightarrow>
       (let agw1 = updateAGWLifecycleStatus agw lifecycle in
        if err \<noteq> None
        then updateAGWStatus K L (setAGWCondition L agw1 ''TrustBundleSynced'' ConditionFalse reason message)
               (run_ReleaseName run) ConditionFalse reason message
        else if \<not> ready
        then updateAGWStatusWithRequeue K L (setAGWCondition L agw1 ''TrustBundleSynced'' ConditionFalse reason message)
               (run_ReleaseName run) ConditionFalse reason message 20
        else agwRegister K L (setAGWCondition L agw1 ''TrustBundleSynced'' ConditionTrue ''TrustBundleSynced''
               ''AGW trust bundle is synced from Orc8r'') run identity vs1)
   }"

definition agwDatapath ::
    "'w client \<Rightarrow> lib \<Rightarrow> string \<Rightarrow> magmaAGW \<Rightarrow> string \<Rightarrow> agwIdentityState \<Rightarrow> ('w, ctrlResult \<times> error option) kio" where
  "agwDatapath K L ns agw releaseName identity =
     (let selector = agwNodeSelectorOf agw; vs = agwValues ns agw identity; dp = as_Datapath (agw_Spec agw);
          run = (\<lambda>ready. \<lparr>run_Namespace = ns, run_ReleaseName = releaseName, run_NodeSelector = selector,
            run_DatapathEnabled = datapathGateEnabled dp, run_DatapathReady = ready\<rparr>) in
      if \<not> datapathGateEnabled dp then agwPrerequisites K L agw (run True) identity vs
      else if selector = []
      then updateAGWStatus K L agw releaseName ConditionFalse ''AGWNodeSelectorRequired''
             ''datapath gating requires spec.agwNodeSelector or spec.agwNodeLabelSelector''
      else do {
        (ready, err) \<leftarrow> agwDatapathNodesReady K ns selector dp;
        case err of
          Some e \<Rightarrow> updateAGWStatus K L
            (setAGWCondition L agw ''DatapathReady'' ConditionFalse ''DatapathReadinessCheckFailed'' (err_text e))
            releaseName ConditionFalse ''DatapathReadinessCheckFailed'' (err_text e)
        | None \<Rightarrow> agwPrerequisites K L
            (if ready then setAGWCondition L agw ''DatapathReady'' ConditionTrue ''DatapathReady''
                             ''AGW datapath nodes are prepared''
             else setAGWCondition L agw ''DatapathReady'' ConditionFalse ''WaitingForDatapathReady''
                    ''waiting for AGW datapath node preparation'')
            (run ready) identity vs
      })"

definition agwReconcilePresent ::
    "'w client \<Rightarrow> lib \<Rightarrow> entropy \<Rightarrow> string \<Rightarrow> magmaAGW \<Rightarrow> string \<Rightarrow> ('w, ctrlResult \<times> error option) kio" where
  "agwReconcilePresent K L rnd ns agw releaseName = do {
     i \<leftarrow> reconcileAGWIdentity K L rnd agw;
     case i of
       Inl e \<Rightarrow> updateAGWStatus K L
         (setAGWCondition L agw ''IdentityReady'' ConditionFalse ''IdentityReconcileFailed'' (err_text e))
         releaseName ConditionFalse ''IdentityReconcileFailed'' (err_text e)
     | Inr identity \<Rightarrow> agwDatapath K L ns
         (setAGWCondition L (updateAGWStatusDetails agw identity) ''IdentityReady'' ConditionTrue ''IdentityReady''
            ''AGW bootstrap identity is ready'')
         releaseName identity
   }"

definition ReconcileAGW ::
    "'w client \<Rightarrow> lib \<Rightarrow> entropy \<Rightarrow> string \<Rightarrow> string \<Rightarrow> ('w, ctrlResult \<times> error option) kio" where
  "ReconcileAGW K L rnd ns name = do {
     g \<leftarrow> getAGW K ns name;
     case g of
       Inl e \<Rightarrow> return (noResult, IgnoreNotFound e)
     | Inr agw \<Rightarrow>
         (let releaseName = agwReleaseName agw in
          if m_DeletionTimestamp (agw_Meta agw) \<noteq> None then reconcileAGWDeletion K L agw releaseName
          else if \<not> l_ContainsFinalizer L (m_Finalizers (agw_Meta agw)) magmaAGWFinalizer then do {
            p \<leftarrow> kPatch K (OAGW (addAGWFinalizer L agw)) (MergeFrom (OAGW agw));
            return (case p of
              Some e \<Rightarrow> (noResult, Some e)
            | None \<Rightarrow> (\<lparr>res_Requeue = True, res_RequeueAfter = 0\<rparr>, None))
          }
          else agwReconcilePresent K L rnd ns agw releaseName)
   }"

section \<open>Properties\<close>

lemma spec_mapUERANSIMGateConfigMap:
  "spec (mapUERANSIMGateConfigMap K object) (\<lambda>r t. \<exists>q. t = [EvList KAGW (m_Namespace object) [] q] \<and>
     r = (case as_list to_agw q of Inl e \<Rightarrow> []
          | Inr agws \<Rightarrow> map (\<lambda>agw. (m_Namespace (agw_Meta agw), m_Name (agw_Meta agw)))
              (filter (\<lambda>agw. as_EnableUERANSIM (agw_Spec agw) \<and>
                 ueransimGateName agw (agwReleaseName agw) = m_Name object) agws)))"
  unfolding mapUERANSIMGateConfigMap_def by (rule spec_bind, rule spec_listAs, rule spec_return) simp

text \<open>C35: a change of a gate ConfigMap wakes exactly the gateways that wait for it: given the AGWs of the
  ConfigMap's namespace, the requests are those of the AGWs that enable the simulator and whose start
  gate reads a ConfigMap of this name.\<close>

theorem gate_change_wakes:
  assumes "events (mapUERANSIMGateConfigMap K object) s = [EvList KAGW (m_Namespace object) [] (Inr (map OAGW agws))]"
  shows "set (result (mapUERANSIMGateConfigMap K object) s) =
    {(m_Namespace (agw_Meta agw), m_Name (agw_Meta agw)) |agw. agw \<in> set agws \<and> as_EnableUERANSIM (agw_Spec agw) \<and>
       (\<exists>g. events (ueransimStartGateReady K' (m_Namespace object) agw (agwReleaseName agw)) s' =
          [EvGet KConfigMap (m_Namespace object) (m_Name object) g])}"
proof -
  have gate: "(\<exists>g. events (ueransimStartGateReady K' ns agw rn) s' = [EvGet KConfigMap ns n g]) \<longleftrightarrow>
      ueransimGateName agw rn = n" for ns agw rn n
  proof -
    have "spec (ueransimStartGateReady K' ns agw rn) (\<lambda>r t. \<exists>g. t = [EvGet KConfigMap ns (ueransimGateName agw rn) g])"
      unfolding ueransimStartGateReady_def Let_def by (rule spec_bind, rule spec_getAs, rule spec_return) simp
    from specD(2) [OF this, of s'] show ?thesis by auto
  qed
  have "as_list to_agw (Inr (map OAGW agws)) = Inr agws"
    by (rule iffD2 [OF as_list_Inr [of to_agw OAGW]]) simp_all
  then show ?thesis
    using specD(2) [OF spec_mapUERANSIMGateConfigMap [of K object], of s] assms
    unfolding gate by (auto simp del: as_list_simps(2))
qed

text \<open>Precedence of the manifest values: an entry of \<open>spec.values\<close> wins over what the operator
  derives, except for the simulator switch, which starts out as false, and for the challenge key and
  the hardware ID, which are always those of the operator's identity.\<close>

lemma values_precedence:
  assumes "wf_map (as_Values (agw_Spec agw))"
  shows "mget (agwValues ns agw identity) ''simulator.enabled'' = stringFalse \<and>
    mget (agwValues ns agw identity) ''config.gwChallenge'' = ids_PrivateKeyB64 identity \<and>
    mget (agwValues ns agw identity) ''gatewayIdentity.snowflake'' = ids_HardwareID identity \<and>
    (\<forall>k v. map_of (as_Values (agw_Spec agw)) k = Some v \<longrightarrow>
       k \<notin> {''simulator.enabled'', ''config.gwChallenge'', ''gatewayIdentity.snowflake''} \<longrightarrow>
       mget (agwValues ns agw identity) k = v)"
proof -
  have "mget (mergeValues m (as_Values (agw_Spec agw))) k = v" if "map_of (as_Values (agw_Spec agw)) k = Some v" for m k v
    using that by (simp add: mergeValues_def mget_def map_of_maps_Copy map_of_rev_wf [OF assms])
  then show ?thesis by (simp add: agwValues_def agwIdentityValues_def Let_def)
qed

subsection \<open>Witnesses\<close>

definition demoGate :: objectMeta where
  "demoGate = newMeta ''magma'' ''agw-ueransim-ready''"

lemma gate_change_wakes_witness:
  "set (result (mapUERANSIMGateConfigMap (refClient [OAGW demoAGW]) demoGate) refStart) =
     {(m_Namespace (agw_Meta agw), m_Name (agw_Meta agw)) |agw. agw \<in> {demoAGW} \<and> as_EnableUERANSIM (agw_Spec agw) \<and>
        (\<exists>g. events (ueransimStartGateReady (refClient []) ''magma'' agw (agwReleaseName agw)) refStart =
           [EvGet KConfigMap ''magma'' ''agw-ueransim-ready'' g])}"
proof -
  have ev: "events (mapUERANSIMGateConfigMap (refClient [OAGW demoAGW]) demoGate) refStart =
      [EvList KAGW (m_Namespace demoGate) [] (Inr (map OAGW [demoAGW]))]" by code_simp
  have "m_Namespace demoGate = ''magma''" "m_Name demoGate = ''agw-ueransim-ready''"
    by (simp_all add: demoGate_def newMeta_def)
  with gate_change_wakes [OF ev, of "refClient []" refStart] show ?thesis by (simp only: set_simps)
qed

definition demoOverride :: magmaAGW where
  "demoOverride = demoAGW\<lparr>agw_Spec := demoSpec\<lparr>as_Values :=
     [(''simulator.enabled'', ''true''), (''config.gwChallenge'', ''x''), (''global.domainName'', ''example.org'')]\<rparr>\<rparr>"

lemma values_precedence_witness:
  "mget (agwValues ''magma'' demoOverride demoIdentity) ''simulator.enabled'' = stringFalse \<and>
   mget (agwValues ''magma'' demoOverride demoIdentity) ''config.gwChallenge'' = ids_PrivateKeyB64 demoIdentity \<and>
   mget (agwValues ''magma'' demoOverride demoIdentity) ''global.domainName'' = ''example.org''"
proof -
  have "wf_map (as_Values (agw_Spec demoOverride))"
    and v: "map_of (as_Values (agw_Spec demoOverride)) ''global.domainName'' = Some ''example.org''"
    by (simp_all add: demoOverride_def wf_map_def)
  from values_precedence [OF this(1), of "''magma''" demoIdentity] v show ?thesis by simp
qed

end
