(* ===== verification/AGW_Deletion.thy ===== *)
theory AGW_Deletion
  imports AGW_Controller
begin

text \<open>
  Trace properties of \<^const>\<open>reconcileAGWDeletion\<close>: the finalizer goes last, after everything the
  deletion promises is done; what is deleted is the manifest, whatever the policy, and beyond it the
  volume claim and the identity Secret as far as the policy asks for it.
\<close>

section \<open>Parts of the deletion\<close>

abbreviation ev_pvc_deleted :: "magmaAGW \<Rightarrow> string \<Rightarrow> error option \<Rightarrow> event" where
  "ev_pvc_deleted agw rn q \<equiv>
     EvDelete False (OPVC \<lparr>pvc_Meta = newMeta (m_Namespace (agw_Meta agw)) (rn @ ''-claim'')\<rparr>) q"

abbreviation ev_identity_deleted :: "magmaAGW \<Rightarrow> error option \<Rightarrow> event" where
  "ev_identity_deleted agw q \<equiv>
     EvDelete False (OSecret (newSecret (m_Namespace (agw_Meta agw)) (identitySecretName agw))) q"

abbreviation ev_unfinalized :: "lib \<Rightarrow> magmaAGW \<Rightarrow> error option \<Rightarrow> event" where
  "ev_unfinalized L agw q \<equiv> EvPatch (OAGW (removeAGWFinalizer L agw)) (MergeFrom (OAGW agw)) q"

definition durable_cleaned :: "magmaAGW \<Rightarrow> string \<Rightarrow> event list \<Rightarrow> bool" where
  "durable_cleaned agw rn t \<longleftrightarrow>
     (dp_DeletePVC (as_DeletionPolicy (agw_Spec agw)) \<longrightarrow> (\<exists>q. gone q \<and> ev_pvc_deleted agw rn q \<in> set t)) \<and>
     (dp_DeleteIdentitySecret (as_DeletionPolicy (agw_Spec agw)) \<longrightarrow> (\<exists>q. gone q \<and> ev_identity_deleted agw q \<in> set t))"

definition durable_event :: "magmaAGW \<Rightarrow> string \<Rightarrow> event \<Rightarrow> bool" where
  "durable_event agw rn e \<longleftrightarrow>
     (\<exists>q. dp_DeletePVC (as_DeletionPolicy (agw_Spec agw)) \<and> e = ev_pvc_deleted agw rn q) \<or>
     (\<exists>q. dp_DeleteIdentitySecret (as_DeletionPolicy (agw_Spec agw)) \<and> e = ev_identity_deleted agw q)"

lemma spec_cleanupAGWDurableState:
  "spec (cleanupAGWDurableState K agw rn) (\<lambda>r t. list_all (durable_event agw rn) t \<and> (r = None \<longrightarrow> durable_cleaned agw rn t))"
  unfolding cleanupAGWDurableState_def Let_def
  by (intro spec_structure spec_rules) (auto simp: durable_event_def durable_cleaned_def)

definition labels_removed :: "magmaAGW \<Rightarrow> event list \<Rightarrow> bool" where
  "labels_removed agw t \<longleftrightarrow> (agwNodeSelectorOf agw \<noteq> [] \<longrightarrow>
     (\<exists>nodes. ev_nodes (agwNodeSelectorOf agw) nodes \<in> set t \<and>
        (\<forall>nd\<in>set nodes. mhas (m_Labels (node_Meta nd)) (datapathReadyLabelKey (as_Datapath (agw_Spec agw))) \<longrightarrow>
           drops_label (as_Datapath (agw_Spec agw)) nd None \<in> set t)))"

definition unlabel_event :: "magmaAGW \<Rightarrow> event \<Rightarrow> bool" where
  "unlabel_event agw e \<longleftrightarrow> (is_write e \<longrightarrow> (\<exists>nd q. e = drops_label (as_Datapath (agw_Spec agw)) nd q))"

lemma unlabel_loop_events:
  assumes "unlabel_post dp nodes r u"
  shows "\<forall>e\<in>set u. \<exists>nd q. e = drops_label dp nd q"
    and "r = None \<Longrightarrow> \<forall>nd\<in>set nodes. mhas (m_Labels (node_Meta nd)) (datapathReadyLabelKey dp) \<longrightarrow> drops_label dp nd None \<in> set u"
proof -
  show "\<forall>e\<in>set u. \<exists>nd q. e = drops_label dp nd q"
    using unlabel_loop.post_events [OF assms] unfolding unlabel_loop.patch_event_def drops_label_def by blast
  assume "r = None"
  then show "\<forall>nd\<in>set nodes. mhas (m_Labels (node_Meta nd)) (datapathReadyLabelKey dp) \<longrightarrow> drops_label dp nd None \<in> set u"
    using unlabel_loop.post_success [of "datapathReadyLabelKey dp" nodes u] assms
    by (simp add: unlabel_loop.patch_event_def drops_label_def)
qed

lemma spec_removeSelectedLabels:
  "spec (removeSelectedLabels K agw) (\<lambda>r t. list_all (unlabel_event agw) t \<and> (r = None \<longrightarrow> labels_removed agw t))"
  unfolding removeSelectedLabels_def selectedAGWNodes_def Let_def
  apply (rule spec_if)
  subgoal by (rule spec_return) (simp add: labels_removed_def)
  apply (rule spec_bind, rule spec_listAs, rule spec_sum)
  subgoal by (rule spec_return) (simp add: unlabel_event_def)
  apply (rule spec_weaken [OF spec_removeAGWDatapathLabels])
  subgoal premises prems for l nodes r u
  proof -
    have "list_all (unlabel_event agw) u" using unlabel_loop_events(1) [OF prems(3)] by (auto simp: list_all_iff unlabel_event_def)
    moreover have "labels_removed agw (EvList KNode [] (agwNodeSelectorOf agw) l # u)" if "r = None"
      unfolding labels_removed_def
      by (intro impI exI [of _ nodes]) (use unlabel_loop_events(2) [OF prems(3) that] prems(2) in \<open>auto simp: as_list_nodes\<close>)
    ultimately show ?thesis by (simp add: unlabel_event_def)
  qed
  done

definition release_deleted :: "lib \<Rightarrow> magmaAGW \<Rightarrow> string \<Rightarrow> event list \<Rightarrow> bool" where
  "release_deleted L agw rn t \<longleftrightarrow> (\<exists>objects. nativeReleaseObjects L (agwDeletionRelease agw rn) = Inr objects \<and>
     (\<forall>x\<in>set objects. \<exists>q. gone q \<and> EvDelete True (OUnstructured x) q \<in> set t))"

definition manifest_deletion :: "lib \<Rightarrow> magmaAGW \<Rightarrow> string \<Rightarrow> event \<Rightarrow> bool" where
  "manifest_deletion L agw rn e \<longleftrightarrow> (\<exists>objects. nativeReleaseObjects L (agwDeletionRelease agw rn) = Inr objects \<and>
     (\<exists>x\<in>set objects. \<exists>q. e = EvDelete True (OUnstructured x) q))"

lemma spec_release_deleted:
  "spec (deleteNativeRelease K L (agwDeletionRelease agw rn))
     (\<lambda>r t. list_all (manifest_deletion L agw rn) t \<and> (r = None \<longrightarrow> release_deleted L agw rn t))"
  by (rule spec_weaken [OF spec_deleteNativeRelease])
    (auto simp: release_deleted_def manifest_deletion_def list_all_iff split: sum.splits
      dest: delete_trace_events delete_trace_None)

definition deregistered :: "magmaAGW \<Rightarrow> event list \<Rightarrow> bool" where
  "deregistered agw t \<longleftrightarrow>
     (gr_DeleteOnRemoval (as_GatewayRegistration (agw_Spec agw)) \<and>
      gatewayRegistrationEnabled (as_GatewayRegistration (agw_Spec agw)) \<longrightarrow>
      (\<exists>j. ev_job (registrationNamespace agw) (deregistrationJobName agw) j \<in> set t \<and> job_succeeded j))"

section \<open>The whole deletion\<close>

text \<open>Writes a deletion may make, apart from the finalizer.\<close>

definition deletion_event :: "lib \<Rightarrow> magmaAGW \<Rightarrow> string \<Rightarrow> event \<Rightarrow> bool" where
  "deletion_event L agw rn e \<longleftrightarrow> (is_write e \<longrightarrow>
     (\<exists>j q. e = EvCreate (OJob j) q) \<or> manifest_deletion L agw rn e \<or>
     (\<exists>nd q. e = drops_label (as_Datapath (agw_Spec agw)) nd q) \<or> durable_event agw rn e \<or>
     (\<exists>reason msg q. e = EvStatusUpdate (OAGW (stampAGW L agw rn ConditionFalse reason msg)) q))"

definition all_done :: "lib \<Rightarrow> magmaAGW \<Rightarrow> string \<Rightarrow> event list \<Rightarrow> bool" where
  "all_done L agw rn t \<longleftrightarrow> deregistered agw t \<and> release_deleted L agw rn t \<and> labels_removed agw t \<and> durable_cleaned agw rn t"

inductive deletion_post :: "lib \<Rightarrow> magmaAGW \<Rightarrow> string \<Rightarrow> ctrlResult \<times> error option \<Rightarrow> event list \<Rightarrow> bool"
  for L agw rn where
  not_ours: "\<not> l_ContainsFinalizer L (m_Finalizers (agw_Meta agw)) magmaAGWFinalizer \<Longrightarrow>
    deletion_post L agw rn (noResult, None) []"
| unfinished: "list_all (deletion_event L agw rn) t \<Longrightarrow> snd r \<noteq> None \<or> 0 < res_RequeueAfter (fst r) \<Longrightarrow>
    deletion_post L agw rn r t"
| finished: "list_all (deletion_event L agw rn) t \<Longrightarrow> all_done L agw rn t \<Longrightarrow>
    deletion_post L agw rn (noResult, q) (t @ [ev_unfinalized L agw q])"

lemma reportDeletion_post:
  assumes "list_all (deletion_event L agw rn) t" and "0 < after"
  shows "spec (reportDeletion K L agw rn reason msg after) (\<lambda>r u. deletion_post L agw rn r (t @ u))"
  unfolding reportDeletion_def
  apply (rule spec_bind, rule spec_updateAGWStatus, intro spec_prod spec_return)
  apply (rule unfinished)
  subgoal using assms(1) by (simp add: deletion_event_def) blast
  subgoal using assms(2) by (simp add: requeueAfter_def split: option.split)
  done

lemma all_done_parts:
  assumes "deregistered agw t1" "release_deleted L agw rn t2" "labels_removed agw t3" "durable_cleaned agw rn t4"
  shows "all_done L agw rn (t1 @ t2 @ t3 @ t4)"
  using assms unfolding all_done_def deregistered_def release_deleted_def labels_removed_def durable_cleaned_def
  by (auto 4 4)

lemma deletion_event_parts:
  "list_all (manifest_deletion L agw rn) t \<Longrightarrow> list_all (deletion_event L agw rn) t"
  "list_all (unlabel_event agw) t \<Longrightarrow> list_all (deletion_event L agw rn) t"
  "list_all (durable_event agw rn) t \<Longrightarrow> list_all (deletion_event L agw rn) t"
  "deregistration_post agw r t \<Longrightarrow> list_all (deletion_event L agw rn) t"
  by (auto simp: list_all_iff deletion_event_def unlabel_event_def deregistration_post_def)

lemma spec_reconcileAGWDeletion: "spec (reconcileAGWDeletion K L agw rn) (deletion_post L agw rn)"
  unfolding reconcileAGWDeletion_def
  apply (rule spec_if)
  subgoal by (rule spec_return, rule not_ours)
  apply (rule spec_bind, rule spec_weaken [OF spec_reconcileAGWGatewayDeregistration], intro spec_prod spec_option spec_if)
  subgoal by (rule reportDeletion_post) (auto intro: deletion_event_parts)
  prefer 2
  subgoal by (rule reportDeletion_post) (auto intro: deletion_event_parts)
  apply (rule spec_bind, rule spec_weaken [OF spec_release_deleted], rule spec_option)
  prefer 2
  subgoal for r1 t1 dereg b1 reason b2 msg err r2 t2 e
    using reportDeletion_post [of L agw rn "t1 @ t2" 30] by (simp add: deletion_event_parts)
  apply (rule spec_bind, rule spec_weaken [OF spec_removeSelectedLabels], rule spec_option)
  prefer 2
  subgoal by (rule spec_return, rule unfinished) (auto dest: deletion_event_parts)
  apply (rule spec_bind, rule spec_weaken [OF spec_cleanupAGWDurableState], rule spec_option)
  prefer 2
  subgoal by (rule spec_return, rule unfinished) (auto dest: deletion_event_parts)
  subgoal premises prems for r1 t1 dereg b1 reason b2 msg err r2 t2 r3 t3 r4 t4
  proof -
    have "deregistered agw t1" using prems by (auto simp: deregistration_post_def deregistered_def)
    then have "all_done L agw rn (t1 @ t2 @ t3 @ t4)" using prems by (intro all_done_parts) auto
    moreover have "list_all (deletion_event L agw rn) (t1 @ t2 @ t3 @ t4)"
      using prems deletion_event_parts by auto
    ultimately have "deletion_post L agw rn (noResult, q) ((t1 @ t2 @ t3 @ t4) @ [ev_unfinalized L agw q])" for q
      by (intro finished)
    then show ?thesis by (intro spec_bind spec_kPatch spec_return) simp
  qed
  done

section \<open>Properties\<close>

lemma deletion_cases:
  assumes "deletion_post L agw rn r t"
  shows "EvPatch (OAGW b) p q \<in> set t \<Longrightarrow> \<exists>u. r = (noResult, q) \<and> t = u @ [ev_unfinalized L agw q] \<and>
      OAGW b = OAGW (removeAGWFinalizer L agw) \<and> all_done L agw rn u \<and> list_all (deletion_event L agw rn) u"
    and "e \<in> set t \<Longrightarrow> deletion_event L agw rn e \<or> (\<exists>q. e = ev_unfinalized L agw q)"
  using assms by (cases; auto simp: list_all_iff deletion_event_def manifest_deletion_def durable_event_def drops_label_def)+

text \<open>C4: the AGW finalizer is removed last: when a deletion patches the AGW object, that patch is its
  final call, it removes exactly the operator's finalizer, and the calls before it have seen the
  deregistration Job succeed (if deregistration is asked for), deleted every object of the AGW
  manifest, removed the datapath label from every selected node that has it, and deleted the
  volume claim and the identity Secret as far as the deletion policy asks for it.\<close>

theorem finalizer_removed_last:
  assumes "EvPatch (OAGW b) p q \<in> set (events (reconcileAGWDeletion K L agw rn) s)"
  shows "\<exists>u. events (reconcileAGWDeletion K L agw rn) s = u @ [ev_unfinalized L agw q] \<and> b = removeAGWFinalizer L agw \<and>
    deregistered agw u \<and> release_deleted L agw rn u \<and> labels_removed agw u \<and> durable_cleaned agw rn u"
  using deletion_cases(1) [OF specD(2) [OF spec_reconcileAGWDeletion [of K L agw rn], of s] assms]
  by (auto simp: all_done_def)

text \<open>C5: what a deletion deletes, exactly. Every deletion it sends is the background deletion of an
  object of the rendered AGW manifest, or the volume claim of the release, and then
  \<open>deletePVC\<close> is set, or the identity Secret, and then \<open>deleteIdentitySecret\<close> is set. The manifest goes
  whatever the policy says: if the finalizer is removed, every object of the manifest was deleted or
  found gone, a volume claim or a Secret among them included.\<close>

theorem deletion_deletes_exactly:
  assumes "events (reconcileAGWDeletion K L agw rn) s = t"
  shows "(\<forall>bg x q. EvDelete bg x q \<in> set t \<longrightarrow>
      bg \<and> (\<exists>objects. nativeReleaseObjects L (agwDeletionRelease agw rn) = Inr objects \<and> x \<in> OUnstructured ` set objects) \<or>
      \<not> bg \<and> dp_DeletePVC (as_DeletionPolicy (agw_Spec agw)) \<and>
        x = OPVC \<lparr>pvc_Meta = newMeta (m_Namespace (agw_Meta agw)) (rn @ ''-claim'')\<rparr> \<or>
      \<not> bg \<and> dp_DeleteIdentitySecret (as_DeletionPolicy (agw_Spec agw)) \<and>
        x = OSecret (newSecret (m_Namespace (agw_Meta agw)) (identitySecretName agw))) \<and>
    (\<forall>b p q. EvPatch (OAGW b) p q \<in> set t \<longrightarrow> (\<exists>objects. nativeReleaseObjects L (agwDeletionRelease agw rn) = Inr objects \<and>
      (\<forall>x\<in>set objects. \<exists>q'. gone q' \<and> EvDelete True (OUnstructured x) q' \<in> set t)))"
proof -
  note cases = deletion_cases [OF specD(2) [OF spec_reconcileAGWDeletion [of K L agw rn], of s, unfolded assms]]
  show ?thesis
  proof (intro conjI allI impI)
    fix b p q assume "EvPatch (OAGW b) p q \<in> set t"
    from cases(1) [OF this] show "\<exists>objects. nativeReleaseObjects L (agwDeletionRelease agw rn) = Inr objects \<and>
        (\<forall>x\<in>set objects. \<exists>q'. gone q' \<and> EvDelete True (OUnstructured x) q' \<in> set t)"
      by (fastforce simp: all_done_def release_deleted_def)
  qed (auto dest!: cases(2) simp: deletion_event_def manifest_deletion_def durable_event_def drops_label_def)
qed

text \<open>C11: a deletion is retried until it is done: if the finalizer was present and the reconcile did
  not get to removing it, the reconcile returns an error or asks to be run again.\<close>

theorem deletion_retried:
  assumes "l_ContainsFinalizer L (m_Finalizers (agw_Meta agw)) magmaAGWFinalizer"
    and "ev_unfinalized L agw None \<notin> set (events (reconcileAGWDeletion K L agw rn) s)"
  shows "snd (result (reconcileAGWDeletion K L agw rn) s) \<noteq> None \<or>
    0 < res_RequeueAfter (fst (result (reconcileAGWDeletion K L agw rn) s))"
  using specD(2) [OF spec_reconcileAGWDeletion [of K L agw rn], of s] assms
  by cases (auto, metis option.exhaust)

subsection \<open>Witnesses\<close>

definition demoNodes :: "kobj list" where
  "demoNodes = [demoNode [(''magma.io/agw-datapath-ready'', ''true'')]]"

abbreviation demoDeletion :: "(unit, ctrlResult \<times> error option) kio" where
  "demoDeletion \<equiv> reconcileAGWDeletion (refClient demoNodes) (refLib (\<lambda>_. [])) demoAGW ''agw''"

lemma demo_steps:
  "l_ContainsFinalizer (refLib (\<lambda>_. [])) (m_Finalizers (agw_Meta demoAGW)) magmaAGWFinalizer"
  "\<not> gr_DeleteOnRemoval (as_GatewayRegistration (agw_Spec demoAGW))"
  "result (deleteNativeRelease (refClient demoNodes) (refLib (\<lambda>_. [])) (agwDeletionRelease demoAGW ''agw'')) s = None"
  "result (removeSelectedLabels (refClient demoNodes) demoAGW) s = None"
  "result (cleanupAGWDurableState (refClient demoNodes) demoAGW ''agw'') s = None"
  by code_simp+

lemma deletion_runs:
  assumes "l_ContainsFinalizer L (m_Finalizers (agw_Meta agw)) magmaAGWFinalizer"
    and "\<not> gr_DeleteOnRemoval (as_GatewayRegistration (agw_Spec agw))"
    and "\<And>s. result (deleteNativeRelease K L (agwDeletionRelease agw rn)) s = None"
    and "\<And>s. result (removeSelectedLabels K agw) s = None"
    and "\<And>s. result (cleanupAGWDurableState K agw rn) s = None"
  shows "spec (reconcileAGWDeletion K L agw rn) (\<lambda>r t. \<exists>q. ev_unfinalized L agw q \<in> set t)"
  (is "spec _ (\<lambda>r. ?S)")
proof -
  have late: "late ?S" by (auto simp: late_def)
  have skip: "reconcileAGWGatewayDeregistration K agw =
      return (True, ''GatewayDeregistrationSkipped'', ''gatewayRegistration.deleteOnRemoval is false'', None)"
    by (simp add: reconcileAGWGatewayDeregistration_def assms(2))
  have patch: "spec (do {
      r \<leftarrow> kPatch K (OAGW (removeAGWFinalizer L agw)) (MergeFrom (OAGW agw)); return (noResult, r) }) (\<lambda>r. ?S)"
    by (rule spec_bind, rule spec_kPatch, rule spec_return) auto
  show ?thesis
    unfolding reconcileAGWDeletion_def skip
    by (simp add: assms(1), rule spec_known [OF late spec_release_deleted assms(3)], simp,
        rule spec_known [OF late spec_removeSelectedLabels assms(4)], simp,
        rule spec_known [OF late spec_cleanupAGWDurableState assms(5)], simp add: patch)
qed

lemma demo_last_patch:
  obtains q where "ev_unfinalized (refLib (\<lambda>_. [])) demoAGW q \<in> set (events demoDeletion refStart)"
  using specD(2) [OF deletion_runs [OF demo_steps], of refStart] by blast

lemma finalizer_removed_last_witness:
  "\<exists>u q. events demoDeletion refStart = u @ [ev_unfinalized (refLib (\<lambda>_. [])) demoAGW q] \<and>
    labels_removed demoAGW u \<and> durable_cleaned demoAGW ''agw'' u"
proof -
  obtain q where "ev_unfinalized (refLib (\<lambda>_. [])) demoAGW q \<in> set (events demoDeletion refStart)" by (rule demo_last_patch)
  from finalizer_removed_last [OF this] show ?thesis by blast
qed

text \<open>
  A manifest with a volume claim, as \<^verbatim>\<open>agw.yaml\<close> has one under this name, and an AGW that wants to keep
  its claim: the deletion deletes the claim all the same.
\<close>

definition demoClaim :: unstructured where
  "demoClaim = demoObject ''PersistentVolumeClaim'' ''agwc-claim''"

definition demoKeeper :: magmaAGW where
  "demoKeeper = demoAGW\<lparr>agw_Spec := demoSpec\<lparr>as_DeletionPolicy := \<lparr>dp_DeletePVC = False, dp_DeleteIdentitySecret = False\<rparr>\<rparr>\<rparr>"

abbreviation keeperDeletion :: "(unit, ctrlResult \<times> error option) kio" where
  "keeperDeletion \<equiv> reconcileAGWDeletion (refClient demoNodes) (refLib (\<lambda>_. [demoClaim])) demoKeeper ''agw''"

lemma keeper_steps:
  "l_ContainsFinalizer (refLib (\<lambda>_. [demoClaim])) (m_Finalizers (agw_Meta demoKeeper)) magmaAGWFinalizer"
  "\<not> gr_DeleteOnRemoval (as_GatewayRegistration (agw_Spec demoKeeper))"
  "result (deleteNativeRelease (refClient demoNodes) (refLib (\<lambda>_. [demoClaim])) (agwDeletionRelease demoKeeper ''agw'')) s = None"
  "result (removeSelectedLabels (refClient demoNodes) demoKeeper) s = None"
  "result (cleanupAGWDurableState (refClient demoNodes) demoKeeper ''agw'') s = None"
  by code_simp+

lemma keeper_unfinalized:
  obtains q where "ev_unfinalized (refLib (\<lambda>_. [demoClaim])) demoKeeper q \<in> set (events keeperDeletion refStart)"
  using specD(2) [OF deletion_runs [OF keeper_steps], of refStart] by blast

lemma deletion_deletes_exactly_witness:
  "\<exists>x q. u_Kind x = ''PersistentVolumeClaim'' \<and> m_Namespace (u_Meta x) = ''magma'' \<and> m_Name (u_Meta x) = ''agwc-claim'' \<and>
    EvDelete True (OUnstructured x) q \<in> set (events keeperDeletion refStart) \<and>
    \<not> dp_DeletePVC (as_DeletionPolicy (agw_Spec demoKeeper))"
proof -
  obtain q where "ev_unfinalized (refLib (\<lambda>_. [demoClaim])) demoKeeper q \<in> set (events keeperDeletion refStart)"
    by (rule keeper_unfinalized)
  with deletion_deletes_exactly [OF refl, of "refClient demoNodes" "refLib (\<lambda>_. [demoClaim])" demoKeeper "''agw''" refStart]
  obtain objects where o: "nativeReleaseObjects (refLib (\<lambda>_. [demoClaim])) (agwDeletionRelease demoKeeper ''agw'') = Inr objects"
    and d: "\<forall>x\<in>set objects. \<exists>q'. gone q' \<and> EvDelete True (OUnstructured x) q' \<in> set (events keeperDeletion refStart)" by blast
  have "list_ex (\<lambda>x. u_Kind x = ''PersistentVolumeClaim'' \<and> m_Namespace (u_Meta x) = ''magma'' \<and> m_Name (u_Meta x) = ''agwc-claim'')
      (projr (nativeReleaseObjects (refLib (\<lambda>_. [demoClaim])) (agwDeletionRelease demoKeeper ''agw'')))" by code_simp
  then obtain x where "x \<in> set objects" "u_Kind x = ''PersistentVolumeClaim''" "m_Namespace (u_Meta x) = ''magma''"
    "m_Name (u_Meta x) = ''agwc-claim''" by (auto simp: o list_ex_iff)
  moreover have "\<not> dp_DeletePVC (as_DeletionPolicy (agw_Spec demoKeeper))" by code_simp
  ultimately show ?thesis using d by blast
qed

text \<open>A gateway to be deregistered, before the Orc8r certificates exist: the deletion waits.\<close>

definition demoRemoval :: magmaAGW where
  "demoRemoval = demoAGW\<lparr>agw_Spec := demoSpec\<lparr>as_GatewayRegistration :=
     (as_GatewayRegistration demoSpec)\<lparr>gr_Enabled := None, gr_DeleteOnRemoval := True\<rparr>\<rparr>\<rparr>"

lemma demo_waits:
  "result (reconcileAGWGatewayDeregistration (refClient []) demoRemoval) s = (False, ''WaitingForNMSCertSecret'',
     ''waiting for NMS cert Secret magma/orc8r-secrets-certs before gateway deregistration'', None)"
  "l_ContainsFinalizer (refLib (\<lambda>_. [])) (m_Finalizers (agw_Meta demoRemoval)) magmaAGWFinalizer"
  by code_simp+

lemma demo_no_patch:
  "spec (reconcileAGWDeletion (refClient []) (refLib (\<lambda>_. [])) demoRemoval ''agw'') (\<lambda>r t. \<forall>x p q. EvPatch x p q \<notin> set t)"
  unfolding reconcileAGWDeletion_def
  apply (simp add: demo_waits(2) del: refLib_simps)
  apply (rule spec_bind, rule spec_weaken [OF spec_exact [OF spec_reconcileAGWGatewayDeregistration, where P = "\<lambda>r.
      r = (False, ''WaitingForNMSCertSecret'',
        ''waiting for NMS cert Secret magma/orc8r-secrets-certs before gateway deregistration'', None)"] ])
  subgoal by (rule demo_waits(1))
  subgoal unfolding reportDeletion_def
    by (auto simp: deregistration_post_def intro!: spec_bind spec_updateAGWStatus spec_return)
  done

lemma deletion_retried_witness:
  "\<not> (snd (result (reconcileAGWDeletion (refClient []) (refLib (\<lambda>_. [])) demoRemoval ''agw'') refStart) = None \<and>
   res_RequeueAfter (fst (result (reconcileAGWDeletion (refClient []) (refLib (\<lambda>_. [])) demoRemoval ''agw'') refStart)) = 0)"
proof -
  have "ev_unfinalized (refLib (\<lambda>_. [])) demoRemoval None
      \<notin> set (events (reconcileAGWDeletion (refClient []) (refLib (\<lambda>_. [])) demoRemoval ''agw'') refStart)"
    using specD(2) [OF demo_no_patch, of refStart] by blast
  from deletion_retried [OF demo_waits(2) this] show ?thesis by auto
qed

end
