(* ===== verification/AGW_Safety.thy ===== *)
theory AGW_Safety
  imports AGW_Deletion
begin

text \<open>
  Trace properties of the AGW reconcile: in which order it may act, and what has to be in
  the trace before a workload is applied, the simulator is started or Ready is reported.
  \<open>safe\<close> collects them; each stage keeps them, given what the stages before it have put
  into the trace, so the statement about \<^const>\<open>ReconcileAGW\<close> holds for every client.
\<close>

section \<open>Vocabulary\<close>

text \<open>A forced apply of a manifest object.\<close>

abbreviation ev_apply :: "unstructured \<Rightarrow> error option \<Rightarrow> event" where
  "ev_apply x q \<equiv> EvPatch (OUnstructured x) (ApplyForce ''magma-operator'') q"

definition is_apply :: "event \<Rightarrow> bool" where
  "is_apply e \<longleftrightarrow> (\<exists>x p q. e = EvPatch (OUnstructured x) p q)"

definition simulator_object :: "unstructured \<Rightarrow> bool" where
  "simulator_object x \<longleftrightarrow> (let n = m_Name (u_Meta x) in
     contains n ''ueransim'' \<or> contains n ''simulator'' \<or> contains n ''iperf3'')"

text \<open>Everything but the status is the same.\<close>

definition same_object :: "magmaAGW \<Rightarrow> magmaAGW \<Rightarrow> bool" where
  "same_object a b \<longleftrightarrow> agw_Meta a = agw_Meta b \<and> agw_Spec a = agw_Spec b"

definition condition_true :: "magmaAGW \<Rightarrow> string \<Rightarrow> bool" where
  "condition_true a ty \<longleftrightarrow> (\<exists>c. cond_of (ast_Conditions (agw_Status a)) ty = Some c \<and> c_Status c = ConditionTrue)"

text \<open>The identity a reconcile works with: read from the identity Secret of this AGW.\<close>

definition identity_read :: "lib \<Rightarrow> magmaAGW \<Rightarrow> agwIdentityState \<Rightarrow> event list \<Rightarrow> bool" where
  "identity_read L agw identity t \<longleftrightarrow> (\<exists>secret.
     EvGet KSecret (m_Namespace (agw_Meta agw)) (identitySecretName agw) (Inr (OSecret secret)) \<in> set t \<and>
     identity_of L agw secret identity)"

definition registered_evidence :: "magmaAGW \<Rightarrow> agwIdentityState \<Rightarrow> event list \<Rightarrow> bool" where
  "registered_evidence agw identity t \<longleftrightarrow> (gatewayRegistrationEnabled (as_GatewayRegistration (agw_Spec agw)) \<longrightarrow>
     (\<exists>j. ev_job (registrationNamespace agw) (m_Name (agw_Meta agw) @ ''-register-gateway'') j \<in> set t \<and>
        job_hash payloadHashAnnotation j = sha256Hex (agwGatewayPayload agw identity) \<and> job_succeeded j))"

definition gate_evidence :: "magmaAGW \<Rightarrow> string \<Rightarrow> event list \<Rightarrow> bool" where
  "gate_evidence agw ns t \<longleftrightarrow> as_EnableUERANSIM (agw_Spec agw) \<and>
     (as_UERANSIMStartPolicy (agw_Spec agw) = ueransimStartPolicyImmediate \<or>
      (\<exists>gate. EvGet KConfigMap ns (ueransimGateName agw (agwReleaseName agw)) (Inr (OConfigMap gate)) \<in> set t \<and>
         equalFold (mget (cm_Data gate) ''ready'') stringTrue))"

definition datapath_evidence :: "magmaAGW \<Rightarrow> string \<Rightarrow> event list \<Rightarrow> bool" where
  "datapath_evidence agw ns t \<longleftrightarrow> (datapathGateEnabled (as_Datapath (agw_Spec agw)) \<longrightarrow>
     (\<exists>nodes d. nodes \<noteq> [] \<and> ev_nodes (agwNodeSelectorOf agw) nodes \<in> set t \<and> ev_ds ns d \<in> set t \<and> ds_ready d \<and>
        (\<forall>nd\<in>set nodes. node_label nd (datapathReadyLabelKey (as_Datapath (agw_Spec agw)))
           = datapathReadyLabelValue (as_Datapath (agw_Spec agw)))))"

text \<open>
  The prerequisites of a workload, for one and the same identity: it was read from the identity
  Secret, the certificate Secret that its manifest values name carries the root CA, and its payload
  is registered. With \<open>cu\<close> the client keeps the contract of \<^verbatim>\<open>CreateOrUpdate\<close>, so that what was written is known.
\<close>

definition prerequisites_for :: "bool \<Rightarrow> lib \<Rightarrow> magmaAGW \<Rightarrow> string \<Rightarrow> agwIdentityState \<Rightarrow> event list \<Rightarrow> bool" where
  "prerequisites_for cu L agw ns identity t \<longleftrightarrow> identity_read L agw identity t \<and>
     (\<exists>h. trust_evidence cu agw (agwReleaseName agw)
        (agwCertSecretName (agwReleaseName agw) (agwValues ns agw identity)) h t) \<and>
     registered_evidence agw identity t"

definition prerequisites :: "bool \<Rightarrow> lib \<Rightarrow> magmaAGW \<Rightarrow> string \<Rightarrow> event list \<Rightarrow> bool" where
  "prerequisites cu L agw ns t \<longleftrightarrow> (\<exists>identity. prerequisites_for cu L agw ns identity t)"

text \<open>
  The release of an AGW under an identity: the manifest values are those of the AGW and the identity,
  apart from the host alias of the Orc8r and the simulator switch.
\<close>

definition release_values :: "magmaAGW \<Rightarrow> string \<Rightarrow> agwIdentityState \<Rightarrow> smap \<Rightarrow> bool" where
  "release_values agw ns identity vs \<longleftrightarrow>
     (\<forall>k. k \<notin> {''simulator.enabled'', ''orc8r.hostAliases.enabled'', ''orc8r.hostAliases.ip''} \<longrightarrow>
        mget vs k = mget (agwValues ns agw identity) k)"

definition releaseOf :: "magmaAGW \<Rightarrow> string \<Rightarrow> smap \<Rightarrow> nativeRelease" where
  "releaseOf agw ns vs = \<lparr>rel_ReleaseName = agwReleaseName agw, rel_Namespace = ns, rel_Manifest = ''agw.yaml'',
     rel_Values = vs, rel_ApplyFilter = Some (nativeAGWApplyFilter (as_EnableUERANSIM (agw_Spec agw)))\<rparr>"

text \<open>Every object of the manifest was dealt with, on behalf of this AGW, the simulator's as it is enabled.\<close>

definition workloads_evidence :: "lib \<Rightarrow> magmaAGW \<Rightarrow> string \<Rightarrow> agwIdentityState \<Rightarrow> event list \<Rightarrow> bool" where
  "workloads_evidence L agw ns identity t \<longleftrightarrow> (\<exists>a vs objects. same_object a agw \<and> release_values agw ns identity vs \<and>
     nativeReleaseObjects L (releaseOf agw ns vs) = Inr objects \<and>
     (\<forall>x\<in>set objects. native_done L (OAGW a) (releaseOf agw ns vs) x t))"

definition ready_evidence :: "bool \<Rightarrow> lib \<Rightarrow> magmaAGW \<Rightarrow> string \<Rightarrow> event list \<Rightarrow> bool" where
  "ready_evidence cu L agw ns t \<longleftrightarrow>
     (\<exists>identity. prerequisites_for cu L agw ns identity t \<and> workloads_evidence L agw ns identity t) \<and>
     datapath_evidence agw ns t \<and> (as_EnableUERANSIM (agw_Spec agw) \<longrightarrow> gate_evidence agw ns t)"

section \<open>Safe traces\<close>

text \<open>Every event of a kind comes after its evidence: the events before it already give it.\<close>

definition gated :: "(event \<Rightarrow> bool) \<Rightarrow> (event list \<Rightarrow> bool) \<Rightarrow> event list \<Rightarrow> bool" where
  "gated P E t \<longleftrightarrow> (\<forall>u e v. t = u @ e # v \<longrightarrow> P e \<longrightarrow> E u)"

definition starts_simulator :: "event \<Rightarrow> bool" where
  "starts_simulator e \<longleftrightarrow> (\<exists>x p q. e = EvPatch (OUnstructured x) p q \<and> simulator_object x)"

definition reports_ready :: "event \<Rightarrow> bool" where
  "reports_ready e \<longleftrightarrow> (\<exists>a q. e = EvStatusUpdate (OAGW a) q \<and> condition_true a ''Ready'')"

definition apply_gated :: "bool \<Rightarrow> lib \<Rightarrow> magmaAGW \<Rightarrow> string \<Rightarrow> event list \<Rightarrow> bool" where
  "apply_gated cu L agw ns t \<longleftrightarrow> gated is_apply (prerequisites cu L agw ns) t"

definition simulator_gated :: "magmaAGW \<Rightarrow> string \<Rightarrow> event list \<Rightarrow> bool" where
  "simulator_gated agw ns t \<longleftrightarrow> gated starts_simulator (gate_evidence agw ns) t"

definition ready_gated :: "bool \<Rightarrow> lib \<Rightarrow> magmaAGW \<Rightarrow> string \<Rightarrow> event list \<Rightarrow> bool" where
  "ready_gated cu L agw ns t \<longleftrightarrow> gated reports_ready (ready_evidence cu L agw ns) t"

definition status_only :: "magmaAGW \<Rightarrow> event list \<Rightarrow> bool" where
  "status_only agw t \<longleftrightarrow> (\<forall>x q. EvStatusUpdate x q \<in> set t \<longrightarrow> (\<exists>a. x = OAGW a \<and> same_object a agw))"

definition safe :: "bool \<Rightarrow> lib \<Rightarrow> magmaAGW \<Rightarrow> string \<Rightarrow> event list \<Rightarrow> bool" where
  "safe cu L agw ns t \<longleftrightarrow> apply_gated cu L agw ns t \<and> simulator_gated agw ns t \<and> ready_gated cu L agw ns t \<and> status_only agw t"

text \<open>A result after which the controller runs again, and a trace in which Ready was written.\<close>

definition comes_back :: "ctrlResult \<times> error option \<Rightarrow> bool" where
  "comes_back r \<longleftrightarrow> snd r \<noteq> None \<or> 0 < res_RequeueAfter (fst r) \<or> res_Requeue (fst r)"

definition ready_written :: "event list \<Rightarrow> bool" where
  "ready_written t \<longleftrightarrow> (\<exists>a. condition_true a ''Ready'' \<and> EvStatusUpdate (OAGW a) None \<in> set t)"

definition safe_post :: "bool \<Rightarrow> lib \<Rightarrow> magmaAGW \<Rightarrow> string \<Rightarrow> event list \<Rightarrow> ctrlResult \<times> error option \<Rightarrow> event list \<Rightarrow> bool" where
  "safe_post cu L agw ns t r u \<longleftrightarrow> safe cu L agw ns (t @ u) \<and> (comes_back r \<or> ready_written (t @ u))"

section \<open>Evidence grows with the trace and ignores the status\<close>

lemma same_refl [simp]: "same_object a a"
  by (simp add: same_object_def)

lemma same_updates [simp]:
  "same_object (setAGWCondition L a ty st reason msg) b = same_object a b"
  "same_object (removeAGWCondition L a ty) b = same_object a b"
  "same_object (stampAGW L a rn st reason msg) b = same_object a b"
  "same_object (updateAGWStatusDetails a ident) b = same_object a b"
  "same_object (updateAGWLifecycleStatus a lc) b = same_object a b"
  by (simp_all add: same_object_def)

lemma trust_evidence_mono: "trust_evidence cu agw rn certs h t \<Longrightarrow> set t \<subseteq> set u \<Longrightarrow> trust_evidence cu agw rn certs h u"
  unfolding trust_evidence_def by blast

lemma registered_evidence_mono: "registered_evidence agw identity t \<Longrightarrow> set t \<subseteq> set u \<Longrightarrow> registered_evidence agw identity u"
  unfolding registered_evidence_def by blast

lemma identity_read_mono: "identity_read L agw identity t \<Longrightarrow> set t \<subseteq> set u \<Longrightarrow> identity_read L agw identity u"
  unfolding identity_read_def by blast

lemma prerequisites_for_mono:
  "prerequisites_for cu L agw ns identity t \<Longrightarrow> set t \<subseteq> set u \<Longrightarrow> prerequisites_for cu L agw ns identity u"
  unfolding prerequisites_for_def using identity_read_mono trust_evidence_mono registered_evidence_mono by blast

lemma prerequisites_mono: "prerequisites cu L agw ns t \<Longrightarrow> set t \<subseteq> set u \<Longrightarrow> prerequisites cu L agw ns u"
  unfolding prerequisites_def using prerequisites_for_mono by blast

lemma gate_evidence_mono: "gate_evidence agw ns t \<Longrightarrow> set t \<subseteq> set u \<Longrightarrow> gate_evidence agw ns u"
  unfolding gate_evidence_def by blast

lemma datapath_evidence_mono: "datapath_evidence agw ns t \<Longrightarrow> set t \<subseteq> set u \<Longrightarrow> datapath_evidence agw ns u"
  unfolding datapath_evidence_def by blast


lemma workloads_evidence_mono:
  "workloads_evidence L agw ns identity t \<Longrightarrow> set t \<subseteq> set u \<Longrightarrow> workloads_evidence L agw ns identity u"
  unfolding workloads_evidence_def using native_done_mono by meson

lemmas evidence_mono = trust_evidence_mono prerequisites_for_mono prerequisites_mono registered_evidence_mono gate_evidence_mono
  datapath_evidence_mono identity_read_mono workloads_evidence_mono

lemma ready_evidence_mono: "ready_evidence cu L agw ns t \<Longrightarrow> set t \<subseteq> set u \<Longrightarrow> ready_evidence cu L agw ns u"
  unfolding ready_evidence_def using evidence_mono by meson

lemma evidence_cong:
  assumes "same_object a b"
  shows "trust_evidence cu a rn certs h t = trust_evidence cu b rn certs h t"
    and "agwGatewayPayload a ident = agwGatewayPayload b ident"
    and "registrationNamespace a = registrationNamespace b"
    and "identity_of L a s ident = identity_of L b s ident"
    and "identitySecretName a = identitySecretName b"
    and "agwReleaseName a = agwReleaseName b" and "ueransimGateName a = ueransimGateName b"
    and "agwNodeSelectorOf a = agwNodeSelectorOf b" and "agwValues ns a ident = agwValues ns b ident"
  using assms
  by (simp_all add: same_object_def trust_evidence_def orc8rNamespace_def orc8rCertSecretName_def agwGatewayPayload_def
      gatewayPayloadJson_def registrationNamespace_def identity_of_def identitySecretName_def agwReleaseName_def
      ueransimGateName_def agwNodeSelectorOf_def agwValues_def fun_eq_iff)

section \<open>Neutral events\<close>

text \<open>Events that no gate is about: not an apply, and no report of Ready.\<close>

definition neutral :: "magmaAGW \<Rightarrow> event \<Rightarrow> bool" where
  "neutral agw e \<longleftrightarrow> \<not> is_apply e \<and>
     (\<forall>x q. e = EvStatusUpdate x q \<longrightarrow> (\<exists>a. x = OAGW a \<and> same_object a agw \<and> \<not> condition_true a ''Ready''))"

lemma gatedD: "gated P E t \<Longrightarrow> t = u @ e # v \<Longrightarrow> P e \<Longrightarrow> E u"
  by (simp add: gated_def)

lemma gated_append:
  assumes "gated P E t" and "list_all (\<lambda>e. \<not> P e) u \<or> E t" and mono: "\<And>x y. E x \<Longrightarrow> E (x @ y)"
  shows "gated P E (t @ u)"
  unfolding gated_def
proof (intro allI impI)
  fix xs e ys assume eq: "t @ u = xs @ e # ys" and e: "P e"
  have at_end: "E (t @ us)" if "u = us @ e # ys" for us
    using that e assms(2) mono by auto
  consider us where "t = xs @ us" "us @ u = e # ys" | us where "xs = t @ us" "u = us @ e # ys"
    using eq by (fastforce simp: append_eq_append_conv2)
  then show "E xs"
  proof cases
    case 1
    then show ?thesis
      using gatedD [OF assms(1) _ e, of xs] at_end [of "[]"] by (cases us) auto
  next
    case 2
    with at_end show ?thesis by simp
  qed
qed

lemma safe_Nil [simp]: "safe cu L agw ns []"
  by (simp add: safe_def apply_gated_def simulator_gated_def ready_gated_def status_only_def gated_def)

lemma safe_extend:
  assumes "safe cu L agw ns t"
    and "list_all (\<lambda>e. \<not> is_apply e) u \<or> prerequisites cu L agw ns t"
    and "list_all (\<lambda>e. \<not> starts_simulator e) u \<or> gate_evidence agw ns t"
    and "list_all (\<lambda>e. \<not> reports_ready e) u \<or> ready_evidence cu L agw ns t"
    and "\<And>x q. EvStatusUpdate x q \<in> set u \<Longrightarrow> \<exists>a. x = OAGW a \<and> same_object a agw"
  shows "safe cu L agw ns (t @ u)"
proof -
  have "apply_gated cu L agw ns (t @ u)" "simulator_gated agw ns (t @ u)" "ready_gated cu L agw ns (t @ u)"
    using assms(1-4) unfolding safe_def apply_gated_def simulator_gated_def ready_gated_def
    by (auto intro!: gated_append elim: prerequisites_mono gate_evidence_mono ready_evidence_mono)
  then show ?thesis using assms(1,5) by (auto simp: safe_def status_only_def)
qed

lemma safe_append:
  assumes "safe cu L agw ns t" and "list_all (neutral agw) u"
  shows "safe cu L agw ns (t @ u)"
proof (rule safe_extend [OF assms(1)])
  show "\<exists>a. x = OAGW a \<and> same_object a agw" if "EvStatusUpdate x q \<in> set u" for x q
    using assms(2) that unfolding neutral_def list_all_iff by blast
qed (use assms(2) in \<open>auto simp: neutral_def list_all_iff is_apply_def starts_simulator_def reports_ready_def\<close>)

lemma neutral_simps [simp]:
  "neutral agw (EvGet k ns n g)" "neutral agw (EvList k ns sel l)" "neutral agw (EvCreate x q)"
  "neutral agw (EvDelete bg x q)" "neutral agw (EvUpdate x q)" "neutral agw (EvCreateOrUpdate x r)"
  by (simp_all add: neutral_def is_apply_def)

lemma neutral_nonwrite: "\<not> is_write e \<Longrightarrow> neutral agw e"
  by (cases e) simp_all

lemma neutral_prep: "prep_event e \<Longrightarrow> neutral agw e"
  by (cases e) (auto simp: prep_event_def prep_write_def neutral_def is_apply_def)

lemma neutral_patch [simp]:
  "neutral agw (EvPatch (ONode nd) p q)" "neutral agw (EvPatch (ODeployment d) p q)" "neutral agw (EvPatch (OAGW a) p q)"
  by (simp_all add: neutral_def is_apply_def)

lemma neutral_validation: "validation_event rn h e \<Longrightarrow> neutral agw e"
  by (cases "is_write e")
    (auto simp: validation_event_def rbac_write_def rollout_write_def annotates_def neutral_nonwrite)

lemma not_ready_stamp:
  assumes "conditions_ok L" and "st \<noteq> ConditionTrue"
  shows "\<not> condition_true (stampAGW L a rn st reason msg) ''Ready''"
  using agw_status.stamp_ready [OF assms(1)] assms(2) by (simp add: condition_true_def)

lemma ready_stamp:
  assumes "conditions_ok L"
  shows "condition_true (stampAGW L a rn ConditionTrue reason msg) ''Ready''"
  using agw_status.stamp_ready [OF assms(1)] by (simp add: condition_true_def)

section \<open>Status reports\<close>

lemma comes_back_simps [simp]:
  "comes_back (requeueAfter n, err) \<longleftrightarrow> err \<noteq> None \<or> 0 < n" "comes_back (noResult, err) \<longleftrightarrow> err \<noteq> None"
  by (auto simp: comes_back_def requeueAfter_def noResult_def)

lemma false_status:
  assumes "conditions_ok L" and "safe cu L agw ns t" and "same_object a agw" and "0 < after"
  shows "spec (updateAGWStatusWithRequeue K L a rn ConditionFalse reason msg after) (safe_post cu L agw ns t)"
  unfolding updateAGWStatusWithRequeue_def
proof (rule spec_bind, rule spec_kStatusUpdate, rule spec_return)
  fix q
  have "neutral agw (EvStatusUpdate (OAGW (stampAGW L a rn ConditionFalse reason msg)) q)"
    using assms(3) not_ready_stamp [OF assms(1)] by (simp add: neutral_def is_apply_def)
  then have "safe cu L agw ns (t @ [EvStatusUpdate (OAGW (stampAGW L a rn ConditionFalse reason msg)) q])"
    using assms(2) by (intro safe_append) simp_all
  then show "safe_post cu L agw ns t
      (case q of Some e \<Rightarrow> if IsConflict e then (requeueAfter 5, None) else (noResult, Some e)
       | None \<Rightarrow> if ConditionFalse = ConditionTrue then (noResult, None) else (requeueAfter after, None))
      ([EvStatusUpdate (OAGW (stampAGW L a rn ConditionFalse reason msg)) q] @ [])"
    using assms(4) by (simp add: safe_post_def split: option.split)
qed

lemma false_status':
  assumes "conditions_ok L" and "safe cu L agw ns t" and "same_object a agw"
  shows "spec (updateAGWStatus K L a rn ConditionFalse reason msg) (safe_post cu L agw ns t)"
  unfolding updateAGWStatus_def by (rule false_status) (use assms in simp_all)

lemma safe_ready:
  assumes "safe cu L agw ns t" and "same_object a agw" and "ready_evidence cu L agw ns t"
  shows "safe cu L agw ns (t @ [EvStatusUpdate (OAGW a) q])"
  by (rule safe_extend [OF assms(1)]) (use assms(2,3) in \<open>auto simp: is_apply_def starts_simulator_def\<close>)

lemma ready_written_last:
  assumes "conditions_ok L"
  shows "ready_written (t @ [EvStatusUpdate (OAGW (stampAGW L a rn ConditionTrue reason msg)) None])"
  unfolding ready_written_def
  by (rule exI [of _ "stampAGW L a rn ConditionTrue reason msg"]) (simp add: ready_stamp [OF assms])

text \<open>Stages compose by prefixing the events of the earlier ones.\<close>

lemma safe_post_assoc: "safe_post cu L agw ns (t @ u) = (\<lambda>r v. safe_post cu L agw ns t r (u @ v))"
  by (simp add: safe_post_def fun_eq_iff)

section \<open>The stages\<close>

lemma stage_validate:
  assumes L: "conditions_ok L" "owner_ok L" and t: "safe cu L agw ns t" "ready_evidence cu L agw ns t" and a: "same_object a agw"
  shows "spec (agwValidate K L a run) (safe_post cu L agw ns t)"
  unfolding agwValidate_def
proof (rule spec_bind, rule spec_weaken [OF spec_reconcileUERANSIMValidation [OF L(2)]], intro spec_prod, unfold Let_def)
  fix r u a1 b1 ready b2 reason b3 msg err
  assume "validation_post L a (run_ReleaseName run) r u" and r: "r = (a1, b1)" "b1 = (ready, b2)" "b2 = (reason, b3)" "b3 = (msg, err)"
  then have "list_all (neutral agw) u" and a1: "same_object a1 agw"
    using a by (auto simp: validation_post_def list_all_iff neutral_validation)
  then have s: "safe cu L agw ns (t @ u)" and ev: "ready_evidence cu L agw ns (t @ u)"
    using t by (auto intro: safe_append ready_evidence_mono)
  have a2: "same_object (stampAGW L (validationCondition L a1 ready reason msg err) rn st rs m) agw" for rn st rs m
    using a1 by (simp add: validationCondition_def)
  note last = safe_ready [OF s a2 ev]
  show "spec (if \<not> ready
      then updateAGWReadyStatusWithRequeue K L (validationCondition L a1 ready reason msg err) (run_ReleaseName run)
        ''NativeResourcesReady'' ''Magma AGW resources are ready'' 15
      else updateAGWStatus K L (validationCondition L a1 ready reason msg err) (run_ReleaseName run) ConditionTrue
        ''NativeResourcesReady'' ''Magma AGW resources are ready'')
      (\<lambda>r v. safe_post cu L agw ns t r (u @ v))"
    unfolding updateAGWReadyStatusWithRequeue_def updateAGWStatus_def updateAGWStatusWithRequeue_def
    by (intro spec_structure spec_rules)
      (use last ready_written_last [OF L(1), of "t @ u"] in \<open>simp_all add: safe_post_def split: option.split\<close>)
qed

lemma stage_labels:
  assumes "conditions_ok L" and "safe cu L agw ns t" and a: "same_object a agw"
  shows "spec (agwDatapathLabels K L a run) (safe_post cu L agw ns t)"
  unfolding agwDatapathLabels_def
proof (rule spec_bind, rule spec_weaken [OF spec_reconcileAGWDatapathLabels], intro spec_prod)
  fix r u ready b msg err
  assume "gate_post (run_Namespace run) (run_NodeSelector run) (as_Datapath (agw_Spec a)) r u"
  then have "neutral agw e" if "e \<in> set u" for e
    using gate_post_writes that by (cases "is_write e") (fastforce simp: adds_label_def drops_label_def neutral_nonwrite)+
  then have s: "safe cu L agw ns (t @ u)" using assms(2) by (intro safe_append) (simp_all add: list_all_iff)
  show "spec (case err of
       Some e \<Rightarrow> updateAGWStatus K L a (run_ReleaseName run) ConditionFalse ''DatapathLabelReconcileFailed'' (err_text e)
     | None \<Rightarrow>
         (if ready
          then updateAGWStatusWithRequeue K L a (run_ReleaseName run) ConditionFalse ''DatapathReady''
                 ''AGW datapath node prep is ready; reconciling AGW workloads'' 5
          else updateAGWStatus K L a (run_ReleaseName run) ConditionFalse ''WaitingForDatapathReady'' msg))
     (\<lambda>r v. safe_post cu L agw ns t r (u @ v))"
    unfolding safe_post_assoc [symmetric]
    by (intro spec_if spec_option false_status false_status' assms s) simp_all
qed

lemma spec_cleanupStaleAGWPods:
  "spec (cleanupStaleAGWPods K ns rn) (confined (\<lambda>e. \<not> is_write e \<or>
     (\<exists>p q. pod_Reason p = ''NodeAffinity'' \<and> e = EvDelete False (OPod p) q)))"
  unfolding cleanupStaleAGWPods_def
  apply (rule spec_bind, rule spec_listAs, rule spec_sum)
  subgoal by (rule spec_return) simp
  by (rule spec_weaken [OF spec_each_confined]) (auto intro!: spec_return spec_deleteIgnoringNotFound)

lemma neutral_annotate:
  assumes "annotate_post incl ann hash ns' sel r u"
  shows "list_all (neutral agw) u"
  unfolding list_all_iff
proof
  fix e assume "e \<in> set u"
  with assms show "neutral agw e"
    by (cases "is_write e") (auto simp: annotate_post_def annotates_def neutral_nonwrite)
qed

text \<open>What the stages after the apply rely on: the Ready evidence, if they can report it.\<close>

definition ready_if :: "bool \<Rightarrow> lib \<Rightarrow> magmaAGW \<Rightarrow> string \<Rightarrow> agwRun \<Rightarrow> string option \<Rightarrow> event list \<Rightarrow> bool" where
  "ready_if cu L agw ns run pending t \<longleftrightarrow>
     ((run_DatapathEnabled run \<longrightarrow> run_DatapathReady run) \<longrightarrow> pending = None \<longrightarrow> ready_evidence cu L agw ns t)"

lemma ready_if_mono: "ready_if cu L agw ns run pending t \<Longrightarrow> set t \<subseteq> set u \<Longrightarrow> ready_if cu L agw ns run pending u"
  unfolding ready_if_def using ready_evidence_mono by blast

lemma stage_rollout:
  assumes L: "conditions_ok L" "owner_ok L" and t: "safe cu L agw ns t" "ready_if cu L agw ns run pending t" and a: "same_object a agw"
  shows "spec (agwRollOut K L a run pending) (safe_post cu L agw ns t)"
  unfolding agwRollOut_def annotateAGWCoreDeploymentsForRootCA_def
proof (rule spec_bind, rule spec_weaken [OF spec_annotateDeploymentsForRootCA])
  fix r u assume "annotate_post agwCoreDeployment rootCAHashAnnotation (ast_TrustBundleHash (agw_Status a))
    (run_Namespace run) (agwSelector (run_ReleaseName run)) r u"
  then have s: "safe cu L agw ns (t @ u)" using t(1) neutral_annotate by (blast intro: safe_append)
  have pods: "spec (cleanupStaleAGWPods K (run_Namespace run) (run_ReleaseName run))
      (\<lambda>r v. safe cu L agw ns ((t @ u) @ v) \<and> ready_if cu L agw ns run pending ((t @ u) @ v))"
    by (rule spec_weaken [OF spec_cleanupStaleAGWPods])
      (intro conjI safe_append [OF s], auto simp: confined_def list_all_iff neutral_nonwrite intro: ready_if_mono [OF t(2)])
  show "spec (case r of
       Some e \<Rightarrow> updateAGWStatus K L a (run_ReleaseName run) ConditionFalse ''RootCARolloutAnnotationFailed'' (err_text e)
     | None \<Rightarrow> do {
         p \<leftarrow> cleanupStaleAGWPods K (run_Namespace run) (run_ReleaseName run);
         case p of
           Some e \<Rightarrow> updateAGWStatus K L a (run_ReleaseName run) ConditionFalse ''StalePodCleanupFailed'' (err_text e)
         | None \<Rightarrow>
             (if run_DatapathEnabled run \<and> \<not> run_DatapathReady run then agwDatapathLabels K L a run
              else (case pending of
                Some gateName \<Rightarrow> updateAGWStatus K L a (run_ReleaseName run) ConditionFalse ''WaitingForUERANSIMGate''
                  (agwGateMessage run gateName)
              | None \<Rightarrow> agwValidate K L a run))
       }) (\<lambda>r v. safe_post cu L agw ns t r (u @ v))"
    unfolding safe_post_assoc [symmetric]
    apply (rule spec_option)
    subgoal
      apply (rule spec_bind, rule spec_weaken [OF pods], unfold safe_post_assoc [symmetric])
      apply (rule spec_option)
      subgoal by (intro spec_if spec_option) (auto intro!: stage_labels stage_validate false_status' L a simp: ready_if_def)
      by (auto intro: false_status' L a)
    by (intro false_status' L a s)
qed

text \<open>The release: applies need the prerequisites, and the filter keeps the simulator out.\<close>

definition base_if ::
    "bool \<Rightarrow> lib \<Rightarrow> magmaAGW \<Rightarrow> string \<Rightarrow> agwRun \<Rightarrow> agwIdentityState \<Rightarrow> string option \<Rightarrow> event list \<Rightarrow> bool" where
  "base_if cu L agw ns run identity pending t \<longleftrightarrow> prerequisites_for cu L agw ns identity t \<and>
     ((run_DatapathEnabled run \<longrightarrow> run_DatapathReady run) \<longrightarrow> datapath_evidence agw ns t) \<and>
     (pending = None \<longrightarrow> as_EnableUERANSIM (agw_Spec agw) \<longrightarrow> gate_evidence agw ns t) \<and>
     run_ReleaseName run = agwReleaseName agw \<and> run_Namespace run = ns"

lemma base_if_ready:
  assumes "base_if cu L agw ns run identity pending t" and "pending = None \<Longrightarrow> workloads_evidence L agw ns identity u"
    and "set t \<subseteq> set u"
  shows "ready_if cu L agw ns run pending u"
  unfolding ready_if_def ready_evidence_def
proof (intro impI conjI exI [of _ identity])
  assume "pending = None" and "run_DatapathEnabled run \<longrightarrow> run_DatapathReady run"
  with assms show "prerequisites_for cu L agw ns identity u" "workloads_evidence L agw ns identity u" "datapath_evidence agw ns u"
    by (auto simp: base_if_def intro: prerequisites_for_mono datapath_evidence_mono)
  assume "as_EnableUERANSIM (agw_Spec agw)"
  with \<open>pending = None\<close> show "gate_evidence agw ns u"
    using assms(1) gate_evidence_mono [OF _ assms(3)] by (simp add: base_if_def)
qed

lemma agwRelease_of:
  assumes "run_ReleaseName run = agwReleaseName agw" and "run_Namespace run = ns"
    and "mget vs ''simulator.enabled'' = stringTrue \<longleftrightarrow> as_EnableUERANSIM (agw_Spec agw)"
  shows "agwRelease run vs = releaseOf agw ns vs"
  using assms by (simp add: agwRelease_def releaseOf_def)

lemma rejected_agwRelease:
  "rejected (agwRelease run vs) x \<longleftrightarrow> mget vs ''simulator.enabled'' \<noteq> stringTrue \<and> simulator_object x"
  by (auto simp: rejected_def agwRelease_def nativeAGWApplyFilter_def simulator_object_def Let_def)

lemma native_event_cases:
  assumes "native_event L owner (agwRelease run vs) x e"
  shows "neutral agw e \<or> (\<exists>m q. e = ev_apply (x\<lparr>u_Meta := m\<rparr>) q \<and> l_SetControllerReference L owner (u_Meta x) = Inr m \<and>
    (simulator_object x \<longrightarrow> mget vs ''simulator.enabled'' = stringTrue))"
  using assms by cases (auto simp: rejected_agwRelease ukey_def)

lemma owner_keeps_name:
  assumes "owner_ok L" and "l_SetControllerReference L owner (u_Meta x) = Inr m"
  shows "simulator_object (x\<lparr>u_Meta := m\<rparr>) = simulator_object x"
proof -
  from assms obtain os where "m = (u_Meta x)\<lparr>m_OwnerReferences := os\<rparr>" unfolding owner_ok_def by blast
  then show ?thesis by (simp add: simulator_object_def)
qed

lemma safe_release:
  assumes L: "owner_ok L" and t: "safe cu L agw ns t" "prerequisites cu L agw ns t"
    and sim: "mget vs ''simulator.enabled'' = stringTrue \<Longrightarrow> gate_evidence agw ns t"
    and u: "\<And>e. e \<in> set u \<Longrightarrow> \<exists>x. native_event L owner (agwRelease run vs) x e"
  shows "safe cu L agw ns (t @ u)"
proof -
  have "\<not> reports_ready e \<and> (starts_simulator e \<longrightarrow> gate_evidence agw ns t)" if "e \<in> set u" for e
    using u [OF that] sim
    by (auto simp: reports_ready_def starts_simulator_def native_event_StatusUpdate native_event_Patch
        rejected_agwRelease owner_keeps_name [OF L])
  moreover have "EvStatusUpdate a q \<notin> set u" for a q
    using u [of "EvStatusUpdate a q"] by (auto simp: native_event_StatusUpdate)
  ultimately show ?thesis by (intro safe_extend [OF t(1)]) (auto simp: t(2) list_all_iff)
qed

lemma stage_apply:
  assumes L: "conditions_ok L" "owner_ok L" and t: "safe cu L agw ns t" "base_if cu L agw ns run identity pending t"
    and sim: "mget vs ''simulator.enabled'' = stringTrue \<Longrightarrow> gate_evidence agw ns t"
    and vals: "release_values agw ns identity vs"
    and on: "pending = None \<Longrightarrow> mget vs ''simulator.enabled'' = stringTrue \<longleftrightarrow> as_EnableUERANSIM (agw_Spec agw)"
    and a: "same_object a agw"
  shows "spec (agwApply K L a run vs pending) (safe_post cu L agw ns t)"
  unfolding agwApply_def Let_def
proof (rule spec_bind, rule spec_weaken [OF spec_reconcileNativeRelease], unfold safe_post_assoc [symmetric])
  fix r u
  let ?a = "removeAGWCondition L a ''UERANSIMReady''"
  assume post: "case nativeReleaseObjects L (agwRelease run vs) of Inl e \<Rightarrow> r = Some e \<and> u = []
    | Inr objects \<Rightarrow> each_post (release_post L (OAGW ?a) (agwRelease run vs)) objects r u"
  have a': "same_object ?a agw" using a by simp
  have s: "safe cu L agw ns (t @ u)"
  proof (rule safe_release [OF L(2) t(1) _ sim])
    show "prerequisites cu L agw ns t" using t(2) by (auto simp: base_if_def prerequisites_def)
    show "\<exists>x. native_event L (OAGW ?a) (agwRelease run vs) x e" if "e \<in> set u" for e
      using post that by (auto split: sum.splits dest: release_post_event)
  qed
  have ready: "ready_if cu L agw ns run pending (t @ u)" if "r = None"
  proof (rule base_if_ready [OF t(2)])
    assume "pending = None"
    then have rel: "agwRelease run vs = releaseOf agw ns vs"
      using t(2) on by (intro agwRelease_of) (simp_all add: base_if_def)
    from post that obtain objects where "nativeReleaseObjects L (releaseOf agw ns vs) = Inr objects"
      and "\<forall>x\<in>set objects. native_done L (OAGW ?a) (releaseOf agw ns vs) x u"
      unfolding rel by (auto split: sum.splits dest: release_post_done)
    with vals a' have "workloads_evidence L agw ns identity u" unfolding workloads_evidence_def by blast
    then show "workloads_evidence L agw ns identity (t @ u)" by (rule workloads_evidence_mono) simp
  qed simp
  show "spec (case r of
      Some e \<Rightarrow> updateAGWStatus K L ?a (run_ReleaseName run) ConditionFalse ''NativeReconcileFailed'' (err_text e)
    | None \<Rightarrow> agwRollOut K L ?a run pending) (safe_post cu L agw ns (t @ u))"
    by (intro spec_option stage_rollout false_status' L s a' ready) simp
qed

text \<open>Up to the start gate: evidence that does not depend on whether the gate is open.\<close>

definition base :: "lib \<Rightarrow> magmaAGW \<Rightarrow> string \<Rightarrow> agwRun \<Rightarrow> agwIdentityState \<Rightarrow> event list \<Rightarrow> bool" where
  "base L agw ns run identity t \<longleftrightarrow> identity_read L agw identity t \<and>
     ((run_DatapathEnabled run \<longrightarrow> run_DatapathReady run) \<longrightarrow> datapath_evidence agw ns t) \<and>
     run_ReleaseName run = agwReleaseName agw \<and> run_Namespace run = ns"

lemma base_mono: "base L agw ns run identity t \<Longrightarrow> set t \<subseteq> set u \<Longrightarrow> base L agw ns run identity u"
  unfolding base_def by (auto intro: identity_read_mono datapath_evidence_mono)

lemma base_base_if:
  assumes "base L agw ns run identity t" and "prerequisites_for cu L agw ns identity t"
    and "pending = None \<Longrightarrow> as_EnableUERANSIM (agw_Spec agw) \<Longrightarrow> gate_evidence agw ns t"
  shows "base_if cu L agw ns run identity pending t"
  using assms by (auto simp: base_def base_if_def)

lemma stage_gate:
  assumes L: "conditions_ok L" "owner_ok L"
    and t: "safe cu L agw ns t" "base L agw ns run identity t" "prerequisites_for cu L agw ns identity t"
    and off: "mget vs ''simulator.enabled'' = stringFalse" and vals: "release_values agw ns identity vs"
    and a: "same_object a agw"
  shows "spec (agwStartGate K L a run vs) (safe_post cu L agw ns t)"
proof -
  from a have sp: "agw_Spec a = agw_Spec agw" by (simp add: same_object_def)
  have rn: "run_ReleaseName run = agwReleaseName agw" "run_Namespace run = ns" using t(2) by (simp_all add: base_def)
  let ?on = "mset_key ''simulator.enabled'' stringTrue vs"
  have vals': "release_values agw ns identity ?on" using vals by (simp add: release_values_def)
  have ap: "spec (agwApply K L a run vs' pending) (safe_post cu L agw ns u)"
    if "safe cu L agw ns u" "set t \<subseteq> set u" "mget vs' ''simulator.enabled'' = stringTrue \<Longrightarrow> gate_evidence agw ns u"
      "pending = None \<Longrightarrow> as_EnableUERANSIM (agw_Spec agw) \<Longrightarrow> gate_evidence agw ns u" "release_values agw ns identity vs'"
      "pending = None \<Longrightarrow> mget vs' ''simulator.enabled'' = stringTrue \<longleftrightarrow> as_EnableUERANSIM (agw_Spec agw)" for vs' pending u
    by (rule stage_apply [OF L that(1) base_base_if [OF base_mono [OF t(2)] prerequisites_for_mono [OF t(3)]] that(3,5,6) a])
      (use that in auto)
  have gate: "gate_evidence agw ns (t @ [EvGet KConfigMap ns (ueransimGateName a (agwReleaseName agw)) g])"
    if "g = Inr (OConfigMap cm)" "equalFold (mget (cm_Data cm) ''ready'') stringTrue" "as_EnableUERANSIM (agw_Spec agw)" for g cm
    using that by (auto simp: gate_evidence_def evidence_cong [OF a])
  show ?thesis
    unfolding agwStartGate_def ueransimStartGateReady_def Let_def sp rn
    apply (rule spec_if)
    subgoal by (rule ap) (use t off vals in auto)
    apply (rule spec_if)
    subgoal by (rule ap) (use t vals' in \<open>auto simp: gate_evidence_def split: if_splits\<close>)
    apply (rule spec_if)
    subgoal
      apply (rule spec_bind, rule spec_bind, rule spec_getAs, rule spec_return, unfold safe_post_assoc [symmetric])
      subgoal for g
        by (cases "as_typed to_configMap g")
          (auto intro!: false_status' L a safe_append [OF t(1)] ap gate vals vals' simp: off as_typed_Inr)
      done
    by (rule false_status' [OF L(1) t(1) a])
qed

lemma stage_register:
  assumes L: "conditions_ok L" "owner_ok L" and t: "safe cu L agw ns t" "base L agw ns run identity t"
    and trust: "trust_evidence cu agw (agwReleaseName agw)
      (agwCertSecretName (agwReleaseName agw) (agwValues ns agw identity)) h t"
    and off: "mget vs ''simulator.enabled'' = stringFalse" and vals: "release_values agw ns identity vs" and a: "same_object a agw"
  shows "spec (agwRegister K L a run identity vs) (safe_post cu L agw ns t)"
  unfolding agwRegister_def Let_def
proof (rule spec_bind, rule spec_weaken [OF spec_reconcileAGWGatewayRegistration], unfold safe_post_assoc [symmetric],
    intro spec_prod)
  fix r u registered b reason err
  assume post: "registration_post a identity r u" and r: "r = (registered, b)" "b = (reason, err)"
  from a have sp: "agw_Spec a = agw_Spec agw" "agw_Meta a = agw_Meta agw" by (simp_all add: same_object_def)
  have "neutral agw e" if "e \<in> set u" for e
    using post that by (cases "is_write e") (auto simp: registration_post_def neutral_nonwrite)
  then have s: "safe cu L agw ns (t @ u)" using t(1) by (intro safe_append) (simp_all add: list_all_iff)
  have b: "base L agw ns run identity (t @ u)" by (rule base_mono [OF t(2)]) simp
  have pre: "prerequisites_for cu L agw ns identity (t @ u)"
    if "registered \<or> \<not> gatewayRegistrationEnabled (as_GatewayRegistration (agw_Spec agw))"
    unfolding prerequisites_for_def
  proof (intro conjI exI)
    show "identity_read L agw identity (t @ u)" using b by (simp add: base_def)
    show "trust_evidence cu agw (agwReleaseName agw) (agwCertSecretName (agwReleaseName agw) (agwValues ns agw identity)) h (t @ u)"
      by (rule trust_evidence_mono [OF trust]) simp
    show "registered_evidence agw identity (t @ u)"
      using post that by (auto simp: registration_post_def registered_evidence_def r evidence_cong [OF a] sp)
  qed
  show "spec (case err of
       Some e \<Rightarrow> updateAGWStatus K L (setAGWCondition L a ''GatewayRegistered'' ConditionFalse reason (err_text e))
                   (run_ReleaseName run) ConditionFalse reason (err_text e)
     | None \<Rightarrow>
          if \<not> registered \<and> gatewayRegistrationEnabled (as_GatewayRegistration (agw_Spec a))
          then updateAGWStatusWithRequeue K L
                 (setAGWCondition L (updateAGWStatusDetails a (identity\<lparr>ids_GatewayRegistered := registered\<rparr>))
                   ''GatewayRegistered'' ConditionFalse reason ''waiting for AGW identity registration in Orc8r/NMS'')
                 (run_ReleaseName run) ConditionFalse reason ''waiting for AGW identity registration in Orc8r/NMS'' 20
          else agwStartGate K L
                 (if registered
                  then setAGWCondition L (updateAGWStatusDetails a (identity\<lparr>ids_GatewayRegistered := registered\<rparr>))
                         ''GatewayRegistered'' ConditionTrue ''GatewayRegistered'' ''AGW is registered in Orc8r/NMS''
                  else setAGWCondition L (updateAGWStatusDetails a (identity\<lparr>ids_GatewayRegistered := registered\<rparr>))
                         ''GatewayRegistered'' ConditionFalse ''GatewayRegistrationDisabled''
                         ''AGW gateway registration is disabled'')
                 run vs) (safe_post cu L agw ns (t @ u))"
    using a pre by (intro spec_option spec_if false_status false_status' stage_gate [where identity = identity and L = L] L s b off vals) (auto simp: sp)
qed

lemma agwValues_simulator: "mget (agwValues ns agw identity) ''simulator.enabled'' = stringFalse"
  by (simp add: agwValues_def Let_def)

lemma stage_prerequisites:
  assumes L: "conditions_ok L" "owner_ok L" and cu: "cu \<longrightarrow> createOrUpdate_ok K"
    and t: "safe cu L agw ns t" "base L agw ns run identity t" and a: "same_object a agw"
  shows "spec (agwPrerequisites K L a run identity (agwValues ns agw identity)) (safe_post cu L agw ns t)"
  unfolding agwPrerequisites_def
  apply (rule spec_bind, rule spec_weaken [OF spec_reconcileAGWLifecyclePrereqs [OF cu]], unfold safe_post_assoc [symmetric],
    intro spec_prod, unfold Let_def)
  subgoal premises prems for r u b vs1 lifecycle b1 ready b2 reason b3 message err
  proof -
    have s: "safe cu L agw ns (t @ u)"
      using prems(1) t(1) by (intro safe_append) (auto simp: prems(2-) list_all_iff neutral_prep)
    have b: "base L agw ns run identity (t @ u)" by (rule base_mono [OF t(2)]) simp
    have rn: "run_ReleaseName run = agwReleaseName agw" using t(2) by (simp add: base_def)
    have tr: "trust_evidence cu agw (agwReleaseName agw) (agwCertSecretName (agwReleaseName agw) (agwValues ns agw identity))
        (ls_TrustBundleHash lifecycle) (t @ u)" if "\<not> err \<noteq> None" "\<not> \<not> ready"
      using prems(1) that by (auto simp: prems(2-) rn evidence_cong [OF a] intro: trust_evidence_prefix)
    have off: "mget vs1 ''simulator.enabled'' = stringFalse" using prems(1) by (simp add: prems(2-) agwValues_simulator)
    have vals: "release_values agw ns identity vs1" using prems(1) by (simp add: prems(2-) release_values_def)
    show ?thesis using a
      by (intro spec_if false_status false_status' stage_register [OF L s b tr off vals] L s) simp_all
  qed
  done

lemma stage_datapath:
  assumes L: "conditions_ok L" "owner_ok L" and cu: "cu \<longrightarrow> createOrUpdate_ok K"
    and t: "safe cu L agw ns t" "identity_read L agw identity t" and a: "same_object a agw"
  shows "spec (agwDatapath K L ns a (agwReleaseName agw) identity) (safe_post cu L agw ns t)"
proof -
  from a have sp: "agw_Spec a = agw_Spec agw" by (simp add: same_object_def)
  define run where "run ready = \<lparr>run_Namespace = ns, run_ReleaseName = agwReleaseName agw,
    run_NodeSelector = agwNodeSelectorOf agw, run_DatapathEnabled = datapathGateEnabled (as_Datapath (agw_Spec agw)),
    run_DatapathReady = ready\<rparr>" for ready
  have b: "base L agw ns (run ready) identity u" if "set t \<subseteq> set u"
    "datapathGateEnabled (as_Datapath (agw_Spec agw)) \<Longrightarrow> ready \<Longrightarrow> datapath_evidence agw ns u" for ready u
    using identity_read_mono [OF t(2) that(1)] that(2)
    by (cases "datapathGateEnabled (as_Datapath (agw_Spec agw))") (auto simp: base_def run_def datapath_evidence_def)
  show ?thesis
    unfolding agwDatapath_def Let_def sp evidence_cong(8,9) [OF a] run_def [symmetric]
    apply (rule spec_if)
    subgoal by (rule stage_prerequisites [OF L cu t(1) b a]) simp_all
    apply (rule spec_if)
    subgoal by (rule false_status' [OF L(1) t(1) a])
    apply (rule spec_bind, rule spec_weaken [OF spec_agwDatapathNodesReady], unfold safe_post_assoc [symmetric],
      intro spec_prod spec_option)
    subgoal premises prems for r u ready err
    proof -
      have s: "safe cu L agw ns (t @ u)"
        using prems t(1) by (intro safe_append) (auto simp: list_all_iff neutral_nonwrite)
      have "datapath_evidence agw ns (t @ u)" if ready
        using prems that unfolding datapath_evidence_def by fastforce
      then have "base L agw ns (run ready) identity (t @ u)" by (intro b) auto
      with s show ?thesis using a by (intro stage_prerequisites L cu) simp_all
    qed
    subgoal premises prems for r u ready err e
      using prems t(1) a
      by (intro false_status' [OF L(1)] safe_append) (auto simp: list_all_iff neutral_nonwrite)
    done
qed

lemma stage_present:
  assumes L: "conditions_ok L" "owner_ok L" and cu: "cu \<longrightarrow> createOrUpdate_ok K" and t: "safe cu L agw ns t"
  shows "spec (agwReconcilePresent K L rnd ns agw (agwReleaseName agw)) (safe_post cu L agw ns t)"
  unfolding agwReconcilePresent_def
  apply (rule spec_bind, rule spec_weaken [OF spec_reconcileAGWIdentity], unfold safe_post_assoc [symmetric])
  subgoal premises prems for r u
  proof -
    have "neutral agw e" if "e \<in> set u" for e
      using prems that by (cases "is_write e") (auto simp: identity_post_def identity_write_def neutral_nonwrite)
    then have s: "safe cu L agw ns (t @ u)" using t by (intro safe_append) (simp_all add: list_all_iff)
    have "identity_read L agw identity (t @ u)" if "r = Inr identity" for identity
      using prems that by (fastforce simp: identity_post_def identity_read_def)
    with s show ?thesis by (intro spec_sum false_status' stage_datapath L cu) simp_all
  qed
  done

section \<open>The whole reconcile\<close>

abbreviation ev_agw :: "string \<Rightarrow> string \<Rightarrow> magmaAGW \<Rightarrow> event" where
  "ev_agw ns name agw \<equiv> EvGet KAGW ns name (Inr (OAGW agw))"

abbreviation ev_finalizer :: "lib \<Rightarrow> magmaAGW \<Rightarrow> error option \<Rightarrow> event" where
  "ev_finalizer L agw q \<equiv> EvPatch (OAGW (addAGWFinalizer L agw)) (MergeFrom (OAGW agw)) q"

definition reconcile_post :: "bool \<Rightarrow> lib \<Rightarrow> string \<Rightarrow> string \<Rightarrow> ctrlResult \<times> error option \<Rightarrow> event list \<Rightarrow> bool" where
  "reconcile_post cu L ns name r t \<longleftrightarrow> (\<exists>g u. t = EvGet KAGW ns name g # u \<and>
     (\<forall>agw. g = Inr (OAGW agw) \<longrightarrow> status_only agw t) \<and>
     (\<forall>agw. g = Inr (OAGW agw) \<longrightarrow> m_DeletionTimestamp (agw_Meta agw) = None \<longrightarrow>
        safe cu L agw ns t \<and> (comes_back r \<or> ready_written t) \<and>
        (\<not> l_ContainsFinalizer L (m_Finalizers (agw_Meta agw)) magmaAGWFinalizer \<longrightarrow> (\<exists>q. u = [ev_finalizer L agw q]))) \<and>
     ((\<nexists>agw. g = Inr (OAGW agw)) \<longrightarrow> u = []))"

lemma status_only_Get [simp]: "status_only agw (EvGet k ns n g # t) \<longleftrightarrow> status_only agw t"
  by (simp add: status_only_def)

lemma safe_status_only: "safe cu L agw ns (EvGet k m n g # t) \<Longrightarrow> status_only agw t"
  by (simp add: safe_def)

lemma deletion_status_only:
  assumes "deletion_post L agw rn r t"
  shows "status_only agw t"
  unfolding status_only_def
proof (intro allI impI)
  fix x q assume "EvStatusUpdate x q \<in> set t"
  from deletion_cases(2) [OF assms this] show "\<exists>a. x = OAGW a \<and> same_object a agw"
    by (auto simp: deletion_event_def manifest_deletion_def durable_event_def drops_label_def)
qed

lemma spec_ReconcileAGW:
  assumes L: "conditions_ok L" "owner_ok L" and cu: "cu \<longrightarrow> createOrUpdate_ok K"
  shows "spec (ReconcileAGW K L rnd ns name) (reconcile_post cu L ns name)"
  unfolding ReconcileAGW_def Let_def
  apply (rule spec_bind, rule spec_getAs, rule spec_sum)
  subgoal by (rule spec_return) (auto simp: reconcile_post_def as_typed_def split: sum.splits option.splits)
  apply (rule spec_if)
  subgoal
    by (rule spec_weaken [OF spec_reconcileAGWDeletion])
      (auto simp: reconcile_post_def as_typed_Inr dest: deletion_status_only)
  apply (rule spec_if)
  subgoal
    by (rule spec_bind, rule spec_kPatch, rule spec_return)
      (auto simp: reconcile_post_def as_typed_Inr comes_back_def status_only_def split: option.split
        intro!: safe_append [of cu L _ ns "[]", simplified])
  subgoal for g agw
    by (rule spec_weaken [OF stage_present [OF L cu, of agw ns "[EvGet KAGW ns name g]"]])
      (auto simp: reconcile_post_def safe_post_def as_typed_Inr dest: safe_status_only
        intro!: safe_append [of cu L _ ns "[]", simplified])
  done

end
