(* ===== verification/Orc8r_Certs.thy ===== *)
theory Orc8r_Certs
  imports AGW_Lifecycle
begin

text \<open>
  The certificate Secret of an Orc8r deployment (\<^verbatim>\<open>orc8r_certs.go\<close>). Key generation, signing
  and the X.509 and PKCS 1 codecs are the record \<open>pki\<close>; what is drawn or read from the clock
  at a call site is indexed by the site (0 to 5: root, certifier, vpn, controller, admin,
  fluentd). Times are civil UTC dates with the second of the day.
\<close>

abbreviation orc8rCertDomainAnnotation :: string where "orc8rCertDomainAnnotation \<equiv> ''magma.infra.don/orc8r-cert-domain''"
abbreviation orc8rCertHashAnnotation :: string where "orc8rCertHashAnnotation \<equiv> ''magma.infra.don/orc8r-cert-hash''"

section \<open>Times\<close>

record time =
  t_Year :: nat
  t_Month :: nat
  t_Day :: nat
  t_Second :: nat

definition leap :: "nat \<Rightarrow> bool" where
  "leap y \<longleftrightarrow> 4 dvd y \<and> (\<not> 100 dvd y \<or> 400 dvd y)"

definition daysIn :: "nat \<Rightarrow> nat \<Rightarrow> nat" where
  "daysIn y m = (if m = 2 then (if leap y then 29 else 28) else if m \<in> {4, 6, 9, 11} then 30 else 31)"

definition prevDay :: "time \<Rightarrow> time" where
  "prevDay t =
     (if 1 < t_Day t then t\<lparr>t_Day := t_Day t - 1\<rparr>
      else if 1 < t_Month t then t\<lparr>t_Month := t_Month t - 1, t_Day := daysIn (t_Year t) (t_Month t - 1)\<rparr>
      else t\<lparr>t_Year := t_Year t - 1, t_Month := 12, t_Day := 31\<rparr>)"

text \<open>\<^verbatim>\<open>Add(-1 * time.Hour)\<close> and \<^verbatim>\<open>AddDate(years, 0, 0)\<close>, which normalises 29 February.\<close>

definition minusHour :: "time \<Rightarrow> time" where
  "minusHour t = (if 3600 \<le> t_Second t then t\<lparr>t_Second := t_Second t - 3600\<rparr>
     else (prevDay t)\<lparr>t_Second := t_Second t + 82800\<rparr>)"

definition addYears :: "nat \<Rightarrow> time \<Rightarrow> time" where
  "addYears n t =
     (let y = t_Year t + n in
      if t_Month t = 2 \<and> t_Day t = 29 \<and> \<not> leap y then t\<lparr>t_Year := y, t_Month := 3, t_Day := 1\<rparr>
      else t\<lparr>t_Year := y\<rparr>)"

section \<open>Certificates\<close>

record rsaKey =
  rsa_D :: nat
  rsa_N :: nat

datatype keyUsage = DigitalSignature | KeyEncipherment | CertSign
datatype extKeyUsage = ServerAuth | ClientAuth

record certTemplate =
  tpl_SerialNumber :: nat
  tpl_CommonName :: string
  tpl_NotBefore :: time
  tpl_NotAfter :: time
  tpl_DNSNames :: "string list"
  tpl_KeyUsage :: "keyUsage list"
  tpl_ExtKeyUsage :: "extKeyUsage list"
  tpl_IsCA :: bool
  tpl_BasicConstraintsValid :: bool

text \<open>A parsed certificate: its fields and the raw bytes.\<close>

record certificate =
  cert_Template :: certTemplate
  cert_Raw :: bytes

record pki =
  pki_GenerateKey :: "nat \<Rightarrow> error + rsaKey"
  pki_Serial :: "nat \<Rightarrow> error + nat"
  pki_Now :: "nat \<Rightarrow> time"
  pki_CreateCertificate :: "nat \<Rightarrow> certTemplate \<Rightarrow> certTemplate \<Rightarrow> nat \<Rightarrow> rsaKey \<Rightarrow> error + bytes"
  pki_ParseCertificate :: "bytes \<Rightarrow> error + certificate"
  pki_MarshalPKCS1PrivateKey :: "rsaKey \<Rightarrow> bytes"

definition certTemplateFor :: "nat \<Rightarrow> time \<Rightarrow> string \<Rightarrow> string list \<Rightarrow> bool \<Rightarrow> certTemplate" where
  "certTemplateFor serial clock commonName sans isCA =
     (let now = minusHour clock in \<lparr>
        tpl_SerialNumber = serial,
        tpl_CommonName = commonName,
        tpl_NotBefore = now,
        tpl_NotAfter = addYears 10 now,
        tpl_DNSNames = sans,
        tpl_KeyUsage = [DigitalSignature, KeyEncipherment] @ (if isCA then [CertSign] else []),
        tpl_ExtKeyUsage = [ServerAuth, ClientAuth],
        tpl_IsCA = isCA,
        tpl_BasicConstraintsValid = isCA\<rparr>)"

text \<open>The public key of an RSA key is its modulus; \<open>ca\<close> is \<^const>\<open>None\<close> for a self-signed one.\<close>

definition createCertificate ::
    "pki \<Rightarrow> nat \<Rightarrow> string \<Rightarrow> string list \<Rightarrow> certificate option \<Rightarrow> nat \<Rightarrow> rsaKey \<Rightarrow> bool \<Rightarrow> error + certificate" where
  "createCertificate P site commonName sans ca publicKey signer isCA = (case pki_Serial P site of
     Inl e \<Rightarrow> Inl e
   | Inr serial \<Rightarrow>
       (let template = certTemplateFor serial (pki_Now P site) commonName sans isCA;
            parent = (case ca of None \<Rightarrow> template | Some c \<Rightarrow> cert_Template c) in
        case pki_CreateCertificate P site template parent publicKey signer of
          Inl e \<Rightarrow> Inl (wrapError (''create certificate '' @ commonName @ '': '') e)
        | Inr raw \<Rightarrow> pki_ParseCertificate P raw))"

definition signedCert ::
    "pki \<Rightarrow> nat \<Rightarrow> string \<Rightarrow> string list \<Rightarrow> certificate \<Rightarrow> rsaKey \<Rightarrow> error + rsaKey \<times> certificate" where
  "signedCert P site commonName sans ca caKey = (case pki_GenerateKey P site of
     Inl e \<Rightarrow> Inl e
   | Inr key \<Rightarrow> (case createCertificate P site commonName sans (Some ca) (rsa_N key) caKey False of
       Inl e \<Rightarrow> Inl e
     | Inr cert \<Rightarrow> Inr (key, cert)))"

definition controllerSANs :: "string \<Rightarrow> string \<Rightarrow> string list" where
  "controllerSANs domainName controllerHostname = [controllerHostname, ''controller.'' @ domainName,
     ''api.'' @ domainName, ''*.nms.'' @ domainName, ''bootstrapper-controller.'' @ domainName]"

definition pemCert :: "lib \<Rightarrow> bytes \<Rightarrow> bytes" where
  "pemCert L raw = l_PemEncode L ''CERTIFICATE'' raw"

definition pemKey :: "lib \<Rightarrow> pki \<Rightarrow> rsaKey \<Rightarrow> bytes" where
  "pemKey L P key = l_PemEncode L ''RSA PRIVATE KEY'' (pki_MarshalPKCS1PrivateKey P key)"

text \<open>Errors propagate: the first error is returned.\<close>

definition andThen :: "error + 'a \<Rightarrow> ('a \<Rightarrow> error + 'b) \<Rightarrow> error + 'b" where
  "andThen r f = (case r of Inl e \<Rightarrow> Inl e | Inr x \<Rightarrow> f x)"

definition generateOrc8rCertSecretData ::
    "lib \<Rightarrow> pki \<Rightarrow> string \<Rightarrow> string \<Rightarrow> error + (string \<times> bytes) list \<times> string" where
  "generateOrc8rCertSecretData L P domainName controllerHostname =
     andThen (pki_GenerateKey P 0) (\<lambda>rootKey.
     andThen (pki_GenerateKey P 1) (\<lambda>certifierKey.
     andThen (pki_GenerateKey P 2) (\<lambda>vpnKey.
     andThen (createCertificate P 0 (''rootca.'' @ domainName) [] None (rsa_N rootKey) rootKey True) (\<lambda>rootCert.
     andThen (createCertificate P 1 (''certifier.'' @ domainName) [] None (rsa_N certifierKey) certifierKey True) (\<lambda>certifierCert.
     andThen (createCertificate P 2 (''vpnca.'' @ domainName) [] None (rsa_N vpnKey) vpnKey True) (\<lambda>vpnCert.
     andThen (signedCert P 3 (''controller.'' @ domainName) (controllerSANs domainName controllerHostname) rootCert rootKey)
       (\<lambda>(controllerKey, controllerCert).
     andThen (signedCert P 4 ''admin_operator'' [] certifierCert certifierKey) (\<lambda>(adminKey, adminCert).
     andThen (signedCert P 5 (''fluentd.'' @ domainName) [''fluentd'', ''fluentd.'' @ domainName] certifierCert certifierKey)
       (\<lambda>(fluentdKey, fluentdCert).
     let rootPem = pemCert L (cert_Raw rootCert) in
     Inr ([(rootCASecretKey, rootPem),
           (''controller.crt'', pemCert L (cert_Raw controllerCert)),
           (''controller.key'', pemKey L P controllerKey),
           (adminOperatorCertKey, pemCert L (cert_Raw adminCert)),
           (adminOperatorKeyKey, pemKey L P adminKey),
           (''certifier.pem'', pemCert L (cert_Raw certifierCert)),
           (''certifier.key'', pemKey L P certifierKey),
           (''vpn_ca.crt'', pemCert L (cert_Raw vpnCert)),
           (''vpn_ca.key'', pemKey L P vpnKey),
           (''fluentd.pem'', pemCert L (cert_Raw fluentdCert)),
           (''fluentd.key'', pemKey L P fluentdKey),
           (''bootstrapper.key'', pemKey L P rootKey)],
          sha256Hex (domainName @ ''|'' @ controllerHostname @ rootPem)))))))))))"

section \<open>The Secret\<close>

definition orc8rDomain :: "magmaOrc8r \<Rightarrow> string" where
  "orc8rDomain orc8r = orDefault (os_DomainName (orc8r_Spec orc8r)) ''magma.local''"

definition orc8rController :: "magmaOrc8r \<Rightarrow> string" where
  "orc8rController orc8r = orDefault (os_ControllerHostname (orc8r_Spec orc8r)) (''controller.'' @ orc8rDomain orc8r)"

definition orc8rDomainKey :: "magmaOrc8r \<Rightarrow> string" where
  "orc8rDomainKey orc8r = orc8rDomain orc8r @ ''|'' @ orc8rController orc8r"

definition mutateOrc8rCertSecret ::
    "lib \<Rightarrow> magmaOrc8r \<Rightarrow> (string \<times> bytes) list \<Rightarrow> string \<Rightarrow> secret \<Rightarrow> error + secret" where
  "mutateOrc8rCertSecret L orc8r data' hash secret =
     (let m = (sec_Meta secret)\<lparr>
            m_Labels := mset_key labelAppManagedBy managedByMagmaOperator (m_Labels (sec_Meta secret)),
            m_Annotations := mset_key orc8rCertHashAnnotation hash
              (mset_key orc8rCertDomainAnnotation (orc8rDomainKey orc8r) (m_Annotations (sec_Meta secret)))\<rparr> in
      case l_SetControllerReference L (OOrc8r orc8r) m of
        Inl e \<Rightarrow> Inl e
      | Inr m' \<Rightarrow> Inr (secret\<lparr>sec_Type := ''Opaque'', sec_Data := data', sec_Meta := m'\<rparr>))"

text \<open>A Secret that was made for this domain and holds a root CA is left alone.\<close>

definition certSecretCurrent :: "magmaOrc8r \<Rightarrow> secret \<Rightarrow> bool" where
  "certSecretCurrent orc8r secret \<longleftrightarrow>
     mget (m_Annotations (sec_Meta secret)) orc8rCertDomainAnnotation = orc8rDomainKey orc8r \<and>
     mget (sec_Data secret) rootCASecretKey \<noteq> []"

definition reconcileOrc8rCertSecret :: "'w client \<Rightarrow> lib \<Rightarrow> pki \<Rightarrow> magmaOrc8r \<Rightarrow> ('w, error + string) kio" where
  "reconcileOrc8rCertSecret K L P orc8r =
     (let ns = m_Namespace (orc8r_Meta orc8r); empty = newSecret ns defaultNMSAdminCertSecretName in do {
        g \<leftarrow> getSecret K ns defaultNMSAdminCertSecretName;
        case (case g of Inl e \<Rightarrow> (if IsNotFound e then Inr empty else Inl e) | Inr s \<Rightarrow> Inr s) of
          Inl e \<Rightarrow> return (Inl e)
        | Inr secret \<Rightarrow>
            (if certSecretCurrent orc8r secret
             then return (Inr (mget (m_Annotations (sec_Meta secret)) orc8rCertHashAnnotation))
             else (case generateOrc8rCertSecretData L P (orc8rDomain orc8r) (orc8rController orc8r) of
               Inl e \<Rightarrow> return (Inl e)
             | Inr (data', hash) \<Rightarrow> do {
                 c \<leftarrow> kCreateOrUpdate K (OSecret secret) (on_secret (mutateOrc8rCertSecret L orc8r data' hash));
                 return (case c of Inl e \<Rightarrow> Inl e | Inr _ \<Rightarrow> Inr hash)
               }))
      })"

section \<open>Behaviour\<close>

lemma andThen_Inr: "andThen r f = Inr y \<longleftrightarrow> (\<exists>x. r = Inr x \<and> f x = Inr y)"
  by (auto simp: andThen_def split: sum.splits)

definition orc8rCertKeys :: "string list" where
  "orc8rCertKeys = [rootCASecretKey, ''controller.crt'', ''controller.key'', adminOperatorCertKey, adminOperatorKeyKey,
     ''certifier.pem'', ''certifier.key'', ''vpn_ca.crt'', ''vpn_ca.key'', ''fluentd.pem'', ''fluentd.key'', ''bootstrapper.key'']"

lemma generate_keys:
  assumes "generateOrc8rCertSecretData L P d c = Inr (data', hash)"
  shows "map fst data' = orc8rCertKeys" and "hash = sha256Hex (d @ ''|'' @ c @ mget data' rootCASecretKey)"
    and "codecs_ok L \<Longrightarrow> mget data' rootCASecretKey \<noteq> []"
  using assms
  by (auto simp: generateOrc8rCertSecretData_def andThen_Inr orc8rCertKeys_def Let_def mget_def pemCert_def codecs_ok_def)

lemma mutate_current:
  assumes "owner_ok L" and "codecs_ok L"
    and "generateOrc8rCertSecretData L P (orc8rDomain orc8r) (orc8rController orc8r) = Inr (data', hash)"
    and "mutateOrc8rCertSecret L orc8r data' hash s = Inr s'"
  shows "certSecretCurrent orc8r s'" and "mget (m_Annotations (sec_Meta s')) orc8rCertHashAnnotation = hash"
    and "sec_Data s' = data'"
proof -
  let ?m = "(sec_Meta s)\<lparr>
            m_Labels := mset_key labelAppManagedBy managedByMagmaOperator (m_Labels (sec_Meta s)),
            m_Annotations := mset_key orc8rCertHashAnnotation hash
              (mset_key orc8rCertDomainAnnotation (orc8rDomainKey orc8r) (m_Annotations (sec_Meta s)))\<rparr>"
  from assms(4) obtain m' where m': "l_SetControllerReference L (OOrc8r orc8r) ?m = Inr m'"
    and s': "s' = s\<lparr>sec_Type := ''Opaque'', sec_Data := data', sec_Meta := m'\<rparr>"
    by (auto simp: mutateOrc8rCertSecret_def Let_def split: sum.splits)
  from m' assms(1) obtain os where "m' = ?m\<lparr>m_OwnerReferences := os\<rparr>" unfolding owner_ok_def by blast
  with s' generate_keys(3) [OF assms(3,2)]
  show "certSecretCurrent orc8r s'" and "mget (m_Annotations (sec_Meta s')) orc8rCertHashAnnotation = hash"
    and "sec_Data s' = data'"
    by (simp_all add: certSecretCurrent_def)
qed

text \<open>
  A certificate Secret made for the domain and the controller of an Orc8r, in full: its annotation
  names them, with the defaults of the CRD where the fields are empty, and it holds a root CA.
\<close>

definition made_for :: "magmaOrc8r \<Rightarrow> secret \<Rightarrow> bool" where
  "made_for orc8r s \<longleftrightarrow>
     (let domain = (if os_DomainName (orc8r_Spec orc8r) = [] then ''magma.local'' else os_DomainName (orc8r_Spec orc8r));
          controller = (if os_ControllerHostname (orc8r_Spec orc8r) = [] then ''controller.'' @ domain
            else os_ControllerHostname (orc8r_Spec orc8r)) in
      map_of (m_Annotations (sec_Meta s)) ''magma.infra.don/orc8r-cert-domain'' = Some (domain @ ''|'' @ controller)) \<and>
     (\<exists>rootCA. map_of (sec_Data s) ''rootCA.pem'' = Some rootCA \<and> rootCA \<noteq> [])"

lemma mget_Some: "mget m k = v \<Longrightarrow> v \<noteq> [] \<Longrightarrow> map_of m k = Some v"
  by (auto simp: mget_def split: option.splits)

lemma certSecretCurrent_made_for: "certSecretCurrent orc8r s \<longleftrightarrow> made_for orc8r s"
  unfolding certSecretCurrent_def made_for_def orc8rDomainKey_def orc8rController_def orc8rDomain_def orDefault_def Let_def
  by (auto simp: mget_def split: option.splits)

text \<open>The Secret that a certified Orc8r has: read at its name, or written there.\<close>

definition cert_secret_seen :: "magmaOrc8r \<Rightarrow> secret \<Rightarrow> event list \<Rightarrow> bool" where
  "cert_secret_seen orc8r s t \<longleftrightarrow>
     EvGet KSecret (m_Namespace (orc8r_Meta orc8r)) defaultNMSAdminCertSecretName (Inr (OSecret s)) \<in> set t \<or>
     (\<exists>x. EvCreateOrUpdate (OSecret x) (Inr (OSecret s)) \<in> set t \<and>
        (x = newSecret (m_Namespace (orc8r_Meta orc8r)) defaultNMSAdminCertSecretName \<or>
         EvGet KSecret (m_Namespace (orc8r_Meta orc8r)) defaultNMSAdminCertSecretName (Inr (OSecret x)) \<in> set t))"

definition cert_secret_post ::
    "lib \<Rightarrow> pki \<Rightarrow> magmaOrc8r \<Rightarrow> error + string \<Rightarrow> event list \<Rightarrow> bool" where
  "cert_secret_post L P orc8r r t \<longleftrightarrow> (\<exists>g u. t = EvGet KSecret (m_Namespace (orc8r_Meta orc8r)) defaultNMSAdminCertSecretName g # u \<and>
     (u = [] \<or> (\<exists>x q. u = [EvCreateOrUpdate (OSecret x) q])) \<and>
     (\<forall>s. g = Inr (OSecret s) \<longrightarrow> made_for orc8r s \<longrightarrow> u = [] \<and>
        r = Inr (mget (m_Annotations (sec_Meta s)) orc8rCertHashAnnotation))) \<and>
     (\<forall>h. r = Inr h \<longrightarrow> (\<exists>s. made_for orc8r s \<and> mget (m_Annotations (sec_Meta s)) orc8rCertHashAnnotation = h \<and>
        cert_secret_seen orc8r s t))"

lemma newSecret_not_current: "\<not> certSecretCurrent orc8r (newSecret ns n)"
  by (simp add: certSecretCurrent_def newSecret_def)

lemma newSecret_not_made: "\<not> made_for orc8r (newSecret ns n)"
  by (simp add: made_for_def newSecret_def)

lemma spec_reconcileOrc8rCertSecret:
  assumes "owner_ok L" and "codecs_ok L" and "createOrUpdate_ok K"
  shows "spec (reconcileOrc8rCertSecret K L P orc8r) (cert_secret_post L P orc8r)"
  unfolding reconcileOrc8rCertSecret_def Let_def certSecretCurrent_made_for
  apply (rule spec_bind, rule spec_getAs, rule spec_sum)
  subgoal by (rule spec_return) (auto simp: cert_secret_post_def split: sum.splits if_splits option.splits)
  apply (rule spec_if)
  subgoal by (rule spec_return)
      (auto simp: cert_secret_post_def cert_secret_seen_def as_typed_Inr newSecret_not_made split: sum.splits if_splits)
  apply (rule spec_sum)
  subgoal by (rule spec_return) (auto simp: cert_secret_post_def as_typed_Inr split: sum.splits if_splits)
  apply (rule spec_prod, rule spec_bind, rule spec_kCreateOrUpdate_ok [OF assms(3)]; rule spec_return)
  subgoal by (auto simp: cert_secret_post_def as_typed_Inr split: sum.splits if_splits)
  subgoal premises prems for r secret gen data' hash cur y
  proof -
    let ?ns = "m_Namespace (orc8r_Meta orc8r)"
    from prems(5,6) obtain s s' where "cur = OSecret s" and y: "y = OSecret s'"
      and m: "mutateOrc8rCertSecret L orc8r data' hash s = Inr s'"
      by (cases "to_secret cur"; cases "mutateOrc8rCertSecret L orc8r data' hash (the (to_secret cur))")
        (auto simp: on_secret_def)
    with mutate_current [OF assms(1,2) _ m] prems have "made_for orc8r s'"
      and "mget (m_Annotations (sec_Meta s')) orc8rCertHashAnnotation = hash" by (simp_all add: certSecretCurrent_made_for)
    moreover have "\<not> made_for orc8r s0" if "r = Inr (OSecret s0)" for s0
      using prems(1,2) that by auto
    moreover have "secret = newSecret ?ns defaultNMSAdminCertSecretName \<or> r = Inr (OSecret secret)"
      using prems(1) by (auto simp: as_typed_Inr split: sum.splits if_splits)
    ultimately show ?thesis unfolding cert_secret_post_def cert_secret_seen_def y by auto
  qed
  done

section \<open>Properties\<close>

text \<open>A current Secret is read and nothing else happens, whatever the client.\<close>

lemma spec_current_untouched:
  "spec (reconcileOrc8rCertSecret K L P orc8r) (\<lambda>r t. \<forall>s u.
     t = EvGet KSecret (m_Namespace (orc8r_Meta orc8r)) defaultNMSAdminCertSecretName (Inr (OSecret s)) # u \<longrightarrow>
     made_for orc8r s \<longrightarrow> u = [] \<and> r = Inr (mget (m_Annotations (sec_Meta s)) orc8rCertHashAnnotation))"
  unfolding reconcileOrc8rCertSecret_def Let_def certSecretCurrent_made_for
  by (intro spec_structure spec_rules) (auto simp: as_typed_def split: sum.splits if_splits option.splits)

text \<open>C36: the certificates of an Orc8r are made once for a domain and a controller name. A reconcile of the
  Secret that succeeds has read, or has written, a Secret whose annotation names the domain and the
  controller of this Orc8r (\<open>made_for\<close>, with the defaults spelled out), which holds a root CA, and whose
  recorded hash is the one returned; a Secret it read that was made for another domain is written
  anew. A later reconcile that reads a Secret made for the Orc8r, with whatever keys, serials and
  clock, makes no further call and returns the recorded hash.\<close>

theorem cert_secret_converges:
  assumes "owner_ok L" and "codecs_ok L" and "createOrUpdate_ok K"
    and "result (reconcileOrc8rCertSecret K L P orc8r) s = Inr h"
  shows "(\<exists>secret. made_for orc8r secret \<and> mget (m_Annotations (sec_Meta secret)) orc8rCertHashAnnotation = h \<and>
      cert_secret_seen orc8r secret (events (reconcileOrc8rCertSecret K L P orc8r) s)) \<and>
    (\<forall>old. EvGet KSecret (m_Namespace (orc8r_Meta orc8r)) defaultNMSAdminCertSecretName (Inr (OSecret old))
        \<in> set (events (reconcileOrc8rCertSecret K L P orc8r) s) \<longrightarrow> \<not> made_for orc8r old \<longrightarrow>
      (\<exists>x new. EvCreateOrUpdate (OSecret x) (Inr (OSecret new)) \<in> set (events (reconcileOrc8rCertSecret K L P orc8r) s) \<and>
        made_for orc8r new)) \<and>
    (\<forall>K' P' s' secret u. made_for orc8r secret \<longrightarrow> events (reconcileOrc8rCertSecret K' L P' orc8r) s' =
        EvGet KSecret (m_Namespace (orc8r_Meta orc8r)) defaultNMSAdminCertSecretName (Inr (OSecret secret)) # u \<longrightarrow>
      u = [] \<and> result (reconcileOrc8rCertSecret K' L P' orc8r) s' =
        Inr (mget (m_Annotations (sec_Meta secret)) orc8rCertHashAnnotation))"
proof (intro conjI allI impI)
  let ?ns = "m_Namespace (orc8r_Meta orc8r)"
  let ?t = "events (reconcileOrc8rCertSecret K L P orc8r) s"
  have post: "cert_secret_post L P orc8r (Inr h) ?t"
    using specD(2) [OF spec_reconcileOrc8rCertSecret [OF assms(1-3), of P orc8r], of s] assms(4) by simp
  then obtain secret where made: "made_for orc8r secret" and seen: "cert_secret_seen orc8r secret ?t"
    and hash: "mget (m_Annotations (sec_Meta secret)) orc8rCertHashAnnotation = h"
    unfolding cert_secret_post_def by blast
  then show "\<exists>secret. made_for orc8r secret \<and> mget (m_Annotations (sec_Meta secret)) orc8rCertHashAnnotation = h \<and>
      cert_secret_seen orc8r secret ?t" by blast
  fix old assume "EvGet KSecret ?ns defaultNMSAdminCertSecretName (Inr (OSecret old)) \<in> set ?t" and old: "\<not> made_for orc8r old"
  with post have "secret \<noteq> old" "\<And>s. EvGet KSecret ?ns defaultNMSAdminCertSecretName (Inr (OSecret s)) \<in> set ?t \<Longrightarrow> s = old"
    using made unfolding cert_secret_post_def by auto
  with seen made show "\<exists>x new. EvCreateOrUpdate (OSecret x) (Inr (OSecret new)) \<in> set ?t \<and> made_for orc8r new"
    unfolding cert_secret_seen_def by blast
next
  fix K' P' s' secret v
  assume "made_for orc8r secret" and "events (reconcileOrc8rCertSecret K' L P' orc8r) s' =
    EvGet KSecret (m_Namespace (orc8r_Meta orc8r)) defaultNMSAdminCertSecretName (Inr (OSecret secret)) # v"
  with specD(2) [OF spec_current_untouched [of K' L P' orc8r], of s']
  show "v = []" and "result (reconcileOrc8rCertSecret K' L P' orc8r) s' =
      Inr (mget (m_Annotations (sec_Meta secret)) orc8rCertHashAnnotation)" by blast+
qed

subsection \<open>Witness\<close>

definition demoPki :: pki where
  "demoPki = \<lparr>pki_GenerateKey = (\<lambda>i. Inr \<lparr>rsa_D = i, rsa_N = i + 2\<rparr>), pki_Serial = (\<lambda>i. Inr (i + 1)),
     pki_Now = (\<lambda>i. \<lparr>t_Year = 2026, t_Month = 1, t_Day = 1, t_Second = i\<rparr>),
     pki_CreateCertificate = (\<lambda>i t ca n key. Inr (tpl_CommonName t)),
     pki_ParseCertificate = (\<lambda>raw. Inr \<lparr>cert_Template = certTemplateFor 0 \<lparr>t_Year = 2026, t_Month = 1, t_Day = 1, t_Second = 0\<rparr> raw [] False,
       cert_Raw = raw\<rparr>),
     pki_MarshalPKCS1PrivateKey = (\<lambda>key. replicate (rsa_D key) (CHR ''d''))\<rparr>"

definition demoOrc8rCR :: magmaOrc8r where
  "demoOrc8rCR = \<lparr>orc8r_Meta = (newMeta ''magma'' ''orc8r'')\<lparr>m_Finalizers := [''magma.infra.don/magmaorc8r-finalizer'']\<rparr>,
     orc8r_Spec = \<lparr>os_ReleaseName = [], os_DomainName = [], os_ControllerHostname = [], os_NMSNodePort = None,
       os_NMSOrganization = [], os_NMSAdminEmail = [], os_NMSAdminPassword = [], os_NMSCustomDomains = [], os_NetworkID = [],
       os_NetworkName = [], os_SubscriberIMSI = [], os_Values = []\<rparr>,
     orc8r_Status = \<lparr>ost_ObservedGeneration = 0, ost_ReleaseName = [], ost_ReleaseNamespace = [], ost_NMSURL = [],
       ost_Conditions = []\<rparr>\<rparr>"

lemma demo_certificates: "\<exists>r. generateOrc8rCertSecretData L demoPki d c = Inr r"
  by (simp add: generateOrc8rCertSecretData_def andThen_def createCertificate_def signedCert_def demoPki_def Let_def)

lemma demo_certified: "\<not> isl (result (reconcileOrc8rCertSecret (refClient []) (refLib M) demoPki orc8r) s)"
proof -
  obtain data' hash where g: "generateOrc8rCertSecretData (refLib M) demoPki (orc8rDomain orc8r) (orc8rController orc8r) = Inr (data', hash)"
    using demo_certificates by (metis prod.exhaust)
  show ?thesis
    by (simp add: reconcileOrc8rCertSecret_def Let_def result_def getAs_def kGet_def kCreateOrUpdate_def run_call refClient_def
        as_typed_def refError_def IsNotFound_def newSecret_not_current g on_secret_def mutateOrc8rCertSecret_def)
qed

lemma cert_secret_converges_witness:
  "\<exists>secret. made_for demoOrc8rCR secret \<and> cert_secret_seen demoOrc8rCR secret
     (events (reconcileOrc8rCertSecret (refClient []) (refLib (\<lambda>_. [])) demoPki demoOrc8rCR) refStart)"
proof -
  let ?m = "reconcileOrc8rCertSecret (refClient []) (refLib (\<lambda>_. [])) demoPki demoOrc8rCR"
  obtain h where h: "result ?m refStart = Inr h"
    using demo_certified [of "\<lambda>_. []" demoOrc8rCR refStart] by (cases "result ?m refStart") simp_all
  from cert_secret_converges [OF refLib_owner refLib_codecs refClient_createOrUpdate h] show ?thesis by blast
qed

end
