(* ===== verification/Orc8r_Controller.thy ===== *)
theory Orc8r_Controller
  imports Orc8r_Certs Native_Runner "HOL-Library.Char_ord" "HOL-Library.List_Lexorder"
begin

text \<open>
  \<^verbatim>\<open>MagmaOrc8rReconciler\<close> of \<^verbatim>\<open>magmaorc8r_controller.go\<close>: values, the release, the rollout of a
  changed certificate Secret to Deployments and to the bootstrap Job, the NodePort patch of
  MagmaLTE, and the deletion.
\<close>

abbreviation magmaOrc8rFinalizer :: string where "magmaOrc8rFinalizer \<equiv> ''magma.infra.don/magmaorc8r-finalizer''"
abbreviation orc8rSecretHashAnnotation :: string where "orc8rSecretHashAnnotation \<equiv> ''magma.infra.don/orc8r-secret-hash''"

section \<open>The hash of a Secret\<close>

abbreviation NUL :: char where "NUL \<equiv> CHR 0x00"

definition secretHashInput :: "(string \<times> bytes) list \<Rightarrow> bytes" where
  "secretHashInput data' = concat (map (\<lambda>key. key @ [NUL] @ mget data' key @ [NUL]) (sort (map fst data')))"

definition secretDataHash :: "(string \<times> bytes) list \<Rightarrow> string" where
  "secretDataHash data' = sha256Hex (secretHashInput data')"

section \<open>Containers\<close>

fun setEnvList :: "string \<Rightarrow> string \<Rightarrow> envVar list \<Rightarrow> envVar list" where
  "setEnvList name value [] = [\<lparr>env_Name = name, env_Value = value\<rparr>]"
| "setEnvList name value (v # vs) =
     (if env_Name v = name then v\<lparr>env_Value := value\<rparr> # vs else v # setEnvList name value vs)"

definition setEnv :: "container \<Rightarrow> string \<Rightarrow> string \<Rightarrow> container" where
  "setEnv container' name value = container'\<lparr>ct_Env := setEnvList name value (ct_Env container')\<rparr>"

definition magmalteNodePortContainer :: "container \<Rightarrow> container" where
  "magmalteNodePortContainer container' =
     setEnv (container'\<lparr>ct_Command := [''node''], ct_Args := [''-r'', ''./babelRegister.js'', ''scripts/server'']\<rparr>)
       ''NODE_ENV'' ''development''"

definition patchMagmalteForHTTPNodePort :: "'w client \<Rightarrow> string \<Rightarrow> ('w, error option) kio" where
  "patchMagmalteForHTTPNodePort K ns = do {
     r \<leftarrow> getDeployment K ns magmalteDeploymentName;
     case r of
       Inl e \<Rightarrow> return (Some e)
     | Inr deploy \<Rightarrow>
         (case dep_Containers deploy of
            [] \<Rightarrow> return None
          | container' # rest \<Rightarrow>
              kUpdate K (ODeployment (deploy\<lparr>dep_Containers := magmalteNodePortContainer container' # rest\<rparr>)))
   }"

section \<open>Rollout of the certificate Secret\<close>

definition annotateOrc8rDeploymentsForSecretHash ::
    "'w client \<Rightarrow> string \<Rightarrow> string \<Rightarrow> string \<Rightarrow> ('w, string \<times> error option) kio" where
  "annotateOrc8rDeploymentsForSecretHash K ns releaseName secretName = do {
     r \<leftarrow> getSecret K ns secretName;
     case r of
       Inl e \<Rightarrow> return ([], IgnoreNotFound e)
     | Inr secret \<Rightarrow>
         (let hash = secretDataHash (sec_Data secret) in do {
            l \<leftarrow> listDeployments K ns [(labelAppInstance, releaseName)];
            case l of
              Inl e \<Rightarrow> return ([], Some e)
            | Inr deployments \<Rightarrow> do {
                a \<leftarrow> each (annotateStep (\<lambda>_. True) orc8rSecretHashAnnotation K hash) deployments;
                return (case a of Some e \<Rightarrow> ([], Some e) | None \<Rightarrow> (hash, None))
              }
          })
   }"

definition setJobAnnotation :: "string \<Rightarrow> string \<Rightarrow> job \<Rightarrow> job" where
  "setJobAnnotation ann hash j =
     j\<lparr>job_Meta := (job_Meta j)\<lparr>m_Annotations := mset_key ann hash (m_Annotations (job_Meta j))\<rparr>\<rparr>"

definition recreateOrc8rBootstrapJobForSecretHash ::
    "'w client \<Rightarrow> string \<Rightarrow> string \<Rightarrow> string \<Rightarrow> ('w, bool \<times> error option) kio" where
  "recreateOrc8rBootstrapJobForSecretHash K ns jobName hash =
     (if hash = [] then return (False, None)
      else do {
        r \<leftarrow> getJob K ns jobName;
        case r of
          Inl e \<Rightarrow> return (False, IgnoreNotFound e)
        | Inr job' \<Rightarrow>
            (if job_failed job' \<or> (job_succeeded job' \<and> job_hash orc8rSecretHashAnnotation job' \<noteq> hash) then do {
               d \<leftarrow> deleteIgnoringNotFound K True (OJob job');
               return (case d of Some e \<Rightarrow> (False, Some e) | None \<Rightarrow> (True, None))
             }
             else if job_hash orc8rSecretHashAnnotation job' = hash then return (False, None)
             else do {
               p \<leftarrow> kPatch K (OJob (setJobAnnotation orc8rSecretHashAnnotation hash job')) (MergeFrom (OJob job'));
               return (False, p)
             })
      })"

section \<open>Deletion\<close>

definition orc8rDeletionRelease :: "magmaOrc8r \<Rightarrow> string \<Rightarrow> nativeRelease" where
  "orc8rDeletionRelease orc8r releaseName = \<lparr>rel_ReleaseName = releaseName, rel_Namespace = m_Namespace (orc8r_Meta orc8r),
     rel_Manifest = ''orc8r.yaml'', rel_Values = [], rel_ApplyFilter = None\<rparr>"

definition removeOrc8rFinalizer :: "lib \<Rightarrow> magmaOrc8r \<Rightarrow> magmaOrc8r" where
  "removeOrc8rFinalizer L orc8r = orc8r\<lparr>orc8r_Meta := (orc8r_Meta orc8r)\<lparr>m_Finalizers :=
     l_RemoveFinalizer L (m_Finalizers (orc8r_Meta orc8r)) magmaOrc8rFinalizer\<rparr>\<rparr>"

definition addOrc8rFinalizer :: "lib \<Rightarrow> magmaOrc8r \<Rightarrow> magmaOrc8r" where
  "addOrc8rFinalizer L orc8r = orc8r\<lparr>orc8r_Meta := (orc8r_Meta orc8r)\<lparr>m_Finalizers :=
     l_AddFinalizer L (m_Finalizers (orc8r_Meta orc8r)) magmaOrc8rFinalizer\<rparr>\<rparr>"

definition reconcileOrc8rDeletion ::
    "'w client \<Rightarrow> lib \<Rightarrow> magmaOrc8r \<Rightarrow> string \<Rightarrow> ('w, ctrlResult \<times> error option) kio" where
  "reconcileOrc8rDeletion K L orc8r releaseName =
     (if \<not> l_ContainsFinalizer L (m_Finalizers (orc8r_Meta orc8r)) magmaOrc8rFinalizer then return (noResult, None)
      else do {
        d \<leftarrow> deleteNativeRelease K L (orc8rDeletionRelease orc8r releaseName);
        case d of
          Some e \<Rightarrow> do {
            (_, statusErr) \<leftarrow> updateOrc8rStatus K L orc8r releaseName ConditionFalse ''NativeDeleteFailed'' (err_text e);
            return (case statusErr of Some e' \<Rightarrow> (noResult, Some e') | None \<Rightarrow> (requeueAfter 30, None))
          }
        | None \<Rightarrow> do {
            r \<leftarrow> kPatch K (OOrc8r (removeOrc8rFinalizer L orc8r)) (MergeFrom (OOrc8r orc8r));
            return (noResult, r)
          }
      })"

section \<open>Reconcile\<close>

definition orc8rReleaseOf :: "magmaOrc8r \<Rightarrow> string" where
  "orc8rReleaseOf orc8r =
     (if os_ReleaseName (orc8r_Spec orc8r) = [] then m_Name (orc8r_Meta orc8r) else os_ReleaseName (orc8r_Spec orc8r))"

definition orc8rValues :: "magmaOrc8r \<Rightarrow> smap" where
  "orc8rValues orc8r =
     (let sp = orc8r_Spec orc8r;
          v0 = [(''orc8r.nms.magmalte.service.type'', ''NodePort''), (''orc8r.nms.nginx.create'', stringFalse)];
          v1 = setValue v0 ''global.domainName'' (os_DomainName sp);
          v2 = setValue v1 ''orc8r.controller.image.env.orc8r_domain_name'' (os_DomainName sp);
          v3 = setValue v2 ''lte-orc8r.controller.image.env.orc8r_domain_name'' (os_DomainName sp);
          v4 = setValue v3 ''orc8r.nms.controllerHostname'' (os_ControllerHostname sp);
          v5 = setValue v4 ''orc8r.nginx.spec.hostname'' (os_ControllerHostname sp);
          v6 = setValue v5 ''nmsAdmin.organization'' (os_NMSOrganization sp);
          v7 = setValue v6 ''nmsAdmin.email'' (os_NMSAdminEmail sp);
          v8 = setValue v7 ''nmsAdmin.password'' (os_NMSAdminPassword sp);
          v9 = setListValues v8 ''nmsAdmin.customDomains'' (os_NMSCustomDomains sp);
          v10 = setValue v9 ''provisioning.network.id'' (os_NetworkID sp);
          v11 = setValue v10 ''provisioning.network.name'' (os_NetworkName sp);
          v12 = setValue v11 ''provisioning.subscriber.imsi'' (os_SubscriberIMSI sp);
          v13 = (case os_NMSNodePort sp of
                   None \<Rightarrow> v12
                 | Some port \<Rightarrow> mset_key ''orc8r.nms.magmalte.service.http.nodePort'' (int_str (sint port)) v12)
      in mergeValues v13 (os_Values sp))"

definition orc8rRelease :: "string \<Rightarrow> magmaOrc8r \<Rightarrow> nativeRelease" where
  "orc8rRelease ns orc8r = \<lparr>rel_ReleaseName = orc8rReleaseOf orc8r, rel_Namespace = ns, rel_Manifest = ''orc8r.yaml'',
     rel_Values = orc8rValues orc8r, rel_ApplyFilter = None\<rparr>"

text \<open>After the release: certificates, rollout, bootstrap Job, NodePort, Ready.\<close>

definition orc8rNodePort :: "'w client \<Rightarrow> lib \<Rightarrow> string \<Rightarrow> magmaOrc8r \<Rightarrow> ('w, ctrlResult \<times> error option) kio" where
  "orc8rNodePort K L ns orc8r =
     (let releaseName = orc8rReleaseOf orc8r in do {
        p \<leftarrow> (if os_NMSNodePort (orc8r_Spec orc8r) \<noteq> None then patchMagmalteForHTTPNodePort K ns else return None);
        case p of
          Some e \<Rightarrow> updateOrc8rStatus K L orc8r releaseName ConditionFalse ''MagmaltePatchFailed'' (err_text e)
        | None \<Rightarrow> updateOrc8rStatus K L orc8r releaseName ConditionTrue ''NativeResourcesReady''
                   ''Magma Orc8r resources are ready''
      })"

definition orc8rRollOut :: "'w client \<Rightarrow> lib \<Rightarrow> string \<Rightarrow> magmaOrc8r \<Rightarrow> ('w, ctrlResult \<times> error option) kio" where
  "orc8rRollOut K L ns orc8r =
     (let releaseName = orc8rReleaseOf orc8r in do {
        (secretHash, err) \<leftarrow> annotateOrc8rDeploymentsForSecretHash K ns releaseName defaultNMSAdminCertSecretName;
        case err of
          Some e \<Rightarrow> updateOrc8rStatus K L orc8r releaseName ConditionFalse ''Orc8rSecretRolloutFailed'' (err_text e)
        | None \<Rightarrow> do {
            (recreated, jerr) \<leftarrow> recreateOrc8rBootstrapJobForSecretHash K ns (releaseName @ ''-nms-admin'') secretHash;
            case jerr of
              Some e \<Rightarrow> updateOrc8rStatus K L orc8r releaseName ConditionFalse ''Orc8rBootstrapJobFailed'' (err_text e)
            | None \<Rightarrow>
                (if recreated then do {
                   (res, serr) \<leftarrow> updateOrc8rStatus K L orc8r releaseName ConditionFalse ''Orc8rBootstrapJobRecreated''
                                   ''recreated Orc8r bootstrap job after cert secret change'';
                   return (case serr of Some e \<Rightarrow> (res, Some e) | None \<Rightarrow> (res\<lparr>res_RequeueAfter := 10\<rparr>, None))
                 }
                 else orc8rNodePort K L ns orc8r)
          }
      })"

definition ReconcileOrc8r ::
    "'w client \<Rightarrow> lib \<Rightarrow> pki \<Rightarrow> string \<Rightarrow> string \<Rightarrow> ('w, ctrlResult \<times> error option) kio" where
  "ReconcileOrc8r K L P ns name = do {
     g \<leftarrow> getOrc8r K ns name;
     case g of
       Inl e \<Rightarrow> return (noResult, IgnoreNotFound e)
     | Inr orc8r \<Rightarrow>
         (let releaseName = orc8rReleaseOf orc8r in
          if m_DeletionTimestamp (orc8r_Meta orc8r) \<noteq> None then reconcileOrc8rDeletion K L orc8r releaseName
          else if \<not> l_ContainsFinalizer L (m_Finalizers (orc8r_Meta orc8r)) magmaOrc8rFinalizer then do {
            p \<leftarrow> kPatch K (OOrc8r (addOrc8rFinalizer L orc8r)) (MergeFrom (OOrc8r orc8r));
            return (case p of
              Some e \<Rightarrow> (noResult, Some e)
            | None \<Rightarrow> (\<lparr>res_Requeue = True, res_RequeueAfter = 0\<rparr>, None))
          }
          else do {
            r \<leftarrow> reconcileNativeRelease K L (OOrc8r orc8r) (orc8rRelease ns orc8r);
            case r of
              Some e \<Rightarrow> updateOrc8rStatus K L orc8r releaseName ConditionFalse ''NativeReconcileFailed'' (err_text e)
            | None \<Rightarrow> do {
                c \<leftarrow> reconcileOrc8rCertSecret K L P orc8r;
                case c of
                  Inl e \<Rightarrow> updateOrc8rStatus K L orc8r releaseName ConditionFalse ''Orc8rCertSecretFailed'' (err_text e)
                | Inr _ \<Rightarrow> orc8rRollOut K L ns orc8r
              }
          })
   }"

section \<open>The hash input\<close>

text \<open>The input is a function of the map: the order of iteration does not matter.\<close>

lemma sort_keys_cong:
  assumes "wf_map d" and "wf_map d'" and "map_of d = map_of d'"
  shows "sort (map fst d) = sort (map fst d')"
proof -
  have "set (map fst d) = set (map fst d')"
    using assms(3) by (metis dom_map_of_conv_image_fst list.set_map)
  then show ?thesis
    using assms(1,2) by (intro sorted_distinct_set_unique) (simp_all add: wf_map_def)
qed

lemma secretHashInput_cong:
  assumes "wf_map d" and "wf_map d'" and "map_of d = map_of d'"
  shows "secretHashInput d = secretHashInput d'"
  by (simp add: secretHashInput_def sort_keys_cong [OF assms] mget_cong [OF assms(3)])

text \<open>Without NUL bytes inside keys and values the input determines the map.\<close>

definition nul_free :: "(string \<times> bytes) list \<Rightarrow> bool" where
  "nul_free d \<longleftrightarrow> (\<forall>(k, v)\<in>set d. NUL \<notin> set k \<and> NUL \<notin> set v)"

lemma cut_at_NUL:
  assumes "a @ NUL # x = b @ NUL # y" and "NUL \<notin> set a" and "NUL \<notin> set b"
  shows "a = b \<and> x = y"
  using assms
proof (induction a arbitrary: b)
  case Nil
  then show ?case by (cases b) auto
next
  case (Cons c a)
  then show ?case by (cases b) auto
qed

lemma fields_inj:
  assumes "concat (map (\<lambda>k. k @ [NUL] @ f k @ [NUL]) ks) = concat (map (\<lambda>k. k @ [NUL] @ g k @ [NUL]) ks')"
    and "\<forall>k\<in>set ks. NUL \<notin> set k \<and> NUL \<notin> set (f k)" and "\<forall>k\<in>set ks'. NUL \<notin> set k \<and> NUL \<notin> set (g k)"
  shows "ks = ks' \<and> (\<forall>k\<in>set ks. f k = g k)"
  using assms
proof (induction ks arbitrary: ks')
  case Nil
  then show ?case by (cases ks') auto
next
  case (Cons k ks)
  then obtain k' rest where ks': "ks' = k' # rest" by (cases ks') auto
  from Cons.prems have "k @ NUL # f k @ NUL # concat (map (\<lambda>k. k @ [NUL] @ f k @ [NUL]) ks) =
      k' @ NUL # g k' @ NUL # concat (map (\<lambda>k. k @ [NUL] @ g k @ [NUL]) rest)"
    by (simp add: ks')
  from cut_at_NUL [OF this] Cons.prems(2,3) have k: "k = k'"
    and v: "f k @ NUL # concat (map (\<lambda>k. k @ [NUL] @ f k @ [NUL]) ks) =
      g k' @ NUL # concat (map (\<lambda>k. k @ [NUL] @ g k @ [NUL]) rest)"
    by (auto simp: ks')
  from cut_at_NUL [OF v] Cons.prems(2,3) have "f k = g k"
    and "concat (map (\<lambda>k. k @ [NUL] @ f k @ [NUL]) ks) = concat (map (\<lambda>k. k @ [NUL] @ g k @ [NUL]) rest)"
    by (auto simp: ks' k)
  with Cons.IH [of rest] Cons.prems(2,3) k show ?case by (simp add: ks')
qed

lemma secretHashInput_inj:
  assumes "wf_map d" and "wf_map d'" and "nul_free d" and "nul_free d'" and "secretHashInput d = secretHashInput d'"
  shows "map_of d = map_of d'"
proof -
  have free: "\<forall>k\<in>set (sort (map fst e)). NUL \<notin> set k \<and> NUL \<notin> set (mget e k)" if "nul_free e" for e
    using that by (fastforce simp: nul_free_def mget_def split: option.split dest: map_of_SomeD [OF sym])
  have eq: "sort (map fst d) = sort (map fst d')" "\<forall>k\<in>set (sort (map fst d)). mget d k = mget d' k"
    using fields_inj [OF assms(5) [unfolded secretHashInput_def] free [OF assms(3)] free [OF assms(4)]] by blast+
  then have dom: "fst ` set d = fst ` set d'" by (metis list.set_map set_sort)
  show ?thesis
  proof
    fix k
    show "map_of d k = map_of d' k"
    proof (cases "k \<in> fst ` set d")
      case True
      then obtain v v' where "map_of d k = Some v" "map_of d' k = Some v'"
        by (metis dom map_of_eq_None_iff not_Some_eq)
      moreover have "mget d k = mget d' k" using eq(2) True by (metis list.set_map set_sort)
      ultimately show ?thesis by (simp add: mget_def)
    next
      case False
      with dom show ?thesis by (metis map_of_eq_None_iff)
    qed
  qed
qed

section \<open>Environment variables\<close>

definition env_lookup :: "envVar list \<Rightarrow> string \<Rightarrow> string option" where
  "env_lookup vs name = map_option env_Value (find (\<lambda>v. env_Name v = name) vs)"

lemma env_lookup_setEnvList:
  "env_lookup (setEnvList name value vs) n = (if n = name then Some value else env_lookup vs n)"
  by (induction vs) (auto simp: env_lookup_def)

lemma setEnvList_names:
  "map env_Name (setEnvList name value vs) =
     (if name \<in> env_Name ` set vs then map env_Name vs else map env_Name vs @ [name])"
  by (induction vs) auto

lemma setEnvList_idem: "setEnvList name value (setEnvList name value vs) = setEnvList name value vs"
  by (induction vs) auto

section \<open>Rollout and deletion\<close>

definition orc8r_rollout_post :: "string \<Rightarrow> string \<Rightarrow> string \<Rightarrow> string \<times> error option \<Rightarrow> event list \<Rightarrow> bool" where
  "orc8r_rollout_post ns rn secretName r t \<longleftrightarrow>
     (\<forall>e\<in>set t. is_write e \<longrightarrow> (\<exists>h d q. e = annotates orc8rSecretHashAnnotation h d q)) \<and>
     (\<forall>h. r = (h, None) \<longrightarrow> h \<noteq> [] \<longrightarrow> (\<exists>secret ds.
        EvGet KSecret ns secretName (Inr (OSecret secret)) \<in> set t \<and> h = secretDataHash (sec_Data secret) \<and>
        EvList KDeployment ns [(labelAppInstance, rn)] (Inr (map ODeployment ds)) \<in> set t \<and>
        (\<forall>d\<in>set ds. template_annotation orc8rSecretHashAnnotation d = h \<or>
           annotates orc8rSecretHashAnnotation h d None \<in> set t))) \<and>
     (r = ([], None) \<longrightarrow> (\<exists>e. IsNotFound e \<and> EvGet KSecret ns secretName (Inl e) \<in> set t))"

lemma secretDataHash_not_Nil [simp]: "secretDataHash d \<noteq> []"
  by (simp add: secretDataHash_def)

lemma spec_annotateOrc8r:
  "spec (annotateOrc8rDeploymentsForSecretHash K ns rn secretName) (orc8r_rollout_post ns rn secretName)"
  unfolding annotateOrc8rDeploymentsForSecretHash_def Let_def
  apply (rule spec_bind, rule spec_getAs, rule spec_sum)
  subgoal by (rule spec_return)
      (auto simp: orc8r_rollout_post_def IgnoreNotFound_def dest: as_typed_Inl_NotFound split: if_splits)
  apply (rule spec_bind, rule spec_listAs, rule spec_sum)
  subgoal by (rule spec_return) (simp add: orc8r_rollout_post_def)
  apply (rule spec_bind, rule spec_weaken [OF annotate_loop.loop_spec], rule spec_return)
  subgoal premises prems for g secret l ds r u
  proof -
    let ?h = "secretDataHash (sec_Data secret)"
    have p: "annotate_post (\<lambda>_. True) orc8rSecretHashAnnotation ?h ns [(labelAppInstance, rn)] r
        (EvList KDeployment ns [(labelAppInstance, rn)] (Inr (map ODeployment ds)) # u)"
      by (rule annotate_loop_post) (rule prems(3))
    have l: "l = Inr (map ODeployment ds)" and g: "g = Inr (OSecret secret)"
      using prems(1,2) by (simp_all add: as_list_deployments as_typed_Inr)
    have labelled: "\<forall>d\<in>set ds. template_annotation orc8rSecretHashAnnotation d = ?h \<or>
        annotates orc8rSecretHashAnnotation ?h d None \<in> set u" if "r = None"
      using annotate_loop.post_success [of "\<lambda>_. True" orc8rSecretHashAnnotation ?h ds u] prems(3) that
      by (auto simp: annotate_loop.patch_event_def annotates_def)
    have "\<forall>e\<in>set u. is_write e \<longrightarrow> (\<exists>h d q. e = annotates orc8rSecretHashAnnotation h d q)"
      using p unfolding annotate_post_def set_simps by blast
    moreover have "\<exists>ds'. map ODeployment ds = map ODeployment ds' \<and> (\<forall>d\<in>set ds'.
        template_annotation orc8rSecretHashAnnotation d = ?h \<or> annotates orc8rSecretHashAnnotation ?h d None \<in> set u)" if "r = None"
      using labelled [OF that] by blast
    ultimately show ?thesis
      unfolding orc8r_rollout_post_def l g by (cases r) fastforce+
  qed
  done

definition bootstrap_post :: "string \<Rightarrow> string \<Rightarrow> string \<Rightarrow> bool \<times> error option \<Rightarrow> event list \<Rightarrow> bool" where
  "bootstrap_post ns name hash r t \<longleftrightarrow>
     length (filter is_write t) \<le> 1 \<and>
     (\<forall>bg x q. EvDelete bg x q \<in> set t \<longrightarrow> bg \<and> (\<exists>j. x = OJob j \<and> ev_job ns name j \<in> set t \<and>
        (job_failed j \<or> job_succeeded j \<and> job_hash orc8rSecretHashAnnotation j \<noteq> hash))) \<and>
     (\<forall>x p q. EvPatch x p q \<in> set t \<longrightarrow> (\<exists>j. x = OJob (setJobAnnotation orc8rSecretHashAnnotation hash j) \<and>
        p = MergeFrom (OJob j) \<and> ev_job ns name j \<in> set t \<and> \<not> job_failed j \<and> \<not> job_succeeded j)) \<and>
     (fst r \<longleftrightarrow> (\<exists>x q. EvDelete True x q \<in> set t \<and> gone q))"

lemma spec_recreateOrc8rBootstrapJob:
  "spec (recreateOrc8rBootstrapJobForSecretHash K ns name hash) (bootstrap_post ns name hash)"
  unfolding recreateOrc8rBootstrapJobForSecretHash_def
  by (intro spec_structure spec_rules) (auto simp: bootstrap_post_def as_typed_Inr)

inductive orc8r_deletion_post :: "lib \<Rightarrow> magmaOrc8r \<Rightarrow> string \<Rightarrow> ctrlResult \<times> error option \<Rightarrow> event list \<Rightarrow> bool"
  for L orc8r rn where
  orc8r_not_ours: "\<not> l_ContainsFinalizer L (m_Finalizers (orc8r_Meta orc8r)) magmaOrc8rFinalizer \<Longrightarrow>
    orc8r_deletion_post L orc8r rn (noResult, None) []"
| orc8r_unfinished: "\<forall>x p q. EvPatch x p q \<notin> set t \<Longrightarrow> snd r \<noteq> None \<or> 0 < res_RequeueAfter (fst r) \<Longrightarrow>
    orc8r_deletion_post L orc8r rn r t"
| orc8r_finished: "nativeReleaseObjects L (orc8rDeletionRelease orc8r rn) = Inr objects \<Longrightarrow>
    \<forall>x\<in>set objects. \<exists>q. gone q \<and> EvDelete True (OUnstructured x) q \<in> set t \<Longrightarrow>
    list_all (\<lambda>e. \<exists>x\<in>set objects. \<exists>q. e = EvDelete True (OUnstructured x) q) t \<Longrightarrow>
    orc8r_deletion_post L orc8r rn (noResult, q)
      (t @ [EvPatch (OOrc8r (removeOrc8rFinalizer L orc8r)) (MergeFrom (OOrc8r orc8r)) q])"

lemma spec_reconcileOrc8rDeletion: "spec (reconcileOrc8rDeletion K L orc8r rn) (orc8r_deletion_post L orc8r rn)"
  unfolding reconcileOrc8rDeletion_def
  apply (rule spec_if)
  subgoal by (rule spec_return, rule orc8r_not_ours)
  apply (rule spec_bind, rule spec_weaken [OF spec_deleteNativeRelease], rule spec_option)
  subgoal
    apply (rule spec_bind, rule spec_kPatch, rule spec_return)
    by (auto simp: list_all_iff split: sum.splits intro!: orc8r_finished dest: delete_trace_events delete_trace_None)
  apply (rule spec_bind, rule spec_updateOrc8rStatus, intro spec_prod spec_return, rule orc8r_unfinished)
  by (auto simp: requeueAfter_def split: sum.splits option.split dest!: delete_trace_events)

section \<open>Properties\<close>

text \<open>C37: the hash input of a Secret represents its data: for data without NUL bytes, two Secrets have the
  same hash input exactly when they have the same entries, in whatever order the map is visited.\<close>

theorem secret_hash_input_exact:
  assumes "wf_map d" and "wf_map d'" and "nul_free d" and "nul_free d'"
  shows "secretHashInput d = secretHashInput d' \<longleftrightarrow> map_of d = map_of d'"
  using secretHashInput_inj [OF assms] secretHashInput_cong [OF assms(1,2)] by blast

text \<open>The rollout of the certificate Secret: its only writes set the hash annotation on deployments;
  and when it returns a hash without an error, that is the hash of the data of the Secret it read,
  and every deployment of the release that was listed has it or was patched to have it.\<close>

lemma secret_rollout:
  assumes "events (annotateOrc8rDeploymentsForSecretHash K ns rn secretName) s = t"
    and "result (annotateOrc8rDeploymentsForSecretHash K ns rn secretName) s = (h, None)" and "h \<noteq> []"
  shows "(\<forall>e\<in>set t. is_write e \<longrightarrow> (\<exists>h d q. e = annotates orc8rSecretHashAnnotation h d q)) \<and>
    (\<exists>secret ds. EvGet KSecret ns secretName (Inr (OSecret secret)) \<in> set t \<and> h = secretDataHash (sec_Data secret) \<and>
      EvList KDeployment ns [(labelAppInstance, rn)] (Inr (map ODeployment ds)) \<in> set t \<and>
      (\<forall>d\<in>set ds. template_annotation orc8rSecretHashAnnotation d = h \<or>
         annotates orc8rSecretHashAnnotation h d None \<in> set t))"
  using specD(2) [OF spec_annotateOrc8r [of K ns rn secretName], of s] assms by (simp add: orc8r_rollout_post_def)

text \<open>C39: the bootstrap Job after a change of certificates: at most one write; the Job is deleted only when
  it was just read and has failed, or has succeeded for other certificates; the hash is patched
  onto it only while it runs; and "recreated" is answered exactly when it was deleted.\<close>

theorem bootstrap_job_contract:
  assumes "events (recreateOrc8rBootstrapJobForSecretHash K ns name hash) s = t"
    and "result (recreateOrc8rBootstrapJobForSecretHash K ns name hash) s = r"
  shows "length (filter is_write t) \<le> 1 \<and>
    (\<forall>bg x q. EvDelete bg x q \<in> set t \<longrightarrow> bg \<and> (\<exists>j. x = OJob j \<and> ev_job ns name j \<in> set t \<and>
       (job_failed j \<or> job_succeeded j \<and> job_hash orc8rSecretHashAnnotation j \<noteq> hash))) \<and>
    (\<forall>x p q. EvPatch x p q \<in> set t \<longrightarrow> (\<exists>j. x = OJob (setJobAnnotation orc8rSecretHashAnnotation hash j) \<and>
       p = MergeFrom (OJob j) \<and> ev_job ns name j \<in> set t \<and> \<not> job_failed j \<and> \<not> job_succeeded j)) \<and>
    (fst r \<longleftrightarrow> (\<exists>x q. EvDelete True x q \<in> set t \<and> gone q))"
  using specD(2) [OF spec_recreateOrc8rBootstrapJob [of K ns name hash], of s]
  unfolding bootstrap_post_def assms .

text \<open>C40: the finalizer of a MagmaOrc8r is removed last: when its deletion patches any object, that patch is
  the final call, removes exactly the operator's finalizer, and every object of the Orc8r manifest
  was deleted, or found gone, before.\<close>

theorem orc8r_finalizer_removed_last:
  assumes "EvPatch x p q \<in> set (events (reconcileOrc8rDeletion K L orc8r rn) s)"
  shows "\<exists>u objects. events (reconcileOrc8rDeletion K L orc8r rn) s =
      u @ [EvPatch (OOrc8r (removeOrc8rFinalizer L orc8r)) (MergeFrom (OOrc8r orc8r)) q] \<and>
    x = OOrc8r (removeOrc8rFinalizer L orc8r) \<and> nativeReleaseObjects L (orc8rDeletionRelease orc8r rn) = Inr objects \<and>
    list_all (\<lambda>y. \<exists>q. gone q \<and> EvDelete True (OUnstructured y) q \<in> set u) objects"
  using specD(2) [OF spec_reconcileOrc8rDeletion [of K L orc8r rn], of s] assms
  by cases (auto simp: list_all_iff)

text \<open>NodePort mode for the NMS: in the container that is written back, \<^verbatim>\<open>NODE_ENV\<close> is
  development: a variable of that name is overwritten in place, otherwise one is appended; every other variable, the image, the mounts and the name are kept;
  and doing it again changes nothing.\<close>

lemma magmalte_container_patched:
  "env_lookup (ct_Env (magmalteNodePortContainer c)) n =
     (if n = ''NODE_ENV'' then Some ''development'' else env_lookup (ct_Env c) n) \<and>
   map env_Name (ct_Env (magmalteNodePortContainer c)) =
     (if ''NODE_ENV'' \<in> env_Name ` set (ct_Env c) then map env_Name (ct_Env c) else map env_Name (ct_Env c) @ [''NODE_ENV'']) \<and>
   ct_Command (magmalteNodePortContainer c) = [''node''] \<and>
   ct_Image (magmalteNodePortContainer c) = ct_Image c \<and> ct_VolumeMounts (magmalteNodePortContainer c) = ct_VolumeMounts c \<and>
   ct_Name (magmalteNodePortContainer c) = ct_Name c \<and>
   magmalteNodePortContainer (magmalteNodePortContainer c) = magmalteNodePortContainer c"
  by (simp add: magmalteNodePortContainer_def setEnv_def env_lookup_setEnvList setEnvList_names setEnvList_idem)

subsection \<open>Witnesses\<close>

lemma secret_hash_input_exact_witness:
  "secretHashInput [(''a'', ''1''), (''b'', ''2'')] = secretHashInput [(''b'', ''2''), (''a'', ''1'')] \<longleftrightarrow>
   map_of [(''a'', ''1''), (''b'', ''2'')] = map_of [(''b'', ''2''), (''a'', ''1'')]"
  by (rule secret_hash_input_exact) (simp_all add: wf_map_def nul_free_def)

definition demoCertificates :: "kobj list" where
  "demoCertificates = [OSecret ((newSecret ''magma'' defaultNMSAdminCertSecretName)\<lparr>sec_Data := [(rootCASecretKey, ''ca'')]\<rparr>)]"

declare sha256Hex_def [code del]

lemma demo_rollout:
  "result (annotateOrc8rDeploymentsForSecretHash (refClient demoCertificates) ''magma'' ''orc8r'' defaultNMSAdminCertSecretName) refStart
     = (secretDataHash [(rootCASecretKey, ''ca'')], None)"
  by code_simp

declare sha256Hex_def [code]

lemma secret_rollout_witness:
  "\<exists>ds. EvList KDeployment ''magma'' [(labelAppInstance, ''orc8r'')] (Inr (map ODeployment ds)) \<in> set (events
     (annotateOrc8rDeploymentsForSecretHash (refClient demoCertificates) ''magma'' ''orc8r'' defaultNMSAdminCertSecretName) refStart)"
  using secret_rollout [OF refl demo_rollout secretDataHash_not_Nil] by blast

lemma bootstrap_job_contract_witness:
  "\<exists>j. ev_job ''magma'' ''orc8r-nms-admin'' j \<in> set (events (recreateOrc8rBootstrapJobForSecretHash
       (refClient [demoJob ''orc8r-nms-admin'']) ''magma'' ''orc8r-nms-admin'' ''h'') refStart) \<and>
     (job_failed j \<or> job_succeeded j \<and> job_hash orc8rSecretHashAnnotation j \<noteq> ''h'')"
proof -
  have "list_ex is_delete (events (recreateOrc8rBootstrapJobForSecretHash
      (refClient [demoJob ''orc8r-nms-admin'']) ''magma'' ''orc8r-nms-admin'' ''h'') refStart)" by code_simp
  then obtain bg x q where "EvDelete bg x q \<in> set (events (recreateOrc8rBootstrapJobForSecretHash
      (refClient [demoJob ''orc8r-nms-admin'']) ''magma'' ''orc8r-nms-admin'' ''h'') refStart)"
    by (auto simp: list_ex_iff is_delete_iff)
  with bootstrap_job_contract [of "refClient [demoJob ''orc8r-nms-admin'']" "''magma''" "''orc8r-nms-admin''" "''h''" refStart,
      OF refl refl] show ?thesis by blast
qed

lemma orc8r_deleted:
  "result (deleteNativeRelease (refClient []) (refLib (\<lambda>_. [])) (orc8rDeletionRelease demoOrc8rCR ''orc8r'')) s = None"
  by code_simp

lemma orc8r_finalizer_removed_last_witness:
  "\<exists>u. events (reconcileOrc8rDeletion (refClient []) (refLib (\<lambda>_. [])) demoOrc8rCR ''orc8r'') refStart =
     u @ [EvPatch (OOrc8r (removeOrc8rFinalizer (refLib (\<lambda>_. [])) demoOrc8rCR)) (MergeFrom (OOrc8r demoOrc8rCR)) None]"
proof -
  let ?e = "EvPatch (OOrc8r (removeOrc8rFinalizer (refLib (\<lambda>_. [])) demoOrc8rCR)) (MergeFrom (OOrc8r demoOrc8rCR)) None"
  have "result (kPatch (refClient []) x p) s = None" for x p s
    by (simp add: kPatch_def result_def run_call refClient_def)
  then have patch: "spec (do { r \<leftarrow> kPatch (refClient []) (OOrc8r (removeOrc8rFinalizer (refLib (\<lambda>_. [])) demoOrc8rCR))
      (MergeFrom (OOrc8r demoOrc8rCR)); return (noResult, r) }) (\<lambda>r t. ?e \<in> set t)"
    by (intro spec_bind spec_weaken [OF spec_exact [OF spec_kPatch, where P = "\<lambda>q. q = None"]] spec_return) auto
  have "spec (reconcileOrc8rDeletion (refClient []) (refLib (\<lambda>_. [])) demoOrc8rCR ''orc8r'') (\<lambda>r t. ?e \<in> set t)"
    unfolding reconcileOrc8rDeletion_def
    by (simp add: demoOrc8rCR_def [THEN arg_cong [where f = orc8r_Meta], simplified],
        rule spec_known [OF _ spec_deleteNativeRelease orc8r_deleted]) (simp_all add: late_def patch)
  from orc8r_finalizer_removed_last [OF specD(2) [OF this, of refStart]] show ?thesis by blast
qed

end
