(* ===== verification/Orc8r_Safety.thy ===== *)
theory Orc8r_Safety
  imports AGW_Safety Orc8r_Controller
begin

text \<open>
  Trace properties of the Orc8r reconcile: what has to be in the trace before Ready is
  reported, and that a reconcile that has not reported it runs again. The statement about
  \<^const>\<open>ReconcileOrc8r\<close> is for every client, key generator and clock.
\<close>

section \<open>Vocabulary\<close>

definition orc8r_ready :: "magmaOrc8r \<Rightarrow> bool" where
  "orc8r_ready a \<longleftrightarrow> (\<exists>c. cond_of (ost_Conditions (orc8r_Status a)) ''Ready'' = Some c \<and> c_Status c = ConditionTrue)"

definition reports_orc8r :: "event \<Rightarrow> bool" where
  "reports_orc8r e \<longleftrightarrow> (\<exists>a q. e = EvStatusUpdate (OOrc8r a) q \<and> orc8r_ready a)"

definition orc8r_workloads :: "lib \<Rightarrow> string \<Rightarrow> magmaOrc8r \<Rightarrow> event list \<Rightarrow> bool" where
  "orc8r_workloads L ns orc8r t \<longleftrightarrow> (\<exists>objects. nativeReleaseObjects L (orc8rRelease ns orc8r) = Inr objects \<and>
     (\<forall>x\<in>set objects. native_done L (OOrc8r orc8r) (orc8rRelease ns orc8r) x t))"

definition orc8r_certified :: "magmaOrc8r \<Rightarrow> event list \<Rightarrow> bool" where
  "orc8r_certified orc8r t \<longleftrightarrow> (\<exists>s. made_for orc8r s \<and> cert_secret_seen orc8r s t)"

text \<open>
  Every listed deployment carries the hash of the Secret that was read. A reconcile that is told
  that the Secret it has just certified does not exist has nothing to roll out.
\<close>

definition orc8r_rolled_out :: "string \<Rightarrow> magmaOrc8r \<Rightarrow> event list \<Rightarrow> bool" where
  "orc8r_rolled_out ns orc8r t \<longleftrightarrow>
     (\<exists>secret ds. EvGet KSecret ns defaultNMSAdminCertSecretName (Inr (OSecret secret)) \<in> set t \<and>
        EvList KDeployment ns [(labelAppInstance, orc8rReleaseOf orc8r)] (Inr (map ODeployment ds)) \<in> set t \<and>
        (\<forall>d\<in>set ds. template_annotation orc8rSecretHashAnnotation d = secretDataHash (sec_Data secret) \<or>
           annotates orc8rSecretHashAnnotation (secretDataHash (sec_Data secret)) d None \<in> set t)) \<or>
     (\<exists>e. IsNotFound e \<and> EvGet KSecret ns defaultNMSAdminCertSecretName (Inl e) \<in> set t)"

text \<open>The rollout comes after the certificates: all of its evidence is in the calls after theirs.\<close>

definition orc8r_certified_rollout :: "string \<Rightarrow> magmaOrc8r \<Rightarrow> event list \<Rightarrow> bool" where
  "orc8r_certified_rollout ns orc8r t \<longleftrightarrow> (\<exists>u v. t = u @ v \<and> orc8r_certified orc8r u \<and> orc8r_rolled_out ns orc8r v)"

definition nodeport_done :: "string \<Rightarrow> magmaOrc8r \<Rightarrow> event list \<Rightarrow> bool" where
  "nodeport_done ns orc8r t \<longleftrightarrow> os_NMSNodePort (orc8r_Spec orc8r) = None \<or>
     (\<exists>d. EvGet KDeployment ns magmalteDeploymentName (Inr (ODeployment d)) \<in> set t \<and>
        (case dep_Containers d of [] \<Rightarrow> True
         | c # cs \<Rightarrow> EvUpdate (ODeployment (d\<lparr>dep_Containers := magmalteNodePortContainer c # cs\<rparr>)) None \<in> set t))"

definition orc8r_evidence :: "lib \<Rightarrow> string \<Rightarrow> magmaOrc8r \<Rightarrow> event list \<Rightarrow> bool" where
  "orc8r_evidence L ns orc8r t \<longleftrightarrow> orc8r_workloads L ns orc8r t \<and> orc8r_certified_rollout ns orc8r t \<and>
     nodeport_done ns orc8r t"

definition orc8r_ready_written :: "event list \<Rightarrow> bool" where
  "orc8r_ready_written t \<longleftrightarrow> (\<exists>a. orc8r_ready a \<and> EvStatusUpdate (OOrc8r a) None \<in> set t)"

definition orc8r_post ::
    "lib \<Rightarrow> string \<Rightarrow> magmaOrc8r \<Rightarrow> event list \<Rightarrow> ctrlResult \<times> error option \<Rightarrow> event list \<Rightarrow> bool" where
  "orc8r_post L ns orc8r t r u \<longleftrightarrow> gated reports_orc8r (orc8r_evidence L ns orc8r) (t @ u) \<and>
     (comes_back r \<or> orc8r_ready_written (t @ u))"

lemma orc8r_post_assoc: "orc8r_post L ns orc8r (t @ u) = (\<lambda>r v. orc8r_post L ns orc8r t r (u @ v))"
  by (simp add: orc8r_post_def fun_eq_iff)

section \<open>Evidence grows with the trace\<close>

lemma orc8r_workloads_mono: "orc8r_workloads L ns orc8r t \<Longrightarrow> set t \<subseteq> set u \<Longrightarrow> orc8r_workloads L ns orc8r u"
  unfolding orc8r_workloads_def using native_done_mono by meson

lemma orc8r_certified_mono: "orc8r_certified orc8r t \<Longrightarrow> set t \<subseteq> set u \<Longrightarrow> orc8r_certified orc8r u"
  unfolding orc8r_certified_def cert_secret_seen_def by blast

lemma orc8r_rolled_out_mono: "orc8r_rolled_out ns orc8r t \<Longrightarrow> set t \<subseteq> set u \<Longrightarrow> orc8r_rolled_out ns orc8r u"
  unfolding orc8r_rolled_out_def by blast

lemma nodeport_done_mono: "nodeport_done ns orc8r t \<Longrightarrow> set t \<subseteq> set u \<Longrightarrow> nodeport_done ns orc8r u"
  unfolding nodeport_done_def by (fastforce split: list.splits)

lemma orc8r_certified_rollout_append: "orc8r_certified_rollout ns orc8r t \<Longrightarrow> orc8r_certified_rollout ns orc8r (t @ u)"
  unfolding orc8r_certified_rollout_def by (metis append.assoc orc8r_rolled_out_mono set_append Un_upper1)

lemma orc8r_evidence_append: "orc8r_evidence L ns orc8r t \<Longrightarrow> orc8r_evidence L ns orc8r (t @ u)"
  unfolding orc8r_evidence_def
  by (auto intro: orc8r_certified_rollout_append elim: orc8r_workloads_mono nodeport_done_mono)

lemma orc8r_gated_append:
  assumes "gated reports_orc8r (orc8r_evidence L ns orc8r) t"
    and "list_all (\<lambda>e. \<not> reports_orc8r e) u \<or> orc8r_evidence L ns orc8r t"
  shows "gated reports_orc8r (orc8r_evidence L ns orc8r) (t @ u)"
  by (rule gated_append [OF assms]) (rule orc8r_evidence_append)

lemma silent_events [simp]:
  "\<not> reports_orc8r (EvGet k ns n g)" "\<not> reports_orc8r (EvList k ns sel l)" "\<not> reports_orc8r (EvCreate x q)"
  "\<not> reports_orc8r (EvDelete bg x q)" "\<not> reports_orc8r (EvUpdate x q)" "\<not> reports_orc8r (EvCreateOrUpdate x r)"
  "\<not> reports_orc8r (EvPatch x p q)"
  by (simp_all add: reports_orc8r_def)

lemma silent_nonwrite: "\<not> is_write e \<Longrightarrow> \<not> reports_orc8r e"
  by (cases e) simp_all

lemma silent_native: "native_event L owner release x e \<Longrightarrow> \<not> reports_orc8r e"
  by (auto simp: reports_orc8r_def native_event_StatusUpdate)

section \<open>The stages\<close>

text \<open>A report of not-ready is silent and brings the controller back; a report of Ready needs the evidence.\<close>

lemma orc8r_false_status:
  assumes "conditions_ok L" and "gated reports_orc8r (orc8r_evidence L ns orc8r) t"
  shows "spec (updateOrc8rStatus K L a rn ConditionFalse reason msg) (orc8r_post L ns orc8r t)"
proof (rule spec_weaken [OF orc8r_status.put_triple])
  fix r u
  let ?a = "stampOrc8r L a rn ConditionFalse reason msg"
  assume p: "\<exists>q. u = [EvStatusUpdate (OOrc8r ?a) q] \<and>
    (case q of Some e \<Rightarrow> if IsConflict e then r = (requeueAfter 5, None) else r = (noResult, Some e)
     | None \<Rightarrow> if ConditionFalse = ConditionTrue then r = (noResult, None) else r = (requeueAfter 120, None))"
  have "\<not> orc8r_ready ?a"
    using orc8r_status.stamp_ready [OF assms(1)] by (simp add: orc8r_ready_def)
  then have silent: "\<not> reports_orc8r (EvStatusUpdate (OOrc8r ?a) q)" for q by (auto simp: reports_orc8r_def)
  obtain q where u: "u = [EvStatusUpdate (OOrc8r ?a) q]" and q: "case q of
      Some e \<Rightarrow> if IsConflict e then r = (requeueAfter 5, None) else r = (noResult, Some e)
    | None \<Rightarrow> if ConditionFalse = ConditionTrue then r = (noResult, None) else r = (requeueAfter 120, None)"
    using p by blast
  have "comes_back r" using q by (cases q) (auto split: if_splits)
  then show "orc8r_post L ns orc8r t r u"
    unfolding orc8r_post_def u using silent by (simp add: orc8r_gated_append [OF assms(2)])
qed

lemma orc8r_true_status:
  assumes "conditions_ok L" and "gated reports_orc8r (orc8r_evidence L ns orc8r) t" and "orc8r_evidence L ns orc8r t"
  shows "spec (updateOrc8rStatus K L a rn ConditionTrue reason msg) (orc8r_post L ns orc8r t)"
proof (rule spec_weaken [OF orc8r_status.put_triple])
  fix r u
  let ?a = "stampOrc8r L a rn ConditionTrue reason msg"
  assume p: "\<exists>q. u = [EvStatusUpdate (OOrc8r ?a) q] \<and>
    (case q of Some e \<Rightarrow> if IsConflict e then r = (requeueAfter 5, None) else r = (noResult, Some e)
     | None \<Rightarrow> if ConditionTrue = ConditionTrue then r = (noResult, None) else r = (requeueAfter 120, None))"
  have "orc8r_ready ?a"
    using orc8r_status.stamp_ready [OF assms(1)] by (simp add: orc8r_ready_def)
  then have ready: "orc8r_ready_written (t @ [EvStatusUpdate (OOrc8r ?a) None])" by (auto simp: orc8r_ready_written_def)
  obtain q where u: "u = [EvStatusUpdate (OOrc8r ?a) q]" and q: "case q of
      Some e \<Rightarrow> if IsConflict e then r = (requeueAfter 5, None) else r = (noResult, Some e)
    | None \<Rightarrow> if ConditionTrue = ConditionTrue then r = (noResult, None) else r = (requeueAfter 120, None)"
    using p by blast
  have "comes_back r \<or> q = None" using q by (cases q) (auto split: if_splits)
  then show "orc8r_post L ns orc8r t r u"
    unfolding orc8r_post_def u using ready assms(3) by (auto intro: orc8r_gated_append [OF assms(2)])
qed

lemma spec_patchMagmalte:
  "spec (patchMagmalteForHTTPNodePort K ns) (\<lambda>r t. list_all (\<lambda>e. \<not> reports_orc8r e) t \<and>
     (r = None \<longrightarrow> (\<exists>d. EvGet KDeployment ns magmalteDeploymentName (Inr (ODeployment d)) \<in> set t \<and>
        (case dep_Containers d of [] \<Rightarrow> True
         | c # cs \<Rightarrow> EvUpdate (ODeployment (d\<lparr>dep_Containers := magmalteNodePortContainer c # cs\<rparr>)) None \<in> set t))))"
  unfolding patchMagmalteForHTTPNodePort_def
  apply (rule spec_bind, rule spec_getAs, rule spec_sum)
  subgoal by (rule spec_return) simp
  subgoal for r d
    by (cases "dep_Containers d"; simp only: list.case; intro spec_structure spec_rules)
      (auto simp: as_typed_Inr split: list.split)
  done

lemma stage_nodeport:
  assumes "conditions_ok L" and t: "gated reports_orc8r (orc8r_evidence L ns orc8r) t"
    and "orc8r_workloads L ns orc8r t" "orc8r_certified_rollout ns orc8r t"
  shows "spec (orc8rNodePort K L ns orc8r) (orc8r_post L ns orc8r t)"
proof -
  let ?Q = "\<lambda>r u. gated reports_orc8r (orc8r_evidence L ns orc8r) (t @ u) \<and> (r = None \<longrightarrow> orc8r_evidence L ns orc8r (t @ u))"
  have ev: "orc8r_evidence L ns orc8r (t @ u)" if "nodeport_done ns orc8r u" for u
    unfolding orc8r_evidence_def
    using assms(3,4) that
    by (auto intro: orc8r_certified_rollout_append elim: orc8r_workloads_mono nodeport_done_mono)
  have p: "spec (if os_NMSNodePort (orc8r_Spec orc8r) \<noteq> None then patchMagmalteForHTTPNodePort K ns else return None) ?Q"
  proof (rule spec_if)
    assume "os_NMSNodePort (orc8r_Spec orc8r) \<noteq> None"
    show "spec (patchMagmalteForHTTPNodePort K ns) ?Q"
      by (rule spec_weaken [OF spec_patchMagmalte]) (auto intro!: orc8r_gated_append t ev simp: nodeport_done_def)
  next
    assume "\<not> os_NMSNodePort (orc8r_Spec orc8r) \<noteq> None"
    then show "spec (return None) ?Q" using t ev [of "[]"] by (intro spec_return) (simp add: nodeport_done_def)
  qed
  show ?thesis
    unfolding orc8rNodePort_def Let_def
    by (rule spec_bind, rule spec_weaken [OF p], unfold orc8r_post_assoc [symmetric], rule spec_option)
      (auto intro: orc8r_true_status orc8r_false_status assms(1))
qed

lemma spec_bootstrap_silent:
  "spec (recreateOrc8rBootstrapJobForSecretHash K ns name hash) (\<lambda>r. list_all (\<lambda>e. \<not> reports_orc8r e))"
  unfolding recreateOrc8rBootstrapJobForSecretHash_def by (intro spec_structure spec_rules) simp_all

lemma orc8r_rollout_silent: "orc8r_rollout_post ns rn n r t \<Longrightarrow> list_all (\<lambda>e. \<not> reports_orc8r e) t"
  unfolding orc8r_rollout_post_def list_all_iff
  by (metis annotates_def silent_events(7) silent_nonwrite)

lemma orc8r_rollout_done:
  assumes "orc8r_rollout_post ns (orc8rReleaseOf orc8r) defaultNMSAdminCertSecretName (h, None) t"
  shows "orc8r_rolled_out ns orc8r t"
proof (cases "h = []")
  case True
  with assms show ?thesis unfolding orc8r_rollout_post_def orc8r_rolled_out_def by blast
next
  case False
  with assms show ?thesis unfolding orc8r_rollout_post_def orc8r_rolled_out_def by blast
qed

lemma stage_orc8r_rollout:
  assumes L: "conditions_ok L" and t: "gated reports_orc8r (orc8r_evidence L ns orc8r) t"
    and w: "orc8r_workloads L ns orc8r t" "orc8r_certified orc8r t"
  shows "spec (orc8rRollOut K L ns orc8r) (orc8r_post L ns orc8r t)"
  unfolding orc8rRollOut_def Let_def
proof (rule spec_bind, rule spec_weaken [OF spec_annotateOrc8r], unfold orc8r_post_assoc [symmetric], intro spec_prod)
  fix r u h err
  assume post: "orc8r_rollout_post ns (orc8rReleaseOf orc8r) defaultNMSAdminCertSecretName r u" and r: "r = (h, err)"
  have g: "gated reports_orc8r (orc8r_evidence L ns orc8r) (t @ u)"
    by (rule orc8r_gated_append [OF t]) (simp add: orc8r_rollout_silent [OF post])
  have after: "spec (case b of (recreated, jerr) \<Rightarrow> (case jerr of
        Some e \<Rightarrow> updateOrc8rStatus K L orc8r (orc8rReleaseOf orc8r) ConditionFalse ''Orc8rBootstrapJobFailed'' (err_text e)
      | None \<Rightarrow> (if recreated then do {
             (res, serr) \<leftarrow> updateOrc8rStatus K L orc8r (orc8rReleaseOf orc8r) ConditionFalse ''Orc8rBootstrapJobRecreated''
                             ''recreated Orc8r bootstrap job after cert secret change'';
             return (case serr of Some e \<Rightarrow> (res, Some e) | None \<Rightarrow> (res\<lparr>res_RequeueAfter := 10\<rparr>, None))
           }
           else orc8rNodePort K L ns orc8r))) (orc8r_post L ns orc8r (t @ u @ v))"
    if v: "list_all (\<lambda>e. \<not> reports_orc8r e) v" and "err = None" for v b
  proof (intro spec_prod spec_option spec_if)
    have g2: "gated reports_orc8r (orc8r_evidence L ns orc8r) (t @ u @ v)"
      using orc8r_gated_append [OF g, of v] v by simp
    note false = orc8r_false_status [OF L g2]
    show "spec (updateOrc8rStatus K L orc8r (orc8rReleaseOf orc8r) ConditionFalse ''Orc8rBootstrapJobFailed'' (err_text e))
      (orc8r_post L ns orc8r (t @ u @ v))" for e by (rule false)
    show "spec (updateOrc8rStatus K L orc8r (orc8rReleaseOf orc8r) ConditionFalse ''Orc8rBootstrapJobRecreated''
          ''recreated Orc8r bootstrap job after cert secret change'' \<bind>
        (\<lambda>(res, serr). return (case serr of None \<Rightarrow> (res\<lparr>res_RequeueAfter := 10\<rparr>, None) | Some e \<Rightarrow> (res, Some e))))
      (orc8r_post L ns orc8r (t @ u @ v))"
      by (rule spec_bind, rule spec_weaken [OF false], intro spec_prod spec_return)
        (auto simp: orc8r_post_def comes_back_def split: option.split)
    have "orc8r_rolled_out ns orc8r u" using post that(2) by (simp add: r orc8r_rollout_done)
    then have "orc8r_rolled_out ns orc8r (u @ v)" by (rule orc8r_rolled_out_mono) auto
    with w(2) have "orc8r_certified_rollout ns orc8r (t @ u @ v)" unfolding orc8r_certified_rollout_def by blast
    moreover have "orc8r_workloads L ns orc8r (t @ u @ v)" by (rule orc8r_workloads_mono [OF w(1)]) auto
    ultimately show "spec (orc8rNodePort K L ns orc8r) (orc8r_post L ns orc8r (t @ u @ v))"
      by (intro stage_nodeport [OF L g2])
  qed
  show "spec (case err of
       Some e \<Rightarrow> updateOrc8rStatus K L orc8r (orc8rReleaseOf orc8r) ConditionFalse ''Orc8rSecretRolloutFailed'' (err_text e)
     | None \<Rightarrow> do {
         (recreated, jerr) \<leftarrow> recreateOrc8rBootstrapJobForSecretHash K ns (orc8rReleaseOf orc8r @ ''-nms-admin'') h;
         case jerr of
           Some e \<Rightarrow> updateOrc8rStatus K L orc8r (orc8rReleaseOf orc8r) ConditionFalse ''Orc8rBootstrapJobFailed'' (err_text e)
         | None \<Rightarrow> (if recreated then do {
                (res, serr) \<leftarrow> updateOrc8rStatus K L orc8r (orc8rReleaseOf orc8r) ConditionFalse ''Orc8rBootstrapJobRecreated''
                                ''recreated Orc8r bootstrap job after cert secret change'';
                return (case serr of Some e \<Rightarrow> (res, Some e) | None \<Rightarrow> (res\<lparr>res_RequeueAfter := 10\<rparr>, None))
              }
              else orc8rNodePort K L ns orc8r)
       }) (orc8r_post L ns orc8r (t @ u))"
    by (rule spec_option, rule spec_bind, rule spec_weaken [OF spec_bootstrap_silent], unfold orc8r_post_assoc [symmetric],
        simp only: append_assoc, erule (1) after, rule orc8r_false_status [OF L g])
qed

section \<open>The whole reconcile\<close>

abbreviation ev_orc8r :: "string \<Rightarrow> string \<Rightarrow> magmaOrc8r \<Rightarrow> event" where
  "ev_orc8r ns name orc8r \<equiv> EvGet KOrc8r ns name (Inr (OOrc8r orc8r))"

abbreviation ev_orc8r_released :: "lib \<Rightarrow> magmaOrc8r \<Rightarrow> error option \<Rightarrow> event" where
  "ev_orc8r_released L orc8r q \<equiv> EvPatch (OOrc8r (removeOrc8rFinalizer L orc8r)) (MergeFrom (OOrc8r orc8r)) q"

text \<open>
  Nothing is left to do: the object is gone; or it is being deleted and carries no finalizer of
  the operator, or has just lost it.
\<close>

definition orc8r_over :: "lib \<Rightarrow> string \<Rightarrow> string \<Rightarrow> event list \<Rightarrow> bool" where
  "orc8r_over L ns name t \<longleftrightarrow> (\<exists>e. IsNotFound e \<and> t = [EvGet KOrc8r ns name (Inl e)]) \<or>
     (\<exists>orc8r u. t = ev_orc8r ns name orc8r # u \<and> m_DeletionTimestamp (orc8r_Meta orc8r) \<noteq> None \<and>
        (u = [] \<and> \<not> l_ContainsFinalizer L (m_Finalizers (orc8r_Meta orc8r)) magmaOrc8rFinalizer \<or>
         (\<exists>v. u = v @ [ev_orc8r_released L orc8r None])))"

definition orc8r_reconcile_post :: "lib \<Rightarrow> string \<Rightarrow> string \<Rightarrow> ctrlResult \<times> error option \<Rightarrow> event list \<Rightarrow> bool" where
  "orc8r_reconcile_post L ns name r t \<longleftrightarrow>
     (\<forall>orc8r u. t = ev_orc8r ns name orc8r # u \<longrightarrow> m_DeletionTimestamp (orc8r_Meta orc8r) = None \<longrightarrow>
        gated reports_orc8r (orc8r_evidence L ns orc8r) t) \<and>
     (comes_back r \<or> (\<exists>orc8r u. t = ev_orc8r ns name orc8r # u \<and> m_DeletionTimestamp (orc8r_Meta orc8r) = None \<and>
        orc8r_ready_written t) \<or> orc8r_over L ns name t)"

lemma orc8r_deletion_over:
  assumes "orc8r_deletion_post L orc8r rn r t" and "m_DeletionTimestamp (orc8r_Meta orc8r) \<noteq> None"
  shows "comes_back r \<or> orc8r_over L ns name (ev_orc8r ns name orc8r # t)"
  using assms(1)
proof cases
  case (orc8r_finished objects u q)
  then show ?thesis using assms(2) by (cases q) (auto simp: orc8r_over_def)
qed (use assms(2) in \<open>auto simp: orc8r_over_def comes_back_def\<close>)

lemma gated_read: "gated reports_orc8r (orc8r_evidence L ns orc8r) [EvGet k n m g]"
  using orc8r_gated_append [of L ns orc8r "[]" "[EvGet k n m g]"] by (simp add: gated_def)

lemma stage_orc8r_certs:
  assumes L: "conditions_ok L" "owner_ok L" "codecs_ok L" "createOrUpdate_ok K"
    and t: "gated reports_orc8r (orc8r_evidence L ns orc8r) t" and w: "orc8r_workloads L ns orc8r t"
  shows "spec (do {
      c \<leftarrow> reconcileOrc8rCertSecret K L P orc8r;
      case c of
        Inl e \<Rightarrow> updateOrc8rStatus K L orc8r rn ConditionFalse ''Orc8rCertSecretFailed'' (err_text e)
      | Inr _ \<Rightarrow> orc8rRollOut K L ns orc8r
    }) (orc8r_post L ns orc8r t)"
proof (rule spec_bind, rule spec_weaken [OF spec_reconcileOrc8rCertSecret [OF L(2-4)]], unfold orc8r_post_assoc [symmetric])
  fix r u
  assume post: "cert_secret_post L P orc8r r u"
  then have "list_all (\<lambda>e. \<not> reports_orc8r e) u" unfolding cert_secret_post_def by (elim exE conjE disjE) simp_all
  then have g: "gated reports_orc8r (orc8r_evidence L ns orc8r) (t @ u)" by (intro orc8r_gated_append [OF t]) simp
  have w': "orc8r_workloads L ns orc8r (t @ u)" by (rule orc8r_workloads_mono [OF w]) simp
  have c: "orc8r_certified orc8r (t @ u)" if "r = Inr h" for h
  proof -
    from post that have "orc8r_certified orc8r u" unfolding cert_secret_post_def orc8r_certified_def by blast
    then show ?thesis by (rule orc8r_certified_mono) simp
  qed
  show "spec (case r of
       Inl e \<Rightarrow> updateOrc8rStatus K L orc8r rn ConditionFalse ''Orc8rCertSecretFailed'' (err_text e)
     | Inr _ \<Rightarrow> orc8rRollOut K L ns orc8r) (orc8r_post L ns orc8r (t @ u))"
    by (rule spec_sum) (auto intro: orc8r_false_status [OF L(1) g] stage_orc8r_rollout [OF L(1) g w' c])
qed

lemma spec_ReconcileOrc8r:
  assumes L: "conditions_ok L" "owner_ok L" "codecs_ok L" "createOrUpdate_ok K"
  shows "spec (ReconcileOrc8r K L P ns name) (orc8r_reconcile_post L ns name)"
  unfolding ReconcileOrc8r_def Let_def
  apply (rule spec_bind, rule spec_getAs, rule spec_sum)
  subgoal
    by (rule spec_return) (auto simp: orc8r_reconcile_post_def orc8r_over_def IgnoreNotFound_def as_typed_Inr dest: as_typed_Inl_NotFound)
  apply (rule spec_if)
  subgoal
    by (rule spec_weaken [OF spec_reconcileOrc8rDeletion])
      (auto simp: orc8r_reconcile_post_def as_typed_Inr dest: orc8r_deletion_over)
  apply (rule spec_if)
  subgoal
    by (rule spec_bind, rule spec_kPatch, rule spec_return)
      (auto simp: orc8r_reconcile_post_def as_typed_Inr comes_back_def split: option.split
        intro!: orc8r_gated_append [OF gated_read, simplified])
  subgoal premises prems for g orc8r
  proof -
    have g: "g = Inr (OOrc8r orc8r)" using prems(1) by (simp add: as_typed_Inr)
    let ?t = "[EvGet KOrc8r ns name g]"
    have "spec (do {
        r \<leftarrow> reconcileNativeRelease K L (OOrc8r orc8r) (orc8rRelease ns orc8r);
        case r of
          Some e \<Rightarrow> updateOrc8rStatus K L orc8r (orc8rReleaseOf orc8r) ConditionFalse ''NativeReconcileFailed'' (err_text e)
        | None \<Rightarrow> do {
            c \<leftarrow> reconcileOrc8rCertSecret K L P orc8r;
            case c of
              Inl e \<Rightarrow> updateOrc8rStatus K L orc8r (orc8rReleaseOf orc8r) ConditionFalse ''Orc8rCertSecretFailed'' (err_text e)
            | Inr _ \<Rightarrow> orc8rRollOut K L ns orc8r
          }
      }) (orc8r_post L ns orc8r ?t)"
    proof (rule spec_bind, rule spec_weaken [OF spec_reconcileNativeRelease], unfold orc8r_post_assoc [symmetric], rule spec_option)
      fix r u
      assume post: "case nativeReleaseObjects L (orc8rRelease ns orc8r) of Inl e \<Rightarrow> r = Some e \<and> u = []
        | Inr objects \<Rightarrow> each_post (release_post L (OOrc8r orc8r) (orc8rRelease ns orc8r)) objects r u"
      then have "\<not> reports_orc8r e" if "e \<in> set u" for e
        using that by (auto split: sum.splits dest: release_post_event silent_native)
      then have gu: "gated reports_orc8r (orc8r_evidence L ns orc8r) (?t @ u)"
        by (intro orc8r_gated_append [OF gated_read]) (simp add: list_all_iff)
      show "spec (updateOrc8rStatus K L orc8r (orc8rReleaseOf orc8r) ConditionFalse ''NativeReconcileFailed'' (err_text e))
          (orc8r_post L ns orc8r (?t @ u))" for e by (rule orc8r_false_status [OF L(1) gu])
      assume "r = None"
      with post have "orc8r_workloads L ns orc8r u"
        by (auto simp: orc8r_workloads_def split: sum.splits dest: release_post_done)
      then have "orc8r_workloads L ns orc8r (?t @ u)" by (rule orc8r_workloads_mono) auto
      then show "spec (do {
          c \<leftarrow> reconcileOrc8rCertSecret K L P orc8r;
          case c of
            Inl e \<Rightarrow> updateOrc8rStatus K L orc8r (orc8rReleaseOf orc8r) ConditionFalse ''Orc8rCertSecretFailed'' (err_text e)
          | Inr _ \<Rightarrow> orc8rRollOut K L ns orc8r
        }) (orc8r_post L ns orc8r (?t @ u))" by (rule stage_orc8r_certs [OF L gu])
    qed
    then show ?thesis
      by (rule spec_weaken) (use prems(2) in \<open>auto simp: orc8r_reconcile_post_def orc8r_post_def g\<close>)
  qed
  done

end
