(* ===== verification/Reference_Run.thy ===== *)
theory Reference_Run
  imports AGW_Safety
begin

text \<open>
  One complete run of the AGW reconcile against \<^const>\<open>refClient\<close>: an adopted gateway with its
  identity, labelled nodes, the trust bundle, registration disabled and an open start gate. It
  applies the workloads, starts the simulator and reports Ready, so the trace properties of the
  reconcile have something to say about it. Each stage is evaluated on its own.
\<close>

section \<open>The cluster\<close>

definition liveSpec :: magmaAGWSpec where
  "liveSpec = demoSpec\<lparr>as_Identity := (as_Identity demoSpec)\<lparr>id_HardwareID := ''hw-1''\<rparr>\<rparr>"

definition liveAGW :: magmaAGW where
  "liveAGW = demoAGW\<lparr>agw_Spec := liveSpec\<rparr>"

definition liveManifest :: "unstructured list" where
  "liveManifest = [demoObject ''ConfigMap'' ''agw-config'', demoObject ''Deployment'' ''agw-ueransim'']"

definition liveLib :: lib where
  "liveLib = refLib (\<lambda>_. liveManifest)"

definition liveObject :: "unstructured \<Rightarrow> kobj" where
  "liveObject x = OUnstructured (x\<lparr>u_Meta := (newMeta ''magma'' (m_Name (u_Meta x)))\<lparr>
     m_Labels := [(labelAppManagedBy, managedByMagmaOperator)]\<rparr>\<rparr>)"

definition liveObjects :: "kobj list" where
  "liveObjects = [OAGW liveAGW, demoStored, demoNode [(''magma.io/agw-datapath-ready'', ''true'')], demoDaemonSet 1,
     OSecret ((newSecret ''magma'' ''orc8r-secrets-certs'')\<lparr>sec_Data := [(''rootCA.pem'', ''ca'')]\<rparr>),
     OConfigMap \<lparr>cm_Meta = newMeta ''magma'' ''agw-ueransim-ready'', cm_Data = [(''ready'', ''True'')]\<rparr>]
   @ map liveObject liveManifest"

abbreviation liveClient :: "unit client" where
  "liveClient \<equiv> refClient liveObjects"

lemma liveLib_simps:
  "conditions_ok liveLib" "owner_ok liveLib" "finalizers_ok liveLib"
  by (simp_all add: liveLib_def refLib_conditions refLib_owner refLib_finalizers)

section \<open>The stages\<close>

text \<open>The digest stays symbolic while the stages are evaluated.\<close>

declare sha256Hex_def [code del]

lemma live_read: "result (getAGW liveClient ''magma'' ''agw'') s = Inr liveAGW"
  by code_simp

lemma live_identity: "\<not> isl (result (reconcileAGWIdentity liveClient liveLib (demoEntropy 3) liveAGW) s)"
  by code_simp

lemma live_nodes:
  "result (agwDatapathNodesReady liveClient ''magma'' (agwNodeSelectorOf liveAGW) (as_Datapath liveSpec)) s = (True, None)"
  by code_simp

lemma live_prerequisites:
  "result (reconcileAGWLifecyclePrereqs liveClient (liveAGW\<lparr>agw_Status := st\<rparr>) ''agw'' (agwValues ''magma'' liveAGW i)) s =
     ((\<lparr>ls_Orc8rServiceIP = [], ls_TrustBundleHash = sha256Hex ''ca''\<rparr>, True, [], [], None), agwValues ''magma'' liveAGW i)"
  by code_simp

lemma live_gate:
  "result (ueransimStartGateReady liveClient ''magma'' (liveAGW\<lparr>agw_Status := st\<rparr>) ''agw'') s =
     (True, ''agw-ueransim-ready'', None)"
  by code_simp

definition liveRun :: agwRun where
  "liveRun = \<lparr>run_Namespace = ''magma'', run_ReleaseName = ''agw'', run_NodeSelector = agwNodeSelectorOf liveAGW,
     run_DatapathEnabled = True, run_DatapathReady = True\<rparr>"

definition liveValues :: "agwIdentityState \<Rightarrow> smap" where
  "liveValues i = mset_key ''simulator.enabled'' stringTrue (agwValues ''magma'' liveAGW i)"

lemma live_release: "result (reconcileNativeRelease liveClient liveLib owner (agwRelease liveRun (liveValues i))) s = None"
  by code_simp

lemma live_objects:
  "list_ex (\<lambda>x. u_Kind x = ''Deployment'' \<and> \<not> rejected (agwRelease liveRun (liveValues i)) x \<and>
     contains (m_Name (u_Meta x)) ''ueransim'') (projr (nativeReleaseObjects liveLib (agwRelease liveRun (liveValues i))))"
  by code_simp

lemma live_annotate: "result (annotateAGWCoreDeploymentsForRootCA liveClient ''magma'' ''agw'' h) s = None"
proof (cases h)
  case Nil
  show ?thesis unfolding Nil by code_simp
next
  case (Cons c cs)
  show ?thesis unfolding Cons by code_simp
qed

lemma live_pods: "result (cleanupStaleAGWPods liveClient ''magma'' ''agw'') s = None"
  by code_simp

declare sha256Hex_def [code]

section \<open>The run\<close>

definition shows_ready :: "event list \<Rightarrow> bool" where
  "shows_ready t \<longleftrightarrow> (\<exists>e\<in>set t. reports_ready e)"

definition shows_simulator :: "event list \<Rightarrow> bool" where
  "shows_simulator t \<longleftrightarrow> (\<exists>e\<in>set t. starts_simulator e)"

lemma shows_append [simp]:
  "shows_ready (t @ u) \<longleftrightarrow> shows_ready t \<or> shows_ready u"
  "shows_simulator (t @ u) \<longleftrightarrow> shows_simulator t \<or> shows_simulator u"
  by (auto simp: shows_ready_def shows_simulator_def)

lemma live_fields:
  "agw_Spec liveAGW = liveSpec" "as_EnableUERANSIM liveSpec" "as_UERANSIMStartPolicy liveSpec = []"
  "\<not> gatewayRegistrationEnabled (as_GatewayRegistration liveSpec)"
  "\<not> ueransimValidationEnabled (as_UERANSIMValidation liveSpec)"
  "m_DeletionTimestamp (agw_Meta liveAGW) = None" "datapathGateEnabled (as_Datapath liveSpec)"
  "magmaAGWFinalizer \<in> set (m_Finalizers (agw_Meta liveAGW))" "agwReleaseName liveAGW = ''agw''"
  "agwNodeSelectorOf liveAGW \<noteq> []"
  by code_simp+

lemma live_shape: "same_object a liveAGW \<Longrightarrow> a = liveAGW\<lparr>agw_Status := agw_Status a\<rparr>"
  by (cases a) (simp add: same_object_def liveAGW_def demoAGW_def)

lemma same_spec: "same_object a liveAGW \<Longrightarrow> agw_Spec a = liveSpec"
  by (simp add: same_object_def live_fields)

lemma live_validate:
  assumes "same_object a liveAGW"
  shows "spec (agwValidate liveClient liveLib a liveRun) (\<lambda>r. shows_ready)"
  unfolding agwValidate_def reconcileUERANSIMValidation_def updateAGWStatus_def updateAGWStatusWithRequeue_def Let_def
  by (intro spec_bind, simp add: same_spec [OF assms] live_fields, intro spec_structure spec_rules)
    (simp_all add: shows_ready_def reports_ready_def ready_stamp liveLib_simps)

lemma late_shows: "late shows_ready" "late shows_simulator" "late (\<lambda>t. shows_simulator t \<and> shows_ready t)"
  by (simp_all add: late_def)

lemma live_rollout:
  assumes "same_object a liveAGW"
  shows "spec (agwRollOut liveClient liveLib a liveRun None) (\<lambda>r. shows_ready)"
  unfolding agwRollOut_def
proof (rule spec_known [OF late_shows(1)])
  show "spec (annotateAGWCoreDeploymentsForRootCA liveClient (run_Namespace liveRun) (run_ReleaseName liveRun)
      (ast_TrustBundleHash (agw_Status a))) (annotate_post agwCoreDeployment rootCAHashAnnotation
      (ast_TrustBundleHash (agw_Status a)) ''magma'' (agwSelector ''agw''))"
    using spec_annotateDeploymentsForRootCA by (simp add: annotateAGWCoreDeploymentsForRootCA_def liveRun_def)
  show "result (annotateAGWCoreDeploymentsForRootCA liveClient (run_Namespace liveRun) (run_ReleaseName liveRun)
      (ast_TrustBundleHash (agw_Status a))) s = None" for s
    using live_annotate by (simp add: liveRun_def)
  show "spec (case None of
       Some e \<Rightarrow> updateAGWStatus liveClient liveLib a (run_ReleaseName liveRun) ConditionFalse ''RootCARolloutAnnotationFailed'' (err_text e)
     | None \<Rightarrow> do {
         p \<leftarrow> cleanupStaleAGWPods liveClient (run_Namespace liveRun) (run_ReleaseName liveRun);
         case p of
           Some e \<Rightarrow> updateAGWStatus liveClient liveLib a (run_ReleaseName liveRun) ConditionFalse ''StalePodCleanupFailed'' (err_text e)
         | None \<Rightarrow>
             (if run_DatapathEnabled liveRun \<and> \<not> run_DatapathReady liveRun then agwDatapathLabels liveClient liveLib a liveRun
              else (case None of
                Some gateName \<Rightarrow> updateAGWStatus liveClient liveLib a (run_ReleaseName liveRun) ConditionFalse ''WaitingForUERANSIMGate''
                  (agwGateMessage liveRun gateName)
              | None \<Rightarrow> agwValidate liveClient liveLib a liveRun))
       }) (\<lambda>r. shows_ready)"
    unfolding option.case
    by (rule spec_known [OF late_shows(1) spec_cleanupStaleAGWPods, where x = None])
      (use live_pods live_validate [OF assms] in \<open>simp_all add: liveRun_def\<close>)
qed

lemma live_starts:
  assumes "case nativeReleaseObjects liveLib (agwRelease liveRun (liveValues i)) of Inl e \<Rightarrow> None = Some e \<and> t = []
    | Inr objects \<Rightarrow> each_post (release_post liveLib owner (agwRelease liveRun (liveValues i))) objects None t"
  shows "shows_simulator t"
proof -
  let ?R = "agwRelease liveRun (liveValues i)"
  from assms obtain objects where objects: "nativeReleaseObjects liveLib ?R = Inr objects"
    and post: "each_post (release_post liveLib owner ?R) objects None t"
    by (auto split: sum.splits)
  from live_objects [of i] objects obtain x where x: "x \<in> set objects" "u_Kind x = ''Deployment''" "\<not> rejected ?R x"
    "contains (m_Name (u_Meta x)) ''ueransim''"
    by (auto simp: list_ex_iff)
  have "native_done liveLib owner ?R x t" by (rule release_post_done [OF post x(1)])
  with x obtain m where m: "l_SetControllerReference liveLib owner (u_Meta x) = Inr m"
    and ev: "EvPatch (OUnstructured (x\<lparr>u_Meta := m\<rparr>)) (ApplyForce ''magma-operator'') None \<in> set t"
    by (auto simp: native_done_def)
  have "simulator_object (x\<lparr>u_Meta := m\<rparr>)"
    using x(4) owner_keeps_name [OF liveLib_simps(2) m] by (simp add: simulator_object_def)
  with ev show ?thesis by (auto simp: shows_simulator_def starts_simulator_def)
qed

lemma live_apply:
  assumes "same_object a liveAGW"
  shows "spec (agwApply liveClient liveLib a liveRun (liveValues i) None) (\<lambda>r t. shows_simulator t \<and> shows_ready t)"
proof -
  let ?a = "removeAGWCondition liveLib a ''UERANSIMReady''"
  have rest: "spec (agwRollOut liveClient liveLib ?a liveRun None) (\<lambda>r. shows_ready)"
    using assms by (intro live_rollout) simp
  show ?thesis
    unfolding agwApply_def Let_def
  proof (rule spec_bind, rule spec_weaken [OF spec_exact [OF spec_reconcileNativeRelease, where P = "\<lambda>y. y = None"]])
    show "result (reconcileNativeRelease liveClient liveLib (OAGW ?a) (agwRelease liveRun (liveValues i))) s = None" for s
      by (rule live_release)
    fix r t
    assume post: "r = None \<and> (case nativeReleaseObjects liveLib (agwRelease liveRun (liveValues i)) of Inl e \<Rightarrow> r = Some e \<and> t = []
      | Inr objects \<Rightarrow> each_post (release_post liveLib (OAGW ?a) (agwRelease liveRun (liveValues i))) objects r t)"
    then have "shows_simulator t" by (intro live_starts) auto
    with post rest show "spec (case r of
        Some e \<Rightarrow> updateAGWStatus liveClient liveLib ?a (run_ReleaseName liveRun) ConditionFalse ''NativeReconcileFailed'' (err_text e)
      | None \<Rightarrow> agwRollOut liveClient liveLib ?a liveRun None) (\<lambda>r u. shows_simulator (t @ u) \<and> shows_ready (t @ u))"
      by (auto elim: spec_weaken)
  qed
qed

lemma live_startGate:
  assumes "same_object a liveAGW"
  shows "spec (agwStartGate liveClient liveLib a liveRun (agwValues ''magma'' liveAGW i))
    (\<lambda>r t. shows_simulator t \<and> shows_ready t)"
  unfolding agwStartGate_def Let_def same_spec [OF assms]
  apply (simp add: live_fields)
  apply (rule spec_known [OF late_shows(3), where Q = "\<lambda>_ _. True" and x = "(True, ''agw-ueransim-ready'', None)"])
  subgoal unfolding ueransimStartGateReady_def Let_def by (rule spec_bind, rule spec_getAs, rule spec_return) simp
  subgoal using live_gate [of "agw_Status a"] by (simp add: live_shape [OF assms, symmetric] liveRun_def)
  subgoal using live_apply [OF assms, of i] by (simp add: liveValues_def)
  done

lemma live_register:
  assumes "same_object a liveAGW"
  shows "spec (agwRegister liveClient liveLib a liveRun i (agwValues ''magma'' liveAGW j))
    (\<lambda>r t. shows_simulator t \<and> shows_ready t)"
proof -
  have "reconcileAGWGatewayRegistration liveClient a i = return (False, ''GatewayRegistrationDisabled'', None)"
    by (simp add: reconcileAGWGatewayRegistration_def same_spec [OF assms] live_fields)
  then show ?thesis
    using live_startGate [of _ j] assms by (simp add: agwRegister_def same_spec [OF assms] live_fields Let_def)
qed

lemma no_contract: "False \<longrightarrow> createOrUpdate_ok K"
  by simp

lemma live_prepare:
  assumes "same_object a liveAGW"
  shows "spec (agwPrerequisites liveClient liveLib a liveRun i (agwValues ''magma'' liveAGW j))
    (\<lambda>r t. shows_simulator t \<and> shows_ready t)"
  unfolding agwPrerequisites_def
  apply (rule spec_known [OF late_shows(3) spec_reconcileAGWLifecyclePrereqs [OF no_contract], where x =
      "((\<lparr>ls_Orc8rServiceIP = [], ls_TrustBundleHash = sha256Hex ''ca''\<rparr>, True, [], [], None), agwValues ''magma'' liveAGW j)"])
  subgoal using live_prerequisites [of "agw_Status a"] by (simp add: live_shape [OF assms, symmetric] liveRun_def)
  subgoal using live_register assms by (simp add: Let_def)
  done

lemma live_datapath:
  assumes "same_object a liveAGW"
  shows "spec (agwDatapath liveClient liveLib ''magma'' a ''agw'' i) (\<lambda>r t. shows_simulator t \<and> shows_ready t)"
proof -
  have sel: "agwNodeSelectorOf a = agwNodeSelectorOf liveAGW" and vs: "agwValues ''magma'' a i = agwValues ''magma'' liveAGW i"
    using assms by (simp_all add: same_object_def agwNodeSelectorOf_def agwValues_def)
  show ?thesis
    unfolding agwDatapath_def Let_def sel vs same_spec [OF assms]
    apply (simp add: live_fields)
    apply (rule spec_known [OF late_shows(3) spec_agwDatapathNodesReady live_nodes])
    using live_prepare assms by (simp add: liveRun_def)
qed

lemma live_present:
  "spec (agwReconcilePresent liveClient liveLib (demoEntropy 3) ''magma'' liveAGW ''agw'')
     (\<lambda>r t. shows_simulator t \<and> shows_ready t)"
  unfolding agwReconcilePresent_def
proof (rule spec_bind, rule spec_weaken [OF spec_exact [OF spec_reconcileAGWIdentity, where P = "\<lambda>y. \<not> isl y"]])
  show "\<not> isl (result (reconcileAGWIdentity liveClient liveLib (demoEntropy 3) liveAGW) s)" for s
    by (rule live_identity)
  fix r t
  assume "\<not> isl r \<and> identity_post liveLib liveAGW r t"
  then obtain i where r: "r = Inr i" by (cases r) auto
  let ?a = "setAGWCondition liveLib (updateAGWStatusDetails liveAGW i) ''IdentityReady'' ConditionTrue ''IdentityReady''
    ''AGW bootstrap identity is ready''"
  have "spec (agwDatapath liveClient liveLib ''magma'' ?a ''agw'' i) (\<lambda>r u. shows_simulator u \<and> shows_ready u)"
    by (rule live_datapath) simp
  then show "spec (case r of
      Inl e \<Rightarrow> updateAGWStatus liveClient liveLib
        (setAGWCondition liveLib liveAGW ''IdentityReady'' ConditionFalse ''IdentityReconcileFailed'' (err_text e))
        ''agw'' ConditionFalse ''IdentityReconcileFailed'' (err_text e)
    | Inr identity \<Rightarrow> agwDatapath liveClient liveLib ''magma''
        (setAGWCondition liveLib (updateAGWStatusDetails liveAGW identity) ''IdentityReady'' ConditionTrue ''IdentityReady''
           ''AGW bootstrap identity is ready'') ''agw'' identity)
      (\<lambda>r u. shows_simulator (t @ u) \<and> shows_ready (t @ u))"
    unfolding r sum.case by (rule spec_weaken) auto
qed

lemma spec_read: "spec (getAGW K ns name) (\<lambda>x t. \<exists>g. x = as_typed to_agw g \<and> t = [EvGet KAGW ns name g])"
  by (rule spec_getAs) blast

lemma live_run:
  "spec (ReconcileAGW liveClient liveLib (demoEntropy 3) ''magma'' ''agw'') (\<lambda>r t. \<exists>u.
     t = ev_agw ''magma'' ''agw'' liveAGW # u \<and> shows_simulator u \<and> shows_ready u)"
  unfolding ReconcileAGW_def Let_def
proof (rule spec_bind, rule spec_weaken [OF spec_exact [OF spec_read, where P = "\<lambda>g. g = Inr liveAGW"]])
  show "result (getAGW liveClient ''magma'' ''agw'') s = Inr liveAGW" for s by (rule live_read)
  fix x t
  assume "x = Inr liveAGW \<and> (\<exists>g. x = as_typed to_agw g \<and> t = [EvGet KAGW ''magma'' ''agw'' g])"
  then have x: "x = Inr liveAGW" and t: "t = [ev_agw ''magma'' ''agw'' liveAGW]"
    by (auto dest: sym simp: as_typed_Inr)
  have fin: "l_ContainsFinalizer liveLib (m_Finalizers (agw_Meta liveAGW)) magmaAGWFinalizer"
    using live_fields by (simp add: liveLib_def)
  show "spec (case x of Inl e \<Rightarrow> return (noResult, IgnoreNotFound e)
      | Inr agw \<Rightarrow>
         if m_DeletionTimestamp (agw_Meta agw) \<noteq> None then reconcileAGWDeletion liveClient liveLib agw (agwReleaseName agw)
         else if \<not> l_ContainsFinalizer liveLib (m_Finalizers (agw_Meta agw)) magmaAGWFinalizer then do {
           p \<leftarrow> kPatch liveClient (OAGW (addAGWFinalizer liveLib agw)) (MergeFrom (OAGW agw));
           return (case p of Some e \<Rightarrow> (noResult, Some e) | None \<Rightarrow> (\<lparr>res_Requeue = True, res_RequeueAfter = 0\<rparr>, None))
         }
         else agwReconcilePresent liveClient liveLib (demoEntropy 3) ''magma'' agw (agwReleaseName agw))
      (\<lambda>r u. \<exists>v. t @ u = ev_agw ''magma'' ''agw'' liveAGW # v \<and> shows_simulator v \<and> shows_ready v)"
    using live_present fin by (simp add: x t live_fields)
qed

end
