(* ===== verification/Orc8r_Run.thy ===== *)
theory Orc8r_Run
  imports Orc8r_Safety Reference_Run
begin

text \<open>
  A complete run of the Orc8r reconcile against \<^const>\<open>refClient\<close>: the manifest is applied, the
  certificate Secret is current, and Ready is reported.
\<close>

definition certifiedSecret :: secret where
  "certifiedSecret = (newSecret ''magma'' defaultNMSAdminCertSecretName)\<lparr>
     sec_Data := [(rootCASecretKey, ''ca'')],
     sec_Meta := (newMeta ''magma'' defaultNMSAdminCertSecretName)\<lparr>
       m_Annotations := [(orc8rCertDomainAnnotation, ''magma.local|controller.magma.local'')]\<rparr>\<rparr>"

definition orc8rObjects :: "kobj list" where
  "orc8rObjects = [OOrc8r demoOrc8rCR, OSecret certifiedSecret] @ map liveObject liveManifest"

abbreviation orc8rClient :: "unit client" where
  "orc8rClient \<equiv> refClient orc8rObjects"

abbreviation orc8rRun :: "(unit, ctrlResult \<times> error option) kio" where
  "orc8rRun \<equiv> ReconcileOrc8r orc8rClient liveLib demoPki ''magma'' ''orc8r''"

lemma liveLib_codecs: "codecs_ok liveLib"
  by (simp add: liveLib_def refLib_codecs)

section \<open>The stages\<close>

declare sha256Hex_def [code del]

lemma orc8r_read: "result (getOrc8r orc8rClient ''magma'' ''orc8r'') s = Inr demoOrc8rCR"
  by code_simp

lemma orc8r_release: "result (reconcileNativeRelease orc8rClient liveLib (OOrc8r demoOrc8rCR) (orc8rRelease ''magma'' demoOrc8rCR)) s = None"
  by code_simp

lemma orc8r_secret: "result (getSecret orc8rClient ''magma'' defaultNMSAdminCertSecretName) s = Inr certifiedSecret"
  by code_simp

lemma orc8r_current: "certSecretCurrent demoOrc8rCR certifiedSecret"
  by code_simp

lemma orc8r_annotated:
  "result (annotateOrc8rDeploymentsForSecretHash orc8rClient ''magma'' ''orc8r'' defaultNMSAdminCertSecretName) s =
     (secretDataHash [(rootCASecretKey, ''ca'')], None)"
  by code_simp

lemma orc8r_no_bootstrap:
  "result (recreateOrc8rBootstrapJobForSecretHash orc8rClient ''magma'' ''orc8r-nms-admin'' h) s = (False, None)"
proof (cases h)
  case Nil
  show ?thesis unfolding Nil by code_simp
next
  case (Cons c cs)
  show ?thesis unfolding Cons by code_simp
qed

declare sha256Hex_def [code]

section \<open>The run\<close>

lemma orc8r_fields:
  "m_Namespace (orc8r_Meta demoOrc8rCR) = ''magma''" "orc8rReleaseOf demoOrc8rCR = ''orc8r''"
  "os_NMSNodePort (orc8r_Spec demoOrc8rCR) = None" "m_DeletionTimestamp (orc8r_Meta demoOrc8rCR) = None"
  "magmaOrc8rFinalizer \<in> set (m_Finalizers (orc8r_Meta demoOrc8rCR))"
  by code_simp+

definition shows_orc8r :: "event list \<Rightarrow> bool" where
  "shows_orc8r t \<longleftrightarrow> (\<exists>e\<in>set t. reports_orc8r e)"

lemma late_orc8r: "late shows_orc8r"
  by (auto simp: late_def shows_orc8r_def)

lemma orc8r_reported: "spec (orc8rNodePort orc8rClient liveLib ''magma'' demoOrc8rCR) (\<lambda>r. shows_orc8r)"
proof -
  have "reports_orc8r (EvStatusUpdate (OOrc8r (stampOrc8r liveLib demoOrc8rCR rn ConditionTrue reason msg)) q)" for rn reason msg q
    using orc8r_status.stamp_ready [OF liveLib_simps(1), of demoOrc8rCR rn ConditionTrue reason msg]
    by (auto simp: reports_orc8r_def orc8r_ready_def)
  then show ?thesis
    unfolding orc8rNodePort_def Let_def orc8r_fields
    by (intro spec_bind) (simp, intro spec_structure spec_rules, simp_all add: shows_orc8r_def)
qed

lemma orc8r_rolled: "spec (orc8rRollOut orc8rClient liveLib ''magma'' demoOrc8rCR) (\<lambda>r. shows_orc8r)"
  unfolding orc8rRollOut_def Let_def orc8r_fields
  apply (rule spec_known [OF late_orc8r spec_annotateOrc8r orc8r_annotated], simp)
  apply (rule spec_known [OF late_orc8r spec_recreateOrc8rBootstrapJob, where x = "(False, None)"])
  subgoal using orc8r_no_bootstrap by simp
  subgoal using orc8r_reported by simp
  done

lemma orc8r_certs_known: "result (reconcileOrc8rCertSecret orc8rClient liveLib demoPki demoOrc8rCR) s = Inr []"
  using orc8r_secret [of s] orc8r_current
  by (simp add: reconcileOrc8rCertSecret_def Let_def orc8r_fields result_def split_beta certifiedSecret_def newMeta_def)

lemma orc8r_run:
  "spec orc8rRun (\<lambda>r t. \<exists>u. t = ev_orc8r ''magma'' ''orc8r'' demoOrc8rCR # u \<and> shows_orc8r u)"
  unfolding ReconcileOrc8r_def Let_def
proof (rule spec_bind, rule spec_weaken [OF spec_exact [where P = "\<lambda>g. g = Inr demoOrc8rCR"]])
  show "spec (getOrc8r orc8rClient ''magma'' ''orc8r'') (\<lambda>x t. \<exists>g. x = as_typed to_orc8r g \<and> t = [EvGet KOrc8r ''magma'' ''orc8r'' g])"
    by (rule spec_getAs) blast
  show "result (getOrc8r orc8rClient ''magma'' ''orc8r'') s = Inr demoOrc8rCR" for s by (rule orc8r_read)
  fix x t
  assume "x = Inr demoOrc8rCR \<and> (\<exists>g. x = as_typed to_orc8r g \<and> t = [EvGet KOrc8r ''magma'' ''orc8r'' g])"
  then have x: "x = Inr demoOrc8rCR" and t: "t = [ev_orc8r ''magma'' ''orc8r'' demoOrc8rCR]"
    by (auto dest: sym simp: as_typed_Inr)
  have fin: "l_ContainsFinalizer liveLib (m_Finalizers (orc8r_Meta demoOrc8rCR)) magmaOrc8rFinalizer"
    using orc8r_fields by (simp add: liveLib_def)
  have certs: "spec (do {
      c \<leftarrow> reconcileOrc8rCertSecret orc8rClient liveLib demoPki demoOrc8rCR;
      case c of
        Inl e \<Rightarrow> updateOrc8rStatus orc8rClient liveLib demoOrc8rCR ''orc8r'' ConditionFalse ''Orc8rCertSecretFailed'' (err_text e)
      | Inr _ \<Rightarrow> orc8rRollOut orc8rClient liveLib ''magma'' demoOrc8rCR
    }) (\<lambda>r. shows_orc8r)"
    by (rule spec_known [OF late_orc8r spec_reconcileOrc8rCertSecret orc8r_certs_known])
      (simp_all add: liveLib_simps liveLib_codecs refClient_createOrUpdate orc8r_rolled)
  have "spec (do {
      r \<leftarrow> reconcileNativeRelease orc8rClient liveLib (OOrc8r demoOrc8rCR) (orc8rRelease ''magma'' demoOrc8rCR);
      case r of
        Some e \<Rightarrow> updateOrc8rStatus orc8rClient liveLib demoOrc8rCR ''orc8r'' ConditionFalse ''NativeReconcileFailed'' (err_text e)
      | None \<Rightarrow> do {
          c \<leftarrow> reconcileOrc8rCertSecret orc8rClient liveLib demoPki demoOrc8rCR;
          case c of
            Inl e \<Rightarrow> updateOrc8rStatus orc8rClient liveLib demoOrc8rCR ''orc8r'' ConditionFalse ''Orc8rCertSecretFailed'' (err_text e)
          | Inr _ \<Rightarrow> orc8rRollOut orc8rClient liveLib ''magma'' demoOrc8rCR
        }
    }) (\<lambda>r. shows_orc8r)"
    by (rule spec_known [OF late_orc8r spec_reconcileNativeRelease orc8r_release]) (simp add: certs)
  then show "spec (case x of Inl e \<Rightarrow> return (noResult, IgnoreNotFound e)
      | Inr orc8r \<Rightarrow>
         if m_DeletionTimestamp (orc8r_Meta orc8r) \<noteq> None then reconcileOrc8rDeletion orc8rClient liveLib orc8r (orc8rReleaseOf orc8r)
         else if \<not> l_ContainsFinalizer liveLib (m_Finalizers (orc8r_Meta orc8r)) magmaOrc8rFinalizer then do {
           p \<leftarrow> kPatch orc8rClient (OOrc8r (addOrc8rFinalizer liveLib orc8r)) (MergeFrom (OOrc8r orc8r));
           return (case p of Some e \<Rightarrow> (noResult, Some e) | None \<Rightarrow> (\<lparr>res_Requeue = True, res_RequeueAfter = 0\<rparr>, None))
         }
         else do {
           r \<leftarrow> reconcileNativeRelease orc8rClient liveLib (OOrc8r orc8r) (orc8rRelease ''magma'' orc8r);
           case r of
             Some e \<Rightarrow> updateOrc8rStatus orc8rClient liveLib orc8r (orc8rReleaseOf orc8r) ConditionFalse ''NativeReconcileFailed'' (err_text e)
           | None \<Rightarrow> do {
               c \<leftarrow> reconcileOrc8rCertSecret orc8rClient liveLib demoPki orc8r;
               case c of
                 Inl e \<Rightarrow> updateOrc8rStatus orc8rClient liveLib orc8r (orc8rReleaseOf orc8r) ConditionFalse ''Orc8rCertSecretFailed'' (err_text e)
               | Inr _ \<Rightarrow> orc8rRollOut orc8rClient liveLib ''magma'' orc8r
             }
         })
      (\<lambda>r u. \<exists>v. t @ u = ev_orc8r ''magma'' ''orc8r'' demoOrc8rCR # v \<and> shows_orc8r v)"
    using fin by (simp add: x t orc8r_fields)
qed

end
