(* ===== verification/Json_Roundtrip.thy ===== *)
theory Json_Roundtrip
  imports Json
begin

text \<open>
  Parsing what \<open>marshal\<close> wrote gives the value back, with the members of objects in key order:
  for strings that are valid UTF-8 and numbers that are non-zero decimals.
\<close>

section \<open>Strings\<close>

function valid_utf8 :: "string \<Rightarrow> bool" where
  "valid_utf8 [] = True"
| "valid_utf8 (c # cs) = (let k = utf8_size (codes (c # cs)) in k \<noteq> 0 \<and> valid_utf8 (drop (k - 1) cs))"
  by pat_completeness auto
termination by (relation "measure length") auto

lemma utf8_size_le: "utf8_size xs \<le> length xs"
  by (cases xs) (auto split: list.split)

lemma utf8_size_prefix: "utf8_size xs \<noteq> 0 \<Longrightarrow> utf8_size (take (utf8_size xs) xs @ ys) = utf8_size xs"
  by (cases xs) (auto split: list.splits if_splits)

declare utf8_size.simps [simp del]

lemma codes_simps [simp]: "codes (xs @ ys) = codes xs @ codes ys" "codes (take n xs) = take n (codes xs)"
  "codes (c # cs) = of_char c # codes cs" "length (codes xs) = length xs" "codes [] = []"
  by (simp_all add: codes_def take_map)

text \<open>Hexadecimal escapes.\<close>

lemma hex_val_char [simp]: "n < 16 \<Longrightarrow> hex_val (hex_char n) = Some n"
  by (auto simp: hex_val_def hex_char_def Let_def)

lemma hex_digits: "m < 256 \<Longrightarrow> m div 16 mod 16 * 16 + m mod 16 = (m::nat)"
  by simp

lemma getu4_uesc:
  assumes "n < 65536"
  shows "getu4 (uesc n @ r) = Some n"
proof -
  have "n div 256 < 256" using assms by simp
  moreover have "n mod 256 < 256" by simp
  ultimately have "(n div 256 div 16 mod 16 * 16 + n div 256 mod 16) * 256 + (n mod 256 div 16 mod 16 * 16 + n mod 256 mod 16) = n"
    by (simp only: hex_digits div_mult_mod_eq)
  then have "((n div 256 div 16 mod 16 * 16 + n div 256 mod 16) * 16 + n mod 256 div 16 mod 16) * 16 + n mod 256 mod 16 = n"
    by (simp only: distrib_right mult.assoc add.assoc numeral_times_numeral semiring_norm)
  moreover have "getu4 (uesc n @ r) = Some (((n div 256 div 16 mod 16 * 16 + n div 256 mod 16) * 16 + n mod 256 div 16 mod 16) * 16
      + n mod 256 mod 16)"
    by (simp only: uesc_def hex4_def hex_byte_def append.simps getu4.simps) (simp only: hex_val_char mod_less_divisor zero_less_numeral
        simp_thms if_True prod.case option.case)
  ultimately show ?thesis by (simp only:)
qed

lemma uesc_shape: "uesc n @ r = CHR 0x5C # CHR ''u'' # hex4 n @ r" and length_hex4: "length (hex4 n) = 4"
  by (simp_all add: uesc_def hex4_def hex_byte_def)

lemma parse_uesc:
  assumes "n < 55296"
  shows "parseString (uesc n @ r) = map_option (\<lambda>(s, t). (utf8_encode n @ s, t)) (parseString r)"
proof -
  have "getu4 (CHR 0x5C # CHR ''u'' # hex4 n @ r) = Some n" using assms getu4_uesc [of n r] by (simp only: uesc_shape)
  moreover have "drop 5 (CHR ''u'' # hex4 n @ r) = r" by (simp add: length_hex4)
  ultimately show ?thesis
    using assms unfolding uesc_shape parseString.simps(2) by (simp add: Let_def)
qed

text \<open>One escaped ASCII byte.\<close>

lemma parse_named:
  "simple_escape e = Some c \<Longrightarrow> e \<noteq> CHR ''u'' \<Longrightarrow>
   parseString (CHR 0x5C # e # r) = map_option (\<lambda>(s, t). (c # s, t)) (parseString r)"
  by (simp add: parseString.simps(2))

lemma parse_plain:
  "c \<noteq> CHR 0x22 \<Longrightarrow> c \<noteq> CHR 0x5C \<Longrightarrow> 32 \<le> (of_char c :: nat) \<Longrightarrow> (of_char c :: nat) < 128 \<Longrightarrow>
   parseString (c # r) = map_option (\<lambda>(s, t). (c # s, t)) (parseString r)"
  by (simp add: parseString.simps(2))

lemma control_codes:
  "(of_char c :: nat) \<in> {8, 12, 10, 13, 9} \<Longrightarrow> c \<in> {CHR 0x08, CHR 0x0C, CHR 0x0A, CHR 0x0D, CHR 0x09}"
proof -
  have "(of_char (CHR 0x08) :: nat) = 8" "(of_char (CHR 0x0C) :: nat) = 12" "(of_char (CHR 0x0A) :: nat) = 10"
    "(of_char (CHR 0x0D) :: nat) = 13" "(of_char (CHR 0x09) :: nat) = 9" by simp_all
  then show "(of_char c :: nat) \<in> {8, 12, 10, 13, 9} \<Longrightarrow> ?thesis" by (metis char_of_char insert_iff singletonD)
qed

lemma parse_escape:
  assumes "(of_char c :: nat) < 128"
  shows "parseString (escapeByte c @ r) = map_option (\<lambda>(s, t). (c # s, t)) (parseString r)"
proof -
  let ?n = "of_char c :: nat"
  have enc: "utf8_encode ?n = [c]" using assms by (simp add: utf8_encode_def)
  consider "c = CHR 0x22 \<or> c = CHR 0x5C" | "c = CHR 0x08" | "c = CHR 0x0C" | "c = CHR 0x0A" | "c = CHR 0x0D" | "c = CHR 0x09"
    | "escapeByte c = uesc ?n"
    | "escapeByte c = [c]" "c \<noteq> CHR 0x22" "c \<noteq> CHR 0x5C" "32 \<le> ?n"
  proof (cases "c \<in> {CHR 0x22, CHR 0x5C, CHR 0x08, CHR 0x0C, CHR 0x0A, CHR 0x0D, CHR 0x09}")
    case True
    with that(1-6) show ?thesis by blast
  next
    case False
    then have "?n \<notin> {8, 12, 10, 13, 9}" using control_codes [of c] by blast
    with False have "escapeByte c = (if ?n < 32 \<or> c = CHR ''<'' \<or> c = CHR ''>'' \<or> c = CHR 0x26 then uesc ?n else [c])"
      by (simp add: escapeByte_def Let_def)
    with False that(7,8) show ?thesis by (auto split: if_splits)
  qed
  then show ?thesis
  proof cases
    case 7
    then show ?thesis using assms enc by (simp add: parse_uesc)
  next
    case 8
    then show ?thesis using assms by (simp add: parse_plain)
  qed (auto simp: escapeByte_def Let_def simple_escape_def parse_named)
qed


text \<open>A multi-byte rune passes as it is, but for the two line separators.\<close>

lemma parse_rune:
  assumes "\<not> (of_char c :: nat) < 128" and "utf8_size (codes (c # cs)) = k" and "k \<noteq> 0" and "rune = take k (c # cs)"
  shows "parseString (rune @ r) = map_option (\<lambda>(s, t). (rune @ s, t)) (parseString r)"
proof -
  have k: "k \<le> length (c # cs)" using utf8_size_le [of "codes (c # cs)"] assms(2) by simp
  obtain rs where rune: "rune = c # rs" and rs: "length rs = k - 1" using assms(3,4) k by (cases k) auto
  have "utf8_size (codes (c # rs @ r)) = k"
    using utf8_size_prefix [of "codes (c # cs)" "codes r"] assms(2-4) rune
    by (metis append_Cons codes_simps(1,2))
  moreover have "c \<noteq> CHR 0x22" "c \<noteq> CHR 0x5C" using assms(1) by auto
  moreover have "\<not> (of_char c :: nat) < 32" using assms(1) by simp
  moreover have "take k (c # rs @ r) = rune" "drop (k - 1) (rs @ r) = r" using rune rs assms(3) by (auto simp: take_Cons')
  ultimately show ?thesis
    using assms(1,3) unfolding rune append_Cons parseString.simps(2) [of c "rs @ r"] by (simp add: Let_def rune)
qed

lemma parse_quoted: "valid_utf8 s \<Longrightarrow> parseString (quoteBody s @ CHR 0x22 # r) = Some (s, r)"
proof (induction s rule: quoteBody.induct)
  case 1
  show ?case by (simp add: parseString.simps(2))
next
  case (2 c cs)
  let ?k = "utf8_size (codes (c # cs))" and ?rune = "take (utf8_size (codes (c # cs))) (c # cs)"
  from 2(4) have k: "?k \<noteq> 0" and v: "valid_utf8 (drop (?k - 1) cs)" by (simp_all add: Let_def)
  show ?case
  proof (cases "(of_char c :: nat) < 128")
    case True
    then have "?k = 1" by (simp add: utf8_size.simps)
    with v have "valid_utf8 cs" by simp
    with True 2(1) show ?thesis by (simp add: parse_escape)
  next
    case False
    let ?out = "if ?rune = utf8_encode 8232 then uesc 8232 else if ?rune = utf8_encode 8233 then uesc 8233 else ?rune"
    have q: "quoteBody (c # cs) = ?out @ quoteBody (drop (?k - 1) cs)" using False k by (simp add: Let_def)
    have "parseString (?out @ x) = map_option (\<lambda>(s, t). (?rune @ s, t)) (parseString x)" for x
      using parse_rune [OF False refl k refl, of x] by (simp add: parse_uesc)
    moreover have "parseString (quoteBody (drop (?k - 1) cs) @ CHR 0x22 # r) = Some (drop (?k - 1) cs, r)"
      by (rule 2(3) [OF False refl refl k v])
    moreover have "?rune @ drop (?k - 1) cs = c # cs"
      using k by (cases ?k) auto
    ultimately show ?thesis unfolding q append_assoc by simp
  qed
qed

lemma parse_jsonString: "valid_utf8 s \<Longrightarrow> jsonString s @ r = CHR 0x22 # (quoteBody s @ CHR 0x22 # r)"
  by (simp add: jsonString_def)


section \<open>Values\<close>

text \<open>The value as it is read back: members in key order.\<close>

function canon :: "json \<Rightarrow> json" where
  "canon (JArr xs) = JArr (map canon xs)"
| "canon (JObj ms) = JObj (map (\<lambda>(k, v). (k, canon v)) (sort_key fst ms))"
| "canon JNull = JNull"
| "canon (JBool b) = JBool b"
| "canon (JNum n) = JNum n"
| "canon (JStr s) = JStr s"
  by pat_completeness auto
termination
proof (relation "measure size")
  fix xs :: "json list" and x assume "x \<in> set xs"
  then show "(x, JArr xs) \<in> measure size" by (induction xs) auto
next
  fix ms :: "(string \<times> json) list" and x and k :: string and v assume "x \<in> set (sort_key fst ms)" and "(k, v) = x"
  then have "(k, v) \<in> set ms" by simp
  then show "(v, JObj ms) \<in> measure size" by (induction ms) auto
qed simp

text \<open>Strings that are valid UTF-8, and numbers that are decimals without leading zero.\<close>

definition decimal :: "string \<Rightarrow> bool" where
  "decimal n \<longleftrightarrow> n \<noteq> [] \<and> list_all is_digit n \<and> hd n \<noteq> CHR ''0''"

fun wf_json :: "json \<Rightarrow> bool" where
  "wf_json (JNum n) = decimal n"
| "wf_json (JStr s) = valid_utf8 s"
| "wf_json (JArr xs) = list_all wf_json xs"
| "wf_json (JObj ms) = list_all (\<lambda>(k, v). valid_utf8 k \<and> wf_json v) ms"
| "wf_json _ = True"

lemma insort_key_map: "insort_key f (g x) (map g xs) = map g (insort_key (f \<circ> g) x xs)"
  by (induction xs) auto

lemma sort_key_map: "sort_key f (map g xs) = map g (sort_key (f \<circ> g) xs)"
  by (induction xs) (simp_all add: insort_key_map [of f g, unfolded comp_def] comp_def)

lemma marshal_object:
  "marshal (JObj ms) = ''{'' @ joinWith '','' (map (\<lambda>(k, v). jsonString k @ '':'' @ marshal v) (sort_key fst ms)) @ ''}''"
proof -
  have "sort_key fst (map (\<lambda>(k, v). (k, marshal v)) ms) = map (\<lambda>(k, v). (k, marshal v)) (sort_key (fst \<circ> (\<lambda>(k, v). (k, marshal v))) ms)"
    by (rule sort_key_map)
  moreover have "fst \<circ> (\<lambda>(k, v). (k, marshal v)) = fst" by (auto simp: fun_eq_iff)
  ultimately show ?thesis by (simp add: case_prod_unfold comp_def)
qed

text \<open>What may follow a value: the end, a comma or a closing bracket.\<close>

definition stops :: "string \<Rightarrow> bool" where
  "stops r \<longleftrightarrow> r = [] \<or> hd r \<in> {CHR '','', CHR '']'', CHR ''}''}"

lemma parse_decimal:
  assumes "decimal n" and "stops r"
  shows "parseNumber (n @ r) = Some (n, r)"
proof -
  obtain c cs where n: "n = c # cs" and d: "is_digit c" "list_all is_digit cs" "c \<noteq> CHR ''0''"
    using assms(1) by (cases n) (auto simp: decimal_def)
  have r: "r = [] \<or> (\<not> is_digit (hd r) \<and> hd r \<notin> {CHR ''.'', CHR ''e'', CHR ''E''})"
    using assms(2) by (auto simp: stops_def is_digit_def)
  have c: "c \<noteq> CHR ''-''" using d(1) by (auto simp: is_digit_def)
  have "takeWhile is_digit (n @ r) = n" "dropWhile is_digit (n @ r) = r"
    using d r unfolding n by (cases r; auto simp: list_all_iff takeWhile_append dropWhile_append)+
  then have "parseDigits (c # cs @ r) = Some (n, r)" by (simp add: parseDigits_def n)
  with c d(3) r show ?thesis
    by (cases r) (simp_all add: n parseNumber_def parseInt_def parseFrac_def parseExp_def Let_def)
qed


lemma skip_ws_token [simp]: "\<not> is_ws c \<Longrightarrow> skip_ws (c # cs) = c # cs"
  by (simp add: skip_ws_def)

lemma ws_tokens [simp]:
  "\<not> is_ws CHR 0x22" "\<not> is_ws CHR ''{''" "\<not> is_ws CHR ''}''" "\<not> is_ws CHR ''[''" "\<not> is_ws CHR '']''"
  "\<not> is_ws CHR '',''" "\<not> is_ws CHR '':''" "\<not> is_ws CHR ''t''" "\<not> is_ws CHR ''f''" "\<not> is_ws CHR ''n''"
  by (simp_all add: is_ws_def)

lemma ws_digit: "is_digit c \<Longrightarrow> \<not> is_ws c"
  by (auto simp: is_ws_def is_digit_def)

lemma digit_tokens:
  "is_digit c \<Longrightarrow> c \<notin> {CHR 0x22, CHR ''{'', CHR ''['', CHR '']'', CHR ''t'', CHR ''f'', CHR ''n''}"
  by (auto simp: is_digit_def)

lemma marshal_head:
  assumes "wf_json j"
  shows "\<exists>c cs. marshal j = c # cs \<and> \<not> is_ws c \<and> c \<noteq> CHR '']''"
proof (cases j)
  case (JNum n)
  then have n: "n \<noteq> []" "is_digit (hd n)" using assms by (auto simp: decimal_def list_all_iff)
  with digit_tokens [OF n(2)] ws_digit [OF n(2)] show ?thesis by (intro exI [of _ "hd n"] exI [of _ "tl n"]) (simp add: JNum)
qed (simp_all add: jsonString_def)

lemma parse_elements:
  assumes "\<And>x r n. x \<in> set xs \<Longrightarrow> stops r \<Longrightarrow> length (marshal x) < n \<Longrightarrow> parseValue n (marshal x @ r) = Some (canon x, r)"
    and "xs \<noteq> []" and "length (joinWith '','' (map marshal xs)) + 2 \<le> n"
  shows "parseElems n (joinWith '','' (map marshal xs) @ CHR '']'' # r) = Some (map canon xs, r)"
  using assms
proof (induction xs arbitrary: n rule: induct_list012)
  case 1
  then show ?case by simp
next
  case (2 x)
  then obtain m where n: "n = Suc m" "length (marshal x) < m" by (cases n) auto
  have "parseValue m (marshal x @ CHR '']'' # r) = Some (canon x, CHR '']'' # r)"
    by (rule 2(1)) (use n in \<open>simp_all add: stops_def\<close>)
  then show ?case by (simp add: n)
next
  case (3 x y zs)
  let ?rest = "joinWith '','' (map marshal (y # zs))"
  have shape: "joinWith '','' (map marshal (x # y # zs)) = marshal x @ CHR '','' # ?rest" by simp
  obtain m where n: "n = Suc m" "length (marshal x) < m" "length ?rest + 2 \<le> m"
    using 3(5) unfolding shape by (cases n) auto
  have "parseValue m (marshal x @ CHR '','' # ?rest @ CHR '']'' # r) = Some (canon x, CHR '','' # ?rest @ CHR '']'' # r)"
    by (rule 3(3)) (use n in \<open>simp_all add: stops_def\<close>)
  moreover have "parseElems m (?rest @ CHR '']'' # r) = Some (map canon (y # zs), r)"
    by (rule 3(2)) (use 3(3) n(3) in auto)
  ultimately show ?case unfolding shape n(1) by simp
qed

abbreviation member_text :: "string \<times> json \<Rightarrow> string" where
  "member_text \<equiv> \<lambda>(k, v). jsonString k @ '':'' @ marshal v"

lemma parse_member:
  assumes "valid_utf8 k" and "parseValue m (marshal v @ r) = Some (w, r)" and "r = d # ds" and "d \<in> {CHR '','', CHR ''}''}"
  shows "parseMembers (Suc m) (member_text (k, v) @ r) =
    (if d = CHR ''}'' then Some ([(k, w)], ds) else map_option (\<lambda>(ms, t). ((k, w) # ms, t)) (parseMembers m ds))"
  using assms by (auto simp: jsonString_def parse_quoted)

lemma parse_members:
  assumes "\<And>k v r n. (k, v) \<in> set ms \<Longrightarrow> stops r \<Longrightarrow> length (marshal v) < n \<Longrightarrow> parseValue n (marshal v @ r) = Some (canon v, r)"
    and "\<And>k v. (k, v) \<in> set ms \<Longrightarrow> valid_utf8 k"
    and "ms \<noteq> []" and "length (joinWith '','' (map member_text ms)) + 2 \<le> n"
  shows "parseMembers n (joinWith '','' (map member_text ms) @ CHR ''}'' # r) = Some (map (\<lambda>(k, v). (k, canon v)) ms, r)"
  using assms
proof (induction ms arbitrary: n rule: induct_list012)
  case 1
  then show ?case by simp
next
  case (2 x)
  obtain k v where x: "x = (k, v)" by (cases x)
  obtain m where n: "n = Suc m" "length (marshal v) < m" using 2(4) by (cases n) (auto simp: x jsonString_def)
  have "parseValue m (marshal v @ CHR ''}'' # r) = Some (canon v, CHR ''}'' # r)"
    by (rule 2(1) [of k]) (use n in \<open>simp_all add: stops_def x\<close>)
  from parse_member [OF _ this refl] 2(2) [of k v] show ?case by (simp add: n x)
next
  case (3 x y zs)
  let ?rest = "joinWith '','' (map member_text (y # zs))"
  obtain k v where x: "x = (k, v)" by (cases x)
  have shape: "joinWith '','' (map member_text (x # y # zs)) = member_text (k, v) @ CHR '','' # ?rest" by (simp add: x)
  obtain m where n: "n = Suc m" "length (marshal v) < m" "length ?rest + 2 \<le> m"
    using 3(6) unfolding shape by (cases n) (auto simp: jsonString_def)
  have "parseValue m (marshal v @ CHR '','' # ?rest @ CHR ''}'' # r) = Some (canon v, CHR '','' # ?rest @ CHR ''}'' # r)"
    by (rule 3(3) [of k]) (use n in \<open>simp_all add: stops_def x\<close>)
  note one = parse_member [OF _ this refl]
  have "parseMembers m (?rest @ CHR ''}'' # r) = Some (map (\<lambda>(k, v). (k, canon v)) (y # zs), r)"
  proof (rule 3(2))
    show "parseValue n (marshal v @ r) = Some (canon v, r)"
      if "(k, v) \<in> set (y # zs)" "stops r" "length (marshal v) < n" for k v r n
      using 3(3) [of k v r n] that by simp
    show "valid_utf8 k" if "(k, v) \<in> set (y # zs)" for k v using 3(4) [of k v] that by simp
  qed (use n(3) in simp_all)
  with one 3(4) [of k v] show ?case unfolding shape n(1) by (simp add: x del: parseMembers.simps)
qed

lemma parse_marshal: "wf_json j \<Longrightarrow> stops r \<Longrightarrow> length (marshal j) < n \<Longrightarrow> parseValue n (marshal j @ r) = Some (canon j, r)"
proof (induction j arbitrary: r n rule: canon.induct)
  case (1 xs)
  then obtain m where n: "n = Suc m" by (cases n) auto
  show ?case
  proof (cases xs)
    case Nil
    then show ?thesis by (simp add: n)
  next
    case (Cons x ys)
    let ?text = "joinWith '','' (map marshal xs)"
    have "wf_json x" using 1(2) by (simp add: Cons)
    then obtain c cs where head: "?text @ CHR '']'' # r = c # cs" "\<not> is_ws c" "c \<noteq> CHR '']''"
      using marshal_head [of x] by (cases ys) (auto simp: Cons)
    have "parseElems m (?text @ CHR '']'' # r) = Some (map canon xs, r)"
    proof (rule parse_elements)
      show "parseValue n (marshal x @ r) = Some (canon x, r)"
        if "x \<in> set xs" "stops r" "length (marshal x) < n" for x r n
        using 1(1) [OF that(1) _ that(2,3)] 1(2) that(1) by (simp add: list_all_iff)
      show "xs \<noteq> []" by (simp add: Cons)
      show "length ?text + 2 \<le> m" using 1(4) by (simp add: n)
    qed
    with head show ?thesis by (simp add: n)
  qed
next
  case (2 ms)
  then obtain m where n: "n = Suc m" by (cases n) auto
  let ?ms = "sort_key fst ms"
  let ?text = "joinWith '','' (map member_text ?ms)"
  have shape: "marshal (JObj ms) = ''{'' @ ?text @ ''}''" by (rule marshal_object)
  show ?case
  proof (cases ?ms)
    case Nil
    then show ?thesis unfolding shape by (simp add: n)
  next
    case (Cons x ys)
    obtain cs where head: "?text @ CHR ''}'' # r = CHR 0x22 # cs"
      by (cases ys; cases x) (auto simp: Cons jsonString_def)
    have "parseMembers m (?text @ CHR ''}'' # r) = Some (map (\<lambda>(k, v). (k, canon v)) ?ms, r)"
    proof (rule parse_members)
      show "parseValue n (marshal v @ r) = Some (canon v, r)"
        if "(k, v) \<in> set ?ms" "stops r" "length (marshal v) < n" for k v r n
        using 2(1) [OF that(1) refl _ that(2,3)] 2(2) that(1) by (auto simp: list_all_iff)
      show "valid_utf8 k" if "(k, v) \<in> set ?ms" for k v using 2(2) that by (auto simp: list_all_iff)
      show "?ms \<noteq> []" by (simp add: Cons)
      show "length ?text + 2 \<le> m" using 2(4) unfolding shape by (simp add: n)
    qed
    with head show ?thesis unfolding shape by (simp add: n)
  qed
next
  case 3
  then obtain m where "n = Suc m" by (cases n) auto
  then show ?case using cutPrefix_append [of "''null''" r] by (simp add: cutPrefix_def)
next
  case (4 b)
  then obtain m where "n = Suc m" by (cases n) auto
  then show ?case by (simp add: cutPrefix_def)
next
  case (5 d)
  then obtain m where n: "n = Suc m" by (cases n) auto
  obtain c cs where d: "d = c # cs" "is_digit c" using 5(1) by (cases d) (auto simp: decimal_def)
  have "parseNumber (c # cs @ r) = Some (d, r)" using parse_decimal [of d r] 5(1,2) by (simp add: d)
  with digit_tokens [OF d(2)] ws_digit [OF d(2)] show ?case by (auto simp add: n d cutPrefix_def)
next
  case (6 s)
  then obtain m where "n = Suc m" by (cases n) auto
  then show ?case using 6(1) by (simp add: parse_jsonString parse_quoted)
qed

lemma json_roundtrip: "wf_json j \<Longrightarrow> unmarshal (marshal j) = Some (canon j)"
  using parse_marshal [of j "[]" "Suc (length (marshal j))"] by (simp add: unmarshal_def stops_def skip_ws_def)

end
