(* ===== verification/Payload_Roundtrip.thy ===== *)
theory Payload_Roundtrip
  imports Json_Roundtrip Gateway_Registration
begin

text \<open>
  The registration Job is built from the marshalled gateway payload and parses it again for the
  gateway ID and the tier: what it gets is what the payload was built from.
\<close>

section \<open>The members of the payload\<close>

lemma payload_keys:
  "sort_key fst [(''id'', a :: json), (''name'', b), (''description'', c), (''tier'', d), (''device'', e), (''magmad'', f),
     (''cellular'', g), (''connected_enodeb_serials'', h)] =
   [(''cellular'', g), (''connected_enodeb_serials'', h), (''description'', c), (''device'', e), (''id'', a),
     (''magmad'', f), (''name'', b), (''tier'', d)]"
  by code_simp

lemma payload_folds:
  "\<not> equalFold ''cellular'' ''id''" "\<not> equalFold ''connected_enodeb_serials'' ''id''" "\<not> equalFold ''description'' ''id''" "\<not> equalFold ''device'' ''id''"
  "equalFold ''id'' ''id''" "\<not> equalFold ''magmad'' ''id''" "\<not> equalFold ''name'' ''id''" "\<not> equalFold ''tier'' ''id''"
  "\<not> equalFold ''cellular'' ''tier''" "\<not> equalFold ''connected_enodeb_serials'' ''tier''" "\<not> equalFold ''description'' ''tier''" "\<not> equalFold ''device'' ''tier''"
  "\<not> equalFold ''id'' ''tier''" "\<not> equalFold ''magmad'' ''tier''" "\<not> equalFold ''name'' ''tier''" "equalFold ''tier'' ''tier''"
  by code_simp+

lemma decimals: "decimal ''60''" "decimal ''30''" "decimal ''260''"
  by (simp_all add: decimal_def is_digit_def)

lemma ascii_valid: "list_all (\<lambda>c. (of_char c :: nat) < 128) s \<Longrightarrow> valid_utf8 s"
  by (induction s) (simp_all add: utf8_size.simps)

text \<open>The strings of the custom resource and of the identity that go into the payload.\<close>

definition payload_strings :: "magmaAGW \<Rightarrow> agwIdentityState \<Rightarrow> string list" where
  "payload_strings agw identity = (let sp = agw_Spec agw; reg = as_GatewayRegistration sp in
     [as_AccessGatewayID sp, gr_Name reg, gr_Description reg, gr_Tier reg, ids_HardwareID identity, ids_PublicKeyB64 identity])"

lemma payload_wf:
  assumes "list_all valid_utf8 (payload_strings agw identity)"
  shows "wf_json (gatewayPayloadJson agw identity)"
  using assms
  by (simp add: payload_strings_def gatewayPayloadJson_def Let_def decimals ascii_valid)


lemma payload_read:
  assumes "list_all valid_utf8 (payload_strings agw identity)"
  shows "stringField ''id'' (agwGatewayPayload agw identity) = as_AccessGatewayID (agw_Spec agw)"
    and "stringField ''tier'' (agwGatewayPayload agw identity) =
      (if gr_Tier (as_GatewayRegistration (agw_Spec agw)) = [] then defaultAGWRegistrationTier
       else gr_Tier (as_GatewayRegistration (agw_Spec agw)))"
proof -
  have "unmarshal (agwGatewayPayload agw identity) = Some (canon (gatewayPayloadJson agw identity))"
    unfolding agwGatewayPayload_def by (rule json_roundtrip [OF payload_wf [OF assms]])
  then show "stringField ''id'' (agwGatewayPayload agw identity) = as_AccessGatewayID (agw_Spec agw)"
    and "stringField ''tier'' (agwGatewayPayload agw identity) =
      (if gr_Tier (as_GatewayRegistration (agw_Spec agw)) = [] then defaultAGWRegistrationTier
       else gr_Tier (as_GatewayRegistration (agw_Spec agw)))"
    by (simp_all only: stringField_def option.case gatewayPayloadJson_def Let_def canon.simps payload_keys json.case list.map
        prod.case fold.simps payload_folds comp_apply id_apply if_True if_False)
qed

section \<open>The property\<close>

text \<open>C21: the gateway ID and the tier survive the payload. For strings that are valid UTF-8, and they come
  out of the API server as such, the environment of the registration Job names the gateway ID of
  the custom resource and its tier, or the default tier: marshalling, escaping and key order of
  the payload, and parsing it again, lose nothing.\<close>

theorem gateway_payload_roundtrip:
  assumes "list_all valid_utf8 (payload_strings agw identity)"
  shows "gatewayIDFromPayload (agwGatewayPayload agw identity) = as_AccessGatewayID (agw_Spec agw) \<and>
    gatewayTierFromPayload (agwGatewayPayload agw identity) =
      (if gr_Tier (as_GatewayRegistration (agw_Spec agw)) = [] then defaultAGWRegistrationTier
       else gr_Tier (as_GatewayRegistration (agw_Spec agw)))"
  using payload_read [OF assms] by (simp add: gatewayIDFromPayload_def gatewayTierFromPayload_def Let_def)

subsection \<open>Witness\<close>

text \<open>A tier that needs escaping and has a rune of two bytes.\<close>

definition demoTier :: string where
  "demoTier = [CHR ''a'', CHR 0x22, CHR 0x5C, CHR ''<'', CHR 0x0A, CHR 0xC3, CHR 0xA9]"

definition demoTiered :: magmaAGW where
  "demoTiered = demoAGW\<lparr>agw_Spec := demoSpec\<lparr>as_GatewayRegistration := (as_GatewayRegistration demoSpec)\<lparr>gr_Tier := demoTier\<rparr>\<rparr>\<rparr>"

definition demoState :: agwIdentityState where
  "demoState = \<lparr>ids_SecretName = [], ids_HardwareID = ''hw-1'', ids_PrivateKeyB64 = [], ids_PublicKeyB64 = ''cHVi'',
     ids_PublicKeyHash = [], ids_GatewayRegistered = False\<rparr>"

lemma gateway_payload_roundtrip_witness:
  "gatewayTierFromPayload (agwGatewayPayload demoTiered demoState) = demoTier"
proof -
  have "list_all valid_utf8 (payload_strings demoTiered demoState)"
    by (simp add: payload_strings_def demoTiered_def demoTier_def demoSpec_def demoState_def Let_def utf8_size.simps rune2_def is_cont_def)
  from gateway_payload_roundtrip [OF this] show ?thesis by (simp add: demoTiered_def demoTier_def demoSpec_def)
qed

end
