(* ===== verification/Flag_Parsing.thy ===== *)
theory Flag_Parsing
  imports Go_Strings
begin

text \<open>
  The command line of the manager (\<^verbatim>\<open>cmd/main.go\<close>): the flags it registers with Go's \<^verbatim>\<open>flag\<close>
  package, in the order of the source, and \<^verbatim>\<open>flag.Parse\<close>, which is standard library. Flags
  registered by third-party packages (\<^verbatim>\<open>zap.Options.BindFlags\<close>, \<^verbatim>\<open>kubeconfig\<close>) are a parameter: a
  table \<open>'z\<close> values of which only their own setters read or write.

  The lemmas say which command lines can change a flag: a flag no argument names keeps its default.
\<close>

section \<open>Flags\<close>

record 'z flags =
  fl_metricsAddr :: string
  fl_probeAddr :: string
  fl_enableLeaderElection :: bool
  fl_secureMetrics :: bool
  fl_webhookCertPath :: string
  fl_webhookCertName :: string
  fl_webhookCertKey :: string
  fl_metricsCertPath :: string
  fl_metricsCertName :: string
  fl_metricsCertKey :: string
  fl_enableHTTP2 :: bool
  fl_other :: 'z

definition defaultFlags :: "'z \<Rightarrow> 'z flags" where
  "defaultFlags z = \<lparr>fl_metricsAddr = ''0'', fl_probeAddr = '':8081'', fl_enableLeaderElection = False,
     fl_secureMetrics = True, fl_webhookCertPath = '''', fl_webhookCertName = ''tls.crt'',
     fl_webhookCertKey = ''tls.key'', fl_metricsCertPath = '''', fl_metricsCertName = ''tls.crt'',
     fl_metricsCertKey = ''tls.key'', fl_enableHTTP2 = False, fl_other = z\<rparr>"

text \<open>
  A registered flag: where its value is stored. A flag of another package brings its own setter,
  which may reject a value, and says whether it is boolean.
\<close>

datatype 'z flagVar =
    StringVar "string \<Rightarrow> 'z flags \<Rightarrow> 'z flags"
  | BoolVar "bool \<Rightarrow> 'z flags \<Rightarrow> 'z flags"
  | OtherVar bool "string \<Rightarrow> 'z \<Rightarrow> string + 'z"

type_synonym 'z otherFlags = "string \<Rightarrow> (bool \<times> (string \<Rightarrow> 'z \<Rightarrow> string + 'z)) option"

definition managerFlags :: "(string \<times> 'z flagVar) list" where
  "managerFlags =
     [(''metrics-bind-address'', StringVar (\<lambda>v f. f\<lparr>fl_metricsAddr := v\<rparr>)),
      (''health-probe-bind-address'', StringVar (\<lambda>v f. f\<lparr>fl_probeAddr := v\<rparr>)),
      (''leader-elect'', BoolVar (\<lambda>b f. f\<lparr>fl_enableLeaderElection := b\<rparr>)),
      (''metrics-secure'', BoolVar (\<lambda>b f. f\<lparr>fl_secureMetrics := b\<rparr>)),
      (''webhook-cert-path'', StringVar (\<lambda>v f. f\<lparr>fl_webhookCertPath := v\<rparr>)),
      (''webhook-cert-name'', StringVar (\<lambda>v f. f\<lparr>fl_webhookCertName := v\<rparr>)),
      (''webhook-cert-key'', StringVar (\<lambda>v f. f\<lparr>fl_webhookCertKey := v\<rparr>)),
      (''metrics-cert-path'', StringVar (\<lambda>v f. f\<lparr>fl_metricsCertPath := v\<rparr>)),
      (''metrics-cert-name'', StringVar (\<lambda>v f. f\<lparr>fl_metricsCertName := v\<rparr>)),
      (''metrics-cert-key'', StringVar (\<lambda>v f. f\<lparr>fl_metricsCertKey := v\<rparr>)),
      (''enable-http2'', BoolVar (\<lambda>b f. f\<lparr>fl_enableHTTP2 := b\<rparr>))]"

definition lookupFlag :: "'z otherFlags \<Rightarrow> string \<Rightarrow> 'z flagVar option" where
  "lookupFlag X name = (case map_of managerFlags name of
     Some v \<Rightarrow> Some v
   | None \<Rightarrow> map_option (\<lambda>(b, set). OtherVar b set) (X name))"

section \<open>Parsing\<close>

text \<open>\<^verbatim>\<open>strconv.ParseBool\<close>.\<close>

definition parseBool :: "string \<Rightarrow> bool option" where
  "parseBool s =
     (if s \<in> {''1'', ''t'', ''T'', ''TRUE'', ''true'', ''True''} then Some True
      else if s \<in> {''0'', ''f'', ''F'', ''FALSE'', ''false'', ''False''} then Some False
      else None)"

primrec isBoolFlag :: "'z flagVar \<Rightarrow> bool" where
  "isBoolFlag (StringVar _) = False"
| "isBoolFlag (BoolVar _) = True"
| "isBoolFlag (OtherVar b _) = b"

text \<open>\<^verbatim>\<open>Value.Set\<close>.\<close>

primrec setFlag :: "'z flagVar \<Rightarrow> string \<Rightarrow> 'z flags \<Rightarrow> string + 'z flags" where
  "setFlag (StringVar f) v fl = Inr (f v fl)"
| "setFlag (BoolVar f) v fl = (case parseBool v of None \<Rightarrow> Inl ''parse error'' | Some b \<Rightarrow> Inr (f b fl))"
| "setFlag (OtherVar _ f) v fl = (case f v (fl_other fl) of Inl e \<Rightarrow> Inl e | Inr z \<Rightarrow> Inr (fl\<lparr>fl_other := z\<rparr>))"

datatype 'z parsed = Parsed "'z flags" "string list" | ParseHelp | ParseError string

text \<open>
  \<^verbatim>\<open>FlagSet.parseOne\<close> cuts an argument into the name of a flag and the value after the first
  \<open>=\<close>. \<^verbatim>\<open>None\<close>: the argument is not a flag, or ends the flags.
\<close>

definition flagName :: "string \<Rightarrow> string" where
  "flagName s = drop (if s ! 1 = CHR ''-'' then 2 else 1) s"

definition isFlagArg :: "string \<Rightarrow> bool" where
  "isFlagArg s \<longleftrightarrow> 2 \<le> length s \<and> hd s = CHR ''-'' \<and> s \<noteq> ''--''"

definition badFlagName :: "string \<Rightarrow> bool" where
  "badFlagName name \<longleftrightarrow> name = [] \<or> hd name = CHR ''-'' \<or> hd name = CHR ''=''"

definition cutFlag :: "string \<Rightarrow> string \<times> string option" where
  "cutFlag name = (let n = takeWhile (\<lambda>c. c \<noteq> CHR ''='') name in
     (n, if n = name then None else Some (drop (Suc (length n)) name)))"

text \<open>The value for a flag that needs one: what follows \<open>=\<close>, or the next argument.\<close>

definition flagValue :: "string option \<Rightarrow> string list \<Rightarrow> (string \<times> string list) option" where
  "flagValue val rest = (case val of
     Some v \<Rightarrow> Some (v, rest)
   | None \<Rightarrow> (case rest of [] \<Rightarrow> None | v # rest' \<Rightarrow> Some (v, rest')))"

datatype 'z flagStep = More "'z flags" "string list" | Stop "'z parsed"

definition setNamedFlag ::
    "string \<Rightarrow> string option \<Rightarrow> string list \<Rightarrow> 'z flagVar \<Rightarrow> 'z flags \<Rightarrow> 'z flagStep" where
  "setNamedFlag name val rest var fl =
     (if isBoolFlag var then
        (case val of
           Some v \<Rightarrow> (case setFlag var v fl of
               Inl e \<Rightarrow> Stop (ParseError (''invalid boolean value '' @ quote v @ '' for -'' @ name @ '': '' @ e))
             | Inr fl' \<Rightarrow> More fl' rest)
         | None \<Rightarrow> (case setFlag var ''true'' fl of
               Inl e \<Rightarrow> Stop (ParseError (''invalid boolean flag '' @ name @ '': '' @ e))
             | Inr fl' \<Rightarrow> More fl' rest))
      else (case flagValue val rest of
          None \<Rightarrow> Stop (ParseError (''flag needs an argument: -'' @ name))
        | Some (v, rest') \<Rightarrow> (case setFlag var v fl of
              Inl e \<Rightarrow> Stop (ParseError (''invalid value '' @ quote v @ '' for flag -'' @ name @ '': '' @ e))
            | Inr fl' \<Rightarrow> More fl' rest')))"

definition parseOne :: "'z otherFlags \<Rightarrow> string \<Rightarrow> string list \<Rightarrow> 'z flags \<Rightarrow> 'z flagStep" where
  "parseOne X s rest fl =
     (if s = ''--'' then Stop (Parsed fl rest)
      else if \<not> isFlagArg s then Stop (Parsed fl (s # rest))
      else if badFlagName (flagName s) then Stop (ParseError (''bad flag syntax: '' @ s))
      else (let name = fst (cutFlag (flagName s)) in
        case lookupFlag X name of
          None \<Rightarrow> Stop (if name = ''help'' \<or> name = ''h'' then ParseHelp
                  else ParseError (''flag provided but not defined: -'' @ name))
        | Some var \<Rightarrow> setNamedFlag name (snd (cutFlag (flagName s))) rest var fl))"

lemma setNamedFlag_More:
  assumes "setNamedFlag name val rest var fl = More fl' rest'"
  shows "(\<exists>v. setFlag var v fl = Inr fl') \<and> length rest' \<le> length rest \<and> set rest' \<subseteq> set rest"
proof (cases "isBoolFlag var")
  case True
  with assms show ?thesis by (auto simp: setNamedFlag_def split: option.splits sum.splits)
next
  case False
  with assms have "case flagValue val rest of None \<Rightarrow> False
      | Some (v, r) \<Rightarrow> setFlag var v fl = Inr fl' \<and> r = rest'"
    by (simp add: setNamedFlag_def split: option.splits prod.splits sum.splits)
  then show ?thesis by (auto simp: flagValue_def split: option.splits list.splits)
qed

lemma parseOne_More:
  assumes "parseOne X s rest fl = More fl' rest'"
  shows "isFlagArg s \<and> (\<exists>var v. lookupFlag X (fst (cutFlag (flagName s))) = Some var \<and> setFlag var v fl = Inr fl') \<and>
    length rest' \<le> length rest \<and> set rest' \<subseteq> set rest"
  using assms by (auto simp: parseOne_def Let_def dest!: setNamedFlag_More split: if_splits option.splits)

text \<open>The loop of \<^verbatim>\<open>FlagSet.Parse\<close>.\<close>

function parseFlags :: "'z otherFlags \<Rightarrow> string list \<Rightarrow> 'z flags \<Rightarrow> 'z parsed" where
  "parseFlags X [] fl = Parsed fl []"
| "parseFlags X (s # rest) fl = (case parseOne X s rest fl of
     Stop r \<Rightarrow> r
   | More fl' rest' \<Rightarrow> parseFlags X rest' fl')"
  by pat_completeness auto
termination
  by (relation "measure (\<lambda>(X, args, fl). length args)") (auto dest: parseOne_More)

section \<open>What a command line can change\<close>

text \<open>An argument names a flag when the parser would look that flag up for it.\<close>

definition namesFlag :: "string \<Rightarrow> string \<Rightarrow> bool" where
  "namesFlag n s \<longleftrightarrow> isFlagArg s \<and> fst (cutFlag (flagName s)) = n"

text \<open>
  A value that every setter but the one of flag \<open>n\<close> leaves alone is left alone by every command
  line that does not name \<open>n\<close>.
\<close>

definition only_set_by :: "'z otherFlags \<Rightarrow> string \<Rightarrow> ('z flags \<Rightarrow> 'b) \<Rightarrow> bool" where
  "only_set_by X n g \<longleftrightarrow> (\<forall>m var v fl fl'. m \<noteq> n \<longrightarrow> lookupFlag X m = Some var \<longrightarrow>
     setFlag var v fl = Inr fl' \<longrightarrow> g fl' = g fl)"

lemma parse_keeps:
  assumes "parseFlags X args fl = Parsed fl' rest" and "only_set_by X n g" and "\<forall>s\<in>set args. \<not> namesFlag n s"
  shows "g fl' = g fl"
  using assms
proof (induction X args fl rule: parseFlags.induct)
  case (1 X fl)
  then show ?case by simp
next
  case (2 X s args fl)
  show ?case
  proof (cases "parseOne X s args fl")
    case (Stop r)
    with 2(2) have "fl' = fl"
      by (auto simp: parseOne_def setNamedFlag_def Let_def split: if_splits option.splits sum.splits prod.splits)
    then show ?thesis by simp
  next
    case (More fl'' args')
    note step = parseOne_More [OF More]
    with 2(3,4) have "g fl'' = g fl" by (auto simp: only_set_by_def namesFlag_def)
    moreover have "g fl' = g fl''" using 2(1) [OF More] 2(2-4) step More by auto
    ultimately show ?thesis by simp
  qed
qed

lemma lookupFlag_cases:
  assumes "lookupFlag X m = Some var"
  shows "(m, var) \<in> set managerFlags \<or> (\<exists>b f. var = OtherVar b f)"
  using assms by (auto simp: lookupFlag_def dest: map_of_SomeD split: option.splits)

lemma only_set_byI:
  assumes "\<And>m var v fl fl'. (m, var) \<in> set (managerFlags :: (string \<times> 'z flagVar) list) \<Longrightarrow> m \<noteq> n \<Longrightarrow>
      setFlag var v fl = Inr fl' \<Longrightarrow> g fl' = g fl"
    and "\<And>fl z. g (fl\<lparr>fl_other := z\<rparr>) = g fl"
  shows "only_set_by X n (g :: 'z flags \<Rightarrow> 'b)"
  unfolding only_set_by_def
proof (intro allI impI)
  fix m var v fl fl'
  assume "m \<noteq> n" "lookupFlag X m = Some var" "setFlag var v fl = Inr fl'"
  then show "g fl' = g fl"
    using assms(1) [of m var v fl fl'] lookupFlag_cases [of X m var]
    by (auto simp: assms(2) split: sum.splits)
qed

lemma only_set_by_http2: "only_set_by X ''enable-http2'' fl_enableHTTP2"
  by (rule only_set_byI) (auto simp: managerFlags_def split: option.splits)

lemma only_set_by_secure: "only_set_by X ''metrics-secure'' fl_secureMetrics"
  by (rule only_set_byI) (auto simp: managerFlags_def split: option.splits)

end
