(* ===== verification/Manager.thy ===== *)
theory Manager
  imports Flag_Parsing AGW_Controller Orc8r_Controller
begin

text \<open>
  The manager process (\<^verbatim>\<open>cmd/main.go\<close>), the registration of the API types
  (\<^verbatim>\<open>groupversion_info.go\<close> and the \<^verbatim>\<open>init\<close> functions of \<^verbatim>\<open>api/v1alpha1\<close>) and \<^verbatim>\<open>SetupWithManager\<close> of
  both controllers. controller-runtime is a parameter: functions of a process world, called in
  order, each recorded with its answer. A TLS option is a function on the TLS configuration, as in
  the code.

  The lemmas: the calls of a start-up are a prefix of a fixed plan, which stops at the first error
  (\<open>follows\<close>); the options of the servers as a function of the command line.
\<close>

section \<open>Scheme\<close>

text \<open>
  A scheme is a value of the library, changed by its \<^verbatim>\<open>AddKnownTypes\<close> and \<^verbatim>\<open>AddToGroupVersion\<close>.
  A \<^verbatim>\<open>runtime.SchemeBuilder\<close> is a list of functions; \<^verbatim>\<open>AddToScheme\<close> runs them until the first error.
\<close>

record groupVersion =
  gv_Group :: string
  gv_Version :: string

definition SchemeGroupVersion :: groupVersion where
  "SchemeGroupVersion = \<lparr>gv_Group = ''magma.infra.don'', gv_Version = ''v1alpha1''\<rparr>"

record 's schemeLib =
  sl_NewScheme :: 's
  sl_AddKnownTypes :: "groupVersion \<Rightarrow> string list \<Rightarrow> 's \<Rightarrow> 's"
  sl_AddToGroupVersion :: "groupVersion \<Rightarrow> 's \<Rightarrow> 's"
  sl_ClientGoAddToScheme :: "'s \<Rightarrow> error + 's"
  sl_Recognizes :: "'s \<Rightarrow> groupVersion \<Rightarrow> string \<Rightarrow> bool"

type_synonym 's schemeBuilder = "('s \<Rightarrow> error + 's) list"

primrec addToScheme :: "'s schemeBuilder \<Rightarrow> 's \<Rightarrow> error + 's" where
  "addToScheme [] s = Inr s"
| "addToScheme (f # fs) s = (case f s of Inl e \<Rightarrow> Inl e | Inr s' \<Rightarrow> addToScheme fs s')"

definition NewSchemeBuilder :: "'s schemeLib \<Rightarrow> 's schemeBuilder" where
  "NewSchemeBuilder S = [\<lambda>s. Inr (sl_AddToGroupVersion S SchemeGroupVersion s)]"

definition registerMagmaAGW :: "'s schemeLib \<Rightarrow> 's schemeBuilder \<Rightarrow> 's schemeBuilder" where
  "registerMagmaAGW S b = b @ [\<lambda>s. Inr (sl_AddKnownTypes S SchemeGroupVersion [''MagmaAGW'', ''MagmaAGWList''] s)]"

definition registerMagmaOrc8r :: "'s schemeLib \<Rightarrow> 's schemeBuilder \<Rightarrow> 's schemeBuilder" where
  "registerMagmaOrc8r S b = b @ [\<lambda>s. Inr (sl_AddKnownTypes S SchemeGroupVersion [''MagmaOrc8r'', ''MagmaOrc8rList''] s)]"

text \<open>
  Package initialisation: the variables and \<^verbatim>\<open>init\<close> functions of \<^verbatim>\<open>v1alpha1\<close>, in the order of the
  files, then those of \<^verbatim>\<open>main\<close>. \<^verbatim>\<open>utilruntime.Must\<close> panics on an error (\<open>Inl\<close>).
\<close>

definition magmaSchemeBuilder :: "'s schemeLib \<Rightarrow> 's schemeBuilder" where
  "magmaSchemeBuilder S = registerMagmaOrc8r S (registerMagmaAGW S (NewSchemeBuilder S))"

definition initScheme :: "'s schemeLib \<Rightarrow> error + 's" where
  "initScheme S = (case sl_ClientGoAddToScheme S (sl_NewScheme S) of
     Inl e \<Rightarrow> Inl e
   | Inr s \<Rightarrow> addToScheme (magmaSchemeBuilder S) s)"

section \<open>Options\<close>

record tlsConfig =
  tls_NextProtos :: "string list"

type_synonym tlsOpts = "(tlsConfig \<Rightarrow> tlsConfig) list"

definition disableHTTP2 :: "tlsConfig \<Rightarrow> tlsConfig" where
  "disableHTTP2 c = c\<lparr>tls_NextProtos := [''http/1.1'']\<rparr>"

definition managerTLSOpts :: "'z flags \<Rightarrow> tlsOpts" where
  "managerTLSOpts fl = (if \<not> fl_enableHTTP2 fl then [] @ [disableHTTP2] else [])"

record webhookOptions =
  wo_TLSOpts :: tlsOpts
  wo_CertDir :: string
  wo_CertName :: string
  wo_KeyName :: string

definition webhookServerOptions :: "'z flags \<Rightarrow> webhookOptions" where
  "webhookServerOptions fl =
     (let opts = \<lparr>wo_TLSOpts = managerTLSOpts fl, wo_CertDir = '''', wo_CertName = '''', wo_KeyName = ''''\<rparr> in
      if 0 < length (fl_webhookCertPath fl) then
        opts\<lparr>wo_CertDir := fl_webhookCertPath fl, wo_CertName := fl_webhookCertName fl,
          wo_KeyName := fl_webhookCertKey fl\<rparr>
      else opts)"

datatype filterProvider = WithAuthenticationAndAuthorization

record metricsOptions =
  mo_BindAddress :: string
  mo_SecureServing :: bool
  mo_TLSOpts :: tlsOpts
  mo_FilterProvider :: "filterProvider option"
  mo_CertDir :: string
  mo_CertName :: string
  mo_KeyName :: string

definition metricsServerOptions :: "'z flags \<Rightarrow> metricsOptions" where
  "metricsServerOptions fl =
     (let opts = \<lparr>mo_BindAddress = fl_metricsAddr fl, mo_SecureServing = fl_secureMetrics fl,
            mo_TLSOpts = managerTLSOpts fl, mo_FilterProvider = None, mo_CertDir = '''',
            mo_CertName = '''', mo_KeyName = ''''\<rparr>;
          opts = (if fl_secureMetrics fl
            then opts\<lparr>mo_FilterProvider := Some WithAuthenticationAndAuthorization\<rparr> else opts) in
      if 0 < length (fl_metricsCertPath fl) then
        opts\<lparr>mo_CertDir := fl_metricsCertPath fl, mo_CertName := fl_metricsCertName fl,
          mo_KeyName := fl_metricsCertKey fl\<rparr>
      else opts)"

text \<open>\<^verbatim>\<open>ctrl.Options\<close>; the webhook server is represented by the options it is made from.\<close>

record 's managerOptions =
  mgo_Scheme :: 's
  mgo_Metrics :: metricsOptions
  mgo_WebhookServer :: webhookOptions
  mgo_HealthProbeBindAddress :: string
  mgo_LeaderElection :: bool
  mgo_LeaderElectionID :: string

definition managerOptionsOf :: "'s \<Rightarrow> 'z flags \<Rightarrow> 's managerOptions" where
  "managerOptionsOf scheme fl = \<lparr>mgo_Scheme = scheme, mgo_Metrics = metricsServerOptions fl,
     mgo_WebhookServer = webhookServerOptions fl, mgo_HealthProbeBindAddress = fl_probeAddr fl,
     mgo_LeaderElection = fl_enableLeaderElection fl, mgo_LeaderElectionID = ''5405d404.infra.don''\<rparr>"

section \<open>Controllers\<close>

text \<open>
  What \<^verbatim>\<open>SetupWithManager\<close> hands to the builder: the kind that is reconciled, the watches with
  their map functions, the name, and the reconciler itself.
\<close>

record 'w controller =
  ctl_For :: kind
  ctl_Watches :: "(kind \<times> (objectMeta \<Rightarrow> ('w, (string \<times> string) list) kio)) list"
  ctl_Named :: string
  ctl_Reconcile :: "string \<Rightarrow> string \<Rightarrow> ('w, ctrlResult \<times> error option) kio"

definition magmaAGWController :: "'w client \<Rightarrow> lib \<Rightarrow> entropy \<Rightarrow> 'w controller" where
  "magmaAGWController K L rnd = \<lparr>ctl_For = KAGW, ctl_Watches = [(KConfigMap, mapUERANSIMGateConfigMap K)],
     ctl_Named = ''magmaagw'', ctl_Reconcile = ReconcileAGW K L rnd\<rparr>"

definition magmaOrc8rController :: "'w client \<Rightarrow> lib \<Rightarrow> pki \<Rightarrow> 'w controller" where
  "magmaOrc8rController K L P = \<lparr>ctl_For = KOrc8r, ctl_Watches = [], ctl_Named = ''magmaorc8r'',
     ctl_Reconcile = ReconcileOrc8r K L P\<rparr>"

section \<open>Start-up\<close>

datatype ('s, 'w) managerCall =
    GetConfig
  | NewManager "'s managerOptions"
  | CompleteController "'w controller"
  | AddHealthzCheck string
  | AddReadyzCheck string
  | StartManager

type_synonym ('s, 'w) startupEvent = "('s, 'w) managerCall \<times> error option"

text \<open>The library: it answers a call with an error or none, and may change the process world.\<close>

type_synonym ('p, 's, 'w) runtimeLib = "('s, 'w) managerCall \<Rightarrow> 'p \<Rightarrow> error option \<times> 'p"

definition mcall :: "('p, 's, 'w) runtimeLib \<Rightarrow> ('s, 'w) managerCall \<Rightarrow>
    (('p, ('s, 'w) startupEvent) sys, error option) state" where
  "mcall R c = State (\<lambda>st. case R c (world st) of
     (r, w) \<Rightarrow> (r, \<lparr>world = w, trace = trace st @ [(c, r)]\<rparr>))"

text \<open>
  From \<^verbatim>\<open>ctrl.GetConfigOrDie\<close>, which exits with code 1 on an error, to the return of \<^verbatim>\<open>mgr.Start\<close>.
  The value is the exit code of the process.
\<close>

definition startManager :: "('p, 's, 'w) runtimeLib \<Rightarrow> 'w controller \<Rightarrow> 'w controller \<Rightarrow> 's managerOptions \<Rightarrow>
    (('p, ('s, 'w) startupEvent) sys, nat) state" where
  "startManager R orc8r agw opts = do {
     c \<leftarrow> mcall R GetConfig;
     case c of Some e \<Rightarrow> return 1 | None \<Rightarrow> do {
       m \<leftarrow> mcall R (NewManager opts);
       case m of Some e \<Rightarrow> return 1 | None \<Rightarrow> do {
         a \<leftarrow> mcall R (CompleteController orc8r);
         case a of Some e \<Rightarrow> return 1 | None \<Rightarrow> do {
           b \<leftarrow> mcall R (CompleteController agw);
           case b of Some e \<Rightarrow> return 1 | None \<Rightarrow> do {
             h \<leftarrow> mcall R (AddHealthzCheck ''healthz'');
             case h of Some e \<Rightarrow> return 1 | None \<Rightarrow> do {
               z \<leftarrow> mcall R (AddReadyzCheck ''readyz'');
               case z of Some e \<Rightarrow> return 1 | None \<Rightarrow> do {
                 s \<leftarrow> mcall R StartManager;
                 return (case s of Some e \<Rightarrow> 1 | None \<Rightarrow> 0)
               }}}}}}}"

text \<open>
  The process: package initialisation (a panic exits with code 2), \<^verbatim>\<open>flag.Parse\<close> (code 2 for a bad
  command line, 0 after \<^verbatim>\<open>-help\<close>), then the start-up. \<open>K\<close> is \<^verbatim>\<open>mgr.GetClient()\<close>.
\<close>

definition managerMain :: "'s schemeLib \<Rightarrow> 'z otherFlags \<Rightarrow> 'z \<Rightarrow> ('p, 's, 'w) runtimeLib \<Rightarrow>
    'w client \<Rightarrow> lib \<Rightarrow> pki \<Rightarrow> entropy \<Rightarrow> string list \<Rightarrow> (('p, ('s, 'w) startupEvent) sys, nat) state" where
  "managerMain S X z R K L P rnd args =
     (case initScheme S of
        Inl e \<Rightarrow> return 2
      | Inr scheme \<Rightarrow>
          (case parseFlags X args (defaultFlags z) of
             ParseHelp \<Rightarrow> return 0
           | ParseError e \<Rightarrow> return 2
           | Parsed fl rest \<Rightarrow> startManager R (magmaOrc8rController K L P) (magmaAGWController K L rnd)
               (managerOptionsOf scheme fl)))"

section \<open>Lemmas\<close>

text \<open>
  The abstract description of a start-up: calls of a plan, in order, all answered without error
  but possibly the last; the exit code says whether the whole plan succeeded.
\<close>

inductive follows :: "'c list \<Rightarrow> nat \<Rightarrow> ('c \<times> error option) list \<Rightarrow> bool" where
  follows_end: "follows [] 0 []"
| follows_fail: "follows (c # cs) 1 [(c, Some e)]"
| follows_ok: "follows cs n t \<Longrightarrow> follows (c # cs) n ((c, None) # t)"

inductive_simps follows_Nil: "follows [] n t"
inductive_simps follows_Cons: "follows (c # cs) n t"

lemma spec_mcall: "(\<And>r. Q r [(c, r)]) \<Longrightarrow> spec (mcall R c) Q"
  by (rule specI) (auto simp: mcall_def split: prod.splits)

lemma spec_follows_step:
  assumes "spec m (follows cs)"
  shows "spec (mcall R c \<bind> (\<lambda>r. case r of Some e \<Rightarrow> return 1 | None \<Rightarrow> m)) (follows (c # cs))"
  using assms
  by (auto intro!: spec_bind spec_mcall spec_option spec_return simp: follows_Cons elim!: spec_weaken)

lemma spec_follows_last:
  "spec (mcall R c \<bind> (\<lambda>r. return (case r of Some e \<Rightarrow> 1 | None \<Rightarrow> 0))) (follows [c])"
  by (auto intro!: spec_bind spec_mcall spec_return simp: follows_Cons follows_Nil split: option.splits)

definition startupPlan :: "'w controller \<Rightarrow> 'w controller \<Rightarrow> 's managerOptions \<Rightarrow> ('s, 'w) managerCall list" where
  "startupPlan orc8r agw opts = [GetConfig, NewManager opts, CompleteController orc8r, CompleteController agw,
     AddHealthzCheck ''healthz'', AddReadyzCheck ''readyz'', StartManager]"

lemma spec_startManager: "spec (startManager R orc8r agw opts) (follows (startupPlan orc8r agw opts))"
  unfolding startManager_def startupPlan_def by (intro spec_follows_step spec_follows_last)

lemma follows_success: "follows cs n t \<Longrightarrow> n = 0 \<Longrightarrow> t = map (\<lambda>c. (c, None)) cs"
  by (induction rule: follows.induct) auto

lemma follows_last_call:
  assumes "follows (cs @ [c]) n t" and "(c, r) \<in> set t" and "c \<notin> set cs"
  shows "t = map (\<lambda>d. (d, None)) cs @ [(c, r)] \<and> n = (if r = None then 0 else 1)"
  using assms
proof (induction cs arbitrary: t)
  case Nil
  then show ?case by (auto simp: follows_Cons follows_Nil)
next
  case (Cons d cs)
  then obtain u where "t = (d, None) # u" and "follows (cs @ [c]) n u" by (auto simp: follows_Cons)
  with Cons show ?case by auto
qed

lemma follows_error:
  assumes "follows cs n (u @ (c, Some e) # v)"
  shows "v = [] \<and> n = 1 \<and> (\<forall>d\<in>set u. snd d = None)"
  using assms
proof (induction u arbitrary: cs)
  case Nil
  then show ?case by (auto elim: follows.cases)
next
  case (Cons d u)
  from Cons.prems obtain cs' where "snd d = None" and "follows cs' n (u @ (c, Some e) # v)"
    by (auto elim: follows.cases)
  with Cons.IH show ?case by simp
qed

text \<open>Documented behaviour of a scheme: types added are known, and nothing is forgotten.\<close>

definition scheme_ok :: "'s schemeLib \<Rightarrow> bool" where
  "scheme_ok S \<longleftrightarrow>
     (\<forall>gv ks s gv' k. sl_Recognizes S (sl_AddKnownTypes S gv ks s) gv' k \<longleftrightarrow>
        gv' = gv \<and> k \<in> set ks \<or> sl_Recognizes S s gv' k) \<and>
     (\<forall>gv s gv' k. sl_Recognizes S s gv' k \<longrightarrow> sl_Recognizes S (sl_AddToGroupVersion S gv s) gv' k)"

lemma initScheme_recognizes:
  assumes "scheme_ok S" and "initScheme S = Inr s"
  shows "sl_Recognizes S s SchemeGroupVersion ''MagmaAGW'' \<and> sl_Recognizes S s SchemeGroupVersion ''MagmaOrc8r''"
  using assms
  by (auto simp: scheme_ok_def initScheme_def magmaSchemeBuilder_def registerMagmaOrc8r_def registerMagmaAGW_def
      NewSchemeBuilder_def split: sum.splits)


lemma spec_managerMain:
  "spec (managerMain S X z R K L P rnd args) (\<lambda>n t. t = [] \<or>
     (\<exists>scheme fl rest. initScheme S = Inr scheme \<and> parseFlags X args (defaultFlags z) = Parsed fl rest \<and>
       follows (startupPlan (magmaOrc8rController K L P) (magmaAGWController K L rnd) (managerOptionsOf scheme fl)) n t))"
  unfolding managerMain_def
  by (cases "initScheme S"; cases "parseFlags X args (defaultFlags z)")
    (auto intro!: spec_return intro: spec_weaken [OF spec_startManager])

section \<open>Properties\<close>

text \<open>
  A scheme library, two process libraries (one in which every call succeeds, one that cannot set up
  the AGW controller) and the command line of \<^verbatim>\<open>config/manager/manager.yaml\<close>, for the witnesses.
\<close>

definition demoScheme :: "(groupVersion \<times> string) list schemeLib" where
  "demoScheme = \<lparr>sl_NewScheme = [], sl_AddKnownTypes = (\<lambda>gv ks s. s @ map (Pair gv) ks),
     sl_AddToGroupVersion = (\<lambda>gv s. s), sl_ClientGoAddToScheme = Inr,
     sl_Recognizes = (\<lambda>s gv k. (gv, k) \<in> set s)\<rparr>"

definition goodRuntime :: "(unit, (groupVersion \<times> string) list, unit) runtimeLib" where
  "goodRuntime c p = (None, p)"

definition noAGWRuntime :: "(unit, (groupVersion \<times> string) list, unit) runtimeLib" where
  "noAGWRuntime c p = (case c of
     CompleteController ctl \<Rightarrow> (if ctl_Named ctl = ''magmaagw'' then (Some (Errorf ''no match for kind''), p) else (None, p))
   | _ \<Rightarrow> (None, p))"

definition deployedArgs :: "string list" where
  "deployedArgs = [''--leader-elect'', ''--health-probe-bind-address=:8081'']"

abbreviation demoMain :: "(unit, (groupVersion \<times> string) list, unit) runtimeLib \<Rightarrow>
    ((unit, ((groupVersion \<times> string) list, unit) startupEvent) sys, nat) state" where
  "demoMain R \<equiv> managerMain demoScheme (\<lambda>_. None) () R (refClient []) (refLib (\<lambda>_. [])) demoPki (demoEntropy 0) deployedArgs"

abbreviation demoProcess :: "(unit, ((groupVersion \<times> string) list, unit) startupEvent) sys" where
  "demoProcess \<equiv> \<lparr>world = (), trace = []\<rparr>"

lemma demoScheme_ok: "scheme_ok demoScheme"
  by (auto simp: scheme_ok_def demoScheme_def)

lemma demoScheme_init: "\<exists>s. initScheme demoScheme = Inr s"
  by (simp add: initScheme_def demoScheme_def magmaSchemeBuilder_def registerMagmaOrc8r_def registerMagmaAGW_def NewSchemeBuilder_def)

lemma deployedArgs_parsed:
  "parseFlags (\<lambda>_. None) deployedArgs (defaultFlags ()) = Parsed ((defaultFlags ())\<lparr>fl_enableLeaderElection := True\<rparr>) []"
  by code_simp

lemma demoMain_started: "(StartManager, None) \<in> set (events (demoMain goodRuntime) demoProcess)"
  using demoScheme_init
  by (auto simp: managerMain_def deployedArgs_parsed startManager_def mcall_def goodRuntime_def events_def final_def)

lemma demoMain_noAGW: "\<exists>u c. events (demoMain noAGWRuntime) demoProcess = u @ [(c, Some (Errorf ''no match for kind''))]"
  using demoScheme_init
  by (auto simp: managerMain_def deployedArgs_parsed startManager_def mcall_def noAGWRuntime_def events_def final_def
      magmaOrc8rController_def magmaAGWController_def)

text \<open>C29: the manager is started only when it is complete: a run that calls \<^verbatim>\<open>mgr.Start\<close> has
  parsed its command line, made the manager with the options of that command line and a scheme that
  knows both custom resources, registered both controllers and both probes, each without error and
  in this order, and calls nothing afterwards; the exit code is 0 exactly when the start returned
  no error.\<close>

theorem manager_started_complete:
  assumes "scheme_ok S" and "(StartManager, r) \<in> set (events (managerMain S X z R K L P rnd args) s)"
  shows "\<exists>scheme fl rest. parseFlags X args (defaultFlags z) = Parsed fl rest \<and>
    sl_Recognizes S scheme SchemeGroupVersion ''MagmaAGW'' \<and> sl_Recognizes S scheme SchemeGroupVersion ''MagmaOrc8r'' \<and>
    events (managerMain S X z R K L P rnd args) s =
      [(GetConfig, None), (NewManager (managerOptionsOf scheme fl), None),
       (CompleteController (magmaOrc8rController K L P), None), (CompleteController (magmaAGWController K L rnd), None),
       (AddHealthzCheck ''healthz'', None), (AddReadyzCheck ''readyz'', None), (StartManager, r)] \<and>
    result (managerMain S X z R K L P rnd args) s = (if r = None then 0 else 1)"
proof -
  let ?n = "result (managerMain S X z R K L P rnd args) s" and ?t = "events (managerMain S X z R K L P rnd args) s"
  obtain scheme fl rest where fl: "initScheme S = Inr scheme" "parseFlags X args (defaultFlags z) = Parsed fl rest"
    and f: "follows (startupPlan (magmaOrc8rController K L P) (magmaAGWController K L rnd) (managerOptionsOf scheme fl)) ?n ?t"
    using specD(2) [OF spec_managerMain, of S X z R K L P rnd args s] assms(2) by auto
  have "startupPlan (magmaOrc8rController K L P) (magmaAGWController K L rnd) (managerOptionsOf scheme fl) =
      [GetConfig, NewManager (managerOptionsOf scheme fl), CompleteController (magmaOrc8rController K L P),
       CompleteController (magmaAGWController K L rnd), AddHealthzCheck ''healthz'', AddReadyzCheck ''readyz''] @ [StartManager]"
    by (simp add: startupPlan_def)
  from follows_last_call [OF f [unfolded this] assms(2)] fl initScheme_recognizes [OF assms(1) fl(1)]
  show ?thesis by auto
qed

lemma manager_started_complete_witness:
  "result (demoMain goodRuntime) demoProcess = 0 \<and> length (events (demoMain goodRuntime) demoProcess) = 7"
  using manager_started_complete [OF demoScheme_ok demoMain_started] by auto

text \<open>C30: a failed call ends the process: if a call of the start-up answers with an error, it is the
  last one, every call before it succeeded, and the exit code is 1.\<close>

theorem startup_failure_exits:
  assumes "events (managerMain S X z R K L P rnd args) s = u @ (c, Some e) # v"
  shows "v = [] \<and> result (managerMain S X z R K L P rnd args) s = 1 \<and> (\<forall>d\<in>set u. snd d = None)"
  using specD(2) [OF spec_managerMain, of S X z R K L P rnd args s] assms by (auto dest: follows_error)

lemma startup_failure_exits_witness: "result (demoMain noAGWRuntime) demoProcess = 1"
proof -
  obtain u c where "events (demoMain noAGWRuntime) demoProcess = u @ (c, Some (Errorf ''no match for kind'')) # []"
    using demoMain_noAGW by auto
  from startup_failure_exits [OF this] show ?thesis by simp
qed

text \<open>C31: the servers are hardened by default: whatever else the command line says, if it does not
  name \<^verbatim>\<open>enable-http2\<close>, the TLS options of the webhook and the metrics server restrict every TLS
  configuration to HTTP/1.1; if it does not name \<^verbatim>\<open>metrics-secure\<close>, metrics are served securely
  and behind the authentication and authorization filter. In no case are metrics served over HTTPS
  without that filter.\<close>

theorem servers_hardened_by_default:
  assumes "parseFlags X args (defaultFlags z) = Parsed fl rest"
  shows "((\<forall>a\<in>set args. \<not> namesFlag ''enable-http2'' a) \<longrightarrow>
      tls_NextProtos (fold id (wo_TLSOpts (mgo_WebhookServer (managerOptionsOf scheme fl))) c) = [''http/1.1''] \<and>
      tls_NextProtos (fold id (mo_TLSOpts (mgo_Metrics (managerOptionsOf scheme fl))) c) = [''http/1.1'']) \<and>
    ((\<forall>a\<in>set args. \<not> namesFlag ''metrics-secure'' a) \<longrightarrow>
      mo_SecureServing (mgo_Metrics (managerOptionsOf scheme fl))) \<and>
    mo_FilterProvider (mgo_Metrics (managerOptionsOf scheme fl)) =
      (if mo_SecureServing (mgo_Metrics (managerOptionsOf scheme fl)) then Some WithAuthenticationAndAuthorization else None)"
  using parse_keeps [OF assms only_set_by_http2] parse_keeps [OF assms only_set_by_secure]
  by (auto simp: managerOptionsOf_def webhookServerOptions_def metricsServerOptions_def managerTLSOpts_def
      disableHTTP2_def defaultFlags_def Let_def)


lemma servers_hardened_by_default_witness:
  "tls_NextProtos (fold id (mo_TLSOpts (metricsServerOptions ((defaultFlags ())\<lparr>fl_enableLeaderElection := True\<rparr>))) \<lparr>tls_NextProtos = [''h2'']\<rparr>) =
     [''http/1.1''] \<and>
   mo_SecureServing (metricsServerOptions ((defaultFlags ())\<lparr>fl_enableLeaderElection := True\<rparr>))"
proof -
  have "\<forall>a\<in>set deployedArgs. \<not> namesFlag ''enable-http2'' a" "\<forall>a\<in>set deployedArgs. \<not> namesFlag ''metrics-secure'' a"
    by code_simp+
  with servers_hardened_by_default [OF deployedArgs_parsed, of "()" "\<lparr>tls_NextProtos = [''h2'']\<rparr>"]
  show ?thesis by (simp add: managerOptionsOf_def)
qed

end
