(* ===== verification/Go_Heap.thy ===== *)
theory Go_Heap
  imports Kube_Types
begin

text \<open>
  Memory, as far as aliasing matters. A heap is a list of cells, a pointer (or map, or array of a
  slice) its index; allocation appends. A struct value holds references, so copying it shares what
  they point to.

  The locale \<open>deep_copier\<close> is the contract of a deep copy: it only allocates, the copy has the same
  abstract value, and everything reachable from the copy is new. What follows from it: writes
  through the original are not seen by the copy, nor the other way round. The lemmas behind it
  combine copiers along the ways the generated code does: fields in sequence, a pointer to a new
  struct, a slice copied element by element.
\<close>

section \<open>Heaps\<close>

text \<open>The dynamic content of a cell is a parameter; \<open>ok\<close> says which cells are well formed.\<close>

definition hread :: "('c \<Rightarrow> 'a option) \<Rightarrow> 'a \<Rightarrow> 'c list \<Rightarrow> nat \<Rightarrow> 'a" where
  "hread get z h p = (if p < length h then (case get (h ! p) of Some x \<Rightarrow> x | None \<Rightarrow> z) else z)"

definition halloc :: "'c \<Rightarrow> ('c list, nat) state" where
  "halloc c = State (\<lambda>h. (length h, h @ [c]))"

definition hwrite :: "nat \<Rightarrow> 'c \<Rightarrow> ('c list, unit) state" where
  "hwrite p c = State (\<lambda>h. ((), h[p := c]))"

definition hget :: "('c list, 'c list) state" where
  "hget = State (\<lambda>h. (h, h))"

definition hcell :: "'c list \<Rightarrow> nat \<Rightarrow> 'c option" where
  "hcell h p = (if p < length h then Some (h ! p) else None)"

text \<open>Later writes, by anyone.\<close>

definition hwrites :: "(nat \<times> 'c) list \<Rightarrow> 'c list \<Rightarrow> 'c list" where
  "hwrites ws h = fold (\<lambda>(p, c) h. h[p := c]) ws h"

lemma run_hprims [simp]:
  "run_state (halloc c) h = (length h, h @ [c])"
  "run_state (hwrite p c) h = ((), h[p := c])"
  "run_state hget h = (h, h)"
  by (simp_all add: halloc_def hwrite_def hget_def)

lemma hread_append [simp]: "p < length h \<Longrightarrow> hread get z (h @ t) p = hread get z h p"
  by (simp add: hread_def nth_append)

lemma hread_new [simp]: "get c = Some x \<Longrightarrow> hread get z (h @ c # t) (length h) = x"
  by (simp add: hread_def)

lemma hread_cong: "hcell h p = hcell h' p \<Longrightarrow> hread get z h p = hread get z h' p"
  by (auto simp: hread_def hcell_def split: if_splits)

lemma hcell_append [simp]: "p < length h \<Longrightarrow> hcell (h @ t) p = hcell h p"
  by (simp add: hcell_def nth_append)

lemma hcell_update [simp]: "p \<noteq> q \<Longrightarrow> hcell (h[q := c]) p = hcell h p"
  by (simp add: hcell_def)

lemma length_hwrites [simp]: "length (hwrites ws h) = length h"
  by (induction ws arbitrary: h) (auto simp: hwrites_def)

lemma hcell_hwrites: "p \<notin> fst ` set ws \<Longrightarrow> hcell (hwrites ws h) p = hcell h p"
  by (induction ws arbitrary: h) (auto simp: hwrites_def)

section \<open>The contract of a deep copy\<close>

locale deep_copier =
  fixes ok :: "'c \<Rightarrow> bool"
    and copy :: "'a \<Rightarrow> ('c list, 'a) state"
    and abs :: "'c list \<Rightarrow> 'a \<Rightarrow> 'v"
    and reach :: "'c list \<Rightarrow> 'a \<Rightarrow> nat set"
  assumes allocates: "\<exists>t. snd (run_state (copy x) h) = h @ t \<and> (\<forall>c\<in>set t. ok c)"
    and fresh: "reach (snd (run_state (copy x) h)) (fst (run_state (copy x) h)) \<subseteq>
      {length h..<length (snd (run_state (copy x) h))}"
    and same: "\<forall>c\<in>set h. ok c \<Longrightarrow> reach h x \<subseteq> {..<length h} \<Longrightarrow>
      abs (snd (run_state (copy x) h)) (fst (run_state (copy x) h)) = abs h x"
    and local: "\<forall>p\<in>reach h x. hcell h' p = hcell h p \<Longrightarrow> abs h' x = abs h x \<and> reach h' x = reach h x"
begin

lemma extend:
  assumes "reach h x \<subseteq> {..<length h}"
  shows "abs (h @ t) x = abs h x" and "reach (h @ t) x = reach h x"
proof -
  have "\<forall>p\<in>reach h x. hcell (h @ t) p = hcell h p" using assms by auto
  from local [OF this] show "abs (h @ t) x = abs h x" and "reach (h @ t) x = reach h x" by simp_all
qed

lemma run:
  obtains y t where "run_state (copy x) h = (y, h @ t)" and "\<forall>c\<in>set t. ok c"
    and "reach (h @ t) y \<subseteq> {length h..<length h + length t}"
    and "\<forall>c\<in>set h. ok c \<Longrightarrow> reach h x \<subseteq> {..<length h} \<Longrightarrow> abs (h @ t) y = abs h x"
proof -
  obtain t where t: "snd (run_state (copy x) h) = h @ t" "\<forall>c\<in>set t. ok c" using allocates by blast
  show thesis
  proof (rule that)
    show "run_state (copy x) h = (fst (run_state (copy x) h), h @ t)" by (simp flip: t(1))
    show "reach (h @ t) (fst (run_state (copy x) h)) \<subseteq> {length h..<length h + length t}"
      using fresh [where h = h and x = x] by (simp add: t)
    show "abs (h @ t) (fst (run_state (copy x) h)) = abs h x" if "\<forall>c\<in>set h. ok c" "reach h x \<subseteq> {..<length h}"
      using same [OF that] by (simp add: t)
  qed (rule t(2))
qed

text \<open>
  The point of a deep copy: later allocations and writes to what the original reaches, or to any
  other cell that is not the copy's, do not change the copy, and writes to the copy do not change the
  original.
\<close>

lemma independent:
  assumes "\<forall>c\<in>set h. ok c" and "reach h x \<subseteq> {..<length h}" and "run_state (copy x) h = (y, h')"
  shows "abs h' y = abs h x" and "abs h' x = abs h x" and "reach h' y \<inter> reach h' x = {}"
    and "\<lbrakk>\<And>p c. (p, c) \<in> set ws \<Longrightarrow> p \<notin> reach h' y\<rbrakk> \<Longrightarrow> abs (hwrites ws (h' @ u)) y = abs h x"
    and "\<lbrakk>\<And>p c. (p, c) \<in> set ws \<Longrightarrow> p \<notin> reach h' x\<rbrakk> \<Longrightarrow> abs (hwrites ws (h' @ u)) x = abs h x"
proof -
  obtain t where h': "h' = h @ t" and y: "reach h' y \<subseteq> {length h..<length h'}" and v: "abs h' y = abs h x"
    using run [where x = x and h = h] assms by auto
  note x = extend [OF assms(2)]
  show "abs h' y = abs h x" by (rule v)
  show x': "abs h' x = abs h x" by (simp add: h' x)
  show "reach h' y \<inter> reach h' x = {}" using y assms(2) by (force simp: h' x)
  have keep: "abs (hwrites ws (h' @ u)) z = abs h' z"
    if "reach h' z \<subseteq> {..<length h'}" "\<And>p c. (p, c) \<in> set ws \<Longrightarrow> p \<notin> reach h' z" for z
  proof -
    have "\<forall>p\<in>reach h' z. hcell (hwrites ws (h' @ u)) p = hcell h' p"
    proof
      fix p assume p: "p \<in> reach h' z"
      then have "p \<notin> fst ` set ws" and "p < length h'" using that by auto
      then show "hcell (hwrites ws (h' @ u)) p = hcell h' p" by (simp add: hcell_hwrites)
    qed
    then show ?thesis using local by blast
  qed
  show "abs (hwrites ws (h' @ u)) y = abs h x" if "\<And>p c. (p, c) \<in> set ws \<Longrightarrow> p \<notin> reach h' y"
    using keep [of y] y v that by force
  show "abs (hwrites ws (h' @ u)) x = abs h x" if "\<And>p c. (p, c) \<in> set ws \<Longrightarrow> p \<notin> reach h' x"
    using keep [of x] assms(2) x' that by (force simp: h' x)
qed

end

lemma deep_copierI:
  assumes "\<And>x h. \<exists>y t. run_state (copy x) h = (y, h @ t) \<and> (\<forall>c\<in>set t. ok c) \<and>
      reach (h @ t) y \<subseteq> {length h..<length h + length t} \<and>
      ((\<forall>c\<in>set h. ok c) \<longrightarrow> reach h x \<subseteq> {..<length h} \<longrightarrow> val (h @ t) y = val h x)"
    and "\<And>h h' x. \<forall>p\<in>reach h x. hcell h' p = hcell h p \<Longrightarrow> val h' x = val h x \<and> reach h' x = reach h x"
  shows "deep_copier ok copy val reach"
proof
  fix x h
  from assms(1) [of x h] show "\<exists>t. snd (run_state (copy x) h) = h @ t \<and> (\<forall>c\<in>set t. ok c)"
    and "reach (snd (run_state (copy x) h)) (fst (run_state (copy x) h)) \<subseteq>
      {length h..<length (snd (run_state (copy x) h))}"
    by auto
  show "val (snd (run_state (copy x) h)) (fst (run_state (copy x) h)) = val h x"
    if "\<forall>c\<in>set h. ok c" "reach h x \<subseteq> {..<length h}"
    using assms(1) [of x h] that by auto
qed (rule assms(2))

section \<open>Combining copiers\<close>

text \<open>A value without references.\<close>

lemma deep_copier_flat:
  "(\<And>x. f x = x) \<Longrightarrow> deep_copier ok (\<lambda>x. return (f x)) (\<lambda>h x. x) (\<lambda>h x. {})"
  by unfold_locales simp_all

text \<open>Two parts of a struct, one after the other.\<close>

definition copyPair :: "('a \<Rightarrow> ('c list, 'a) state) \<Rightarrow> ('b \<Rightarrow> ('c list, 'b) state) \<Rightarrow> 'a \<times> 'b \<Rightarrow> ('c list, 'a \<times> 'b) state" where
  "copyPair f g p = do {
     x \<leftarrow> f (fst p);
     y \<leftarrow> g (snd p);
     return (x, y)
   }"

lemma deep_copier_pair:
  assumes "deep_copier ok f a r" and "deep_copier ok g b s"
  shows "deep_copier ok (copyPair f g) (\<lambda>h p. (a h (fst p), b h (snd p))) (\<lambda>h p. r h (fst p) \<union> s h (snd p))"
    (is "deep_copier ok ?copy ?abs ?reach")
proof -
  have step: "\<exists>y t. run_state (?copy p) h = (y, h @ t) \<and> (\<forall>c\<in>set t. ok c) \<and>
      ?reach (h @ t) y \<subseteq> {length h..<length h + length t} \<and>
      ((\<forall>c\<in>set h. ok c) \<longrightarrow> ?reach h p \<subseteq> {..<length h} \<longrightarrow> ?abs (h @ t) y = ?abs h p)" for p h
  proof -
    obtain x t where x: "run_state (f (fst p)) h = (x, h @ t)" "\<forall>c\<in>set t. ok c"
        "r (h @ t) x \<subseteq> {length h..<length h + length t}"
        "\<forall>c\<in>set h. ok c \<Longrightarrow> r h (fst p) \<subseteq> {..<length h} \<Longrightarrow> a (h @ t) x = a h (fst p)"
      using deep_copier.run [OF assms(1)] by metis
    obtain y u where y: "run_state (g (snd p)) (h @ t) = (y, (h @ t) @ u)" "\<forall>c\<in>set u. ok c"
        "s ((h @ t) @ u) y \<subseteq> {length (h @ t)..<length (h @ t) + length u}"
        "\<forall>c\<in>set (h @ t). ok c \<Longrightarrow> s (h @ t) (snd p) \<subseteq> {..<length (h @ t)} \<Longrightarrow>
           b ((h @ t) @ u) y = b (h @ t) (snd p)"
      using deep_copier.run [OF assms(2)] by metis
    have "r (h @ t) x \<subseteq> {..<length (h @ t)}" using x(3) by auto
    note xu = deep_copier.extend [OF assms(1) this, of u]
    note yt = deep_copier.extend [OF assms(2), of h "snd p" t]
    have "run_state (?copy p) h = ((x, y), h @ t @ u)" by (simp add: copyPair_def x(1) y(1))
    moreover have "?reach (h @ t @ u) (x, y) \<subseteq> {length h..<length h + length (t @ u)}"
      using x(3) y(3) xu by force
    moreover have "?abs (h @ t @ u) (x, y) = ?abs h p" if "\<forall>c\<in>set h. ok c" "?reach h p \<subseteq> {..<length h}"
    proof -
      have "s h (snd p) \<subseteq> {..<length h}" "r h (fst p) \<subseteq> {..<length h}" using that by auto
      moreover have "s (h @ t) (snd p) \<subseteq> {..<length (h @ t)}" using calculation yt by fastforce
      moreover have "\<forall>c\<in>set (h @ t). ok c" using x(2) that(1) by auto
      ultimately show ?thesis using x(4) y(4) xu yt that(1) by simp
    qed
    ultimately show ?thesis using x(2) y(2) by (intro exI [of _ "(x, y)"] exI [of _ "t @ u"]) auto
  qed
  show ?thesis
  proof (rule deep_copierI, rule step)
    fix h h' p
    assume "\<forall>q\<in>?reach h p. hcell h' q = hcell h q"
    then show "?abs h' p = ?abs h p \<and> ?reach h' p = ?reach h p"
      using deep_copier.local [OF assms(1), of h "fst p" h'] deep_copier.local [OF assms(2), of h "snd p" h'] by auto
  qed
qed

text \<open>A struct is copied through the parts of it that hold references; the rest is assigned.\<close>

lemma deep_copier_struct:
  assumes "deep_copier ok copyT a r"
    and "\<And>s h. run_state (copyS s) h = (case run_state (copyT (get s)) h of (t, h') \<Rightarrow> (put t s, h'))"
    and "\<And>t s. get (put t s) = t" and "\<And>t s. flat (put t s) = flat s"
    and "\<And>h s. absS h s = F (flat s) (a h (get s))" and "\<And>h s. reachS h s = r h (get s)"
  shows "deep_copier ok copyS absS reachS"
proof
  fix s h
  show "\<exists>t. snd (run_state (copyS s) h) = h @ t \<and> (\<forall>c\<in>set t. ok c)"
    using deep_copier.allocates [OF assms(1)] by (simp add: assms(2) split_beta)
  show "reachS (snd (run_state (copyS s) h)) (fst (run_state (copyS s) h)) \<subseteq>
      {length h..<length (snd (run_state (copyS s) h))}"
    using deep_copier.fresh [OF assms(1)] by (simp add: assms(2,3,6) split_beta)
  show "absS (snd (run_state (copyS s) h)) (fst (run_state (copyS s) h)) = absS h s"
    if "\<forall>c\<in>set h. ok c" "reachS h s \<subseteq> {..<length h}"
    using deep_copier.same [OF assms(1), of h "get s"] that by (simp add: assms(2-6) split_beta)
next
  fix h s h'
  assume "\<forall>p\<in>reachS h s. hcell h' p = hcell h p"
  then show "absS h' s = absS h s \<and> reachS h' s = reachS h s"
    using deep_copier.local [OF assms(1), of h "get s" h'] by (simp add: assms(5,6))
qed

subsection \<open>A new struct behind a pointer\<close>

text \<open>Cells of one kind: a constructor and its view.\<close>

definition cell_view :: "('c \<Rightarrow> bool) \<Rightarrow> ('a \<Rightarrow> 'c) \<Rightarrow> ('c \<Rightarrow> 'a option) \<Rightarrow> bool" where
  "cell_view ok mk get \<longleftrightarrow> (\<forall>x. get (mk x) = Some x \<and> ok (mk x))"

definition newCopy :: "('a \<Rightarrow> 'c) \<Rightarrow> ('c \<Rightarrow> 'a option) \<Rightarrow> 'a \<Rightarrow> ('a \<Rightarrow> ('c list, 'a) state) \<Rightarrow>
    nat option \<Rightarrow> ('c list, nat option) state" where
  "newCopy mk get z into p = (case p of
     None \<Rightarrow> return None
   | Some a \<Rightarrow> do {
       q \<leftarrow> halloc (mk z);
       h \<leftarrow> hget;
       y \<leftarrow> into (hread get z h a);
       hwrite q (mk y);
       return (Some q)
     })"

definition ptrAbs :: "('c \<Rightarrow> 'a option) \<Rightarrow> 'a \<Rightarrow> ('c list \<Rightarrow> 'a \<Rightarrow> 'v) \<Rightarrow> 'c list \<Rightarrow> nat option \<Rightarrow> 'v option" where
  "ptrAbs get z a h p = map_option (\<lambda>q. a h (hread get z h q)) p"

definition ptrReach :: "('c \<Rightarrow> 'a option) \<Rightarrow> 'a \<Rightarrow> ('c list \<Rightarrow> 'a \<Rightarrow> nat set) \<Rightarrow> 'c list \<Rightarrow> nat option \<Rightarrow> nat set" where
  "ptrReach get z r h p = (case p of None \<Rightarrow> {} | Some q \<Rightarrow> insert q (r h (hread get z h q)))"

lemma deep_copier_ptr:
  assumes "cell_view ok mk get" and "deep_copier ok into a r"
  shows "deep_copier ok (newCopy mk get z into) (ptrAbs get z a) (ptrReach get z r)"
    (is "deep_copier ok ?copy ?abs ?reach")
proof (rule deep_copierI)
  fix p h
  show "\<exists>y t. run_state (?copy p) h = (y, h @ t) \<and> (\<forall>c\<in>set t. ok c) \<and>
      ?reach (h @ t) y \<subseteq> {length h..<length h + length t} \<and>
      ((\<forall>c\<in>set h. ok c) \<longrightarrow> ?reach h p \<subseteq> {..<length h} \<longrightarrow> ?abs (h @ t) y = ?abs h p)"
  proof (cases p)
    case None
    then show ?thesis by (auto simp: newCopy_def ptrAbs_def ptrReach_def)
  next
    case (Some q)
    let ?h = "h @ [mk z]" and ?x = "hread get z (h @ [mk z]) q"
    obtain y t where y: "run_state (into ?x) ?h = (y, ?h @ t)" "\<forall>c\<in>set t. ok c"
        "r (?h @ t) y \<subseteq> {length ?h..<length ?h + length t}"
        "\<forall>c\<in>set ?h. ok c \<Longrightarrow> r ?h ?x \<subseteq> {..<length ?h} \<Longrightarrow> a (?h @ t) y = a ?h ?x"
      using deep_copier.run [OF assms(2)] by metis
    have "\<forall>p\<in>r (?h @ t) y. hcell (h @ mk y # t) p = hcell (?h @ t) p"
      using y(3) by (auto simp: hcell_def nth_append)
    note loc = deep_copier.local [OF assms(2) this]
    have "run_state (?copy p) h = (Some (length h), h @ mk y # t)"
      by (simp add: newCopy_def Some y(1) list_update_append)
    moreover have "hread get z (h @ mk y # t) (length h) = y"
      using assms(1) by (simp add: cell_view_def)
    moreover have "a (?h @ t) y = a h (hread get z h q)"
      if "\<forall>c\<in>set h. ok c" "q < length h" "r h (hread get z h q) \<subseteq> {..<length h}"
      using y(4) deep_copier.extend [OF assms(2) that(3), of "[mk z]"] that assms(1)
      by (fastforce simp: cell_view_def)
    ultimately show ?thesis
      using y(2,3) loc assms(1) Some
      by (intro exI [of _ "Some (length h)"] exI [of _ "mk y # t"]) (auto simp: ptrReach_def ptrAbs_def cell_view_def)
  qed
next
  fix h h' p
  assume *: "\<forall>q\<in>?reach h p. hcell h' q = hcell h q"
  show "?abs h' p = ?abs h p \<and> ?reach h' p = ?reach h p"
  proof (cases p)
    case (Some q)
    with * have "hread get z h' q = hread get z h q" by (auto simp: ptrReach_def intro: hread_cong)
    with * Some deep_copier.local [OF assms(2), of h "hread get z h q" h'] show ?thesis
      by (simp add: ptrAbs_def ptrReach_def)
  qed (simp add: ptrAbs_def ptrReach_def)
qed

subsection \<open>Maps\<close>

text \<open>
  A map is copied entry by entry, in the order of iteration, into a new map. A well-formed cell
  holds a map with distinct keys.
\<close>

definition map_view :: "('c \<Rightarrow> bool) \<Rightarrow> (smap \<Rightarrow> 'c) \<Rightarrow> ('c \<Rightarrow> smap option) \<Rightarrow> bool" where
  "map_view ok mk get \<longleftrightarrow> (\<forall>m. get (mk m) = Some m \<and> (wf_map m \<longrightarrow> ok (mk m))) \<and>
     (\<forall>c m. ok c \<longrightarrow> get c = Some m \<longrightarrow> wf_map m)"

primrec copyEntries :: "(smap \<Rightarrow> 'c) \<Rightarrow> ('c \<Rightarrow> smap option) \<Rightarrow> nat \<Rightarrow> smap \<Rightarrow> ('c list, unit) state" where
  "copyEntries mk get q [] = return ()"
| "copyEntries mk get q (e # m) = do {
     h \<leftarrow> hget;
     hwrite q (mk (mset_key (fst e) (snd e) (hread get [] h q)));
     copyEntries mk get q m
   }"

definition copyMap :: "(smap \<Rightarrow> 'c) \<Rightarrow> ('c \<Rightarrow> smap option) \<Rightarrow> nat option \<Rightarrow> ('c list, nat option) state" where
  "copyMap mk get p = (case p of
     None \<Rightarrow> return None
   | Some a \<Rightarrow> do {
       q \<leftarrow> halloc (mk []);
       h \<leftarrow> hget;
       copyEntries mk get q (hread get [] h a);
       return (Some q)
     })"

definition mapAbs :: "('c \<Rightarrow> smap option) \<Rightarrow> 'c list \<Rightarrow> nat option \<Rightarrow> smap" where
  "mapAbs get h p = (case p of None \<Rightarrow> [] | Some q \<Rightarrow> hread get [] h q)"

text \<open>
  The abstract value of a nil map is that of an empty one, as it is for every read of a map in Go. That
  a copy is nil exactly when its original is nil is a fact of its own.
\<close>

lemma copyMap_nil: "fst (run_state (copyMap mk get p) h) = None \<longleftrightarrow> p = None"
  by (cases p) (simp_all add: copyMap_def split_beta)

lemma run_copyEntries:
  assumes "\<And>m. get (mk m) = Some m"
  shows "run_state (copyEntries mk get (length h) m) (h @ [mk m']) = ((), h @ [mk (maps_Copy m' m)])"
  by (induction m arbitrary: m') (simp_all add: assms maps_Copy_def split_beta)

lemma deep_copier_map:
  fixes mk :: "smap \<Rightarrow> 'c"
  assumes "map_view ok mk get"
  shows "deep_copier ok (copyMap mk get) (mapAbs get) (\<lambda>h p. set_option p)"
proof (rule deep_copierI)
  fix p h
  note view = assms [unfolded map_view_def]
  show "\<exists>y t. run_state (copyMap mk get p) h = (y, h @ t) \<and> (\<forall>c\<in>set t. ok c) \<and>
      set_option y \<subseteq> {length h..<length h + length t} \<and>
      ((\<forall>c\<in>set h. ok c) \<longrightarrow> set_option p \<subseteq> {..<length h} \<longrightarrow> mapAbs get (h @ t) y = mapAbs get h p)"
  proof (cases p)
    case None
    then show ?thesis by (auto simp: copyMap_def mapAbs_def)
  next
    case (Some q)
    let ?m = "hread get [] (h @ [mk []]) q"
    have run: "run_state (copyMap mk get p) h = (Some (length h), h @ [mk (maps_Copy [] ?m)])"
      using run_copyEntries [of get mk h ?m "[]"] view by (simp add: copyMap_def Some)
    have "maps_Copy [] ?m = hread get [] h q" if "\<forall>c\<in>set h. ok c" "q < length h"
    proof -
      have "wf_map (hread get [] h q)"
        using view that by (auto simp: hread_def wf_map_def split: option.splits dest: nth_mem)
      then show ?thesis using that(2) maps_Copy_wf [of "[]"] by simp
    qed
    then show ?thesis
      using view wf_maps_Copy [of "[]" ?m]
      by (intro exI [of _ "Some (length h)"] exI [of _ "[mk (maps_Copy [] ?m)]"]) (auto simp: run [unfolded Some] Some mapAbs_def wf_map_def)
  qed
next
  fix h h' :: "'c list" and p
  assume "\<forall>q\<in>set_option p. hcell h' q = hcell h q"
  then show "mapAbs get h' p = mapAbs get h p \<and> set_option p = set_option p"
    by (auto simp: mapAbs_def intro: hread_cong split: option.splits)
qed

subsection \<open>Slices\<close>

text \<open>
  A slice is a window of an array; its length is the number of its elements. \<^verbatim>\<open>make\<close> gives a new
  array of zero values, into which the elements are copied one by one.
\<close>

record goSlice =
  sl_Array :: nat
  sl_Offset :: nat
  sl_Len :: nat

definition elems :: "('c \<Rightarrow> 'a list option) \<Rightarrow> 'c list \<Rightarrow> goSlice \<Rightarrow> 'a list" where
  "elems get h s = take (sl_Len s) (drop (sl_Offset s) (hread get [] h (sl_Array s)))"

primrec copyItems :: "('a list \<Rightarrow> 'c) \<Rightarrow> ('c \<Rightarrow> 'a list option) \<Rightarrow> ('a \<Rightarrow> ('c list, 'a) state) \<Rightarrow>
    nat \<Rightarrow> nat \<Rightarrow> 'a list \<Rightarrow> ('c list, unit) state" where
  "copyItems mk get into q i [] = return ()"
| "copyItems mk get into q i (x # xs) = do {
     y \<leftarrow> into x;
     h \<leftarrow> hget;
     hwrite q (mk ((hread get [] h q)[i := y]));
     copyItems mk get into q (Suc i) xs
   }"

definition copySlice :: "('a list \<Rightarrow> 'c) \<Rightarrow> ('c \<Rightarrow> 'a list option) \<Rightarrow> 'a \<Rightarrow> ('a \<Rightarrow> ('c list, 'a) state) \<Rightarrow>
    goSlice option \<Rightarrow> ('c list, goSlice option) state" where
  "copySlice mk get z into s = (case s of
     None \<Rightarrow> return None
   | Some sl \<Rightarrow> do {
       h \<leftarrow> hget;
       q \<leftarrow> halloc (mk (replicate (length (elems get h sl)) z));
       copyItems mk get into q 0 (elems get h sl);
       return (Some \<lparr>sl_Array = q, sl_Offset = 0, sl_Len = length (elems get h sl)\<rparr>)
     })"

definition sliceAbs :: "('c \<Rightarrow> 'a list option) \<Rightarrow> ('c list \<Rightarrow> 'a \<Rightarrow> 'v) \<Rightarrow> 'c list \<Rightarrow> goSlice option \<Rightarrow> 'v list" where
  "sliceAbs get a h s = (case s of None \<Rightarrow> [] | Some sl \<Rightarrow> map (a h) (elems get h sl))"

definition sliceReach :: "('c \<Rightarrow> 'a list option) \<Rightarrow> ('c list \<Rightarrow> 'a \<Rightarrow> nat set) \<Rightarrow> 'c list \<Rightarrow> goSlice option \<Rightarrow> nat set" where
  "sliceReach get r h s = (case s of None \<Rightarrow> {} | Some sl \<Rightarrow> insert (sl_Array sl) (\<Union>x\<in>set (elems get h sl). r h x))"

lemma run_copyItems:
  assumes "cell_view ok mk get" and "deep_copier ok into a r" and "i + length xs = length ys"
    and "\<forall>y\<in>set (take i ys). r (h @ mk ys # t) y \<subseteq> {Suc (length h)..<length h + Suc (length t)}"
  shows "\<exists>zs u. run_state (copyItems mk get into (length h) i xs) (h @ mk ys # t) =
      ((), h @ mk (take i ys @ zs) # t @ u) \<and> (\<forall>c\<in>set u. ok c) \<and> length zs = length xs \<and>
    (\<forall>y\<in>set (take i ys). a (h @ mk (take i ys @ zs) # t @ u) y = a (h @ mk ys # t) y) \<and>
    (\<forall>y\<in>set (take i ys @ zs). r (h @ mk (take i ys @ zs) # t @ u) y \<subseteq> {Suc (length h)..<length h + Suc (length (t @ u))}) \<and>
    ((\<forall>c\<in>set (h @ t). ok c) \<longrightarrow> (\<forall>x\<in>set xs. r h x \<subseteq> {..<length h}) \<longrightarrow>
      map (a (h @ mk (take i ys @ zs) # t @ u)) zs = map (a h) xs)"
  using assms(3,4)
proof (induction xs arbitrary: i ys t)
  case Nil
  then show ?case by (intro exI [of _ "[]"]) auto
next
  case (Cons x xs)
  let ?h = "h @ mk ys # t"
  obtain y v where y: "run_state (into x) ?h = (y, ?h @ v)" "\<forall>c\<in>set v. ok c"
      "r (?h @ v) y \<subseteq> {length ?h..<length ?h + length v}"
      "\<forall>c\<in>set ?h. ok c \<Longrightarrow> r ?h x \<subseteq> {..<length ?h} \<Longrightarrow> a (?h @ v) y = a ?h x"
    using deep_copier.run [OF assms(2)] by metis
  define ys' where "ys' = ys[i := y]"
  let ?h' = "h @ mk ys' # t @ v"
  have i: "i < length ys" "Suc i + length xs = length ys'" "take (Suc i) ys' = take i ys @ [y]"
    using Cons.prems(1) by (auto simp: ys'_def take_Suc_conv_app_nth)
  have step: "a ?h' z = a ?h z \<and> r ?h' z = r ?h z" if "r ?h z \<subseteq> {Suc (length h)..<length h + Suc (length t)}" for z
    by (rule deep_copier.local [OF assms(2)]) (use that in \<open>auto simp: hcell_def nth_append nth_Cons'\<close>)
  have new: "a ?h' y = a (?h @ v) y \<and> r ?h' y = r (?h @ v) y"
    by (rule deep_copier.local [OF assms(2)]) (use y(3) in \<open>auto simp: hcell_def nth_append nth_Cons'\<close>)
  have "\<forall>z\<in>set (take (Suc i) ys'). r ?h' z \<subseteq> {Suc (length h)..<length h + Suc (length (t @ v))}"
    using Cons.prems(2) step new y(3) by (fastforce simp: i(3))
  from Cons.IH [OF i(2) this] obtain zs u where
    "run_state (copyItems mk get into (length h) (Suc i) xs) ?h' =
        ((), h @ mk (take (Suc i) ys' @ zs) # (t @ v) @ u) \<and> (\<forall>c\<in>set u. ok c) \<and> length zs = length xs \<and>
      (\<forall>z\<in>set (take (Suc i) ys'). a (h @ mk (take (Suc i) ys' @ zs) # (t @ v) @ u) z = a ?h' z) \<and>
      (\<forall>z\<in>set (take (Suc i) ys' @ zs). r (h @ mk (take (Suc i) ys' @ zs) # (t @ v) @ u) z \<subseteq>
         {Suc (length h)..<length h + Suc (length ((t @ v) @ u))}) \<and>
      ((\<forall>c\<in>set (h @ t @ v). ok c) \<longrightarrow> (\<forall>x\<in>set xs. r h x \<subseteq> {..<length h}) \<longrightarrow>
         map (a (h @ mk (take (Suc i) ys' @ zs) # (t @ v) @ u)) zs = map (a h) xs)" by blast
  note IH = this [unfolded i(3) append_assoc append_Cons append_Nil]
  have run: "run_state (copyItems mk get into (length h) i (x # xs)) ?h =
      ((), h @ mk (take i ys @ y # zs) # t @ v @ u)"
    using IH assms(1) by (simp add: y(1) ys'_def cell_view_def list_update_append hread_def nth_append)
  have val: "a ?h' y = a h x" if "\<forall>c\<in>set (h @ t). ok c" "r h x \<subseteq> {..<length h}"
    using y(4) deep_copier.extend [OF assms(2) that(2), of "mk ys # t"] that assms(1) new
    by (force simp: cell_view_def)
  show ?case
  proof (intro exI conjI)
    show "run_state (copyItems mk get into (length h) i (x # xs)) ?h =
        ((), h @ mk (take i ys @ (y # zs)) # t @ (v @ u))" using run by simp
    show "\<forall>c\<in>set (v @ u). ok c" using y(2) IH by auto
    show "\<forall>z\<in>set (take i ys). a (h @ mk (take i ys @ y # zs) # t @ v @ u) z = a ?h z"
      using IH step Cons.prems(2) by simp
    show "(\<forall>c\<in>set (h @ t). ok c) \<longrightarrow> (\<forall>x\<in>set (x # xs). r h x \<subseteq> {..<length h}) \<longrightarrow>
        map (a (h @ mk (take i ys @ y # zs) # t @ v @ u)) (y # zs) = map (a h) (x # xs)"
      using IH val y(2) by auto
  qed (use IH in \<open>simp_all add: add.assoc\<close>)
qed

text \<open>The loop over a new array.\<close>

lemma run_copyItems_new:
  assumes "cell_view ok mk get" and "deep_copier ok into a r"
  shows "\<exists>zs u. run_state (copyItems mk get into (length h) 0 xs) (h @ [mk (replicate (length xs) z)]) =
      ((), h @ mk zs # u) \<and> (\<forall>c\<in>set u. ok c) \<and> length zs = length xs \<and>
    (\<forall>y\<in>set zs. r (h @ mk zs # u) y \<subseteq> {Suc (length h)..<length h + Suc (length u)}) \<and>
    ((\<forall>c\<in>set h. ok c) \<longrightarrow> (\<forall>x\<in>set xs. r h x \<subseteq> {..<length h}) \<longrightarrow> map (a (h @ mk zs # u)) zs = map (a h) xs)"
proof -
  let ?ys = "replicate (length xs) z"
  have "0 + length xs = length ?ys"
    and "\<forall>y\<in>set (take 0 ?ys). r (h @ mk ?ys # []) y \<subseteq> {Suc (length h)..<length h + Suc (length [])}" by simp_all
  from run_copyItems [OF assms this] show ?thesis unfolding take_0 append_Nil append_Nil2 by blast
qed

lemma deep_copier_slice:
  assumes "cell_view ok mk get" and "deep_copier ok into a r"
  shows "deep_copier ok (copySlice mk get z into) (sliceAbs get a) (sliceReach get r)"
    (is "deep_copier ok ?copy ?abs ?reach")
proof (rule deep_copierI)
  fix s h
  show "\<exists>y t. run_state (?copy s) h = (y, h @ t) \<and> (\<forall>c\<in>set t. ok c) \<and>
      ?reach (h @ t) y \<subseteq> {length h..<length h + length t} \<and>
      ((\<forall>c\<in>set h. ok c) \<longrightarrow> ?reach h s \<subseteq> {..<length h} \<longrightarrow> ?abs (h @ t) y = ?abs h s)"
  proof (cases s)
    case None
    then show ?thesis by (auto simp: copySlice_def sliceAbs_def sliceReach_def)
  next
    case (Some sl)
    let ?xs = "elems get h sl"
    obtain zs u where run: "run_state (copyItems mk get into (length h) 0 ?xs) (h @ [mk (replicate (length ?xs) z)]) =
          ((), h @ mk zs # u) \<and> (\<forall>c\<in>set u. ok c) \<and> length zs = length ?xs \<and>
        (\<forall>y\<in>set zs. r (h @ mk zs # u) y \<subseteq> {Suc (length h)..<length h + Suc (length u)}) \<and>
        ((\<forall>c\<in>set h. ok c) \<longrightarrow> (\<forall>x\<in>set ?xs. r h x \<subseteq> {..<length h}) \<longrightarrow> map (a (h @ mk zs # u)) zs = map (a h) ?xs)"
      using run_copyItems_new [OF assms] by blast
    let ?s = "\<lparr>sl_Array = length h, sl_Offset = 0, sl_Len = length ?xs\<rparr>"
    have zs: "elems get (h @ mk zs # u) ?s = zs"
      using assms(1) run by (simp add: elems_def cell_view_def)
    have fresh: "(\<Union>y\<in>set zs. r (h @ mk zs # u) y) \<subseteq> {length h..<length h + length (mk zs # u)}"
    proof (rule UN_least)
      fix y assume "y \<in> set zs"
      with run have "r (h @ mk zs # u) y \<subseteq> {Suc (length h)..<length h + Suc (length u)}" by blast
      then show "r (h @ mk zs # u) y \<subseteq> {length h..<length h + length (mk zs # u)}" by auto
    qed
    have same: "map (a (h @ mk zs # u)) zs = map (a h) ?xs" if "\<forall>c\<in>set h. ok c" "?reach h s \<subseteq> {..<length h}"
    proof -
      have "\<forall>x\<in>set ?xs. r h x \<subseteq> {..<length h}" using that(2) by (auto simp: Some sliceReach_def)
      with run that(1) show ?thesis by blast
    qed
    show ?thesis
    proof (intro exI conjI impI)
      show "run_state (?copy s) h = (Some ?s, h @ mk zs # u)"
        by (simp add: copySlice_def Some run)
      show "\<forall>c\<in>set (mk zs # u). ok c" using run assms(1) by (simp add: cell_view_def)
      show "?reach (h @ mk zs # u) (Some ?s) \<subseteq> {length h..<length h + length (mk zs # u)}"
        using fresh by (simp add: sliceReach_def zs)
      show "?abs (h @ mk zs # u) (Some ?s) = ?abs h s" if "\<forall>c\<in>set h. ok c" "?reach h s \<subseteq> {..<length h}"
        using same [OF that] by (simp add: sliceAbs_def zs Some)
    qed
  qed
next
  fix h h' s
  assume *: "\<forall>q\<in>?reach h s. hcell h' q = hcell h q"
  show "?abs h' s = ?abs h s \<and> ?reach h' s = ?reach h s"
  proof (cases s)
    case (Some sl)
    with * have "hread get [] h' (sl_Array sl) = hread get [] h (sl_Array sl)"
      by (auto simp: sliceReach_def intro: hread_cong)
    then have e: "elems get h' sl = elems get h sl" by (simp add: elems_def)
    have "a h' x = a h x \<and> r h' x = r h x" if "x \<in> set (elems get h sl)" for x
      by (rule deep_copier.local [OF assms(2)]) (use * Some that in \<open>auto simp: sliceReach_def\<close>)
    then show ?thesis by (simp add: sliceAbs_def sliceReach_def Some e)
  qed (simp add: sliceAbs_def sliceReach_def)
qed

end
