(* ===== verification/Deep_Copy_Correct.thy ===== *)
theory Deep_Copy_Correct
  imports Deep_Copy
begin

text \<open>
  Every generated deep copy meets the contract \<^const>\<open>deep_copier\<close>: interpretations for what needs
  no library, lemmas under \<^const>\<open>meta_ok\<close> for objects and lists.
\<close>

section \<open>References\<close>

lemma ptrReach_flat: "ptrReach get z (\<lambda>h x. {}) = (\<lambda>h p. set_option p)"
  by (auto simp: ptrReach_def fun_eq_iff split: option.splits)

lemma sliceReach_flat: "sliceReach get (\<lambda>h x. {}) = (\<lambda>h s. arrayOf s)"
  by (auto simp: sliceReach_def arrayOf_def fun_eq_iff split: option.splits)

lemma cell_views:
  "cell_view cell_ok CBool viewBool" "cell_view cell_ok CInt32 viewInt32"
  "cell_view cell_ok CStrings viewStrings" "cell_view cell_ok CConditions viewConditions"
  "cell_view cell_ok CAGW viewAGW" "cell_view cell_ok CAGWItems viewAGWItems"
  "cell_view cell_ok CAGWList viewAGWList" "cell_view cell_ok COrc8r viewOrc8r"
  "cell_view cell_ok COrc8rItems viewOrc8rItems" "cell_view cell_ok COrc8rList viewOrc8rList"
  by (simp_all add: cell_view_def cell_ok_def view_defs)

lemma map_view_CMap: "map_view cell_ok CMap viewMap"
  by (auto simp: map_view_def cell_ok_def viewMap_def split: cell.splits)

interpretation bool_ptr: deep_copier cell_ok copyBool "ptrAbs viewBool False (\<lambda>h b. b)" "\<lambda>h p. set_option p"
  unfolding copyBool_def ptrReach_flat [of viewBool False, symmetric]
  by (rule deep_copier_ptr [OF cell_views(1)], rule deep_copier_flat) simp

interpretation int32_ptr: deep_copier cell_ok copyInt32 "ptrAbs viewInt32 0 (\<lambda>h n. n)" "\<lambda>h p. set_option p"
  unfolding copyInt32_def ptrReach_flat [of viewInt32 0, symmetric]
  by (rule deep_copier_ptr [OF cell_views(2)], rule deep_copier_flat) simp

interpretation string_map: deep_copier cell_ok copyStringMap "mapAbs viewMap" "\<lambda>h p. set_option p"
  unfolding copyStringMap_def by (rule deep_copier_map [OF map_view_CMap])

interpretation strings: deep_copier cell_ok copyStrings "sliceAbs viewStrings (\<lambda>h s. s)" "\<lambda>h s. arrayOf s"
  unfolding copyStrings_def sliceReach_flat [of viewStrings, symmetric]
  by (rule deep_copier_slice [OF cell_views(3)], rule deep_copier_flat) simp

lemma conditions_copier:
  assumes "meta_ok M"
  shows "deep_copier cell_ok (copyConditions M) (sliceAbs viewConditions (\<lambda>h c. c)) (\<lambda>h s. arrayOf s)"
  unfolding copyConditions_def sliceReach_flat [of viewConditions, symmetric]
  by (rule deep_copier_slice [OF cell_views(4)], rule deep_copier_flat) (use assms in \<open>simp add: meta_ok_def\<close>)

section \<open>Specs and statuses\<close>

interpretation registration_spec: deep_copier cell_ok MagmaAGWGatewayRegistrationSpec_DeepCopyInto
    absMagmaAGWGatewayRegistrationSpec "\<lambda>h r. set_option (rgr_Enabled r)"
  by (rule deep_copier_struct [where get = rgr_Enabled and put = "\<lambda>e i. i\<lparr>rgr_Enabled := e\<rparr>" and
        flat = "\<lambda>i. i\<lparr>rgr_Enabled := None\<rparr>" and
        F = "\<lambda>i e. (absMagmaAGWGatewayRegistrationSpec [] i)\<lparr>gr_Enabled := e\<rparr>", OF bool_ptr.deep_copier_axioms])
    (simp_all add: MagmaAGWGatewayRegistrationSpec_DeepCopyInto_def absMagmaAGWGatewayRegistrationSpec_def)

interpretation validation_spec: deep_copier cell_ok MagmaAGWUERANSIMValidationSpec_DeepCopyInto
    absMagmaAGWUERANSIMValidationSpec "\<lambda>h r. set_option (ruv_Enabled r)"
  by (rule deep_copier_struct [where get = ruv_Enabled and put = "\<lambda>e i. i\<lparr>ruv_Enabled := e\<rparr>" and
        flat = "\<lambda>i. i\<lparr>ruv_Enabled := None\<rparr>" and
        F = "\<lambda>i e. (absMagmaAGWUERANSIMValidationSpec [] i)\<lparr>uv_Enabled := e\<rparr>", OF bool_ptr.deep_copier_axioms])
    (simp_all add: MagmaAGWUERANSIMValidationSpec_DeepCopyInto_def absMagmaAGWUERANSIMValidationSpec_def)

interpretation datapath_spec: deep_copier cell_ok MagmaAGWDatapathSpec_DeepCopyInto
    absMagmaAGWDatapathSpec "\<lambda>h r. set_option (rdps_Enabled r)"
  by (rule deep_copier_struct [where get = rdps_Enabled and put = "\<lambda>e i. i\<lparr>rdps_Enabled := e\<rparr>" and
        flat = "\<lambda>i. i\<lparr>rdps_Enabled := None\<rparr>" and
        F = "\<lambda>i e. (absMagmaAGWDatapathSpec [] i)\<lparr>dps_Enabled := e\<rparr>", OF bool_ptr.deep_copier_axioms])
    (simp_all add: MagmaAGWDatapathSpec_DeepCopyInto_def absMagmaAGWDatapathSpec_def)

lemmas agw_spec_parts =
  deep_copier_pair [OF registration_spec.deep_copier_axioms
    deep_copier_pair [OF string_map.deep_copier_axioms
      deep_copier_pair [OF string_map.deep_copier_axioms
        deep_copier_pair [OF string_map.deep_copier_axioms
          deep_copier_pair [OF validation_spec.deep_copier_axioms
            deep_copier_pair [OF datapath_spec.deep_copier_axioms string_map.deep_copier_axioms]]]]]]

interpretation agw_spec: deep_copier cell_ok MagmaAGWSpec_DeepCopyInto absMagmaAGWSpec "\<lambda>h r. reachSpecAGW r"
  by (rule deep_copier_struct [OF agw_spec_parts, where
      get = "\<lambda>i. (ras_GatewayRegistration i, ras_AGWNodeSelector i, ras_AGWNodeLabelSelector i,
        ras_UERANSIMNodeSelector i, ras_UERANSIMValidation i, ras_Datapath i, ras_Values i)" and
      put = "\<lambda>(g, n, k, u, v, d, vs) i. i\<lparr>ras_GatewayRegistration := g, ras_AGWNodeSelector := n,
        ras_AGWNodeLabelSelector := k, ras_UERANSIMNodeSelector := u, ras_UERANSIMValidation := v,
        ras_Datapath := d, ras_Values := vs\<rparr>" and
      flat = "\<lambda>i. i\<lparr>ras_GatewayRegistration := zeroMagmaAGWGatewayRegistrationSpec, ras_AGWNodeSelector := None,
        ras_AGWNodeLabelSelector := None, ras_UERANSIMNodeSelector := None,
        ras_UERANSIMValidation := zeroMagmaAGWUERANSIMValidationSpec, ras_Datapath := zeroMagmaAGWDatapathSpec,
        ras_Values := None\<rparr>" and
      F = "\<lambda>i (g, n, k, u, v, d, vs). (absMagmaAGWSpec [] i)\<lparr>as_GatewayRegistration := g, as_AGWNodeSelector := n,
        as_AGWNodeLabelSelector := k, as_UERANSIMNodeSelector := u, as_UERANSIMValidation := v,
        as_Datapath := d, as_Values := vs\<rparr>"])
    (auto simp: MagmaAGWSpec_DeepCopyInto_def copyPair_def split_beta absMagmaAGWSpec_def reachSpecAGW_def)

interpretation orc8r_spec: deep_copier cell_ok MagmaOrc8rSpec_DeepCopyInto absMagmaOrc8rSpec "\<lambda>h r. reachSpecOrc8r r"
  by (rule deep_copier_struct [OF deep_copier_pair [OF int32_ptr.deep_copier_axioms
        deep_copier_pair [OF strings.deep_copier_axioms string_map.deep_copier_axioms]], where
      get = "\<lambda>i. (ros_NMSNodePort i, ros_NMSCustomDomains i, ros_Values i)" and
      put = "\<lambda>(p, d, vs) i. i\<lparr>ros_NMSNodePort := p, ros_NMSCustomDomains := d, ros_Values := vs\<rparr>" and
      flat = "\<lambda>i. i\<lparr>ros_NMSNodePort := None, ros_NMSCustomDomains := None, ros_Values := None\<rparr>" and
      F = "\<lambda>i (p, d, vs). (absMagmaOrc8rSpec [] i)\<lparr>os_NMSNodePort := p, os_NMSCustomDomains := d, os_Values := vs\<rparr>"])
    (auto simp: MagmaOrc8rSpec_DeepCopyInto_def copyPair_def split_beta absMagmaOrc8rSpec_def reachSpecOrc8r_def)

lemma agw_status_copier:
  assumes "meta_ok M"
  shows "deep_copier cell_ok (MagmaAGWStatus_DeepCopyInto M) absMagmaAGWStatus (\<lambda>h r. arrayOf (rast_Conditions r))"
  by (rule deep_copier_struct [OF conditions_copier [OF assms], where get = rast_Conditions and
        put = "\<lambda>c i. i\<lparr>rast_Conditions := c\<rparr>" and flat = "\<lambda>i. i\<lparr>rast_Conditions := None\<rparr>" and
        F = "\<lambda>i c. (absMagmaAGWStatus [] i)\<lparr>ast_Conditions := c\<rparr>"])
    (simp_all add: MagmaAGWStatus_DeepCopyInto_def absMagmaAGWStatus_def split_beta)

lemma orc8r_status_copier:
  assumes "meta_ok M"
  shows "deep_copier cell_ok (MagmaOrc8rStatus_DeepCopyInto M) absMagmaOrc8rStatus (\<lambda>h r. arrayOf (rost_Conditions r))"
  by (rule deep_copier_struct [OF conditions_copier [OF assms], where get = rost_Conditions and
        put = "\<lambda>c i. i\<lparr>rost_Conditions := c\<rparr>" and flat = "\<lambda>i. i\<lparr>rost_Conditions := None\<rparr>" and
        F = "\<lambda>i c. (absMagmaOrc8rStatus [] i)\<lparr>ost_Conditions := c\<rparr>"])
    (simp_all add: MagmaOrc8rStatus_DeepCopyInto_def absMagmaOrc8rStatus_def split_beta)

section \<open>Objects and lists\<close>

lemma agw_copier:
  assumes "meta_ok M"
  shows "deep_copier cell_ok (MagmaAGW_DeepCopyInto M) (absMagmaAGW M) (reachAGW M)"
proof -
  have "deep_copier cell_ok (ml_ObjectMeta_DeepCopyInto M) (ml_absObjectMeta M) (ml_reachObjectMeta M)"
    using assms by (simp add: meta_ok_def)
  from deep_copier_pair [OF this deep_copier_pair [OF agw_spec.deep_copier_axioms agw_status_copier [OF assms]]]
  show ?thesis
    by (rule deep_copier_struct [where get = "\<lambda>i. (rag_ObjectMeta i, rag_Spec i, rag_Status i)" and
          put = "\<lambda>(m, sp, st) i. i\<lparr>rag_ObjectMeta := m, rag_Spec := sp, rag_Status := st\<rparr>" and
          flat = rag_TypeMeta and F = "\<lambda>k (m, sp, st). (k, \<lparr>agw_Meta = m, agw_Spec = sp, agw_Status = st\<rparr>)"])
      (auto simp: MagmaAGW_DeepCopyInto_def copyPair_def split_beta absMagmaAGW_def reachAGW_def)
qed

lemma orc8r_copier:
  assumes "meta_ok M"
  shows "deep_copier cell_ok (MagmaOrc8r_DeepCopyInto M) (absMagmaOrc8r M) (reachOrc8r M)"
proof -
  have "deep_copier cell_ok (ml_ObjectMeta_DeepCopyInto M) (ml_absObjectMeta M) (ml_reachObjectMeta M)"
    using assms by (simp add: meta_ok_def)
  from deep_copier_pair [OF this deep_copier_pair [OF orc8r_spec.deep_copier_axioms orc8r_status_copier [OF assms]]]
  show ?thesis
    by (rule deep_copier_struct [where get = "\<lambda>i. (ror_ObjectMeta i, ror_Spec i, ror_Status i)" and
          put = "\<lambda>(m, sp, st) i. i\<lparr>ror_ObjectMeta := m, ror_Spec := sp, ror_Status := st\<rparr>" and
          flat = ror_TypeMeta and F = "\<lambda>k (m, sp, st). (k, \<lparr>orc8r_Meta = m, orc8r_Spec = sp, orc8r_Status = st\<rparr>)"])
      (auto simp: MagmaOrc8r_DeepCopyInto_def copyPair_def split_beta absMagmaOrc8r_def reachOrc8r_def)
qed

lemma agw_list_copier:
  assumes "meta_ok M"
  shows "deep_copier cell_ok (MagmaAGWList_DeepCopyInto M) (absMagmaAGWList M) (reachAGWList M)"
proof -
  have "deep_copier cell_ok (ml_ListMeta_DeepCopyInto M) (ml_absListMeta M) (ml_reachListMeta M)"
    using assms by (simp add: meta_ok_def)
  from deep_copier_pair [OF this deep_copier_slice [OF cell_views(6) agw_copier [OF assms]]]
  show ?thesis
    by (rule deep_copier_struct [where get = "\<lambda>i. (ragl_ListMeta i, ragl_Items i)" and
          put = "\<lambda>(l, xs) i. i\<lparr>ragl_ListMeta := l, ragl_Items := xs\<rparr>" and flat = ragl_TypeMeta and F = Pair])
      (auto simp: MagmaAGWList_DeepCopyInto_def copyPair_def split_beta absMagmaAGWList_def reachAGWList_def)
qed

lemma orc8r_list_copier:
  assumes "meta_ok M"
  shows "deep_copier cell_ok (MagmaOrc8rList_DeepCopyInto M) (absMagmaOrc8rList M) (reachOrc8rList M)"
proof -
  have "deep_copier cell_ok (ml_ListMeta_DeepCopyInto M) (ml_absListMeta M) (ml_reachListMeta M)"
    using assms by (simp add: meta_ok_def)
  from deep_copier_pair [OF this deep_copier_slice [OF cell_views(9) orc8r_copier [OF assms]]]
  show ?thesis
    by (rule deep_copier_struct [where get = "\<lambda>i. (rorl_ListMeta i, rorl_Items i)" and
          put = "\<lambda>(l, xs) i. i\<lparr>rorl_ListMeta := l, rorl_Items := xs\<rparr>" and flat = rorl_TypeMeta and F = Pair])
      (auto simp: MagmaOrc8rList_DeepCopyInto_def copyPair_def split_beta absMagmaOrc8rList_def reachOrc8rList_def)
qed

text \<open>Behind a pointer.\<close>

lemma agw_ptr_copier:
  "meta_ok M \<Longrightarrow> deep_copier cell_ok (MagmaAGW_DeepCopy M)
     (ptrAbs viewAGW (zeroMagmaAGW (ml_zeroObjectMeta M)) (absMagmaAGW M))
     (ptrReach viewAGW (zeroMagmaAGW (ml_zeroObjectMeta M)) (reachAGW M))"
  unfolding MagmaAGW_DeepCopy_def by (intro deep_copier_ptr cell_views agw_copier)

lemma orc8r_list_ptr_copier:
  "meta_ok M \<Longrightarrow> deep_copier cell_ok (MagmaOrc8rList_DeepCopy M)
     (ptrAbs viewOrc8rList (zeroMagmaOrc8rList (ml_zeroListMeta M)) (absMagmaOrc8rList M))
     (ptrReach viewOrc8rList (zeroMagmaOrc8rList (ml_zeroListMeta M)) (reachOrc8rList M))"
  unfolding MagmaOrc8rList_DeepCopy_def by (intro deep_copier_ptr cell_views orc8r_list_copier)

section \<open>Properties\<close>

text \<open>The value behind a pointer, and the cells it is made of.\<close>

definition agwAt :: "('m, 'l, 'x) metaLib \<Rightarrow> ('m, 'l, 'x) cell list \<Rightarrow> nat \<Rightarrow> agwValue option" where
  "agwAt M h p = ptrAbs viewAGW (zeroMagmaAGW (ml_zeroObjectMeta M)) (absMagmaAGW M) h (Some p)"

definition agwCells :: "('m, 'l, 'x) metaLib \<Rightarrow> ('m, 'l, 'x) cell list \<Rightarrow> nat \<Rightarrow> nat set" where
  "agwCells M h p = ptrReach viewAGW (zeroMagmaAGW (ml_zeroObjectMeta M)) (reachAGW M) h (Some p)"

definition orc8rListAt ::
    "('m, 'l, 'x) metaLib \<Rightarrow> ('m, 'l, 'x) cell list \<Rightarrow> nat \<Rightarrow> (typeMeta \<times> listMeta \<times> orc8rValue list) option" where
  "orc8rListAt M h p = ptrAbs viewOrc8rList (zeroMagmaOrc8rList (ml_zeroListMeta M)) (absMagmaOrc8rList M) h (Some p)"

definition orc8rListCells :: "('m, 'l, 'x) metaLib \<Rightarrow> ('m, 'l, 'x) cell list \<Rightarrow> nat \<Rightarrow> nat set" where
  "orc8rListCells M h p = ptrReach viewOrc8rList (zeroMagmaOrc8rList (ml_zeroListMeta M)) (reachOrc8rList M) h (Some p)"

lemma newCopy_Some: "\<exists>q h'. run_state (newCopy mk get z into (Some p)) h = (Some q, h')"
  by (simp add: newCopy_def split_beta)

text \<open>
  A heap, with an AGW at address 3 that has labels, a switched-off datapath gate and values, and a
  list of one Orc8r at address 6.
\<close>

definition demoMetaLib :: "(nat option, unit, unit) metaLib" where
  "demoMetaLib = \<lparr>ml_zeroObjectMeta = None, ml_ObjectMeta_DeepCopyInto = copyStringMap,
     ml_absObjectMeta = (\<lambda>h p. (newMeta ''magma'' ''agw'')\<lparr>m_Labels := mapAbs viewMap h p\<rparr>),
     ml_reachObjectMeta = (\<lambda>h p. set_option p), ml_zeroListMeta = (), ml_ListMeta_DeepCopyInto = return,
     ml_absListMeta = (\<lambda>h l. ('''', '''', None)), ml_reachListMeta = (\<lambda>h l. {}), ml_Condition_DeepCopyInto = (\<lambda>c. c)\<rparr>"

lemma demoMetaLib_ok: "meta_ok demoMetaLib"
proof -
  have "deep_copier cell_ok copyStringMap (\<lambda>h p. (newMeta ''magma'' ''agw'')\<lparr>m_Labels := mapAbs viewMap h p\<rparr>)
      (\<lambda>h p. set_option p)"
    by (rule deep_copier_struct [OF string_map.deep_copier_axioms, where get = "\<lambda>p. p" and put = "\<lambda>p q. p" and
          flat = "\<lambda>p. ()" and F = "\<lambda>u m. (newMeta ''magma'' ''agw'')\<lparr>m_Labels := m\<rparr>"]) auto
  moreover have "deep_copier cell_ok return (\<lambda>h (l::unit). ('''' :: string, '''' :: string, None :: int64 option)) (\<lambda>h l. {})"
    by unfold_locales auto
  ultimately show ?thesis by (simp add: meta_ok_def demoMetaLib_def)
qed

definition demoHeap :: "(nat option, unit, unit) cell list" where
  "demoHeap = [CMap [(''app'', ''agw'')], CBool False, CMap [(''config.domainName'', ''magma.local'')],
     CAGW ((zeroMagmaAGW (Some 0))\<lparr>rag_Spec := zeroMagmaAGWSpec\<lparr>ras_Values := Some 2,
       ras_Datapath := zeroMagmaAGWDatapathSpec\<lparr>rdps_Enabled := Some 1\<rparr>\<rparr>\<rparr>),
     CInt32 30443, COrc8rItems [(zeroMagmaOrc8r (Some 0))\<lparr>ror_Spec := zeroMagmaOrc8rSpec\<lparr>ros_NMSNodePort := Some 4\<rparr>\<rparr>],
     COrc8rList \<lparr>rorl_TypeMeta = zeroTypeMeta, rorl_ListMeta = (),
       rorl_Items = Some \<lparr>sl_Array = 5, sl_Offset = 0, sl_Len = 1\<rparr>\<rparr>]"

lemma demoHeap_ok: "\<forall>c\<in>set demoHeap. cell_ok c"
  by (simp add: demoHeap_def cell_ok_def wf_map_def)

lemmas reach_defs = ptrReach_def sliceReach_def hread_def elems_def reachAGW_def reachSpecAGW_def
  reachOrc8rList_def reachOrc8r_def reachSpecOrc8r_def arrayOf_def view_defs
lemmas zero_defs = zeroMagmaAGW_def zeroMagmaAGWSpec_def zeroMagmaAGWStatus_def zeroMagmaAGWDatapathSpec_def
  zeroMagmaAGWGatewayRegistrationSpec_def zeroMagmaAGWUERANSIMValidationSpec_def zeroMagmaOrc8r_def
  zeroMagmaOrc8rSpec_def zeroMagmaOrc8rStatus_def

lemma demoHeap_bounded:
  "agwCells demoMetaLib demoHeap 3 \<subseteq> {..<length demoHeap}"
  "orc8rListCells demoMetaLib demoHeap 6 \<subseteq> {..<length demoHeap}"
  by (simp_all add: agwCells_def orc8rListCells_def demoHeap_def demoMetaLib_def reach_defs zero_defs)

text \<open>C27: \<^verbatim>\<open>MagmaAGW.DeepCopyObject\<close> (and so \<^verbatim>\<open>DeepCopy\<close>, which the patches of the controller start from)
  returns a new object with the value of the original, made of cells of its own: whatever is
  written to other cells, or allocated, afterwards does not change the copy, and what is written to
  cells outside the original does not change the original. The copy of nil is the nil interface.\<close>

theorem agw_deep_copy_independent:
  assumes "meta_ok M" and "\<forall>c\<in>set h. cell_ok c" and "agwCells M h p \<subseteq> {..<length h}"
    and "run_state (MagmaAGW_DeepCopyObject M (Some p)) h = (r, h')"
  shows "(\<exists>q. r = Some (AGWObject q) \<and> agwAt M h' q = agwAt M h p \<and> agwCells M h' q \<inter> agwCells M h' p = {} \<and>
      (\<forall>ws u. fst ` set ws \<inter> agwCells M h' q = {} \<longrightarrow> agwAt M (hwrites ws (h' @ u)) q = agwAt M h p) \<and>
      (\<forall>ws u. fst ` set ws \<inter> agwCells M h' p = {} \<longrightarrow> agwAt M (hwrites ws (h' @ u)) p = agwAt M h p)) \<and>
    run_state (MagmaAGW_DeepCopyObject M None) h = (None, h)"
proof -
  obtain q h1 where "run_state (MagmaAGW_DeepCopy M (Some p)) h = (Some q, h1)"
    unfolding MagmaAGW_DeepCopy_def
    using newCopy_Some [of CAGW viewAGW "zeroMagmaAGW (ml_zeroObjectMeta M)" "MagmaAGW_DeepCopyInto M" p h] by blast
  with assms(4) have q: "run_state (MagmaAGW_DeepCopy M (Some p)) h = (Some q, h')" "r = Some (AGWObject q)"
    by (auto simp: MagmaAGW_DeepCopyObject_def)
  note ind = deep_copier.independent [OF agw_ptr_copier [OF assms(1)] assms(2) assms(3) [unfolded agwCells_def] q(1)]
  have "run_state (MagmaAGW_DeepCopyObject M None) h = (None, h)"
    by (simp add: MagmaAGW_DeepCopyObject_def MagmaAGW_DeepCopy_def newCopy_def)
  moreover have "agwAt M (hwrites ws (h' @ u)) q = agwAt M h p" if "fst ` set ws \<inter> agwCells M h' q = {}" for ws u
    using ind(4) [of ws u] that by (force simp: agwAt_def agwCells_def)
  moreover have "agwAt M (hwrites ws (h' @ u)) p = agwAt M h p" if "fst ` set ws \<inter> agwCells M h' p = {}" for ws u
    using ind(5) [of ws u] that by (force simp: agwAt_def agwCells_def)
  ultimately show ?thesis using q(2) ind(1,3) by (auto simp: agwAt_def agwCells_def)
qed

lemma agw_deep_copy_independent_witness:
  "\<exists>q. fst (run_state (MagmaAGW_DeepCopyObject demoMetaLib (Some 3)) demoHeap) = Some (AGWObject q) \<and>
    agwAt demoMetaLib (snd (run_state (MagmaAGW_DeepCopyObject demoMetaLib (Some 3)) demoHeap)) q =
      agwAt demoMetaLib demoHeap 3"
  using agw_deep_copy_independent [OF demoMetaLib_ok demoHeap_ok demoHeap_bounded(1) surjective_pairing] by blast

text \<open>C28: \<^verbatim>\<open>MagmaOrc8rList.DeepCopyObject\<close> copies a list with all its items: the copy has the
  metadata and the items of the original, in order, and shares no cell with it, so neither sees later
  writes to the other.\<close>

theorem orc8r_list_deep_copy_independent:
  assumes "meta_ok M" and "\<forall>c\<in>set h. cell_ok c" and "orc8rListCells M h p \<subseteq> {..<length h}"
    and "run_state (MagmaOrc8rList_DeepCopyObject M (Some p)) h = (r, h')"
  shows "\<exists>q. r = Some (Orc8rListObject q) \<and> orc8rListAt M h' q = orc8rListAt M h p \<and>
      orc8rListCells M h' q \<inter> orc8rListCells M h' p = {} \<and>
      (\<forall>ws u. fst ` set ws \<inter> orc8rListCells M h' q = {} \<longrightarrow> orc8rListAt M (hwrites ws (h' @ u)) q = orc8rListAt M h p) \<and>
      (\<forall>ws u. fst ` set ws \<inter> orc8rListCells M h' p = {} \<longrightarrow> orc8rListAt M (hwrites ws (h' @ u)) p = orc8rListAt M h p)"
proof -
  obtain q h1 where "run_state (MagmaOrc8rList_DeepCopy M (Some p)) h = (Some q, h1)"
    unfolding MagmaOrc8rList_DeepCopy_def
    using newCopy_Some [of COrc8rList viewOrc8rList "zeroMagmaOrc8rList (ml_zeroListMeta M)" "MagmaOrc8rList_DeepCopyInto M" p h]
    by blast
  with assms(4) have q: "run_state (MagmaOrc8rList_DeepCopy M (Some p)) h = (Some q, h')" "r = Some (Orc8rListObject q)"
    by (auto simp: MagmaOrc8rList_DeepCopyObject_def)
  note ind = deep_copier.independent [OF orc8r_list_ptr_copier [OF assms(1)] assms(2) assms(3) [unfolded orc8rListCells_def] q(1)]
  have "orc8rListAt M (hwrites ws (h' @ u)) q = orc8rListAt M h p" if "fst ` set ws \<inter> orc8rListCells M h' q = {}" for ws u
    using ind(4) [of ws u] that by (force simp: orc8rListAt_def orc8rListCells_def)
  moreover have "orc8rListAt M (hwrites ws (h' @ u)) p = orc8rListAt M h p" if "fst ` set ws \<inter> orc8rListCells M h' p = {}" for ws u
    using ind(5) [of ws u] that by (force simp: orc8rListAt_def orc8rListCells_def)
  ultimately show ?thesis using q(2) ind(1,3) by (auto simp: orc8rListAt_def orc8rListCells_def)
qed

lemma orc8r_list_deep_copy_independent_witness:
  "\<exists>q. fst (run_state (MagmaOrc8rList_DeepCopyObject demoMetaLib (Some 6)) demoHeap) = Some (Orc8rListObject q) \<and>
    orc8rListAt demoMetaLib (snd (run_state (MagmaOrc8rList_DeepCopyObject demoMetaLib (Some 6)) demoHeap)) q =
      orc8rListAt demoMetaLib demoHeap 6"
  using orc8r_list_deep_copy_independent [OF demoMetaLib_ok demoHeap_ok demoHeap_bounded(2) surjective_pairing] by blast

end
