(* ===== verification/Api_Store.thy ===== *)
theory Api_Store
  imports AGW_Identity Orc8r_Controller
begin

text \<open>
  Convergence over a stateful API server. Elsewhere the answers of the API server are arbitrary;
  here they come from a store of objects, of which \<open>objs\<close> gives the content. \<open>api_server_ok\<close> states
  what a server documents: a successful read answers what is stored, a list is complete, a
  successful patch or \<^verbatim>\<open>CreateOrUpdate\<close> stores what was sent, a failed one stores nothing. The server
  and other controllers own the generation and the status of an object, so stored and sent
  objects are compared up to \<open>strip\<close>. Any call may fail.

  What is shown: the identity of a gateway never changes, through any sequence of reconciles and
  foreign writes; a rollout, once done, makes no further writes.
\<close>

section \<open>A store behind the client\<close>

type_synonym objKey = "kind \<times> string \<times> string"

definition key_of :: "kobj \<Rightarrow> objKey" where
  "key_of x = (kind_of x, namespace_of x, name_of x)"

text \<open>What the server and other controllers may change on their own.\<close>

definition stripMeta :: "objectMeta \<Rightarrow> objectMeta" where
  "stripMeta m = m\<lparr>m_Generation := 0\<rparr>"

definition strip :: "kobj \<Rightarrow> kobj" where
  "strip x = (case x of
     OSecret s \<Rightarrow> OSecret (s\<lparr>sec_Meta := stripMeta (sec_Meta s)\<rparr>)
   | ODeployment d \<Rightarrow> ODeployment (d\<lparr>dep_Meta := stripMeta (dep_Meta d), dep_ObservedGeneration := 0,
       dep_ReadyReplicas := 0, dep_AvailableReplicas := 0\<rparr>)
   | y \<Rightarrow> y)"

text \<open>
  Reads are current: they answer from the store as it is at the call. This holds of a client that
  reads from the API server. The manager of \<^verbatim>\<open>cmd/main.go\<close> hands out a client whose reads go through
  a cache that lags behind, so what is shown from this contract is shown of a reconcile whose
  reads have caught up with the writes before it; the trace properties elsewhere do not use it.
\<close>

definition reads_ok :: "'w client \<Rightarrow> ('w \<Rightarrow> objKey \<Rightarrow> kobj option) \<Rightarrow> bool" where
  "reads_ok K objs \<longleftrightarrow>
     (\<forall>k ns n w. objs (snd (k_Get K k ns n w)) = objs w) \<and>
     (\<forall>k ns n w x. fst (k_Get K k ns n w) = Inr x \<longrightarrow> objs w (k, ns, n) = Some x) \<and>
     (\<forall>k ns sel w. objs (snd (k_List K k ns sel w)) = objs w) \<and>
     (\<forall>k ns sel w xs. fst (k_List K k ns sel w) = Inr xs \<longrightarrow> distinct (map key_of xs) \<and>
        (\<forall>x. x \<in> set xs \<longleftrightarrow> kind_of x = k \<and> (ns = [] \<or> namespace_of x = ns) \<and>
          refHasLabels sel x \<and> objs w (key_of x) = Some x))"

definition patches_ok :: "'w client \<Rightarrow> ('w \<Rightarrow> objKey \<Rightarrow> kobj option) \<Rightarrow> bool" where
  "patches_ok K objs \<longleftrightarrow>
     (\<forall>x base w e. fst (k_Patch K x (MergeFrom base) w) = Some e \<longrightarrow> objs (snd (k_Patch K x (MergeFrom base) w)) = objs w) \<and>
     (\<forall>x base w. key_of base = key_of x \<longrightarrow> objs w (key_of x) = Some base \<longrightarrow>
        fst (k_Patch K x (MergeFrom base) w) = None \<longrightarrow>
        (\<exists>y. strip y = strip x \<and> objs (snd (k_Patch K x (MergeFrom base) w)) = (objs w)(key_of x \<mapsto> y)))"

definition createOrUpdates_ok :: "'w client \<Rightarrow> ('w \<Rightarrow> objKey \<Rightarrow> kobj option) \<Rightarrow> bool" where
  "createOrUpdates_ok K objs \<longleftrightarrow>
     (\<forall>x f w e. fst (k_CreateOrUpdate K x f w) = Inl e \<longrightarrow> objs (snd (k_CreateOrUpdate K x f w)) = objs w) \<and>
     (\<forall>x f w y. fst (k_CreateOrUpdate K x f w) = Inr y \<longrightarrow>
        f (case objs w (key_of x) of Some cur \<Rightarrow> cur | None \<Rightarrow> x) = Inr y \<and> key_of y = key_of x \<and>
        (\<exists>z. strip z = strip y \<and> objs (snd (k_CreateOrUpdate K x f w)) = (objs w)(key_of x \<mapsto> z)))"

definition api_server_ok :: "'w client \<Rightarrow> ('w \<Rightarrow> objKey \<Rightarrow> kobj option) \<Rightarrow> bool" where
  "api_server_ok K objs \<longleftrightarrow> reads_ok K objs \<and> patches_ok K objs \<and> createOrUpdates_ok K objs"

text \<open>Two contents that differ at most in what the server owns.\<close>

definition settled :: "(objKey \<Rightarrow> kobj option) \<Rightarrow> (objKey \<Rightarrow> kobj option) \<Rightarrow> bool" where
  "settled s s' \<longleftrightarrow> (\<forall>k. map_option strip (s k) = map_option strip (s' k))"

lemma strip_keeps:
  assumes "strip x = strip y"
  shows "kind_of x = kind_of y" and "key_of x = key_of y" and "m_Labels (meta_of x) = m_Labels (meta_of y)"
proof -
  have "kind_of (strip x) = kind_of x" "key_of (strip x) = key_of x"
    "m_Labels (meta_of (strip x)) = m_Labels (meta_of x)" for x
    by (cases x; simp add: strip_def stripMeta_def key_of_def namespace_of_def name_of_def)+
  from this [of x] this [of y] assms show "kind_of x = kind_of y" and "key_of x = key_of y"
    and "m_Labels (meta_of x) = m_Labels (meta_of y)" by simp_all
qed

lemma strip_secret:
  assumes "strip x = strip (OSecret s)"
  shows "\<exists>s'. x = OSecret s' \<and> sec_Data s' = sec_Data s"
  using arg_cong [OF assms, of "\<lambda>y. map_option sec_Data (to_secret y)"]
  by (cases x) (simp_all add: strip_def to_secret_def)

lemma strip_deployment:
  assumes "strip x = strip (ODeployment d)"
  shows "\<exists>d'. x = ODeployment d' \<and> dep_TemplateAnnotations d' = dep_TemplateAnnotations d"
  using arg_cong [OF assms, of "\<lambda>y. map_option dep_TemplateAnnotations (to_deployment y)"]
  by (cases x) (simp_all add: strip_def to_deployment_def)

lemma server_get:
  assumes "api_server_ok K objs"
  shows "objs (snd (k_Get K k ns n w)) = objs w" and "fst (k_Get K k ns n w) = Inr x \<Longrightarrow> objs w (k, ns, n) = Some x"
  using assms by (simp_all add: api_server_ok_def reads_ok_def)

lemma server_list:
  assumes "api_server_ok K objs"
  shows "objs (snd (k_List K k ns sel w)) = objs w"
    and "fst (k_List K k ns sel w) = Inr xs \<Longrightarrow> distinct (map key_of xs)"
    and "fst (k_List K k ns sel w) = Inr xs \<Longrightarrow> x \<in> set xs \<longleftrightarrow> kind_of x = k \<and> (ns = [] \<or> namespace_of x = ns) \<and>
      refHasLabels sel x \<and> objs w (key_of x) = Some x"
  using assms by (simp_all add: api_server_ok_def reads_ok_def)

lemma server_patch:
  assumes "api_server_ok K objs"
  shows "fst (k_Patch K x (MergeFrom base) w) = Some e \<Longrightarrow> objs (snd (k_Patch K x (MergeFrom base) w)) = objs w"
    and "\<lbrakk>fst (k_Patch K x (MergeFrom base) w) = None; key_of base = key_of x; objs w (key_of x) = Some base\<rbrakk> \<Longrightarrow>
      \<exists>y. strip y = strip x \<and> objs (snd (k_Patch K x (MergeFrom base) w)) = (objs w)(key_of x \<mapsto> y)"
  using assms by (simp_all add: api_server_ok_def patches_ok_def)

lemma server_createOrUpdate:
  assumes "api_server_ok K objs"
  shows "fst (k_CreateOrUpdate K x f w) = Inl e \<Longrightarrow> objs (snd (k_CreateOrUpdate K x f w)) = objs w"
    and "fst (k_CreateOrUpdate K x f w) = Inr y \<Longrightarrow>
      f (case objs w (key_of x) of Some cur \<Rightarrow> cur | None \<Rightarrow> x) = Inr y \<and> key_of y = key_of x \<and>
      (\<exists>z. strip z = strip y \<and> objs (snd (k_CreateOrUpdate K x f w)) = (objs w)(key_of x \<mapsto> z))"
  using assms by (simp_all add: api_server_ok_def createOrUpdates_ok_def)

section \<open>Patch loops over a store\<close>

text \<open>A loop that patches what a list returned leaves every listed object edited in the store.\<close>

locale store_loop = patch_loop step stale edit wrap
  for step :: "'w client \<Rightarrow> 'p \<Rightarrow> 'a \<Rightarrow> ('w, error option) kio"
    and stale :: "'p \<Rightarrow> 'a \<Rightarrow> bool" and edit :: "'p \<Rightarrow> 'a \<Rightarrow> 'a" and wrap :: "'a \<Rightarrow> kobj" +
  assumes edit_key: "key_of (wrap (edit p x)) = key_of (wrap x)"
begin

lemma loop_store:
  assumes "api_server_ok K objs"
    and "\<forall>x\<in>set xs. objs (world s) (key_of (wrap x)) = Some (wrap x)" and "distinct (map (\<lambda>x. key_of (wrap x)) xs)"
    and "result (each (step K p) xs) s = None"
  shows "(\<forall>x\<in>set xs. \<exists>y. objs (world (final (each (step K p) xs) s)) (key_of (wrap x)) = Some y \<and>
      strip y = strip (wrap (if stale p x then edit p x else x))) \<and>
    (\<forall>k. k \<notin> (\<lambda>x. key_of (wrap x)) ` set xs \<longrightarrow> objs (world (final (each (step K p) xs) s)) k = objs (world s) k)"
  using assms(2-)
proof (induction xs arbitrary: s)
  case Nil
  then show ?case by (simp add: final_def)
next
  case (Cons x xs)
  let ?k = "key_of (wrap x)"
  obtain s1 y where run: "run_state (step K p x) s = (None, s1)"
    and s1: "objs (world s1) = (objs (world s))(?k \<mapsto> y)" "strip y = strip (wrap (if stale p x then edit p x else x))"
  proof (cases "stale p x")
    case True
    let ?r = "k_Patch K (wrap (edit p x)) (MergeFrom (wrap x)) (world s)"
    have run: "run_state (step K p x) s =
        (fst ?r, \<lparr>world = snd ?r, trace = trace s @ [EvPatch (wrap (edit p x)) (MergeFrom (wrap x)) (fst ?r)]\<rparr>)"
      by (simp add: step_stale True kPatch_def run_call)
    with Cons.prems(3) have "fst ?r = None" by (auto simp: result_def split: option.splits)
    moreover have "objs (world s) (key_of (wrap (edit p x))) = Some (wrap x)"
      using Cons.prems(1) by (simp add: edit_key)
    ultimately obtain y where "strip y = strip (wrap (edit p x))" "objs (snd ?r) = (objs (world s))(?k \<mapsto> y)"
      using server_patch(2) [OF assms(1)] edit_key by metis
    with run \<open>fst ?r = None\<close> True that show thesis by simp
  next
    case False
    moreover have "objs (world s) = (objs (world s))(?k \<mapsto> wrap x)" using Cons.prems(1) by (simp add: fun_upd_idem)
    ultimately show thesis using that [of s "wrap x"] by (simp add: step_clean)
  qed
  have rest: "result (each (step K p) xs) s1 = None"
    and final: "final (each (step K p) (x # xs)) s = final (each (step K p) xs) s1"
    using Cons.prems(3) by (simp_all add: result_def final_def run)
  have new: "?k \<notin> (\<lambda>x. key_of (wrap x)) ` set xs" and dist: "distinct (map (\<lambda>x. key_of (wrap x)) xs)"
    using Cons.prems(2) by simp_all
  have "\<forall>z\<in>set xs. objs (world s1) (key_of (wrap z)) = Some (wrap z)"
  proof
    fix z assume "z \<in> set xs"
    with new Cons.prems(1) show "objs (world s1) (key_of (wrap z)) = Some (wrap z)"
      unfolding s1(1) by (metis fun_upd_other image_eqI list.set_intros(2))
  qed
  note IH = Cons.IH [OF this dist rest, folded final]
  have "objs (world (final (each (step K p) (x # xs)) s)) ?k = Some y"
    using IH [THEN conjunct2, rule_format, OF new] by (simp add: s1(1) del: each.simps)
  then show ?case using IH s1 by (simp del: each.simps)
qed

end

interpretation annotate_store: store_loop "annotateStep incl ann"
  "\<lambda>hash d. incl d \<and> template_annotation ann d \<noteq> hash" "setTemplateAnnotation ann" ODeployment
  for incl ann
  by unfold_locales (simp add: setTemplateAnnotation_def key_of_def namespace_of_def name_of_def)

section \<open>A rollout happens once\<close>

lemma run_getAs: "run_state (getAs f k K ns n) s =
    (as_typed f (fst (k_Get K k ns n (world s))),
     \<lparr>world = snd (k_Get K k ns n (world s)), trace = trace s @ [EvGet k ns n (fst (k_Get K k ns n (world s)))]\<rparr>)"
  by (simp add: getAs_def kGet_def run_call)

lemma run_listAs: "run_state (listAs f k K ns sel) s =
    (as_list f (fst (k_List K k ns sel (world s))),
     \<lparr>world = snd (k_List K k ns sel (world s)), trace = trace s @ [EvList k ns sel (fst (k_List K k ns sel (world s)))]\<rparr>)"
  by (simp add: listAs_def kList_def run_call)

lemma settledD: "settled st st' \<Longrightarrow> st' k = Some y \<Longrightarrow> \<exists>x. st k = Some x \<and> strip x = strip y"
  unfolding settled_def by (metis map_option_eq_Some)

lemma settled_sym: "settled st st' \<Longrightarrow> settled st' st"
  by (simp add: settled_def)

text \<open>What a store holds after a rollout: the Secret, and its hash on every deployment of the release.\<close>

definition rolled_out :: "(objKey \<Rightarrow> kobj option) \<Rightarrow> string \<Rightarrow> string \<Rightarrow> string \<Rightarrow> string \<Rightarrow> bool" where
  "rolled_out st ns rn secretName h \<longleftrightarrow>
     (\<exists>secret. st (KSecret, ns, secretName) = Some (OSecret secret) \<and> h = secretDataHash (sec_Data secret)) \<and>
     (\<forall>k d. st k = Some (ODeployment d) \<longrightarrow> (ns = [] \<or> m_Namespace (dep_Meta d) = ns) \<longrightarrow>
        refHasLabels [(labelAppInstance, rn)] (ODeployment d) \<longrightarrow> key_of (ODeployment d) = k \<longrightarrow>
        template_annotation orc8rSecretHashAnnotation d = h)"

lemma annotate_store_run:
  assumes "api_server_ok K objs" and "fst (k_List K KDeployment ns sel w) = Inr (map ODeployment ds)"
    and "objs (world s) = objs w" and "result (each (annotateStep (\<lambda>_. True) ann K h) ds) s = None"
    and "st = objs (world (final (each (annotateStep (\<lambda>_. True) ann K h) ds) s))"
  shows "\<forall>x\<in>set ds. \<exists>y. st (key_of (ODeployment x)) = Some y \<and>
      strip y = strip (ODeployment (if True \<and> template_annotation ann x \<noteq> h then setTemplateAnnotation ann h x else x))"
    and "\<forall>k. k \<notin> (\<lambda>x. key_of (ODeployment x)) ` set ds \<longrightarrow> st k = objs w k"
proof -
  note listed = server_list(2,3) [OF assms(1,2)]
  have stored: "\<forall>x\<in>set ds. objs (world s) (key_of (ODeployment x)) = Some (ODeployment x)"
  proof
    fix x assume "x \<in> set ds"
    then show "objs (world s) (key_of (ODeployment x)) = Some (ODeployment x)"
      using listed(2) [of "ODeployment x"] by (simp add: assms(3))
  qed
  have "distinct (map (\<lambda>x. key_of (ODeployment x)) ds)" using listed(1) by (simp add: comp_def)
  from annotate_store.loop_store [OF assms(1) stored this assms(4)]
  show "\<forall>x\<in>set ds. \<exists>y. st (key_of (ODeployment x)) = Some y \<and>
      strip y = strip (ODeployment (if True \<and> template_annotation ann x \<noteq> h then setTemplateAnnotation ann h x else x))"
    and "\<forall>k. k \<notin> (\<lambda>x. key_of (ODeployment x)) ` set ds \<longrightarrow> st k = objs w k"
    unfolding assms(3,5) by blast+
qed

lemma annotated_deployments:
  assumes "api_server_ok K objs" and "fst (k_List K KDeployment ns sel w) = Inr (map ODeployment ds)"
    and "objs (world s) = objs w" and "result (each (annotateStep (\<lambda>_. True) ann K h) ds) s = None"
    and "st = objs (world (final (each (annotateStep (\<lambda>_. True) ann K h) ds) s))"
    and "st k = Some (ODeployment d)"
    and "ns = [] \<or> m_Namespace (dep_Meta d) = ns" and "refHasLabels sel (ODeployment d)" and "key_of (ODeployment d) = k"
  shows "template_annotation ann d = h"
proof -
  note loop = annotate_store_run [OF assms(1-5)] and listed = server_list(3) [OF assms(1,2)]
  show ?thesis
  proof (cases "k \<in> (\<lambda>x. key_of (ODeployment x)) ` set ds")
    case True
    then obtain x where "x \<in> set ds" "k = key_of (ODeployment x)" by blast
    with loop(1) assms(6) have "strip (ODeployment d) =
        strip (ODeployment (if True \<and> template_annotation ann x \<noteq> h then setTemplateAnnotation ann h x else x))" by auto
    from strip_deployment [OF this] show ?thesis
      by (auto simp: template_annotation_def setTemplateAnnotation_def split: if_splits)
  next
    case False
    then have "objs w k = Some (ODeployment d)" using loop(2) [rule_format, OF False] assms(6) by simp
    with listed [of "ODeployment d"] assms(7-9) have "ODeployment d \<in> set (map ODeployment ds)"
      by (simp add: namespace_of_def)
    with False assms(9) show ?thesis by auto
  qed
qed

lemma rollout_rolls_out:
  assumes "api_server_ok K objs"
    and "result (annotateOrc8rDeploymentsForSecretHash K ns rn secretName) s = (h, None)" and "h \<noteq> []"
  shows "rolled_out (objs (world (final (annotateOrc8rDeploymentsForSecretHash K ns rn secretName) s))) ns rn secretName h"
proof -
  let ?g = "k_Get K KSecret ns secretName (world s)"
  let ?l = "k_List K KDeployment ns [(labelAppInstance, rn)] (snd ?g)"
  obtain secret where sec: "fst ?g = Inr (OSecret secret)" and g: "as_typed to_secret (fst ?g) = Inr secret"
    using assms(2,3)
    by (auto simp: annotateOrc8rDeploymentsForSecretHash_def result_def run_getAs as_typed_Inr to_typed_Some split: sum.splits)
  obtain ds where ds: "fst ?l = Inr (map ODeployment ds)"
    using assms(2,3)
    by (auto simp: annotateOrc8rDeploymentsForSecretHash_def result_def run_getAs run_listAs g as_list_deployments Let_def
        split: sum.splits)
  define s2 where "s2 = \<lparr>world = snd ?l, trace = trace s @ [EvGet KSecret ns secretName (fst ?g)] @
      [EvList KDeployment ns [(labelAppInstance, rn)] (fst ?l)]\<rparr>"
  let ?loop = "each (annotateStep (\<lambda>_. True) orc8rSecretHashAnnotation K (secretDataHash (sec_Data secret))) ds"
  have l: "as_list to_deployment (fst ?l) = Inr ds" by (simp only: ds as_list_deployments)
  have w: "objs (world s2) = objs (world s)" "objs (snd ?g) = objs (world s)"
    by (simp_all add: s2_def server_get(1) [OF assms(1)] server_list(1) [OF assms(1)])
  have run: "run_state (annotateOrc8rDeploymentsForSecretHash K ns rn secretName) s =
      (case run_state ?loop s2 of (Some e, s3) \<Rightarrow> (([], Some e), s3) | (None, s3) \<Rightarrow> ((secretDataHash (sec_Data secret), None), s3))"
    by (simp add: annotateOrc8rDeploymentsForSecretHash_def run_getAs run_listAs g l s2_def Let_def
        split: prod.split option.split)
  from assms(2) have ok: "result ?loop s2 = None" and h: "h = secretDataHash (sec_Data secret)"
    and final: "final (annotateOrc8rDeploymentsForSecretHash K ns rn secretName) s = final ?loop s2"
    by (auto simp: result_def final_def run split: prod.splits option.splits)
  have stored: "objs (world s) (KSecret, ns, secretName) = Some (OSecret secret)"
    by (rule server_get(2) [OF assms(1) sec])
  show ?thesis
    unfolding rolled_out_def final
  proof (intro conjI exI allI impI)
    have "(KSecret, ns, secretName) \<notin> (\<lambda>x. key_of (ODeployment x)) ` set ds" by (auto simp: key_of_def)
    with annotate_store_run(2) [OF assms(1) ds _ ok refl]
    show "objs (world (final ?loop s2)) (KSecret, ns, secretName) = Some (OSecret secret)"
      using stored by (simp add: w)
    show "h = secretDataHash (sec_Data secret)" by (rule h)
    fix k d
    assume "objs (world (final ?loop s2)) k = Some (ODeployment d)" "ns = [] \<or> m_Namespace (dep_Meta d) = ns"
      "refHasLabels [(labelAppInstance, rn)] (ODeployment d)" "key_of (ODeployment d) = k"
    from annotated_deployments [OF assms(1) ds _ ok refl this] show "template_annotation orc8rSecretHashAnnotation d = h"
      by (simp add: w h)
  qed
qed

text \<open>
  In a store that is rolled out, a rollout only reads. So it stays rolled out until someone
  changes the Secret or a deployment.
\<close>

lemma rolled_out_annotation:
  "\<lbrakk>rolled_out st ns rn secretName h; st k = Some (ODeployment d); ns = [] \<or> m_Namespace (dep_Meta d) = ns;
    refHasLabels [(labelAppInstance, rn)] (ODeployment d); key_of (ODeployment d) = k\<rbrakk> \<Longrightarrow>
   template_annotation orc8rSecretHashAnnotation d = h"
  unfolding rolled_out_def by blast

lemma rolled_out_settled:
  assumes "rolled_out st ns rn secretName h" and "settled st st'"
  shows "rolled_out st' ns rn secretName h"
proof -
  note origin = settledD [OF assms(2)]
  obtain secret where "st (KSecret, ns, secretName) = Some (OSecret secret)" "h = secretDataHash (sec_Data secret)"
    using assms(1) by (auto simp: rolled_out_def)
  moreover obtain y where "st' (KSecret, ns, secretName) = Some y" "strip y = strip (OSecret secret)"
    using settledD [OF settled_sym [OF assms(2)] calculation(1)] by blast
  ultimately have "\<exists>secret. st' (KSecret, ns, secretName) = Some (OSecret secret) \<and> h = secretDataHash (sec_Data secret)"
    using strip_secret by fastforce
  moreover have "template_annotation orc8rSecretHashAnnotation d = h"
    if d: "st' k = Some (ODeployment d)" "ns = [] \<or> m_Namespace (dep_Meta d) = ns"
      "refHasLabels [(labelAppInstance, rn)] (ODeployment d)" "key_of (ODeployment d) = k" for k d
  proof -
    obtain x where x: "st k = Some x" "strip x = strip (ODeployment d)" using origin d(1) by blast
    then obtain d' where d': "x = ODeployment d'" "dep_TemplateAnnotations d' = dep_TemplateAnnotations d"
      using strip_deployment by blast
    note keep = strip_keeps [OF x(2) [unfolded d'(1)]]
    have "m_Namespace (dep_Meta d') = m_Namespace (dep_Meta d)"
      using keep(2) by (simp add: key_of_def namespace_of_def)
    then have "template_annotation orc8rSecretHashAnnotation d' = h"
      using rolled_out_annotation [OF assms(1) x(1) [unfolded d'(1)]] d keep by (simp add: refHasLabels_def)
    then show ?thesis by (simp add: template_annotation_def d'(2))
  qed
  ultimately show ?thesis by (auto simp: rolled_out_def)
qed

lemma rolled_out_quiet:
  assumes "api_server_ok K objs" and "rolled_out (objs (world s)) ns rn secretName h"
  shows "\<exists>r t w. run_state (annotateOrc8rDeploymentsForSecretHash K ns rn secretName) s = (r, \<lparr>world = w, trace = trace s @ t\<rparr>) \<and>
    list_all (\<lambda>e. \<not> is_write e) t \<and> objs w = objs (world s) \<and> (snd r = None \<longrightarrow> fst r \<in> {h, []})"
proof -
  let ?g = "k_Get K KSecret ns secretName (world s)"
  let ?l = "k_List K KDeployment ns [(labelAppInstance, rn)] (snd ?g)"
  note same = server_get(1) [OF assms(1)] server_list(1) [OF assms(1)]
  show ?thesis
  proof (cases "as_typed to_secret (fst ?g)")
    case (Inl e)
    then show ?thesis by (simp add: annotateOrc8rDeploymentsForSecretHash_def run_getAs same)
  next
    case (Inr secret)
    then have "objs (world s) (KSecret, ns, secretName) = Some (OSecret secret)"
      using server_get(2) [OF assms(1)] by (simp add: as_typed_Inr to_typed_Some)
    with assms(2) have h: "secretDataHash (sec_Data secret) = h" by (auto simp: rolled_out_def)
    show ?thesis
    proof (cases "as_list to_deployment (fst ?l)")
      case Inl': (Inl e)
      then show ?thesis
        by (simp add: annotateOrc8rDeploymentsForSecretHash_def run_getAs run_listAs Inr same Let_def)
    next
      case Inr': (Inr ds)
      have "\<forall>x\<in>set ds. \<not> (True \<and> template_annotation orc8rSecretHashAnnotation x \<noteq> h)"
      proof
        fix x assume x: "x \<in> set ds"
        have "fst ?l = Inr (map ODeployment ds)" using Inr' by (simp add: as_list_deployments)
        from server_list(3) [OF assms(1) this, of "ODeployment x"] x
        have "template_annotation orc8rSecretHashAnnotation x = h"
          by (intro rolled_out_annotation [OF assms(2) _ _ _ refl]) (simp_all add: same namespace_of_def)
        then show "\<not> (True \<and> template_annotation orc8rSecretHashAnnotation x \<noteq> h)" by simp
      qed
      from annotate_loop.quiet [OF this, of K] show ?thesis
        by (simp add: annotateOrc8rDeploymentsForSecretHash_def run_getAs run_listAs Inr Inr' h same Let_def)
    qed
  qed
qed

section \<open>The identity over time\<close>

definition identityObj :: "magmaAGW \<Rightarrow> objKey" where
  "identityObj agw = (KSecret, m_Namespace (agw_Meta agw), identitySecretName agw)"

definition importObj :: "magmaAGW \<Rightarrow> objKey" where
  "importObj agw = (KSecret, m_Namespace (agw_Meta agw), id_ImportSecretName (as_Identity (agw_Spec agw)))"

lemma run_createOrUpdate: "run_state (kCreateOrUpdate K x f) s =
    (fst (k_CreateOrUpdate K x f (world s)), \<lparr>world = snd (k_CreateOrUpdate K x f (world s)),
       trace = trace s @ [EvCreateOrUpdate x (fst (k_CreateOrUpdate K x f (world s)))]\<rparr>)"
  by (simp add: kCreateOrUpdate_def run_call)

lemma desired_store:
  assumes "api_server_ok K objs"
  shows "objs (world (final (desiredAGWPrivateKey K L agw) s)) = objs (world s)"
  by (simp add: final_def desiredAGWPrivateKey_def Let_def run_getAs server_get(1) [OF assms])

lemma desired_not_Nil:
  assumes "codecs_ok L" and "result (desiredAGWPrivateKey K L agw) s = Inr d"
  shows "d \<noteq> Some []"
proof
  assume d: "d = Some []"
  have "map_sum id Some (normalizePrivateKeyPEM L v) \<noteq> Inr (Some [])" for v
    using normalize_Inr(1) [OF assms(1), of v] by (cases "normalizePrivateKeyPEM L v") auto
  with assms(2) d show False
    by (auto simp: result_def desiredAGWPrivateKey_def Let_def run_getAs split: if_splits sum.splits option.splits)
qed

lemma desired_agree:
  assumes "api_server_ok K objs" and "result (desiredAGWPrivateKey K L agw) s = Inr d"
    and "result (desiredAGWPrivateKey K L agw) s' = Inr d'"
    and "map_option strip (objs (world s) (importObj agw)) = map_option strip (objs (world s') (importObj agw))"
  shows "d' = d"
proof (cases "id_ImportSecretName (as_Identity (agw_Spec agw)) = []")
  case True
  with assms(2,3) show ?thesis by (simp add: result_def desiredAGWPrivateKey_def Let_def split: if_splits)
next
  case False
  let ?get = "\<lambda>s. fst (k_Get K KSecret (m_Namespace (agw_Meta agw)) (id_ImportSecretName (as_Identity (agw_Spec agw))) (world s))"
  obtain x x' where x: "as_typed to_secret (?get s) = Inr x" "as_typed to_secret (?get s') = Inr x'"
    using assms(2,3) False
    by (auto simp: result_def desiredAGWPrivateKey_def Let_def run_getAs split: sum.splits)
  then have "objs (world s) (importObj agw) = Some (OSecret x)" "objs (world s') (importObj agw) = Some (OSecret x')"
    using server_get(2) [OF assms(1)] by (simp_all add: importObj_def as_typed_Inr to_typed_Some)
  with assms(4) have "strip (OSecret x) = strip (OSecret x')" by simp
  from strip_secret [OF this] have "sec_Data x' = sec_Data x" by simp
  with assms(2,3) False x show ?thesis
    by (auto simp: result_def desiredAGWPrivateKey_def Let_def run_getAs split: if_splits)
qed

lemma run_reconcileAGWIdentity:
  assumes "run_state (desiredAGWPrivateKey K L agw) s = (Inr d, s1)"
    and "fst (k_CreateOrUpdate K (OSecret (newSecret (m_Namespace (agw_Meta agw)) (identitySecretName agw)))
      (on_secret (mutateIdentitySecret L rnd agw d)) (world s1)) = Inr y"
    and "w2 = snd (k_CreateOrUpdate K (OSecret (newSecret (m_Namespace (agw_Meta agw)) (identitySecretName agw)))
      (on_secret (mutateIdentitySecret L rnd agw d)) (world s1))"
  shows "world (final (reconcileAGWIdentity K L rnd agw) s) =
      snd (k_Get K KSecret (m_Namespace (agw_Meta agw)) (identitySecretName agw) w2)"
    and "result (reconcileAGWIdentity K L rnd agw) s = Inr st \<Longrightarrow>
      \<exists>S. fst (k_Get K KSecret (m_Namespace (agw_Meta agw)) (identitySecretName agw) w2) = Inr (OSecret S) \<and>
        identity_of L agw S st"
proof -
  let ?g = "k_Get K KSecret (m_Namespace (agw_Meta agw)) (identitySecretName agw) w2"
  show "world (final (reconcileAGWIdentity K L rnd agw) s) = snd ?g"
    by (simp add: final_def reconcileAGWIdentity_def Let_def run_createOrUpdate run_getAs assms)
  assume st: "result (reconcileAGWIdentity K L rnd agw) s = Inr st"
  then obtain S where g: "as_typed to_secret (fst ?g) = Inr S"
    by (auto simp: result_def reconcileAGWIdentity_def Let_def run_createOrUpdate run_getAs assms split: sum.splits)
  with st have "identity_of L agw S st"
    by (auto simp: result_def reconcileAGWIdentity_def Let_def run_createOrUpdate run_getAs assms identity_of_def
        split: sum.splits)
  with g show "\<exists>S. fst ?g = Inr (OSecret S) \<and> identity_of L agw S st" by (auto simp: as_typed_Inr to_typed_Some)
qed

text \<open>What one reconcile of the identity does to the store, whatever it answers.\<close>

lemma identity_run:
  assumes "api_server_ok K objs" and "w' = world (final (reconcileAGWIdentity K L rnd agw) s)"
  shows "objs w' = objs (world s) \<and> \<not> (\<exists>st. result (reconcileAGWIdentity K L rnd agw) s = Inr st) \<or>
    (\<exists>d S0 S1 S. result (desiredAGWPrivateKey K L agw) s = Inr d \<and> mutateIdentitySecret L rnd agw d S0 = Inr S1 \<and>
       (\<forall>S'. objs (world s) (identityObj agw) = Some (OSecret S') \<longrightarrow> S0 = S') \<and>
       objs w' = (objs (world s))(identityObj agw \<mapsto> OSecret S) \<and> sec_Data S = sec_Data S1 \<and>
       (\<forall>st. result (reconcileAGWIdentity K L rnd agw) s = Inr st \<longrightarrow> identity_of L agw S st))"
proof -
  let ?x = "OSecret (newSecret (m_Namespace (agw_Meta agw)) (identitySecretName agw))"
  obtain r s1 where r: "run_state (desiredAGWPrivateKey K L agw) s = (r, s1)" by fastforce
  have same: "objs (world s1) = objs (world s)"
    using desired_store [OF assms(1), of L agw s] by (simp add: final_def r)
  show ?thesis
  proof (cases r)
    case (Inl e)
    then show ?thesis using same by (simp add: assms(2) final_def result_def reconcileAGWIdentity_def Let_def r)
  next
    case (Inr d)
    let ?c = "k_CreateOrUpdate K ?x (on_secret (mutateIdentitySecret L rnd agw d)) (world s1)"
    show ?thesis
    proof (cases "fst ?c")
      case Inl': (Inl e)
      then show ?thesis using same server_createOrUpdate(1) [OF assms(1) Inl']
        by (simp add: assms(2) final_def result_def reconcileAGWIdentity_def Let_def r Inr run_createOrUpdate)
    next
      case Inr': (Inr y)
      note run = run_reconcileAGWIdentity [OF r [unfolded Inr] Inr' refl]
      have key: "key_of ?x = identityObj agw"
        by (simp add: key_of_def identityObj_def newSecret_def newMeta_def namespace_of_def name_of_def)
      obtain cur z where cur: "cur = (case objs (world s) (identityObj agw) of Some cur \<Rightarrow> cur | None \<Rightarrow> ?x)"
        and y: "on_secret (mutateIdentitySecret L rnd agw d) cur = Inr y"
        and z: "strip z = strip y" "objs (snd ?c) = (objs (world s))(identityObj agw \<mapsto> z)"
        using server_createOrUpdate(2) [OF assms(1) Inr'] unfolding key same by blast
      obtain S0 S1 where S: "cur = OSecret S0" "y = OSecret S1" "mutateIdentitySecret L rnd agw d S0 = Inr S1"
        using y on_secret_Inr by metis
      obtain S where S': "z = OSecret S" "sec_Data S = sec_Data S1" using strip_secret z(1) S(2) by metis
      have "objs w' = (objs (world s))(identityObj agw \<mapsto> OSecret S)"
        using z(2) S'(1) server_get(1) [OF assms(1)] by (simp add: assms(2) run(1))
      moreover have "identity_of L agw S st" if "result (reconcileAGWIdentity K L rnd agw) s = Inr st" for st
        using run(2) [OF that] server_get(2) [OF assms(1)] z(2) S'(1) by (fastforce simp: identityObj_def)
      moreover have "S0 = S'" if "objs (world s) (identityObj agw) = Some (OSecret S')" for S'
        using that cur S(1) by simp
      moreover have "result (desiredAGWPrivateKey K L agw) s = Inr d" by (simp add: result_def r Inr)
      ultimately show ?thesis using S(3) S'(2) by blast
    qed
  qed
qed

text \<open>
  What stays: the key and the hardware ID that were written, and the content of the imported Secret.
\<close>

definition keeps_identity ::
    "magmaAGW \<Rightarrow> bytes \<Rightarrow> string \<Rightarrow> kobj option \<Rightarrow> (objKey \<Rightarrow> kobj option) \<Rightarrow> bool" where
  "keeps_identity agw p h src st \<longleftrightarrow>
     (\<exists>S. st (identityObj agw) = Some (OSecret S) \<and> mget (sec_Data S) defaultAGWChallengeKeySecretKey = p \<and>
        mget (sec_Data S) ''hardware_id'' = h) \<and>
     map_option strip (st (importObj agw)) = src"

text \<open>
  An AGW may be edited between two reconciles. What configures its identity is its
  namespace, \<^verbatim>\<open>spec.identity\<close> and two keys of \<^verbatim>\<open>spec.values\<close>; the rest may change.
\<close>

definition same_identity :: "magmaAGW \<Rightarrow> magmaAGW \<Rightarrow> bool" where
  "same_identity a b \<longleftrightarrow> m_Namespace (agw_Meta a) = m_Namespace (agw_Meta b) \<and>
     as_Identity (agw_Spec a) = as_Identity (agw_Spec b) \<and>
     (\<forall>k\<in>{''config.gwChallenge'', ''gatewayIdentity.snowflake''}. mget (as_Values (agw_Spec a)) k = mget (as_Values (agw_Spec b)) k)"

lemma same_identity_refl [simp]: "same_identity a a"
  by (simp add: same_identity_def)

lemma same_identity_cong:
  assumes "same_identity a b"
  shows "identitySecretName a = identitySecretName b" and "desiredAGWPrivateKey K L a = desiredAGWPrivateKey K L b"
    and "identityKey L rnd a = identityKey L rnd b" and "identityHardwareID rnd a = identityHardwareID rnd b"
    and "identityObj a = identityObj b" and "importObj a = importObj b" and "identity_of L a = identity_of L b"
proof -
  from assms have eq: "m_Namespace (agw_Meta a) = m_Namespace (agw_Meta b)" "as_Identity (agw_Spec a) = as_Identity (agw_Spec b)"
    "mget (as_Values (agw_Spec a)) ''config.gwChallenge'' = mget (as_Values (agw_Spec b)) ''config.gwChallenge''"
    "mget (as_Values (agw_Spec a)) ''gatewayIdentity.snowflake'' = mget (as_Values (agw_Spec b)) ''gatewayIdentity.snowflake''"
    unfolding same_identity_def by blast+
  show name: "identitySecretName a = identitySecretName b" unfolding identitySecretName_def eq ..
  show "desiredAGWPrivateKey K L a = desiredAGWPrivateKey K L b" unfolding desiredAGWPrivateKey_def eq ..
  show "identityKey L rnd a = identityKey L rnd b" unfolding fun_eq_iff identityKey_def eq by blast
  show "identityHardwareID rnd a = identityHardwareID rnd b" unfolding fun_eq_iff identityHardwareID_def eq by blast
  show "identityObj a = identityObj b" "importObj a = importObj b" unfolding identityObj_def importObj_def name eq by (rule refl)+
  show "identity_of L a = identity_of L b" unfolding fun_eq_iff identity_of_def name by blast
qed

lemma writeIdentity_reads:
  assumes "sec_Data S = sec_Data (writeIdentity agw p h b S0)"
  shows "mget (sec_Data S) defaultAGWChallengeKeySecretKey = p" and "mget (sec_Data S) ''hardware_id'' = h"
  by (simp_all add: assms writeIdentity_Data)

lemma identity_step:
  assumes "api_server_ok K objs" and "codecs_ok L" and "id_ImportSecretName (as_Identity (agw_Spec agw)) \<noteq> identitySecretName agw"
    and "result (desiredAGWPrivateKey K L agw) s0 = Inr d" and "identityKey L rnd0 agw d S0 = Inr p"
    and "identityHardwareID rnd0 agw S0 = Inr h"
    and "src = map_option strip (objs (world s0) (importObj agw))"
    and "keeps_identity agw p h src (objs (world s))"
    and "w' = world (final (reconcileAGWIdentity K L rnd agw') s)" and "same_identity agw' agw"
  shows "keeps_identity agw p h src (objs w')"
    and "result (reconcileAGWIdentity K L rnd agw') s = Inr st \<Longrightarrow>
      \<exists>S. identity_of L agw S st \<and> mget (sec_Data S) defaultAGWChallengeKeySecretKey = p \<and> mget (sec_Data S) ''hardware_id'' = h"
proof -
  have "keeps_identity agw p h src (objs w') \<and> (\<forall>st. result (reconcileAGWIdentity K L rnd agw') s = Inr st \<longrightarrow>
      (\<exists>S. identity_of L agw S st \<and> mget (sec_Data S) defaultAGWChallengeKeySecretKey = p \<and> mget (sec_Data S) ''hardware_id'' = h))"
    using identity_run [OF assms(1,9)] unfolding same_identity_cong [OF assms(10)]
  proof (elim disjE conjE exE)
    fix d' S1 S2 S
    assume *: "result (desiredAGWPrivateKey K L agw) s = Inr d'" "mutateIdentitySecret L rnd agw' d' S1 = Inr S2"
      "\<forall>S'. objs (world s) (identityObj agw) = Some (OSecret S') \<longrightarrow> S1 = S'"
      "objs w' = (objs (world s))(identityObj agw \<mapsto> OSecret S)" "sec_Data S = sec_Data S2"
      "\<forall>st. result (reconcileAGWIdentity K L rnd agw') s = Inr st \<longrightarrow> identity_of L agw S st"
    have d': "d' = d"
      using desired_agree [OF assms(1,4) *(1)] assms(7,8) by (simp add: keeps_identity_def)
    obtain p' h' b where p': "identityKey L rnd agw d S1 = Inr p'" and h': "identityHardwareID rnd agw S1 = Inr h'"
      and data: "sec_Data S2 = sec_Data (writeIdentity agw' p' h' b S1)"
      using mutate_Inr [OF *(2)] unfolding d' same_identity_cong [OF assms(10)] by metis
    have "mget (sec_Data S1) defaultAGWChallengeKeySecretKey = p" "mget (sec_Data S1) ''hardware_id'' = h"
      using assms(8) *(3) by (auto simp: keeps_identity_def)
    with identityKey_fixed [OF assms(2,5) desired_not_Nil [OF assms(2,4)]] identityHardwareID_fixed [OF assms(6)] p' h'
    have "p' = p" "h' = h" by fastforce+
    with writeIdentity_reads [of S agw' p' h' b S1] data *(5)
    have S: "mget (sec_Data S) defaultAGWChallengeKeySecretKey = p" "mget (sec_Data S) ''hardware_id'' = h" by simp_all
    have "importObj agw \<noteq> identityObj agw" using assms(3) by (simp add: importObj_def identityObj_def)
    then show ?thesis using S assms(8) *(4,6) by (auto simp: keeps_identity_def)
  qed (use assms(8) in auto)
  then show "keeps_identity agw p h src (objs w')"
    and "result (reconcileAGWIdentity K L rnd agw') s = Inr st \<Longrightarrow>
      \<exists>S. identity_of L agw S st \<and> mget (sec_Data S) defaultAGWChallengeKeySecretKey = p \<and> mget (sec_Data S) ''hardware_id'' = h"
    by blast+
qed

text \<open>
  The life of the store after a reconcile: more reconciles, of the AGW as it is then, with any
  random values and any answers, and writes of others that leave the identity Secret and the
  imported Secret alone. The AGW may be edited in between, but not what configures its identity.
\<close>

inductive history :: "'w client \<Rightarrow> lib \<Rightarrow> ('w \<Rightarrow> objKey \<Rightarrow> kobj option) \<Rightarrow> magmaAGW \<Rightarrow> 'w \<Rightarrow> 'w \<Rightarrow> bool"
  for K L objs agw w where
  history_start: "history K L objs agw w w"
| history_reconcile: "history K L objs agw w (world s) \<Longrightarrow> same_identity agw' agw \<Longrightarrow>
    history K L objs agw w (world (final (reconcileAGWIdentity K L rnd agw') s))"
| history_foreign: "history K L objs agw w w1 \<Longrightarrow>
    map_option strip (objs w2 (identityObj agw)) = map_option strip (objs w1 (identityObj agw)) \<Longrightarrow>
    map_option strip (objs w2 (importObj agw)) = map_option strip (objs w1 (importObj agw)) \<Longrightarrow>
    history K L objs agw w w2"

section \<open>A reference server\<close>

text \<open>A store as a list of objects, the newest first; writes replace the object of the same key.\<close>

definition storeObjs :: "kobj list \<Rightarrow> objKey \<Rightarrow> kobj option" where
  "storeObjs w k = find (\<lambda>x. key_of x = k) w"

definition storePut :: "kobj \<Rightarrow> kobj list \<Rightarrow> kobj list" where
  "storePut x w = x # filter (\<lambda>y. key_of y \<noteq> key_of x) w"

definition storeClient :: "kobj list client" where
  "storeClient = \<lparr>
     k_Get = (\<lambda>k ns n w. (case storeObjs w (k, ns, n) of Some x \<Rightarrow> Inr x | None \<Rightarrow> Inl (refError NotFound), w)),
     k_List = (\<lambda>k ns sel w. (Inr (filter (\<lambda>x. kind_of x = k \<and> (ns = [] \<or> namespace_of x = ns) \<and> refHasLabels sel x \<and>
        storeObjs w (key_of x) = Some x) (remdups w)), w)),
     k_Create = (\<lambda>x w. if storeObjs w (key_of x) = None then (None, storePut x w) else (Some (refError Invalid), w)),
     k_Update = (\<lambda>x w. if storeObjs w (key_of x) = None then (Some (refError NotFound), w) else (None, storePut x w)),
     k_StatusUpdate = (\<lambda>x w. if storeObjs w (key_of x) = None then (Some (refError NotFound), w) else (None, storePut x w)),
     k_Patch = (\<lambda>x p w. case p of
         MergeFrom _ \<Rightarrow> (if storeObjs w (key_of x) = None then (Some (refError NotFound), w) else (None, storePut x w))
       | ApplyForce _ \<Rightarrow> (None, storePut x w)),
     k_Delete = (\<lambda>bg x w. if storeObjs w (key_of x) = None then (Some (refError NotFound), w)
        else (None, filter (\<lambda>y. key_of y \<noteq> key_of x) w)),
     k_CreateOrUpdate = (\<lambda>x f w. case f (case storeObjs w (key_of x) of Some cur \<Rightarrow> cur | None \<Rightarrow> x) of
         Inl e \<Rightarrow> (Inl e, w)
       | Inr y \<Rightarrow> (if key_of y = key_of x then (Inr y, storePut y w) else (Inl (refError Invalid), w)))\<rparr>"

lemma storeObjs_put: "storeObjs (storePut x w) = (storeObjs w)(key_of x \<mapsto> x)"
proof
  fix k
  have "find (\<lambda>y. key_of y = k) (filter (\<lambda>y. key_of y \<noteq> key_of x) w) = find (\<lambda>y. key_of y = k) w" if "k \<noteq> key_of x"
    using that by (induction w) auto
  then show "storeObjs (storePut x w) k = ((storeObjs w)(key_of x \<mapsto> x)) k"
    by (simp add: storeObjs_def storePut_def)
qed

lemma storeObjs_key: "storeObjs w k = Some x \<Longrightarrow> x \<in> set w \<and> key_of x = k"
  by (auto simp: storeObjs_def find_Some_iff)

lemma storeClient_list:
  "fst (k_List storeClient k ns sel w) = Inr (filter (\<lambda>x. kind_of x = k \<and> (ns = [] \<or> namespace_of x = ns) \<and>
     refHasLabels sel x \<and> storeObjs w (key_of x) = Some x) (remdups w))"
  by (simp add: storeClient_def)

lemma storeClient_reads: "reads_ok storeClient storeObjs"
  unfolding reads_ok_def
proof (intro conjI allI impI)
  fix k ns sel w xs
  assume "fst (k_List storeClient k ns sel w) = Inr xs"
  then have xs: "xs = filter (\<lambda>x. kind_of x = k \<and> (ns = [] \<or> namespace_of x = ns) \<and> refHasLabels sel x \<and>
      storeObjs w (key_of x) = Some x) (remdups w)" by (simp add: storeClient_list)
  show "distinct (map key_of xs)"
  proof -
    have "inj_on key_of (set xs)"
    proof (rule inj_onI)
      fix x y assume "x \<in> set xs" "y \<in> set xs" "key_of x = key_of y"
      then have "storeObjs w (key_of x) = Some x" "storeObjs w (key_of x) = Some y" by (simp_all add: xs)
      then show "x = y" by simp
    qed
    moreover have "distinct xs" by (simp add: xs)
    ultimately show ?thesis by (simp add: distinct_map)
  qed
  show "x \<in> set xs \<longleftrightarrow> kind_of x = k \<and> (ns = [] \<or> namespace_of x = ns) \<and> refHasLabels sel x \<and>
      storeObjs w (key_of x) = Some x" for x
    using storeObjs_key [of w "key_of x" x] by (simp add: xs conj_ac) blast
next
  fix k ns n w x
  assume "fst (k_Get storeClient k ns n w) = Inr x"
  then show "storeObjs w (k, ns, n) = Some x" by (simp add: storeClient_def split: option.splits)
qed (simp_all add: storeClient_def)

lemma storeClient_ok: "api_server_ok storeClient storeObjs"
proof -
  have "patches_ok storeClient storeObjs"
    unfolding patches_ok_def by (auto simp: storeClient_def storeObjs_put)
  moreover have "createOrUpdates_ok storeClient storeObjs"
    unfolding createOrUpdates_ok_def
  proof (intro conjI allI impI)
    fix x f w y
    assume "fst (k_CreateOrUpdate storeClient x f w) = Inr y"
    then show "f (case storeObjs w (key_of x) of Some cur \<Rightarrow> cur | None \<Rightarrow> x) = Inr y" and "key_of y = key_of x"
      and "\<exists>z. strip z = strip y \<and> storeObjs (snd (k_CreateOrUpdate storeClient x f w)) = (storeObjs w)(key_of x \<mapsto> z)"
      by (auto simp: storeClient_def storeObjs_put split: sum.splits if_splits)
  qed (simp add: storeClient_def split: sum.splits if_splits)
  ultimately show ?thesis by (simp add: api_server_ok_def storeClient_reads)
qed

section \<open>Properties\<close>

text \<open>C15: the identity of a gateway never changes while what configures it stays. Once a reconcile has
  reported an identity, every later reconcile that reports one reports the same, whatever happened
  in between: any number of reconciles, succeeding or failing at any call, with any random values;
  any edit of the AGW other than of \<^verbatim>\<open>spec.identity\<close> and the keys \<^verbatim>\<open>config.gwChallenge\<close> and
  \<^verbatim>\<open>gatewayIdentity.snowflake\<close> of \<^verbatim>\<open>spec.values\<close>; and any writes by others that leave the identity
  Secret and the imported Secret alone. The imported Secret is not the identity Secret itself, and
  reads are current (\<open>reads_ok\<close>).\<close>

theorem identity_never_changes:
  assumes "api_server_ok K objs" and "codecs_ok L" and "id_ImportSecretName (as_Identity (agw_Spec agw)) \<noteq> identitySecretName agw"
    and "result (reconcileAGWIdentity K L rnd agw) s = Inr st"
    and "history K L objs agw (world (final (reconcileAGWIdentity K L rnd agw) s)) (world s')"
    and "same_identity agw' agw" and "result (reconcileAGWIdentity K L rnd' agw') s' = Inr st'"
  shows "st' = st"
proof -
  define w where "w = world (final (reconcileAGWIdentity K L rnd agw) s)"
  obtain d S0 S1 S where d: "result (desiredAGWPrivateKey K L agw) s = Inr d" and m: "mutateIdentitySecret L rnd agw d S0 = Inr S1"
    and w: "objs w = (objs (world s))(identityObj agw \<mapsto> OSecret S)" "sec_Data S = sec_Data S1" and st: "identity_of L agw S st"
    using identity_run [OF assms(1) w_def] assms(4) by auto
  obtain p h b where p: "identityKey L rnd agw d S0 = Inr p" and h: "identityHardwareID rnd agw S0 = Inr h"
    and data: "sec_Data S1 = sec_Data (writeIdentity agw p h b S0)" using mutate_Inr [OF m] by metis
  note S = writeIdentity_reads [of S, OF w(2) [unfolded data]]
  have "importObj agw \<noteq> identityObj agw" using assms(3) by (simp add: importObj_def identityObj_def)
  then have start: "keeps_identity agw p h (map_option strip (objs (world s) (importObj agw))) (objs w)"
    using S w(1) by (simp add: keeps_identity_def)
  note step = identity_step [OF assms(1-3) d p h refl]
  have "keeps_identity agw p h (map_option strip (objs (world s) (importObj agw))) (objs w')"
    if "history K L objs agw w w'" for w'
    using that
  proof induction
    case history_start
    show ?case by (rule start)
  next
    case (history_reconcile s1 agw1 rnd1)
    from step(1) [OF history_reconcile.IH refl history_reconcile.hyps(2)] show ?case .
  next
    case (history_foreign w1 w2)
    then obtain S1 where "objs w1 (identityObj agw) = Some (OSecret S1)"
      "mget (sec_Data S1) defaultAGWChallengeKeySecretKey = p" "mget (sec_Data S1) ''hardware_id'' = h"
      by (auto simp: keeps_identity_def)
    moreover with history_foreign(2) obtain y where "objs w2 (identityObj agw) = Some y" "strip y = strip (OSecret S1)" by auto
    ultimately show ?case using history_foreign strip_secret [of y S1] by (auto simp: keeps_identity_def)
  qed
  from step(2) [OF this [OF assms(5) [folded w_def]] refl assms(6,7)] obtain S' where "identity_of L agw S' st'"
    "mget (sec_Data S') defaultAGWChallengeKeySecretKey = p" "mget (sec_Data S') ''hardware_id'' = h" by blast
  with st S show ?thesis by (cases st; cases st') (simp add: identity_of_def)
qed

abbreviation firstRun :: "kobj list ksys" where
  "firstRun \<equiv> final (reconcileAGWIdentity storeClient demoKeys (demoEntropy 3) demoAGW) \<lparr>world = [], trace = []\<rparr>"

text \<open>The same gateway, edited: another release name, and no simulator.\<close>

definition editedAGW :: magmaAGW where
  "editedAGW = demoAGW\<lparr>agw_Spec := (agw_Spec demoAGW)\<lparr>as_ReleaseName := ''edge'', as_EnableUERANSIM := False\<rparr>\<rparr>"

declare sha256Hex_def [code del]

lemma demo_identities:
  "\<exists>st. result (reconcileAGWIdentity storeClient demoKeys (demoEntropy 3) demoAGW) \<lparr>world = [], trace = []\<rparr> = Inr st"
  "\<exists>st. result (reconcileAGWIdentity storeClient demoKeys (demoEntropy 7) editedAGW) firstRun = Inr st"
proof -
  have "\<not> isl (result (reconcileAGWIdentity storeClient demoKeys (demoEntropy 3) demoAGW) \<lparr>world = [], trace = []\<rparr>)"
    by code_simp
  then show "\<exists>st. result (reconcileAGWIdentity storeClient demoKeys (demoEntropy 3) demoAGW) \<lparr>world = [], trace = []\<rparr> = Inr st"
    by (metis sum.collapse(2))
  have "\<not> isl (result (reconcileAGWIdentity storeClient demoKeys (demoEntropy 7) editedAGW) firstRun)"
    by code_simp
  then show "\<exists>st. result (reconcileAGWIdentity storeClient demoKeys (demoEntropy 7) editedAGW) firstRun = Inr st"
    by (metis sum.collapse(2))
qed

declare sha256Hex_def [code]

lemma identity_never_changes_witness:
  "result (reconcileAGWIdentity storeClient demoKeys (demoEntropy 7) editedAGW) firstRun =
   result (reconcileAGWIdentity storeClient demoKeys (demoEntropy 3) demoAGW) \<lparr>world = [], trace = []\<rparr>"
proof -
  obtain st st' where st: "result (reconcileAGWIdentity storeClient demoKeys (demoEntropy 3) demoAGW) \<lparr>world = [], trace = []\<rparr> = Inr st"
    and st': "result (reconcileAGWIdentity storeClient demoKeys (demoEntropy 7) editedAGW) firstRun = Inr st'"
    using demo_identities by blast
  have edited: "same_identity editedAGW demoAGW" by (simp add: same_identity_def editedAGW_def)
  have "id_ImportSecretName (as_Identity (agw_Spec demoAGW)) \<noteq> identitySecretName demoAGW" by code_simp
  from identity_never_changes [OF storeClient_ok refLib_codecs this st history_start edited st'] st st' show ?thesis by simp
qed

text \<open>C38: a rollout happens once: after a rollout that reported the hash of the certificate Secret,
  as long as only generations and statuses change, a second rollout changes nothing: it makes no
  write, and if it succeeds it reports the same hash (or none, if the Secret was not found).\<close>

theorem rollout_converges:
  assumes "api_server_ok K objs"
    and "result (annotateOrc8rDeploymentsForSecretHash K ns rn secretName) s = (h, None)" and "h \<noteq> []"
    and "settled (objs (world (final (annotateOrc8rDeploymentsForSecretHash K ns rn secretName) s))) (objs (world s'))"
  shows "list_all (\<lambda>e. \<not> is_write e) (events (annotateOrc8rDeploymentsForSecretHash K ns rn secretName) s') \<and>
    objs (world (final (annotateOrc8rDeploymentsForSecretHash K ns rn secretName) s')) = objs (world s') \<and>
    (snd (result (annotateOrc8rDeploymentsForSecretHash K ns rn secretName) s') = None \<longrightarrow>
     fst (result (annotateOrc8rDeploymentsForSecretHash K ns rn secretName) s') \<in> {h, []})"
  using rolled_out_quiet [OF assms(1) rolled_out_settled [OF rollout_rolls_out [OF assms(1-3)] assms(4)]]
  by (auto simp: events_def final_def result_def)

definition demoReleaseStore :: "kobj list" where
  "demoReleaseStore = demoCertificates @ [ODeployment (demoDeployment ''orc8r-nginx'' [])]"

abbreviation demoRollout :: "(kobj list, string \<times> error option) kio" where
  "demoRollout \<equiv> annotateOrc8rDeploymentsForSecretHash storeClient ''magma'' ''agw'' defaultNMSAdminCertSecretName"

lemma demo_store_rollout:
  "result demoRollout \<lparr>world = demoReleaseStore, trace = []\<rparr> = (secretDataHash [(rootCASecretKey, ''ca'')], None)"
proof -
  let ?s = "(newSecret ''magma'' defaultNMSAdminCertSecretName)\<lparr>sec_Data := [(rootCASecretKey, ''ca'')]\<rparr>"
  let ?d = "demoDeployment ''orc8r-nginx'' []"
  have "k_Get storeClient KSecret ''magma'' defaultNMSAdminCertSecretName demoReleaseStore = (Inr (OSecret ?s), demoReleaseStore)"
    by code_simp
  moreover have "k_List storeClient KDeployment ''magma'' [(labelAppInstance, ''agw'')] demoReleaseStore =
      (Inr [ODeployment ?d], demoReleaseStore)" by code_simp
  moreover have "fst (k_Patch storeClient (ODeployment (setTemplateAnnotation ann h ?d)) (MergeFrom x) demoReleaseStore) = None"
    for ann h x
  proof -
    have "storeObjs demoReleaseStore (key_of (ODeployment ?d)) \<noteq> None" by code_simp
    then show ?thesis
      by (simp add: storeClient_def annotate_store.edit_key)
  qed
  moreover have "template_annotation orc8rSecretHashAnnotation ?d = []" by code_simp
  ultimately show ?thesis
    using secretDataHash_not_Nil [of "[(rootCASecretKey, ''ca'')]"]
    by (simp add: annotateOrc8rDeploymentsForSecretHash_def result_def run_getAs run_listAs as_typed_def to_secret_def
        as_list_def to_deployment_def annotateStep_def kPatch_def run_call Let_def split_beta)
qed

lemma rollout_converges_witness:
  "list_all (\<lambda>e. \<not> is_write e) (events demoRollout (final demoRollout \<lparr>world = demoReleaseStore, trace = []\<rparr>))"
proof -
  have "settled (storeObjs (world (final demoRollout \<lparr>world = demoReleaseStore, trace = []\<rparr>)))
     (storeObjs (world (final demoRollout \<lparr>world = demoReleaseStore, trace = []\<rparr>)))" by (simp add: settled_def)
  from rollout_converges [OF storeClient_ok demo_store_rollout secretDataHash_not_Nil this] show ?thesis by blast
qed

end
