(* ===== verification/Spec2Isabelle.thy ===== *)
theory Spec2Isabelle
  imports Orc8r_Run Payload_Roundtrip Manager Deep_Copy_Correct Api_Store
begin

text \<open>
  Verification of the Magma operator: the two Kubernetes controllers of
  \<^verbatim>\<open>src/internal/controller\<close>, which keep the objects of a MagmaAGW (access gateway) and a
  MagmaOrc8r (orchestrator) in the state their custom resources ask for.

  \<^bold>\<open>The program.\<close> A reconcile reads the custom resource, adds a finalizer, prepares what the
  workloads need (identity Secret, trust bundle, gateway registration, certificates), applies an
  embedded manifest object by object, rolls out new certificates, and reports a Ready condition. A
  resource under deletion is torn down in a fixed order before the finalizer goes. All effects are
  calls of a Kubernetes client; nothing is kept in memory between reconciles.

  \<^bold>\<open>The model.\<close> A function that calls the API server is an action of the state monad over a world
  and a trace of calls with their answers (\<^theory_text>\<open>Prelude\<close>, \<^theory_text>\<open>Kube\<close>). The client is a parameter: any
  functions of the world. A property of a reconcile therefore holds for every API server and every
  interleaving with other actors, unless it names a contract: \<open>conditions_ok\<close>, \<open>owner_ok\<close>,
  \<open>finalizers_ok\<close> and \<open>createOrUpdate_ok\<close> state the documented behaviour of apimachinery and
  controller-runtime helpers, \<open>codecs_ok\<close> that PEM and X.509 encoding can be decoded. \<^theory_text>\<open>Reference_Env\<close>
  is a concrete client and library that meets them, and the witnesses run in it. Evidence about what
  a \<^verbatim>\<open>CreateOrUpdate\<close> has written carries a flag \<open>cu\<close>: with it, the client keeps that contract; the
  properties that do not speak of written content are proved without it. Go errors are
  values (\<open>Inl\<close>, \<open>Some e\<close>), maps are association lists with \<open>mget\<close> for the zero value of a missing key,
  byte slices are strings, \<^verbatim>\<open>int32\<close> and \<^verbatim>\<open>int64\<close> are words.

  \<^bold>\<open>Theories, and what they model.\<close>
  \<^item> \<^theory_text>\<open>Prelude\<close>: maps, errors, the trace logic \<open>spec\<close> (result and events of an action), loops.
    \<^theory_text>\<open>Go_Strings\<close>, \<^theory_text>\<open>SHA256\<close>, \<^theory_text>\<open>Json\<close>: the parts of the Go library the program computes with
    (replacer, case folding, base64, hex, quoting; SHA-256; \<^verbatim>\<open>encoding/json\<close>). The fuel of the JSON
    parser is the length of the text plus one; \<^theory_text>\<open>Json_Roundtrip\<close> proves that this is enough for
    everything that is marshalled.
  \<^item> \<^theory_text>\<open>Kube_Types\<close>: \<^verbatim>\<open>api/v1alpha1\<close> and the fields of Kubernetes objects that are read or written;
    \<^theory_text>\<open>Kube\<close>: client, library record, events, rules for each call.
  \<^item> \<^theory_text>\<open>Native_Values\<close>, \<^theory_text>\<open>Native_Runner\<close>: \<^verbatim>\<open>native_runner.go\<close> and \<^verbatim>\<open>constants.go\<close>: values, rendering,
    selectors, metadata; apply, preserve, delete of the objects of a manifest.
  \<^item> \<^theory_text>\<open>Status_Writer\<close>: conditions and status updates of both controllers, behind the locale
    \<open>status_writer\<close>. \<^theory_text>\<open>Patch_Loop\<close>: the locale \<open>patch_loop\<close> of loops that patch the objects of a list that
    need it (node labels, deployment annotations). \<^theory_text>\<open>Hashed_Job\<close>: the locale \<open>hashed_job\<close>, the
    contract of a Job that carries the hash of its input, and \<open>single_job\<close>, its usual
    implementation; interpreted by registration, root CA and validation Jobs.
  \<^item> \<^theory_text>\<open>AGW_Datapath\<close>: node selection, ready labels, readiness (\<^verbatim>\<open>magmaagw_controller.go\<close>);
    \<^theory_text>\<open>AGW_Identity\<close>: keys, hardware ID, identity Secret (\<^verbatim>\<open>agw_identity.go\<close>);
    \<^theory_text>\<open>Gateway_Registration\<close>: payload and Jobs of (de)registration (\<^verbatim>\<open>agw_identity.go\<close>);
    \<^theory_text>\<open>AGW_Lifecycle\<close>: host alias, trust bundle, rollout, readiness (\<^verbatim>\<open>agw_lifecycle.go\<close>);
    \<^theory_text>\<open>AGW_Validation\<close>: the one-shot UERANSIM validation (\<^verbatim>\<open>agw_validation.go\<close>).
  \<^item> \<^theory_text>\<open>AGW_Controller\<close>: \<^verbatim>\<open>MagmaAGWReconciler.Reconcile\<close>, cut where it may return into stages that call
    each other (\<open>agwReconcilePresent\<close>, \<open>agwDatapath\<close>, \<open>agwPrerequisites\<close>, \<open>agwRegister\<close>, \<open>agwStartGate\<close>,
    \<open>agwApply\<close>, \<open>agwRollOut\<close>, \<open>agwValidate\<close>), the deletion and the ConfigMap watch.
  \<^item> \<^theory_text>\<open>Orc8r_Certs\<close>: \<^verbatim>\<open>orc8r_certs.go\<close>; \<^theory_text>\<open>Orc8r_Controller\<close>: \<^verbatim>\<open>magmaorc8r_controller.go\<close>.

  \<^item> \<^theory_text>\<open>Flag_Parsing\<close>, \<^theory_text>\<open>Manager\<close>: \<^verbatim>\<open>cmd/main.go\<close>, the scheme (\<^verbatim>\<open>groupversion_info.go\<close>) and
    \<^verbatim>\<open>SetupWithManager\<close>: flags and \<^verbatim>\<open>flag.Parse\<close>, server options, the start-up with its exit codes.
  \<^item> \<^theory_text>\<open>Go_Heap\<close>, \<^theory_text>\<open>Deep_Copy\<close>, \<^theory_text>\<open>Deep_Copy_Correct\<close>: \<^verbatim>\<open>zz_generated.deepcopy.go\<close> over an explicit heap.
    The rest of the development models objects as values; the locale \<open>deep_copier\<close> and its
    interpretations show that the copies the controllers take behave like values.

  \<^bold>\<open>What is proved.\<close>
  \<^item> Order (\<^theory_text>\<open>AGW_Safety\<close>, \<^theory_text>\<open>Orc8r_Safety\<close>, this theory): workloads are applied only after their
    prerequisites, the simulator only after its gate, Ready is reported only on evidence; every
    stage keeps these trace invariants. A reconcile is never stuck: it fails, comes back, or has
    reported Ready.
  \<^item> Deletion (\<^theory_text>\<open>AGW_Deletion\<close>, \<^theory_text>\<open>Orc8r_Controller\<close>): an abstract description of the deletion as an
    inductive relation on results and traces, which the code refines; the finalizer goes last,
    what is deleted is the rendered manifest and, where the policy asks for it, the durable state
    that the operator keeps beside it; an unfinished deletion is retried.
  \<^item> Each component: what success of an operation means, what it may write, and when; the hashed Jobs
    against their contract; stability and consistency of the identity; exactness of readiness,
    metadata, hash inputs; round trips of selectors and of the gateway payload; the deadline at 32
    bits; independence of map iteration order.
  \<^item> The manager starts only when complete, fails with exit code 1 at the first error, and its servers
    are hardened unless the command line asks otherwise; deep copies share no memory with their
    originals.
  \<^item> \<^theory_text>\<open>Api_Store\<close>: over a stateful API server whose reads are current (\<open>api_server_ok\<close>, met by a reference
    server), the identity of a gateway never changes while its configuration stays, whatever
    happens in between, and a rollout converges. The cache of the manager's client is not modelled.
  \<^item> \<^theory_text>\<open>Reference_Run\<close> and \<^theory_text>\<open>Orc8r_Run\<close> evaluate one complete reconcile of each controller, so the trace
    properties are not about empty traces.

  \<^bold>\<open>Parameters of the model.\<close> The API server; the embedded manifests and the YAML decoder; PEM,
  X.509 and key generation; randomness and the clock; owner references, finalizer and condition
  helpers; the scheme, the manager and the flags of other packages; the deep copies of metadata
  (\<open>scheme_ok\<close>, \<open>meta_ok\<close> state their documented behaviour). Where the code reports whichever missing
  deployment map iteration meets first, the model takes the first in the order of the source. Text
  of errors made by the Go library (base64 offsets) is abbreviated.

  \<^bold>\<open>Not modelled.\<close> Logging; what controller-runtime does with the controllers it is given (queues,
  caches, leader election); contexts and cancellation; the shell scripts of the Jobs, which are
  strings here; deep copies of built-in kinds, which are code of client-go. What is left:
  convergence of whole reconciles over the stateful API server, beyond identity and rollout.
\<close>

section \<open>What a reconcile of the AGW may do\<close>

text \<open>
  The properties below are about every run of \<^const>\<open>ReconcileAGW\<close> that reads an AGW which is
  not being deleted: the trace is that read followed by \<open>t\<close>.
\<close>

lemma reconcile_safe:
  assumes "conditions_ok L" "owner_ok L" and "events (ReconcileAGW K L rnd ns name) s = ev_agw ns name agw # t"
    and "m_DeletionTimestamp (agw_Meta agw) = None" and cu: "cu \<longrightarrow> createOrUpdate_ok K"
  shows "safe cu L agw ns (ev_agw ns name agw # t)"
    and "comes_back (result (ReconcileAGW K L rnd ns name) s) \<or> ready_written t"
    and "\<not> l_ContainsFinalizer L (m_Finalizers (agw_Meta agw)) magmaAGWFinalizer \<Longrightarrow> \<exists>q. t = [ev_finalizer L agw q]"
  using specD(2) [OF spec_ReconcileAGW [OF assms(1,2) cu, of rnd ns name], of s] assms(3,4)
  by (auto simp: reconcile_post_def ready_written_def)

text \<open>C1: no workload object is applied before its prerequisites hold: when the AGW reconcile
  sends a server-side apply, the calls before it have, for one and the same identity, read that
  identity from the identity Secret of this AGW; synced the Orc8r trust bundle: a root CA read from
  the Orc8r Secret, the certificate Secret that the manifest values name written so that it holds
  exactly this root CA, its hash and none of the stale keys, and the volume absent or synced by a
  succeeded Job for this root CA; and seen a succeeded registration Job for the payload of this AGW
  and this identity, unless registration is disabled.\<close>

theorem workloads_after_prerequisites:
  assumes "conditions_ok L" "owner_ok L" "createOrUpdate_ok K"
    and "events (ReconcileAGW K L rnd ns name) s = ev_agw ns name agw # t"
    and "m_DeletionTimestamp (agw_Meta agw) = None"
    and "t = u @ EvPatch (OUnstructured x) p q # v"
  shows "\<exists>identity h. identity_read L agw identity u \<and>
    trust_evidence True agw (agwReleaseName agw) (agwCertSecretName (agwReleaseName agw) (agwValues ns agw identity)) h u \<and>
    registered_evidence agw identity u"
proof -
  have "gated is_apply (prerequisites True L agw ns) (ev_agw ns name agw # t)"
    using reconcile_safe(1) [OF assms(1,2,4,5), of True] assms(3) by (simp add: safe_def apply_gated_def)
  from gatedD [OF this, of "ev_agw ns name agw # u"] have "prerequisites True L agw ns (ev_agw ns name agw # u)"
    by (simp add: assms(6) is_apply_def)
  then show ?thesis
    by (simp add: prerequisites_def prerequisites_for_def identity_read_def trust_evidence_def registered_evidence_def)
qed

text \<open>C2: Ready is reported as True only on evidence: when a status update with Ready=True is sent, the
  calls before it have, for one and the same identity, read it, synced the trust bundle and seen its
  registration succeed (if enabled), all as in C1, and dealt with every object of the AGW manifest
  as rendered from the values of this AGW and this identity; found every selected node labelled and
  the node-prep DaemonSet ready (if the datapath gate is enabled), and found the simulator's start
  gate open (if the simulator is enabled).\<close>

theorem ready_only_with_evidence:
  assumes "conditions_ok L" "owner_ok L" "createOrUpdate_ok K"
    and "events (ReconcileAGW K L rnd ns name) s = ev_agw ns name agw # t"
    and "m_DeletionTimestamp (agw_Meta agw) = None"
    and "t = u @ EvStatusUpdate (OAGW a) q # v" and "condition_true a ''Ready''"
  shows "ready_evidence True L agw ns (ev_agw ns name agw # u)"
proof -
  have "gated reports_ready (ready_evidence True L agw ns) (ev_agw ns name agw # t)"
    using reconcile_safe(1) [OF assms(1,2,4,5), of True] assms(3) by (simp add: safe_def ready_gated_def)
  from gatedD [OF this, of "ev_agw ns name agw # u"] show ?thesis using assms(6,7) by (auto simp: reports_ready_def)
qed

text \<open>C3: the simulator waits for its gate: an object of UERANSIM, the simulator or iperf3 is applied
  only when the simulator is enabled, and either its start policy is Immediate or the gate
  ConfigMap was read before with \<open>ready\<close> equal to true.\<close>

theorem simulator_waits_for_gate:
  assumes "conditions_ok L" "owner_ok L" and "events (ReconcileAGW K L rnd ns name) s = ev_agw ns name agw # t"
    and "m_DeletionTimestamp (agw_Meta agw) = None"
    and "t = u @ EvPatch (OUnstructured x) p q # v" and "simulator_object x"
  shows "gate_evidence agw ns u"
proof -
  have "gated starts_simulator (gate_evidence agw ns) (ev_agw ns name agw # t)"
    using reconcile_safe(1) [OF assms(1-4), of False] by (simp add: safe_def simulator_gated_def)
  from gatedD [OF this, of "ev_agw ns name agw # u"] have "gate_evidence agw ns (ev_agw ns name agw # u)"
    using assms(5,6) by (auto simp: starts_simulator_def)
  then show ?thesis by (auto simp: gate_evidence_def)
qed

text \<open>C6: a reconcile is never stuck: it either returns an error, or asks to be run again, or has
  reported Ready=True in a status update that the API server accepted.\<close>

theorem reconcile_never_stuck:
  assumes "conditions_ok L" "owner_ok L" and "events (ReconcileAGW K L rnd ns name) s = ev_agw ns name agw # t"
    and "m_DeletionTimestamp (agw_Meta agw) = None"
  shows "snd (result (ReconcileAGW K L rnd ns name) s) \<noteq> None \<or>
    0 < res_RequeueAfter (fst (result (ReconcileAGW K L rnd ns name) s)) \<or>
    res_Requeue (fst (result (ReconcileAGW K L rnd ns name) s)) \<or>
    (\<exists>a. condition_true a ''Ready'' \<and> EvStatusUpdate (OAGW a) None \<in> set t)"
  using reconcile_safe(2) [OF assms, of False] by (simp add: comes_back_def ready_written_def)

text \<open>C7: the finalizer comes first: an AGW without it gets a single call, a merge patch of the object
  just read, whose only purpose is to add it; nothing else is created before the operator is
  sure to see the deletion.\<close>

theorem finalizer_first:
  assumes "conditions_ok L" "owner_ok L" "finalizers_ok L"
    and "events (ReconcileAGW K L rnd ns name) s = ev_agw ns name agw # t"
    and "m_DeletionTimestamp (agw_Meta agw) = None"
    and "\<not> l_ContainsFinalizer L (m_Finalizers (agw_Meta agw)) magmaAGWFinalizer"
  shows "\<exists>q. t = [ev_finalizer L agw q] \<and>
    l_ContainsFinalizer L (m_Finalizers (agw_Meta (addAGWFinalizer L agw))) magmaAGWFinalizer"
  using reconcile_safe(3) [OF assms(1,2,4,5) _ assms(6), of False] assms(3) by (auto simp: finalizers_ok_def addAGWFinalizer_def)

text \<open>C8: status updates carry the metadata and the spec of the AGW as it was read: every status update
  of a reconcile, that of an AGW under deletion included, is of the AGW which the reconcile read
  first, with its metadata and spec unchanged. A reconcile reports, it never edits what the user
  asked for, and its finalizer stays in what it reports.\<close>

theorem status_writes_keep_spec:
  assumes "conditions_ok L" "owner_ok L" and "EvStatusUpdate x q \<in> set (events (ReconcileAGW K L rnd ns name) s)"
  shows "\<exists>agw t a. events (ReconcileAGW K L rnd ns name) s = ev_agw ns name agw # t \<and> x = OAGW a \<and>
    agw_Meta a = agw_Meta agw \<and> agw_Spec a = agw_Spec agw"
proof -
  obtain g u where t: "events (ReconcileAGW K L rnd ns name) s = EvGet KAGW ns name g # u"
    and only: "\<And>agw. g = Inr (OAGW agw) \<Longrightarrow> status_only agw (EvGet KAGW ns name g # u)"
    and none: "(\<nexists>agw. g = Inr (OAGW agw)) \<Longrightarrow> u = []"
    using specD(2) [OF spec_ReconcileAGW [OF assms(1,2), of False K rnd ns name], of s] by (auto simp: reconcile_post_def)
  have x: "EvStatusUpdate x q \<in> set u" using assms(3) by (simp add: t)
  with none obtain agw where g: "g = Inr (OAGW agw)" by fastforce
  with only x obtain a where "x = OAGW a" "same_object a agw" by (auto simp: status_only_def)
  then show ?thesis by (simp add: t g same_object_def)
qed

text \<open>C9: the Orc8r reports Ready only on evidence: when a status update of the MagmaOrc8r with Ready=True is
  sent, the calls before it have dealt with every object of the Orc8r manifest; have read or
  written a certificate Secret made for its domain and controller; after that, have read the Secret
  again and left every listed deployment of the release with the hash of what was read (or were
  told that the Secret just certified does not exist, which only reads that lag behind can say);
  and have put the NMS container into NodePort mode if a port is asked for.\<close>

theorem orc8r_ready_only_with_evidence:
  assumes "conditions_ok L" "owner_ok L" "codecs_ok L" "createOrUpdate_ok K"
    and "events (ReconcileOrc8r K L P ns name) s = ev_orc8r ns name orc8r # u @ EvStatusUpdate (OOrc8r a) q # v"
    and "m_DeletionTimestamp (orc8r_Meta orc8r) = None" and "orc8r_ready a"
  shows "orc8r_evidence L ns orc8r (ev_orc8r ns name orc8r # u)"
proof -
  have "gated reports_orc8r (orc8r_evidence L ns orc8r) (ev_orc8r ns name orc8r # u @ EvStatusUpdate (OOrc8r a) q # v)"
    using specD(2) [OF spec_ReconcileOrc8r [OF assms(1-4), of P ns name], of s] assms(5,6)
    by (simp add: orc8r_reconcile_post_def)
  from gatedD [OF this, of "ev_orc8r ns name orc8r # u"] assms(7) show ?thesis by (auto simp: reports_orc8r_def)
qed

text \<open>C10: a reconcile of an Orc8r is never stuck: it returns an error, or asks to be run again, or there is
  nothing left to do, which is one of four cases: it has successfully reported Ready=True; the
  object was not found; the object is under deletion and carries no finalizer of the operator, and
  nothing was called; or the object is under deletion and the last call has removed the finalizer.\<close>

theorem orc8r_never_stuck:
  assumes "conditions_ok L" "owner_ok L" "codecs_ok L" "createOrUpdate_ok K"
    and "events (ReconcileOrc8r K L P ns name) s = t"
  shows "snd (result (ReconcileOrc8r K L P ns name) s) \<noteq> None \<or>
    0 < res_RequeueAfter (fst (result (ReconcileOrc8r K L P ns name) s)) \<or>
    res_Requeue (fst (result (ReconcileOrc8r K L P ns name) s)) \<or>
    (\<exists>e. IsNotFound e \<and> t = [EvGet KOrc8r ns name (Inl e)]) \<or>
    (\<exists>orc8r u. t = ev_orc8r ns name orc8r # u \<and>
       (if m_DeletionTimestamp (orc8r_Meta orc8r) = None
        then \<exists>a. orc8r_ready a \<and> EvStatusUpdate (OOrc8r a) None \<in> set u
        else u = [] \<and> \<not> l_ContainsFinalizer L (m_Finalizers (orc8r_Meta orc8r)) magmaOrc8rFinalizer \<or>
          (\<exists>v. u = v @ [ev_orc8r_released L orc8r None])))"
proof -
  let ?r = "result (ReconcileOrc8r K L P ns name) s"
  have "orc8r_reconcile_post L ns name ?r t"
    using specD(2) [OF spec_ReconcileOrc8r [OF assms(1-4), of P ns name], of s] by (simp add: assms(5))
  then consider "comes_back ?r" | "orc8r_over L ns name t"
    | orc8r u where "t = ev_orc8r ns name orc8r # u" "m_DeletionTimestamp (orc8r_Meta orc8r) = None" "orc8r_ready_written t"
    unfolding orc8r_reconcile_post_def by blast
  then show ?thesis
  proof cases
    case 1
    then show ?thesis by (auto simp: comes_back_def)
  next
    case 2
    then show ?thesis unfolding orc8r_over_def by (elim disjE exE conjE) force+
  next
    case 3
    then show ?thesis by (auto simp: orc8r_ready_written_def)
  qed
qed

subsection \<open>Witnesses\<close>

abbreviation liveReconcile :: "(unit, ctrlResult \<times> error option) kio" where
  "liveReconcile \<equiv> ReconcileAGW liveClient liveLib (demoEntropy 3) ''magma'' ''agw''"

lemma live_trace:
  obtains t where "events liveReconcile refStart = ev_agw ''magma'' ''agw'' liveAGW # t"
    and "shows_simulator t" and "shows_ready t"
  using specD(2) [OF live_run, of refStart] by blast

lemma live_pending: "m_DeletionTimestamp (agw_Meta liveAGW) = None"
  using live_fields by simp

lemma live_simulator:
  obtains t u x p q v where "events liveReconcile refStart = ev_agw ''magma'' ''agw'' liveAGW # t"
    and "t = u @ EvPatch (OUnstructured x) p q # v" and "simulator_object x"
proof -
  obtain t where t: "events liveReconcile refStart = ev_agw ''magma'' ''agw'' liveAGW # t" "shows_simulator t"
    using live_trace by blast
  then obtain x p q where x: "EvPatch (OUnstructured x) p q \<in> set t" "simulator_object x"
    by (auto simp: shows_simulator_def starts_simulator_def)
  from split_list [OF x(1)] obtain u v where "t = u @ EvPatch (OUnstructured x) p q # v" by blast
  with t(1) x(2) that show thesis by blast
qed

lemma live_ready:
  obtains t u a q v where "events liveReconcile refStart = ev_agw ''magma'' ''agw'' liveAGW # t"
    and "t = u @ EvStatusUpdate (OAGW a) q # v" and "condition_true a ''Ready''"
proof -
  obtain t where t: "events liveReconcile refStart = ev_agw ''magma'' ''agw'' liveAGW # t" "shows_ready t"
    using live_trace by blast
  then obtain a q where a: "EvStatusUpdate (OAGW a) q \<in> set t" "condition_true a ''Ready''"
    by (auto simp: shows_ready_def reports_ready_def)
  from split_list [OF a(1)] obtain u v where "t = u @ EvStatusUpdate (OAGW a) q # v" by blast
  with t(1) a(2) that show thesis by blast
qed

lemma workloads_after_prerequisites_witness:
  "\<exists>u x p q v identity h. events liveReconcile refStart = ev_agw ''magma'' ''agw'' liveAGW # u @ EvPatch (OUnstructured x) p q # v \<and>
    identity_read liveLib liveAGW identity u \<and>
    trust_evidence True liveAGW ''agw'' (agwCertSecretName ''agw'' (agwValues ''magma'' liveAGW identity)) h u \<and>
    registered_evidence liveAGW identity u"
proof -
  obtain t u x p q v where t: "events liveReconcile refStart = ev_agw ''magma'' ''agw'' liveAGW # t"
    and u: "t = u @ EvPatch (OUnstructured x) p q # v" by (rule live_simulator)
  obtain identity h where "identity_read liveLib liveAGW identity u" "registered_evidence liveAGW identity u"
    "trust_evidence True liveAGW ''agw'' (agwCertSecretName ''agw'' (agwValues ''magma'' liveAGW identity)) h u"
    using workloads_after_prerequisites [OF liveLib_simps(1,2) refClient_createOrUpdate t live_pending u]
    unfolding live_fields(9) by blast
  with t u show ?thesis by blast
qed

lemma ready_only_with_evidence_witness:
  "\<exists>u a q v. events liveReconcile refStart = ev_agw ''magma'' ''agw'' liveAGW # u @ EvStatusUpdate (OAGW a) q # v \<and>
    condition_true a ''Ready'' \<and> ready_evidence True liveLib liveAGW ''magma'' (ev_agw ''magma'' ''agw'' liveAGW # u)"
proof -
  obtain t u a q v where t: "events liveReconcile refStart = ev_agw ''magma'' ''agw'' liveAGW # t"
    and u: "t = u @ EvStatusUpdate (OAGW a) q # v" "condition_true a ''Ready''" by (rule live_ready)
  from ready_only_with_evidence [OF liveLib_simps(1,2) refClient_createOrUpdate t live_pending u] t u show ?thesis by blast
qed

lemma simulator_waits_for_gate_witness:
  "\<exists>u x p q v. events liveReconcile refStart = ev_agw ''magma'' ''agw'' liveAGW # u @ EvPatch (OUnstructured x) p q # v \<and>
    simulator_object x \<and> gate_evidence liveAGW ''magma'' u"
proof -
  obtain t u x p q v where t: "events liveReconcile refStart = ev_agw ''magma'' ''agw'' liveAGW # t"
    and u: "t = u @ EvPatch (OUnstructured x) p q # v" "simulator_object x" by (rule live_simulator)
  from simulator_waits_for_gate [OF liveLib_simps(1,2) t live_pending u] t u show ?thesis by blast
qed

lemma reconcile_never_stuck_witness:
  "\<exists>t. events liveReconcile refStart = ev_agw ''magma'' ''agw'' liveAGW # t \<and>
    (snd (result liveReconcile refStart) \<noteq> None \<or> 0 < res_RequeueAfter (fst (result liveReconcile refStart)) \<or>
     res_Requeue (fst (result liveReconcile refStart)) \<or>
     (\<exists>a. condition_true a ''Ready'' \<and> EvStatusUpdate (OAGW a) None \<in> set t))"
proof -
  obtain t where t: "events liveReconcile refStart = ev_agw ''magma'' ''agw'' liveAGW # t" using live_trace by blast
  from reconcile_never_stuck [OF liveLib_simps(1,2) t live_pending] t show ?thesis by blast
qed

lemma status_writes_keep_spec_witness:
  "\<exists>a q. EvStatusUpdate (OAGW a) q \<in> set (events liveReconcile refStart) \<and> agw_Meta a = agw_Meta liveAGW \<and>
    agw_Spec a = agw_Spec liveAGW"
proof -
  obtain t u a q v where t: "events liveReconcile refStart = ev_agw ''magma'' ''agw'' liveAGW # t"
    and u: "t = u @ EvStatusUpdate (OAGW a) q # v" by (rule live_ready)
  then have a: "EvStatusUpdate (OAGW a) q \<in> set (events liveReconcile refStart)" by simp
  from status_writes_keep_spec [OF liveLib_simps(1,2) a] show ?thesis
    using a by (intro exI [of _ a] exI [of _ q]) (auto simp: t)
qed

definition freshAGW :: magmaAGW where
  "freshAGW = demoAGW\<lparr>agw_Meta := newMeta ''magma'' ''agw''\<rparr>"

lemma finalizer_first_witness:
  "\<exists>q. events (ReconcileAGW (refClient [OAGW freshAGW]) liveLib (demoEntropy 3) ''magma'' ''agw'') refStart =
      [ev_agw ''magma'' ''agw'' freshAGW, ev_finalizer liveLib freshAGW q] \<and>
    magmaAGWFinalizer \<in> set (m_Finalizers (agw_Meta (addAGWFinalizer liveLib freshAGW)))"
proof -
  let ?t = "[ev_finalizer liveLib freshAGW None]"
  have t: "events (ReconcileAGW (refClient [OAGW freshAGW]) liveLib (demoEntropy 3) ''magma'' ''agw'') refStart =
      ev_agw ''magma'' ''agw'' freshAGW # ?t" by code_simp
  have m: "m_DeletionTimestamp (agw_Meta freshAGW) = None"
    "\<not> l_ContainsFinalizer liveLib (m_Finalizers (agw_Meta freshAGW)) magmaAGWFinalizer" by code_simp+
  from finalizer_first [OF liveLib_simps t m] show ?thesis unfolding t by (simp add: liveLib_def)
qed

lemma orc8r_trace:
  "\<exists>u a q v. events orc8rRun refStart = ev_orc8r ''magma'' ''orc8r'' demoOrc8rCR # u @ EvStatusUpdate (OOrc8r a) q # v \<and> orc8r_ready a"
proof -
  obtain t where t: "events orc8rRun refStart = ev_orc8r ''magma'' ''orc8r'' demoOrc8rCR # t" "shows_orc8r t"
    using specD(2) [OF orc8r_run, of refStart] by blast
  then obtain a q where a: "EvStatusUpdate (OOrc8r a) q \<in> set t" "orc8r_ready a"
    by (auto simp: shows_orc8r_def reports_orc8r_def)
  from split_list [OF a(1)] t(1) a(2) show ?thesis by metis
qed

lemmas orc8r_contracts = liveLib_simps(1,2) liveLib_codecs refClient_createOrUpdate

lemma orc8r_ready_only_with_evidence_witness:
  "\<exists>u a q v. events orc8rRun refStart = ev_orc8r ''magma'' ''orc8r'' demoOrc8rCR # u @ EvStatusUpdate (OOrc8r a) q # v \<and>
    orc8r_ready a \<and> orc8r_evidence liveLib ''magma'' demoOrc8rCR (ev_orc8r ''magma'' ''orc8r'' demoOrc8rCR # u)"
proof -
  obtain u a q v where t: "events orc8rRun refStart =
      ev_orc8r ''magma'' ''orc8r'' demoOrc8rCR # u @ EvStatusUpdate (OOrc8r a) q # v" and a: "orc8r_ready a"
    using orc8r_trace by blast
  from orc8r_ready_only_with_evidence [OF orc8r_contracts t orc8r_fields(4) a] t a show ?thesis by blast
qed

lemma orc8r_never_stuck_witness:
  "\<exists>t. events orc8rRun refStart = ev_orc8r ''magma'' ''orc8r'' demoOrc8rCR # t \<and>
    (snd (result orc8rRun refStart) \<noteq> None \<or> 0 < res_RequeueAfter (fst (result orc8rRun refStart)) \<or>
     res_Requeue (fst (result orc8rRun refStart)) \<or> (\<exists>a. orc8r_ready a \<and> EvStatusUpdate (OOrc8r a) None \<in> set t))"
proof -
  obtain t where t: "events orc8rRun refStart = ev_orc8r ''magma'' ''orc8r'' demoOrc8rCR # t"
    using orc8r_trace by blast
  from orc8r_never_stuck [OF orc8r_contracts t] orc8r_fields(4) t show ?thesis by auto
qed

end
